(* ===== verification/SDK_Prelude.thy ===== *)
theory SDK_Prelude
  imports Main "HOL-Library.Word"
begin

text \<open>
  Shared vocabulary of the development. Rust code fails in two ways, and the model keeps them
  apart: a panic (an \<open>expect\<close> on \<open>None\<close>, an index out of range, an arithmetic overflow in a
  build with overflow checks) is the \<open>Panic\<close> constructor of \<open>run\<close>; a \<open>Result\<close> is a sum
  \<open>'e + 'a\<close> with \<open>Inl\<close> for \<open>Err\<close> and \<open>Inr\<close> for \<open>Ok\<close>. A function that can do both
  returns \<open>('e + 'a) run\<close>. The theory also fixes the machine integer types, the operations of
  the Rust standard library the sources use (slicing, \<open>collect\<close> into \<open>Option\<close> and
  \<open>Result\<close>, \<open>try_into\<close>, checked arithmetic), and the generic lemmas about them.
\<close>

section \<open>Collections of proof rules\<close>

named_theorems run_simps \<open>equations that execute the panic and result layers\<close>
named_theorems conv_defs \<open>definitions of conversions between equivalent representations\<close>
named_theorems cfg_defs \<open>definitions of configuration builders and presets\<close>

section \<open>Machine integers\<close>

type_synonym u8 = "8 word"
type_synonym u16 = "16 word"
type_synonym u32 = "32 word"
type_synonym u64 = "64 word"
type_synonym usize = "64 word"
type_synonym u128 = "128 word"
type_synonym bytes = "8 word list"

section \<open>Panics and results\<close>

datatype 'a run = Ret 'a | Panic string

text \<open>\<open>TaskOutput\<close>: a task ran to its value, or was cancelled for a reason.\<close>

datatype ('v, 'r) task_output = TaskValue 'v | TaskCancelled 'r

text \<open>What polling a stream gives.\<close>

datatype 'a poll = Pending | Ready 'a

type_synonym ('e, 'a) result = "'e + 'a"

fun run_bind :: "'a run \<Rightarrow> ('a \<Rightarrow> 'b run) \<Rightarrow> 'b run" where
  "run_bind (Ret x) f = f x"
| "run_bind (Panic m) f = Panic m"

text \<open>The question mark operator: leave the function with the error, or go on with the value.\<close>

fun try_bind :: "('e, 'a) result run \<Rightarrow> ('a \<Rightarrow> ('e, 'b) result run) \<Rightarrow> ('e, 'b) result run" where
  "try_bind (Ret (Inr x)) f = f x"
| "try_bind (Ret (Inl e)) f = Ret (Inl e)"
| "try_bind (Panic m) f = Panic m"

fun result_bind :: "('e, 'a) result \<Rightarrow> ('a \<Rightarrow> ('e, 'b) result) \<Rightarrow> ('e, 'b) result" where
  "result_bind (Inr x) f = f x"
| "result_bind (Inl e) f = Inl e"

fun map_err :: "('e \<Rightarrow> 'f) \<Rightarrow> ('e, 'a) result \<Rightarrow> ('f, 'a) result" where
  "map_err f (Inl e) = Inl (f e)"
| "map_err f (Inr x) = Inr x"

fun map_ok :: "('a \<Rightarrow> 'b) \<Rightarrow> ('e, 'a) result \<Rightarrow> ('e, 'b) result" where
  "map_ok f (Inl e) = Inl e"
| "map_ok f (Inr x) = Inr (f x)"

fun expect :: "string \<Rightarrow> 'a option \<Rightarrow> 'a run" where
  "expect m (Some x) = Ret x"
| "expect m None = Panic m"

fun expect_ok :: "string \<Rightarrow> ('e, 'a) result \<Rightarrow> 'a run" where
  "expect_ok m (Inr x) = Ret x"
| "expect_ok m (Inl e) = Panic m"

fun result_ok :: "('e, 'a) result \<Rightarrow> 'a option" where
  "result_ok (Inr x) = Some x"
| "result_ok (Inl e) = None"

definition is_ok :: "('e, 'a) result \<Rightarrow> bool" where
  "is_ok r = (case r of Inl _ \<Rightarrow> False | Inr _ \<Rightarrow> True)"

text \<open>\<open>Option::transpose\<close>, \<open>Option::or\<close> and \<open>Option::unwrap_or\<close>.\<close>

fun transpose_opt :: "('e, 'a) result option \<Rightarrow> ('e, 'a option) result" where
  "transpose_opt None = Inr None"
| "transpose_opt (Some (Inl e)) = Inl e"
| "transpose_opt (Some (Inr x)) = Inr (Some x)"

fun option_or :: "'a option \<Rightarrow> 'a option \<Rightarrow> 'a option" where
  "option_or (Some x) y = Some x"
| "option_or None y = y"

fun unwrap_or :: "'a option \<Rightarrow> 'a \<Rightarrow> 'a" where
  "unwrap_or (Some x) d = x"
| "unwrap_or None d = d"

fun flatten_opt :: "'a option option \<Rightarrow> 'a option" where
  "flatten_opt (Some x) = x"
| "flatten_opt None = None"

section \<open>Iterators\<close>

text \<open>\<open>collect\<close> into an \<open>Option\<close> of a \<open>Vec\<close>, and into a \<open>Result\<close>: the first failure wins.\<close>

fun collect_option :: "'a option list \<Rightarrow> 'a list option" where
  "collect_option [] = Some []"
| "collect_option (None # xs) = None"
| "collect_option (Some x # xs) = map_option (Cons x) (collect_option xs)"

fun collect_result :: "('e, 'a) result list \<Rightarrow> ('e, 'a list) result" where
  "collect_result [] = Inr []"
| "collect_result (Inl e # xs) = Inl e"
| "collect_result (Inr x # xs) = map_ok (Cons x) (collect_result xs)"

text \<open>\<open>filter_map (|r| ready(r.ok()))\<close>, as every subscription of the RPC client uses it.\<close>

definition filter_ok :: "('e, 'a) result list \<Rightarrow> 'a list" where
  "filter_ok rs = List.map_filter result_ok rs"

text \<open>The map of a function that can panic over an iterator.\<close>

fun run_map :: "('a \<Rightarrow> 'b run) \<Rightarrow> 'a list \<Rightarrow> 'b list run" where
  "run_map f [] = Ret []"
| "run_map f (x # xs) = run_bind (f x) (\<lambda>y. run_bind (run_map f xs) (\<lambda>ys. Ret (y # ys)))"

text \<open>The decimal text of a number.\<close>

fun show_nat :: "nat \<Rightarrow> string" where
  "show_nat n =
     (if n < 10 then [char_of (48 + n)] else show_nat (n div 10) @ [char_of (48 + n mod 10)])"

declare show_nat.simps [simp del]

section \<open>Slices\<close>

text \<open>\<open>&d[a..b]\<close> panics unless \<open>a \<le> b \<le> d.len()\<close>; \<open>d[i]\<close> unless \<open>i < d.len()\<close>.\<close>

definition slice :: "'a list \<Rightarrow> nat \<Rightarrow> nat \<Rightarrow> 'a list run" where
  "slice d a b =
     (if a \<le> b \<and> b \<le> length d then Ret (take (b - a) (drop a d))
      else Panic ''slice index out of range'')"

definition index :: "'a list \<Rightarrow> nat \<Rightarrow> 'a run" where
  "index d i = (if i < length d then Ret (d ! i) else Panic ''index out of bounds'')"

section \<open>Arithmetic\<close>

text \<open>
  Overflow of \<open>+\<close>, \<open>-\<close> and \<open>*\<close> panics in a build with overflow checks and wraps in one
  without; the build profile is an argument of the functions that depend on it.
\<close>

datatype overflow_checks = Checked | Wrapping

definition arith :: "overflow_checks \<Rightarrow> bool \<Rightarrow> 'a \<Rightarrow> string \<Rightarrow> 'a run" where
  "arith mode fits v m = (if fits \<or> mode = Wrapping then Ret v else Panic m)"

definition add_arith :: "overflow_checks \<Rightarrow> 'l::len word \<Rightarrow> 'l word \<Rightarrow> 'l word run" where
  "add_arith mode a b =
     arith mode (unat a + unat b < 2 ^ LENGTH('l)) (a + b) ''attempt to add with overflow''"

definition sub_arith :: "overflow_checks \<Rightarrow> 'l::len word \<Rightarrow> 'l word \<Rightarrow> 'l word run" where
  "sub_arith mode a b =
     arith mode (b \<le> a) (a - b) ''attempt to subtract with overflow''"

definition mul_arith :: "overflow_checks \<Rightarrow> 'l::len word \<Rightarrow> 'l word \<Rightarrow> 'l word run" where
  "mul_arith mode a b =
     arith mode (unat a * unat b < 2 ^ LENGTH('l)) (a * b) ''attempt to multiply with overflow''"

text \<open>Division by zero panics in every build.\<close>

definition div_arith :: "'l::len word \<Rightarrow> 'l word \<Rightarrow> 'l word run" where
  "div_arith a b = (if b = 0 then Panic ''attempt to divide by zero'' else Ret (a div b))"

definition saturating_sub :: "'l::len word \<Rightarrow> 'l word \<Rightarrow> 'l word" where
  "saturating_sub a b = (if b \<le> a then a - b else 0)"

text \<open>\<open>usize\<close> to \<open>u8\<close> by \<open>try_into\<close>: fails above 255.\<close>

definition try_into_u8 :: "nat \<Rightarrow> u8 option" where
  "try_into_u8 n = (if n < 256 then Some (of_nat n) else None)"

section \<open>Lemmas on results and iterators\<close>

lemmas [run_simps] = run_bind.simps try_bind.simps result_bind.simps map_err.simps map_ok.simps
  expect.simps expect_ok.simps result_ok.simps transpose_opt.simps option_or.simps
  unwrap_or.simps flatten_opt.simps

lemma run_bind_eq_Ret [run_simps]:
  "run_bind m f = Ret y \<longleftrightarrow> (\<exists>x. m = Ret x \<and> f x = Ret y)"
  by (cases m) auto

lemma Ret_eq_run_bind: "Ret y = run_bind m f \<longleftrightarrow> (\<exists>x. m = Ret x \<and> Ret y = f x)"
  by (cases m) auto

lemma try_bind_eq_Ok:
  "try_bind m f = Ret (Inr y) \<longleftrightarrow> (\<exists>x. m = Ret (Inr x) \<and> f x = Ret (Inr y))"
  by (cases "(m, f)" rule: try_bind.cases) auto

lemma result_bind_eq_Ok:
  "result_bind m f = Inr y \<longleftrightarrow> (\<exists>x. m = Inr x \<and> f x = Inr y)"
  by (cases m) auto

lemma map_ok_eq_Ok: "map_ok f m = Inr y \<longleftrightarrow> (\<exists>x. m = Inr x \<and> y = f x)"
  by (cases m) auto

lemma collect_option_eq_Some:
  "collect_option xs = Some ys \<longleftrightarrow> xs = map Some ys"
  by (induction xs arbitrary: ys rule: collect_option.induct)
     (auto simp: map_eq_Cons_conv Cons_eq_map_conv)

lemma collect_option_eq_None: "collect_option xs = None \<longleftrightarrow> None \<in> set xs"
  by (induction xs rule: collect_option.induct) auto

lemma collect_option_map:
  "collect_option (map f xs) = Some ys \<longleftrightarrow> map f xs = map Some ys"
  by (simp add: collect_option_eq_Some)

lemma collect_result_eq_Ok:
  "collect_result xs = Inr ys \<longleftrightarrow> xs = map Inr ys"
  by (induction xs arbitrary: ys rule: collect_result.induct)
     (auto simp: map_ok_eq_Ok Cons_eq_map_conv)

lemma collect_result_eq_Err:
  "collect_result xs = Inl e \<longleftrightarrow> (\<exists>ys zs. xs = map Inr ys @ Inl e # zs)"
proof (induction xs rule: collect_result.induct)
  case 1
  then show ?case by simp
next
  case (2 e' xs)
  then show ?case by (auto simp: append_eq_Cons_conv Cons_eq_append_conv)
next
  case (3 x xs)
  have "collect_result (Inr x # xs) = Inl e \<longleftrightarrow> collect_result xs = Inl e"
    by (cases "collect_result xs") auto
  also have "\<dots> \<longleftrightarrow> (\<exists>ys zs. xs = map Inr ys @ Inl e # zs)" by (rule "3.IH")
  also have "\<dots> \<longleftrightarrow> (\<exists>ys zs. Inr x # xs = map Inr ys @ Inl e # zs)"
    by (auto simp: Cons_eq_append_conv Cons_eq_map_conv)
  finally show ?case .
qed

lemma filter_ok_simps [simp]:
  "filter_ok [] = []"
  "filter_ok (Inl e # rs) = filter_ok rs"
  "filter_ok (Inr x # rs) = x # filter_ok rs"
  by (simp_all add: filter_ok_def)

lemma filter_ok_append [simp]: "filter_ok (xs @ ys) = filter_ok xs @ filter_ok ys"
proof (induction xs)
  case (Cons r rs)
  then show ?case by (cases r) simp_all
qed simp

lemma filter_ok_map_Inr [simp]: "filter_ok (map Inr xs) = xs"
  by (induction xs) simp_all

lemma run_map_eq_Ret: "run_map f xs = Ret ys \<longleftrightarrow> list_all2 (\<lambda>x y. f x = Ret y) xs ys"
proof (induction xs arbitrary: ys)
  case (Cons x xs)
  then show ?case by (cases ys) (auto simp: run_bind_eq_Ret)
qed auto

lemma run_map_Ret: "(\<And>x. x \<in> set xs \<Longrightarrow> f x = Ret (g x)) \<Longrightarrow> run_map f xs = Ret (map g xs)"
  by (induction xs) simp_all

section \<open>Lemmas on slices and words\<close>

lemma slice_ok: "a \<le> b \<Longrightarrow> b \<le> length d \<Longrightarrow> slice d a b = Ret (take (b - a) (drop a d))"
  by (simp add: slice_def)

lemma index_ok: "i < length d \<Longrightarrow> index d i = Ret (d ! i)"
  by (simp add: index_def)

lemma try_into_u8_Some: "try_into_u8 n = Some w \<longleftrightarrow> n < 256 \<and> w = of_nat n"
  by (auto simp: try_into_u8_def)

lemma unat_saturating_sub: "unat (saturating_sub a b) = unat a - unat b"
  by (simp add: saturating_sub_def unat_sub word_le_nat_alt)

lemma saturating_sub_le: "saturating_sub a b \<le> a"
  by (simp add: word_le_nat_alt unat_saturating_sub)

lemma unat_bound: "unat (a :: 'l::len word) < 2 ^ LENGTH('l)"
  by (rule unsigned_less)

lemma unat_word_div: "unat ((a::'l::len word) div b) = unat a div unat b"
  by (simp add: unat_div)

lemma unat_mul_fits:
  fixes a b :: "'l::len word"
  assumes "unat a * unat b < 2 ^ LENGTH('l)"
  shows "unat (a * b) = unat a * unat b"
  using assms by (simp add: unat_word_ariths)

lemma unat_add_fits:
  fixes a b :: "'l::len word"
  assumes "unat a + unat b < 2 ^ LENGTH('l)"
  shows "unat (a + b) = unat a + unat b"
  using assms by (simp add: unat_word_ariths)

end
