(* ===== verification/Ss58.thy ===== *)
theory Ss58
  imports SDK_Prelude
begin

unbundle bit_operations_syntax

text \<open>
  The SS58 address parser of \<^verbatim>\<open>utils/src/lib.rs\<close> (module \<open>parse_ss58\<close>), the public key
  wrapper around it and the storage keys. The base58 decoder, BLAKE2b, TwoX-128 and the registry
  predicate \<open>is_reserved\<close> are third-party code and appear as arguments; \<open>Digest::update\<close>
  twice and \<open>finalize\<close> is the hash of the concatenation. Slices and indices are checked, so that
  the absence of panics is a theorem and not a convention. \<open>ss58_encode\<close> is the abstract
  specification of the address format the parser inverts.
\<close>

section \<open>The parser\<close>

datatype ss58_parsing_error =
  BadBase58 | BadLength | InvalidPrefix | FormatNotAllowed | InvalidChecksum

definition PREFIX :: bytes where
  "PREFIX = [0x53, 0x53, 0x35, 0x38, 0x50, 0x52, 0x45]"

definition CHECKSUM_LEN :: nat where
  "CHECKSUM_LEN = 2"

definition PUBLIC_KEY_LENGTH :: nat where
  "PUBLIC_KEY_LENGTH = 32"

definition ss58hash :: "(bytes \<Rightarrow> bytes) \<Rightarrow> bytes \<Rightarrow> bytes" where
  "ss58hash blake2b d = blake2b (PREFIX @ d)"

text \<open>The \<open>match data[0]\<close> of the parser: prefix length and network identifier.\<close>

definition prefix_ident :: "bytes \<Rightarrow> (ss58_parsing_error, nat \<times> u16) result run" where
  "prefix_ident d = run_bind (index d 0) (\<lambda>d0.
     if d0 \<le> 63 then Ret (Inr (1, ucast d0))
     else if d0 \<le> 127 then run_bind (index d 1) (\<lambda>d1.
       let lower = push_bit 2 d0 OR drop_bit 6 d1; upper = d1 AND 0b00111111
       in Ret (Inr (2, ucast lower OR push_bit 8 (ucast upper))))
     else Ret (Inl InvalidPrefix))"

definition parse_ss58_reward_address ::
  "(string \<Rightarrow> ('b, bytes) result) \<Rightarrow> (bytes \<Rightarrow> bytes) \<Rightarrow> (u16 \<Rightarrow> bool) \<Rightarrow> string \<Rightarrow>
   (ss58_parsing_error, bytes) result run" where
  "parse_ss58_reward_address from_base58 blake2b is_reserved s =
     try_bind (Ret (map_err (\<lambda>_. BadBase58) (from_base58 s))) (\<lambda>d.
       if length d < 2 then Ret (Inl BadLength)
       else try_bind (prefix_ident d) (\<lambda>(prefix_len, ident).
         if length d \<noteq> prefix_len + PUBLIC_KEY_LENGTH + CHECKSUM_LEN then Ret (Inl BadLength)
         else if is_reserved ident then Ret (Inl FormatNotAllowed)
         else run_bind (slice d 0 (PUBLIC_KEY_LENGTH + prefix_len)) (\<lambda>body.
           run_bind (slice (ss58hash blake2b body) 0 CHECKSUM_LEN) (\<lambda>checksum.
             run_bind (slice d (PUBLIC_KEY_LENGTH + prefix_len)
                         (PUBLIC_KEY_LENGTH + prefix_len + CHECKSUM_LEN)) (\<lambda>given.
               if given \<noteq> checksum then Ret (Inl InvalidChecksum)
               else run_bind (slice d prefix_len (length d)) (\<lambda>rest.
                 run_bind (slice rest 0 PUBLIC_KEY_LENGTH) (\<lambda>key.
                   if length key = PUBLIC_KEY_LENGTH then Ret (Inr key)
                   else Ret (Inl BadLength))))))))"

section \<open>Public keys and storage keys\<close>

text \<open>\<open>PublicKey\<close> and \<open>AccountId32\<close> both wrap an array of 32 bytes.\<close>

datatype public_key = PublicKey bytes
datatype account_id32 = AccountId32 bytes

text \<open>What the array types guarantee: both wrap exactly 32 bytes.\<close>

fun wf_public_key :: "public_key \<Rightarrow> bool" where
  "wf_public_key (PublicKey b) = (length b = PUBLIC_KEY_LENGTH)"

fun wf_account_id32 :: "account_id32 \<Rightarrow> bool" where
  "wf_account_id32 (AccountId32 b) = (length b = PUBLIC_KEY_LENGTH)"

definition public_key_new :: "bytes \<Rightarrow> public_key" where
  [conv_defs]: "public_key_new raw = PublicKey raw"

definition public_key_from_account :: "account_id32 \<Rightarrow> public_key" where
  [conv_defs]: "public_key_from_account a = (case a of AccountId32 b \<Rightarrow> public_key_new b)"

definition account_from_public_key :: "public_key \<Rightarrow> account_id32" where
  [conv_defs]: "account_from_public_key k = (case k of PublicKey b \<Rightarrow> AccountId32 b)"

definition public_key_from_str ::
  "(string \<Rightarrow> ('b, bytes) result) \<Rightarrow> (bytes \<Rightarrow> bytes) \<Rightarrow> (u16 \<Rightarrow> bool) \<Rightarrow> string \<Rightarrow>
   (ss58_parsing_error, public_key) result run" where
  "public_key_from_str from_base58 blake2b is_reserved s =
     try_bind (parse_ss58_reward_address from_base58 blake2b is_reserved s)
       (\<lambda>b. Ret (Inr (PublicKey b)))"

definition storage_key_new :: "(bytes \<Rightarrow> bytes) \<Rightarrow> bytes list \<Rightarrow> bytes" where
  "storage_key_new twox_128 keys = concat (map twox_128 keys)"

definition ascii :: "string \<Rightarrow> bytes" where
  "ascii s = map of_char s"

definition storage_key_events :: "(bytes \<Rightarrow> bytes) \<Rightarrow> bytes" where
  "storage_key_events twox_128 = storage_key_new twox_128 [ascii ''System'', ascii ''Events'']"

section \<open>Abstract specification: the address format\<close>

definition ident_prefix :: "u16 \<Rightarrow> bytes" where
  "ident_prefix i =
     (if i \<le> 63 then [ucast i]
      else [drop_bit 2 (ucast (i AND 0b11111100)) OR 0b01000000,
            ucast (drop_bit 8 i) OR push_bit 6 (ucast (i AND 0b11))])"

definition ss58_encode :: "(bytes \<Rightarrow> bytes) \<Rightarrow> u16 \<Rightarrow> bytes \<Rightarrow> bytes" where
  "ss58_encode blake2b i key =
     (let body = ident_prefix i @ key in body @ take CHECKSUM_LEN (ss58hash blake2b body))"

section \<open>Lemmas\<close>

lemmas ss58_consts = CHECKSUM_LEN_def PUBLIC_KEY_LENGTH_def

lemma bit_u16_ge_14:
  assumes "(i::u16) \<le> 16383" and "14 \<le> n"
  shows "\<not> bit i n"
proof -
  have "unat i < 2 ^ 14" using assms(1) by (simp add: word_le_nat_alt)
  then have "take_bit 14 (unat i) = unat i" by (simp add: take_bit_nat_eq_self)
  then have "\<not> bit (unat i) n" using assms(2)
    by (metis bit_take_bit_iff linorder_not_le)
  then show ?thesis by (simp add: bit_unsigned_iff)
qed

lemma word_eq_by_cases_16:
  fixes v w :: u16
  assumes "list_all (\<lambda>n. bit v n = bit w n) [0, 1, 2, 3, 4, 5, 6, 7, 8, 9, 10, 11, 12, 13, 14, 15]"
  shows "v = w"
proof (rule bit_word_eqI)
  fix n assume "n < LENGTH(16)"
  then have "n \<in> set [0, 1, 2, 3, 4, 5, 6, 7, 8, 9, 10, 11, 12, 13, 14, 15]" by simp arith
  with assms show "bit v n = bit w n" unfolding list_all_iff by blast
qed

lemma word_eq_by_cases_8:
  fixes v w :: u8
  assumes "list_all (\<lambda>n. bit v n = bit w n) [0, 1, 2, 3, 4, 5, 6, 7]"
  shows "v = w"
proof (rule bit_word_eqI)
  fix n assume "n < LENGTH(8)"
  then have "n \<in> set [0, 1, 2, 3, 4, 5, 6, 7]" by simp arith
  with assms show "bit v n = bit w n" unfolding list_all_iff by blast
qed

lemma two_byte_ident:
  fixes i :: u16
  assumes "i \<le> 16383"
  defines "a \<equiv> drop_bit 2 (ucast (i AND 0b11111100)) OR 0b01000000 :: u8"
    and "b \<equiv> ucast (drop_bit 8 i) OR push_bit 6 (ucast (i AND 0b11)) :: u8"
  shows "ucast (push_bit 2 a OR drop_bit 6 b) OR push_bit 8 (ucast (b AND 0b00111111)) = i"
  by (rule word_eq_by_cases_16)
     (simp add: a_def b_def bit_simps bit_numeral_rec bit_u16_ge_14 [OF assms(1)],
      simp add: numeral_2_eq_2 numeral_3_eq_3)

lemma two_byte_marker:
  fixes i :: u16
  defines "a \<equiv> drop_bit 2 (ucast (i AND 0b11111100)) OR 0b01000000 :: u8"
  shows "\<not> a \<le> 63" "a \<le> 127"
proof -
  have "64 \<le> a" unfolding a_def by (rule le_word_or1)
  then show "\<not> a \<le> 63" by (simp add: word_le_nat_alt)
  have "a AND 127 = a"
    by (rule word_eq_by_cases_8) (simp add: a_def bit_simps bit_numeral_rec)
  then show "a \<le> 127" by (metis word_and_le1)
qed

lemma one_byte_ident:
  assumes "(i::u16) \<le> 63"
  shows "(ucast i :: u8) \<le> 63" "ucast (ucast i :: u8) = i"
proof -
  have "unat i \<le> 63" using assms by (simp add: word_le_nat_alt)
  then have u: "unat (ucast i :: u8) = unat i" 
    by (simp add: unsigned_ucast_eq take_bit_nat_eq_self)
  with \<open>unat i \<le> 63\<close> show "(ucast i :: u8) \<le> 63" by (simp add: word_le_nat_alt)
  have "unat (ucast (ucast i :: u8) :: u16) = unat i"
    using u \<open>unat i \<le> 63\<close>
    by (simp add: unsigned_ucast_eq unsigned_take_bit_eq take_bit_nat_eq_self)
  then show "ucast (ucast i :: u8) = i" by (rule word_unat_eq_iff [THEN iffD2])
qed

lemma prefix_of_ident:
  assumes "i \<le> 16383"
  shows "prefix_ident (ident_prefix i @ d) = Ret (Inr (length (ident_prefix i), i))"
  using one_byte_ident [of i] two_byte_marker [of i] two_byte_ident [OF assms]
  by (simp add: prefix_ident_def ident_prefix_def index_def Let_def)

text \<open>The parser on decoded data of the right shape, and its inversion.\<close>

lemma prefix_ident_cases:
  assumes "2 \<le> length d"
  obtains (short) "prefix_ident d = Ret (Inr (1, ucast (d ! 0)))" "d ! 0 \<le> 63"
  | (long) i where "prefix_ident d = Ret (Inr (2, i))" "\<not> d ! 0 \<le> 63" "d ! 0 \<le> 127"
  | (bad) "prefix_ident d = Ret (Inl InvalidPrefix)" "\<not> d ! 0 \<le> 127"
proof -
  have ne: "d \<noteq> []" "1 < length d" using assms by auto
  have "\<not> d ! 0 \<le> 63" if "\<not> d ! 0 \<le> 127" using that by (auto simp: word_le_nat_alt)
  then consider "d ! 0 \<le> 63" | "\<not> d ! 0 \<le> 63" "d ! 0 \<le> 127" | "\<not> d ! 0 \<le> 63" "\<not> d ! 0 \<le> 127"
    by blast
  then show ?thesis
  proof cases
    case 1
    with ne show ?thesis by (intro short) (simp_all add: prefix_ident_def index_def)
  next
    case 2
    with ne show ?thesis
      by (intro long [of "ucast (push_bit 2 (d ! 0) OR drop_bit 6 (d ! 1)) OR
                            push_bit 8 (ucast (d ! 1 AND 0b00111111))"])
         (simp_all add: prefix_ident_def index_def Let_def)
  next
    case 3
    with ne show ?thesis by (intro bad) (simp_all add: prefix_ident_def index_def)
  qed
qed

lemma prefix_ident_len: "prefix_ident d = Ret (Inr (p, i)) \<Longrightarrow> p = 1 \<or> p = 2"
  by (auto simp: prefix_ident_def Let_def run_simps split: if_splits)

lemma prefix_ident_append:
  assumes "2 \<le> length d"
  shows "prefix_ident (d @ e) = prefix_ident d"
proof -
  have "d \<noteq> []" "1 < length d" using assms by auto
  then show ?thesis by (simp add: prefix_ident_def index_def nth_append)
qed

text \<open>Everything after the prefix has been read, on data of the accepted length.\<close>

lemma parse_body:
  assumes "from_base58 s = Inr (pre @ key @ cs)"
    and "prefix_ident (pre @ key) = Ret (Inr (length pre, i))" "\<not> is_reserved i"
    and "length key = PUBLIC_KEY_LENGTH" "length cs = CHECKSUM_LEN"
    and "\<And>x. length (blake2b x) = 64"
  shows "parse_ss58_reward_address from_base58 blake2b is_reserved s =
    Ret (if cs = take CHECKSUM_LEN (ss58hash blake2b (pre @ key)) then Inr key
         else Inl InvalidChecksum)"
  using assms prefix_ident_append [of "pre @ key" cs]
  by (simp add: parse_ss58_reward_address_def slice_def ss58_consts ss58hash_def)

text \<open>When the prefix and the length are accepted, the data splits into its three parts.\<close>

lemma split_address:
  assumes "prefix_ident d = Ret (Inr (p, i))"
    and "length d = p + PUBLIC_KEY_LENGTH + CHECKSUM_LEN"
  obtains pre key cs where "d = pre @ key @ cs" "length pre = p"
    "length key = PUBLIC_KEY_LENGTH" "length cs = CHECKSUM_LEN"
    "prefix_ident (pre @ key) = Ret (Inr (length pre, i))"
proof
  let ?pre = "take p d" let ?key = "take PUBLIC_KEY_LENGTH (drop p d)"
  let ?cs = "drop PUBLIC_KEY_LENGTH (drop p d)"
  show d: "d = ?pre @ ?key @ ?cs" by (metis append_take_drop_id)
  show l: "length ?pre = p" "length ?key = PUBLIC_KEY_LENGTH" "length ?cs = CHECKSUM_LEN"
    using assms(2) by (simp_all add: ss58_consts)
  have "prefix_ident ((?pre @ ?key) @ ?cs) = prefix_ident (?pre @ ?key)"
    by (rule prefix_ident_append) (use assms(2) in \<open>simp add: ss58_consts\<close>)
  with assms(1) d l(1) show "prefix_ident (?pre @ ?key) = Ret (Inr (length ?pre, i))" by simp
qed

lemma parse_Ok_split:
  assumes "parse_ss58_reward_address from_base58 blake2b is_reserved s = Ret (Inr k)"
  obtains d p i where "from_base58 s = Inr d" "prefix_ident d = Ret (Inr (p, i))"
    "length d = p + PUBLIC_KEY_LENGTH + CHECKSUM_LEN" "\<not> is_reserved i"
  using assms
  by (cases "from_base58 s")
     (auto simp: parse_ss58_reward_address_def try_bind_eq_Ok split: if_splits)

lemma parse_ss58_total:
  assumes "\<And>x. length (blake2b x) = 64"
  shows "\<exists>r. parse_ss58_reward_address from_base58 blake2b is_reserved s = Ret r \<and>
    (\<forall>key. r = Inr key \<longrightarrow> length key = PUBLIC_KEY_LENGTH)"
proof (cases "from_base58 s")
  case (Inl e)
  then show ?thesis by (simp add: parse_ss58_reward_address_def)
next
  case (Inr d)
  show ?thesis
  proof (cases "length d < 2")
    case True
    with Inr show ?thesis by (simp add: parse_ss58_reward_address_def)
  next
    case False
    then have "2 \<le> length d" by simp
    then show ?thesis using Inr assms
      by (cases d rule: prefix_ident_cases)
         (auto simp: parse_ss58_reward_address_def slice_def ss58_consts ss58hash_def)
  qed
qed

lemma public_key_from_encoded:
  assumes "i \<le> 16383" and "\<not> is_reserved i" and "length key = PUBLIC_KEY_LENGTH"
    and "\<And>x. length (blake2b x) = 64" and "from_base58 s = Inr (ss58_encode blake2b i key)"
  shows "public_key_from_str from_base58 blake2b is_reserved s = Ret (Inr (PublicKey key))"
proof -
  have "parse_ss58_reward_address from_base58 blake2b is_reserved s = Ret (Inr key)"
    using parse_body [of from_base58 s "ident_prefix i" key _ i is_reserved blake2b]
      prefix_of_ident [OF assms(1)] assms(2-5)
    by (simp add: ss58_encode_def Let_def ss58hash_def ss58_consts)
  then show ?thesis by (simp add: public_key_from_str_def)
qed

section \<open>Properties\<close>

text \<open>C7: The parser accepts a string and returns a key exactly when the decoded bytes are the
  network prefix of a non-reserved format, the 32 key bytes and the first two bytes of the hash
  of prefix and key: nothing else is accepted, and everything of that form is.\<close>
theorem parse_ss58_accepts_iff:
  assumes "\<And>x. length (blake2b x) = 64"
  shows "parse_ss58_reward_address from_base58 blake2b is_reserved s = Ret (Inr key) \<longleftrightarrow>
    (\<exists>pre i. prefix_ident (pre @ key) = Ret (Inr (length pre, i)) \<and> \<not> is_reserved i \<and>
       length key = PUBLIC_KEY_LENGTH \<and>
       from_base58 s = Inr (pre @ key @ take CHECKSUM_LEN (ss58hash blake2b (pre @ key))))"
    (is "?L \<longleftrightarrow> ?R")
proof
  assume L: ?L
  then obtain d p i where d: "from_base58 s = Inr d" "prefix_ident d = Ret (Inr (p, i))"
    "length d = p + PUBLIC_KEY_LENGTH + CHECKSUM_LEN" "\<not> is_reserved i"
    by (rule parse_Ok_split)
  obtain pre k cs where "d = pre @ k @ cs" "length k = PUBLIC_KEY_LENGTH"
    "length cs = CHECKSUM_LEN" "prefix_ident (pre @ k) = Ret (Inr (length pre, i))"
    using d(2,3) by (rule split_address)
  with d L parse_body [of from_base58 s pre k cs i is_reserved blake2b] assms
  show ?R by (auto split: if_splits)
next
  assume ?R
  then obtain pre i where "prefix_ident (pre @ key) = Ret (Inr (length pre, i))"
    "\<not> is_reserved i" "length key = PUBLIC_KEY_LENGTH"
    "from_base58 s = Inr (pre @ key @ take CHECKSUM_LEN (ss58hash blake2b (pre @ key)))"
    by blast
  with parse_body [of from_base58 s pre key "take CHECKSUM_LEN (ss58hash blake2b (pre @ key))"
      i is_reserved blake2b] assms
  show ?L by (simp add: ss58hash_def ss58_consts)
qed

theorem parse_ss58_accepts_iff_witness:
  "(\<forall>x. length ((\<lambda>_. replicate 64 0 :: bytes) (x::bytes)) = 64) \<and>
   parse_ss58_reward_address (\<lambda>_. Inr (42 # replicate 32 7 @ [0, 0]) :: (unit, bytes) result)
     (\<lambda>_. replicate 64 0) (\<lambda>i. i = 46) ''addr'' = Ret (Inr (replicate 32 7))"
proof -
  have h: "\<And>x. length ((\<lambda>_. replicate 64 0 :: bytes) (x::bytes)) = 64" by simp
  have "prefix_ident ([42] @ replicate 32 7) = Ret (Inr (length [42::u8], 42))"
    by (simp add: prefix_ident_def index_def)
  moreover have "take 2 (replicate 64 (0::u8)) = [0, 0]" by (simp add: numeral_2_eq_2)
  ultimately show ?thesis using h
    by (subst parse_ss58_accepts_iff [OF h])
       (auto simp: ss58hash_def ss58_consts intro!: exI [of _ "[42]"] exI [of _ 42])
qed

text \<open>C15: Parsing inverts the SS58 encoding. For every network identifier below \<open>2^14\<close> (the
  one-byte and the two-byte prefix forms) that is not reserved, and every 32-byte key, the
  address built from them parses back to that key.\<close>
theorem parse_ss58_encode_roundtrip:
  assumes "i \<le> 16383" and "\<not> is_reserved i" and "length key = PUBLIC_KEY_LENGTH"
    and "\<And>x. length (blake2b x) = 64" and "from_base58 s = Inr (ss58_encode blake2b i key)"
  shows "public_key_from_str from_base58 blake2b is_reserved s = Ret (Inr (PublicKey key))"
  using assms by (rule public_key_from_encoded)

theorem parse_ss58_encode_roundtrip_witness:
  "public_key_from_str (\<lambda>_. Inr (ss58_encode (\<lambda>_. replicate 64 9) 2254 (replicate 32 5))
       :: (unit, bytes) result) (\<lambda>_. replicate 64 9) (\<lambda>i. i = 46) ''st''
   = Ret (Inr (PublicKey (replicate 32 5)))"
  by (rule parse_ss58_encode_roundtrip [of 2254]) (simp_all add: ss58_consts)

text \<open>C22: Every reward address that parses is a well-formed key. No input makes the parser panic,
  since every slice and index it takes is in range whatever the base58 decoder returns; the bytes it
  hands to the key type are exactly 32; and the account of the key has as many, and gives the key
  back.\<close>
theorem parsed_keys_well_formed:
  assumes "\<And>x. length (blake2b x) = 64"
  shows "\<exists>r. public_key_from_str from_base58 blake2b is_reserved s = Ret r \<and>
    (\<forall>k. r = Inr k \<longrightarrow> wf_public_key k \<and> wf_account_id32 (account_from_public_key k) \<and>
       public_key_from_account (account_from_public_key k) = k)"
proof -
  obtain r where r: "parse_ss58_reward_address from_base58 blake2b is_reserved s = Ret r"
    "\<And>key. r = Inr key \<Longrightarrow> length key = PUBLIC_KEY_LENGTH"
    using parse_ss58_total [of blake2b from_base58 is_reserved s] assms by blast
  then show ?thesis by (cases r) (simp_all add: public_key_from_str_def conv_defs)
qed

theorem parsed_keys_well_formed_witness:
  "\<exists>k. public_key_from_str (\<lambda>_. Inr (ss58_encode (\<lambda>_. replicate 64 9) 2254 (replicate 32 5))
       :: (unit, bytes) result) (\<lambda>_. replicate 64 9) (\<lambda>i. i = 46) ''st'' = Ret (Inr k) \<and>
     wf_public_key k"
proof -
  have "public_key_from_str (\<lambda>_. Inr (ss58_encode (\<lambda>_. replicate 64 9) 2254 (replicate 32 5))
       :: (unit, bytes) result) (\<lambda>_. replicate 64 9) (\<lambda>i. i = 46) ''st'' =
       Ret (Inr (PublicKey (replicate 32 5)))"
    by (rule public_key_from_encoded) (simp_all add: ss58_consts)
  with parsed_keys_well_formed [of "\<lambda>_. replicate 64 9" "\<lambda>_. Inr (ss58_encode (\<lambda>_. replicate 64 9) 2254
      (replicate 32 5)) :: (unit, bytes) result" "\<lambda>i. i = 46" "''st''"] show ?thesis by auto
qed

end
