(* ===== verification/Substrate_Types.thy ===== *)
theory Substrate_Types
  imports Ss58
begin

text \<open>
  The configuration types of \<^verbatim>\<open>substrate/src/types.rs\<close>, their conversions to and from the
  types of the Substrate crates, the byte sizes of \<^verbatim>\<open>utils/src/lib.rs\<close>, and the contract
  every generated builder shares. Types of other crates that the sources only construct or
  match on carry the prefix \<open>Sc\<close>. The \<open>bytesize\<close> crate is an argument.
\<close>

section \<open>Shared contracts\<close>

text \<open>A pair of \<open>From\<close> implementations that translate between two spellings of one type.\<close>

locale conversion_pair =
  fixes fwd :: "'a \<Rightarrow> 'b" and bwd :: "'b \<Rightarrow> 'a"
  assumes bwd_fwd: "bwd (fwd x) = x"
    and fwd_bwd: "fwd (bwd y) = y"
begin

lemma fwd_eq_iff: "fwd x = y \<longleftrightarrow> x = bwd y"
  using bwd_fwd fwd_bwd by auto

lemma bij_fwd: "bij fwd"
  by (rule o_bij [of bwd]) (auto simp: bwd_fwd fwd_bwd)

end

text \<open>
  A generated builder: \<open>fresh\<close> is \<open>Builder::new()\<close>, \<open>build\<close> the infallible build, \<open>dflt\<close>
  the \<open>Default\<close> value of the built type. The field defaults of the builder and the \<open>Default\<close>
  implementation are written separately in the sources and have to agree: the serialised form
  of a configuration leaves default values out (\<open>is_default\<close>).
\<close>

locale config_builder =
  fixes fresh :: 'b and build :: "'b \<Rightarrow> 'c" and dflt :: 'c
  assumes build_fresh: "build fresh = dflt"
begin

lemma build_eq_default: "b = fresh \<Longrightarrow> build b = dflt"
  by (simp add: build_fresh)

end

text \<open>\<open>is_default\<close>, with the default value as an argument.\<close>

definition is_default :: "'a \<Rightarrow> 'a \<Rightarrow> bool" where
  "is_default dflt t \<longleftrightarrow> t = dflt"

section \<open>Byte sizes\<close>

text \<open>The constructors of the third-party type the wrapper delegates to.\<close>

record 'bs bytesize_crate =
  crate_b :: "u64 \<Rightarrow> 'bs"
  crate_kb :: "u64 \<Rightarrow> 'bs"
  crate_kib :: "u64 \<Rightarrow> 'bs"
  crate_mb :: "u64 \<Rightarrow> 'bs"
  crate_mib :: "u64 \<Rightarrow> 'bs"
  crate_gb :: "u64 \<Rightarrow> 'bs"
  crate_gib :: "u64 \<Rightarrow> 'bs"
  crate_as_u64 :: "'bs \<Rightarrow> u64"
  crate_MIB :: u64

datatype 'bs byte_size = ByteSize 'bs

definition bs_b :: "'bs bytesize_crate \<Rightarrow> u64 \<Rightarrow> 'bs byte_size" where
  "bs_b c n = ByteSize (crate_b c n)"

definition bs_kb :: "'bs bytesize_crate \<Rightarrow> u64 \<Rightarrow> 'bs byte_size" where
  "bs_kb c n = ByteSize (crate_kb c n)"

definition bs_kib :: "'bs bytesize_crate \<Rightarrow> u64 \<Rightarrow> 'bs byte_size" where
  "bs_kib c n = ByteSize (crate_kib c n)"

definition bs_mb :: "'bs bytesize_crate \<Rightarrow> u64 \<Rightarrow> 'bs byte_size" where
  "bs_mb c n = ByteSize (crate_mb c n)"

definition bs_mib :: "'bs bytesize_crate \<Rightarrow> u64 \<Rightarrow> 'bs byte_size" where
  "bs_mib c n = ByteSize (crate_mib c n)"

definition bs_gb :: "'bs bytesize_crate \<Rightarrow> u64 \<Rightarrow> 'bs byte_size" where
  "bs_gb c n = ByteSize (crate_gb c n)"

definition bs_gib :: "'bs bytesize_crate \<Rightarrow> u64 \<Rightarrow> 'bs byte_size" where
  "bs_gib c n = ByteSize (crate_gib c n)"

definition bs_to_u64 :: "'bs bytesize_crate \<Rightarrow> 'bs byte_size \<Rightarrow> u64" where
  "bs_to_u64 c s = (case s of ByteSize x \<Rightarrow> crate_as_u64 c x)"

section \<open>Pruning\<close>

datatype blocks_pruning = KeepAll | KeepFinalized | KeepSome u32
datatype sc_blocks_pruning = ScKeepAll | ScKeepFinalized | ScKeepSome u32

fun blocks_pruning_from_sc :: "sc_blocks_pruning \<Rightarrow> blocks_pruning" where
  "blocks_pruning_from_sc ScKeepAll = KeepAll"
| "blocks_pruning_from_sc ScKeepFinalized = KeepFinalized"
| "blocks_pruning_from_sc (ScKeepSome n) = KeepSome n"

fun blocks_pruning_into_sc :: "blocks_pruning \<Rightarrow> sc_blocks_pruning" where
  "blocks_pruning_into_sc KeepAll = ScKeepAll"
| "blocks_pruning_into_sc KeepFinalized = ScKeepFinalized"
| "blocks_pruning_into_sc (KeepSome n) = ScKeepSome n"

record constraints = max_blocks :: "u32 option"
record sc_constraints = sc_max_blocks :: "u32 option"

definition constraints_into_sc :: "constraints \<Rightarrow> sc_constraints" where
  [conv_defs]: "constraints_into_sc c = \<lparr>sc_max_blocks = max_blocks c\<rparr>"

definition constraints_from_sc :: "sc_constraints \<Rightarrow> constraints" where
  [conv_defs]: "constraints_from_sc c = \<lparr>max_blocks = sc_max_blocks c\<rparr>"

datatype pruning_mode = ArchiveAll | ArchiveCanonical | Constrained constraints
datatype sc_pruning_mode = ScArchiveAll | ScArchiveCanonical | ScConstrained sc_constraints

fun pruning_mode_into_sc :: "pruning_mode \<Rightarrow> sc_pruning_mode" where
  "pruning_mode_into_sc ArchiveAll = ScArchiveAll"
| "pruning_mode_into_sc ArchiveCanonical = ScArchiveCanonical"
| "pruning_mode_into_sc (Constrained c) = ScConstrained (constraints_into_sc c)"

fun pruning_mode_from_sc :: "sc_pruning_mode \<Rightarrow> pruning_mode" where
  "pruning_mode_from_sc ScArchiveAll = ArchiveAll"
| "pruning_mode_from_sc ScArchiveCanonical = ArchiveCanonical"
| "pruning_mode_from_sc (ScConstrained c) = Constrained (constraints_from_sc c)"

section \<open>Storage monitor, offchain worker, role, RPC methods\<close>

text \<open>\<open>std::time::Duration\<close>: whole seconds and nanoseconds.\<close>

record duration =
  as_secs :: u64
  subsec_nanos :: u32

record 'bs storage_monitor =
  threshold :: "'bs byte_size"
  polling_period :: duration

record sc_storage_monitor_params =
  sc_threshold :: u64
  sc_polling_period :: u32

definition storage_monitor_into_sc ::
  "'bs bytesize_crate \<Rightarrow> 'bs storage_monitor \<Rightarrow> sc_storage_monitor_params run" where
  "storage_monitor_into_sc c m =
     run_bind (div_arith (bs_to_u64 c (threshold m)) (crate_MIB c)) (\<lambda>q.
       Ret \<lparr>sc_threshold = max q 1,
            sc_polling_period = ucast (max (as_secs (polling_period m)) 1)\<rparr>)"

text \<open>The default of \<open>MaxSubsPerConn\<close>, the declared wrapper of that setting.\<close>

definition max_subs_per_conn_default :: usize where
  "max_subs_per_conn_default = 1024"

record offchain_worker =
  ow_enabled :: bool
  ow_indexing_enabled :: bool

record sc_offchain_worker_config =
  sc_ow_enabled :: bool
  sc_ow_indexing_enabled :: bool

definition offchain_worker_default :: offchain_worker where
  [cfg_defs]: "offchain_worker_default = \<lparr>ow_enabled = False, ow_indexing_enabled = False\<rparr>"

record offchain_worker_builder =
  owb_enabled :: "bool option"
  owb_indexing_enabled :: "bool option"

definition offchain_worker_builder_new :: offchain_worker_builder where
  [cfg_defs]: "offchain_worker_builder_new = \<lparr>owb_enabled = None, owb_indexing_enabled = None\<rparr>"

definition offchain_worker_build :: "offchain_worker_builder \<Rightarrow> offchain_worker" where
  [cfg_defs]: "offchain_worker_build b =
     \<lparr>ow_enabled = unwrap_or (owb_enabled b) False,
      ow_indexing_enabled = unwrap_or (owb_indexing_enabled b) False\<rparr>"

definition offchain_worker_dev :: offchain_worker_builder where
  [cfg_defs]: "offchain_worker_dev = offchain_worker_builder_new"

definition offchain_worker_gemini_3g :: offchain_worker_builder where
  [cfg_defs]: "offchain_worker_gemini_3g = offchain_worker_builder_new\<lparr>owb_enabled := Some True\<rparr>"

definition offchain_worker_devnet :: offchain_worker_builder where
  [cfg_defs]: "offchain_worker_devnet = offchain_worker_builder_new\<lparr>owb_enabled := Some True\<rparr>"

definition offchain_worker_into_sc :: "offchain_worker \<Rightarrow> sc_offchain_worker_config" where
  [conv_defs]: "offchain_worker_into_sc w =
     \<lparr>sc_ow_enabled = ow_enabled w, sc_ow_indexing_enabled = ow_indexing_enabled w\<rparr>"

datatype role = Full | Authority
datatype sc_role = ScFull | ScAuthority

fun role_into_sc :: "role \<Rightarrow> sc_role" where
  "role_into_sc Full = ScFull"
| "role_into_sc Authority = ScAuthority"

datatype rpc_methods = Auto | Safe | Unsafe
datatype sc_rpc_methods = ScAuto | ScSafe | ScUnsafe

fun rpc_methods_into_sc :: "rpc_methods \<Rightarrow> sc_rpc_methods" where
  "rpc_methods_into_sc Auto = ScAuto"
| "rpc_methods_into_sc Safe = ScSafe"
| "rpc_methods_into_sc Unsafe = ScUnsafe"

section \<open>The derived order of block pruning settings\<close>

text \<open>\<open>derive(PartialOrd, Ord)\<close> compares the variant position first and the payload second.\<close>

fun blocks_pruning_rank :: "blocks_pruning \<Rightarrow> nat \<times> nat" where
  "blocks_pruning_rank KeepAll = (0, 0)"
| "blocks_pruning_rank KeepFinalized = (1, 0)"
| "blocks_pruning_rank (KeepSome n) = (2, unat n)"

instantiation blocks_pruning :: linorder
begin

definition less_eq_blocks_pruning :: "blocks_pruning \<Rightarrow> blocks_pruning \<Rightarrow> bool" where
  "a \<le> b \<longleftrightarrow> fst (blocks_pruning_rank a) < fst (blocks_pruning_rank b) \<or>
     fst (blocks_pruning_rank a) = fst (blocks_pruning_rank b) \<and>
     snd (blocks_pruning_rank a) \<le> snd (blocks_pruning_rank b)"

definition less_blocks_pruning :: "blocks_pruning \<Rightarrow> blocks_pruning \<Rightarrow> bool" where
  "a < b \<longleftrightarrow> a \<le> b \<and> \<not> b \<le> (a :: blocks_pruning)"

instance
proof
  fix a b :: blocks_pruning
  show "a \<le> b \<Longrightarrow> b \<le> a \<Longrightarrow> a = b"
    by (cases a; cases b) (auto simp: less_eq_blocks_pruning_def word_unat_eq_iff)
qed (auto simp: less_eq_blocks_pruning_def less_blocks_pruning_def)

end

section \<open>Interpretations\<close>

interpretation blocks_pruning_conv: conversion_pair blocks_pruning_into_sc blocks_pruning_from_sc
proof
  show "blocks_pruning_from_sc (blocks_pruning_into_sc x) = x" for x by (cases x) simp_all
  show "blocks_pruning_into_sc (blocks_pruning_from_sc y) = y" for y by (cases y) simp_all
qed

interpretation constraints_conv: conversion_pair constraints_into_sc constraints_from_sc
  by unfold_locales (simp_all add: conv_defs)

interpretation pruning_mode_conv: conversion_pair pruning_mode_into_sc pruning_mode_from_sc
proof
  show "pruning_mode_from_sc (pruning_mode_into_sc x) = x" for x
    by (cases x) (simp_all add: constraints_conv.bwd_fwd)
  show "pruning_mode_into_sc (pruning_mode_from_sc y) = y" for y
    by (cases y) (simp_all add: constraints_conv.fwd_bwd)
qed

interpretation public_key_conv: conversion_pair account_from_public_key public_key_from_account
  by unfold_locales (auto simp: conv_defs split: public_key.splits account_id32.splits)

interpretation offchain_worker_bld:
  config_builder offchain_worker_builder_new offchain_worker_build offchain_worker_default
  by unfold_locales (simp add: cfg_defs)

section \<open>Properties\<close>

text \<open>Translating pruning settings and account identifiers to the representation of the other
  crate and back loses nothing: both directions are bijections inverse to each other.\<close>
theorem pruning_and_key_conversions_inverse:
  "blocks_pruning_from_sc (blocks_pruning_into_sc b) = b \<and>
   blocks_pruning_into_sc (blocks_pruning_from_sc sb) = sb \<and>
   pruning_mode_from_sc (pruning_mode_into_sc m) = m \<and>
   pruning_mode_into_sc (pruning_mode_from_sc sm) = sm \<and>
   public_key_from_account (account_from_public_key k) = k \<and>
   account_from_public_key (public_key_from_account a) = a"
  by (simp add: blocks_pruning_conv.bwd_fwd blocks_pruning_conv.fwd_bwd
      pruning_mode_conv.bwd_fwd pruning_mode_conv.fwd_bwd
      public_key_conv.bwd_fwd public_key_conv.fwd_bwd)

text \<open>The storage monitor's threshold is the configured size in whole mebibytes but never
  zero, and its polling period is at least one second as long as the configured period is below
  \<open>2^32\<close> seconds.\<close>
theorem storage_monitor_bounds:
  assumes "crate_MIB c = 1048576" and "unat (as_secs (polling_period m)) < 2 ^ 32"
  shows "\<exists>p. storage_monitor_into_sc c m = Ret p \<and> 1 \<le> unat (sc_threshold p) \<and>
     unat (sc_threshold p) = max (unat (bs_to_u64 c (threshold m)) div 1048576) 1 \<and>
     unat (sc_polling_period p) = max (unat (as_secs (polling_period m))) 1"
proof -
  let ?s = "as_secs (polling_period m)"
  have mx: "unat (max a 1) = max (unat a) 1" for a :: u64
    by (simp add: max_def word_le_nat_alt)
  have "unat (ucast (max ?s 1) :: u32) = max (unat ?s) 1"
    using assms(2) by (simp add: unsigned_ucast_eq take_bit_nat_eq_self mx)
  then show ?thesis using assms(1)
    by (simp add: storage_monitor_into_sc_def div_arith_def mx unat_word_div)
qed

theorem storage_monitor_bounds_witness:
  "\<exists>p. storage_monitor_into_sc
     \<lparr>crate_b = id, crate_kb = id, crate_kib = id, crate_mb = id, crate_mib = id, crate_gb = id,
      crate_gib = id, crate_as_u64 = id, crate_MIB = 1048576\<rparr>
     \<lparr>threshold = ByteSize 5, polling_period = \<lparr>as_secs = 0, subsec_nanos = 7\<rparr>\<rparr> = Ret p \<and>
     unat (sc_threshold p) = 1 \<and> unat (sc_polling_period p) = 1"
  using storage_monitor_bounds
    [of "\<lparr>crate_b = id, crate_kb = id, crate_kib = id, crate_mb = id, crate_mib = id,
         crate_gb = id, crate_gib = id, crate_as_u64 = id, crate_MIB = 1048576\<rparr>"
        "\<lparr>threshold = ByteSize 5, polling_period = \<lparr>as_secs = 0, subsec_nanos = 7\<rparr>\<rparr>"]
  by (auto simp: bs_to_u64_def)

text \<open>The guard against a zero polling period is applied before the narrowing cast, so a
  configured period of \<open>2^32\<close> seconds (or any multiple) becomes a period of zero.\<close>
theorem storage_monitor_polling_wraps:
  "storage_monitor_into_sc c \<lparr>threshold = t, polling_period = \<lparr>as_secs = 2 ^ 32, subsec_nanos = n\<rparr>\<rparr>
     = Ret p \<longrightarrow> sc_polling_period p = 0"
  by (auto simp: storage_monitor_into_sc_def div_arith_def max_def word_le_nat_alt
      split: if_splits)

theorem storage_monitor_polling_wraps_witness:
  "\<exists>p. storage_monitor_into_sc
     \<lparr>crate_b = id, crate_kb = id, crate_kib = id, crate_mb = id, crate_mib = id, crate_gb = id,
      crate_gib = id, crate_as_u64 = id, crate_MIB = 1048576\<rparr>
     \<lparr>threshold = ByteSize 5, polling_period = \<lparr>as_secs = 2 ^ 32, subsec_nanos = 0\<rparr>\<rparr> = Ret p \<and>
     sc_polling_period p = 0"
proof -
  let ?c = "\<lparr>crate_b = id, crate_kb = id, crate_kib = id, crate_mb = id, crate_mib = id,
     crate_gb = id, crate_gib = id, crate_as_u64 = id, crate_MIB = 1048576\<rparr>"
  obtain p where "storage_monitor_into_sc ?c
      \<lparr>threshold = ByteSize 5, polling_period = \<lparr>as_secs = 2 ^ 32, subsec_nanos = 0\<rparr>\<rparr> = Ret p"
    by (simp add: storage_monitor_into_sc_def div_arith_def)
  with storage_monitor_polling_wraps [of ?c "ByteSize 5" 0 p] show ?thesis by blast
qed

end
