(* ===== verification/Substrate_Config.thy ===== *)
theory Substrate_Config
  imports Substrate_Types
begin

text \<open>
  \<^verbatim>\<open>substrate/src/lib.rs\<close>: the RPC, network and base settings, their builders and presets,
  and \<open>Base::configuration\<close>, which turns the settings into the service configuration of
  Substrate. A generated builder is a record of optional fields: a setter stores \<open>Some\<close>, and
  \<open>build\<close> fills the rest with the field's default. Multiaddresses (\<open>'ma\<close>, \<open>'mp\<close> in this
  SDK, \<open>'sa\<close>, \<open>'sp\<close> in the node's networking crate), JSON and telemetry endpoints are
  third-party values; the conversions the code calls on them are fields of \<open>sub_env\<close>.
\<close>

type_synonym path = "string list"

definition join :: "path \<Rightarrow> string \<Rightarrow> path" where
  "join p s = p @ [s]"

section \<open>RPC settings\<close>

datatype socket_addr = SocketAddrV4 "u8 \<times> u8 \<times> u8 \<times> u8" u16

record rpc =
  rpc_addr :: "socket_addr option"
  rpc_port :: "u16 option"
  rpc_max_connections :: "usize option"
  rpc_cors :: "string list option"
  rpc_methods_of :: rpc_methods
  rpc_max_request_size :: "usize option"
  rpc_max_response_size :: "usize option"
  rpc_max_subs_per_conn :: "usize option"

definition rpc_default :: rpc where
  [cfg_defs]: "rpc_default = \<lparr>rpc_addr = None, rpc_port = None, rpc_max_connections = None,
     rpc_cors = None, rpc_methods_of = Auto, rpc_max_request_size = None,
     rpc_max_response_size = None, rpc_max_subs_per_conn = None\<rparr>"

record rpc_builder =
  rb_addr :: "socket_addr option option"
  rb_port :: "u16 option option"
  rb_max_connections :: "usize option option"
  rb_cors :: "string list option option"
  rb_methods :: "rpc_methods option"
  rb_max_request_size :: "usize option option"
  rb_max_response_size :: "usize option option"
  rb_max_subs_per_conn :: "usize option option"

definition rpc_builder_new :: rpc_builder where
  [cfg_defs]: "rpc_builder_new = \<lparr>rb_addr = None, rb_port = None, rb_max_connections = None,
     rb_cors = None, rb_methods = None, rb_max_request_size = None,
     rb_max_response_size = None, rb_max_subs_per_conn = None\<rparr>"

definition rpc_build :: "rpc_builder \<Rightarrow> rpc" where
  [cfg_defs]: "rpc_build b =
     \<lparr>rpc_addr = unwrap_or (rb_addr b) None, rpc_port = unwrap_or (rb_port b) None,
      rpc_max_connections = unwrap_or (rb_max_connections b) None,
      rpc_cors = unwrap_or (rb_cors b) None, rpc_methods_of = unwrap_or (rb_methods b) Auto,
      rpc_max_request_size = unwrap_or (rb_max_request_size b) None,
      rpc_max_response_size = unwrap_or (rb_max_response_size b) None,
      rpc_max_subs_per_conn = unwrap_or (rb_max_subs_per_conn b) None\<rparr>"

definition rpc_dev :: rpc_builder where
  [cfg_defs]: "rpc_dev = rpc_builder_new"

definition rpc_local_test :: "u16 \<Rightarrow> rpc_builder" where
  [cfg_defs]: "rpc_local_test port = rpc_dev
     \<lparr>rb_addr := Some (Some (SocketAddrV4 (127, 0, 0, 1) port)), rb_port := Some (Some port),
      rb_max_connections := Some (Some 100), rb_max_request_size := Some (Some (10 * 1024)),
      rb_max_response_size := Some (Some (10 * 1024)), rb_max_subs_per_conn := Some (Some 100)\<rparr>"

definition rpc_cors_origins :: "string list" where
  [cfg_defs]: "rpc_cors_origins = [''http://localhost:*'', ''http://127.0.0.1:*'',
     ''https://localhost:*'', ''https://127.0.0.1:*'', ''https://polkadot.js.org'']"

definition rpc_gemini_3g :: rpc_builder where
  [cfg_defs]: "rpc_gemini_3g = rpc_builder_new
     \<lparr>rb_addr := Some (Some (SocketAddrV4 (127, 0, 0, 1) 9944)),
      rb_cors := Some (Some rpc_cors_origins)\<rparr>"

definition rpc_devnet :: rpc_builder where
  [cfg_defs]: "rpc_devnet = rpc_builder_new
     \<lparr>rb_addr := Some (Some (SocketAddrV4 (127, 0, 0, 1) 9944)),
      rb_cors := Some (Some rpc_cors_origins)\<rparr>"

section \<open>Network settings\<close>

record ('ma, 'mp) network =
  net_enable_mdns :: bool
  net_allow_private_ip :: bool
  net_allow_non_globals_in_dht :: bool
  net_listen_addresses :: "'ma list"
  net_boot_nodes :: "'mp list"
  net_force_synced :: bool
  net_name :: "string option"
  net_client_id :: "string option"

definition network_default :: "('ma, 'mp) network" where
  [cfg_defs]: "network_default = \<lparr>net_enable_mdns = False, net_allow_private_ip = False,
     net_allow_non_globals_in_dht = False, net_listen_addresses = [], net_boot_nodes = [],
     net_force_synced = False, net_name = None, net_client_id = None\<rparr>"

record ('ma, 'mp) network_builder =
  nb_enable_mdns :: "bool option"
  nb_allow_private_ip :: "bool option"
  nb_allow_non_globals_in_dht :: "bool option"
  nb_listen_addresses :: "'ma list option"
  nb_boot_nodes :: "'mp list option"
  nb_force_synced :: "bool option"
  nb_name :: "string option option"
  nb_client_id :: "string option option"

definition network_builder_new :: "('ma, 'mp) network_builder" where
  [cfg_defs]: "network_builder_new = \<lparr>nb_enable_mdns = None, nb_allow_private_ip = None,
     nb_allow_non_globals_in_dht = None, nb_listen_addresses = None, nb_boot_nodes = None,
     nb_force_synced = None, nb_name = None, nb_client_id = None\<rparr>"

definition network_build :: "('ma, 'mp) network_builder \<Rightarrow> ('ma, 'mp) network" where
  [cfg_defs]: "network_build b =
     \<lparr>net_enable_mdns = unwrap_or (nb_enable_mdns b) False,
      net_allow_private_ip = unwrap_or (nb_allow_private_ip b) False,
      net_allow_non_globals_in_dht = unwrap_or (nb_allow_non_globals_in_dht b) False,
      net_listen_addresses = unwrap_or (nb_listen_addresses b) [],
      net_boot_nodes = unwrap_or (nb_boot_nodes b) [],
      net_force_synced = unwrap_or (nb_force_synced b) False,
      net_name = unwrap_or (nb_name b) None, net_client_id = unwrap_or (nb_client_id b) None\<rparr>"

definition network_dev :: "('ma, 'mp) network_builder" where
  [cfg_defs]: "network_dev =
     network_builder_new\<lparr>nb_force_synced := Some True, nb_allow_private_ip := Some True\<rparr>"

text \<open>The hard-coded listen addresses go through \<open>parse().expect(..)\<close>.\<close>

definition parse_hardcoded :: "(string \<Rightarrow> 'ma option) \<Rightarrow> string \<Rightarrow> 'ma run" where
  [cfg_defs]: "parse_hardcoded parse s = expect ''hardcoded value is true'' (parse s)"

definition network_gemini_3g :: "(string \<Rightarrow> 'ma option) \<Rightarrow> ('ma, 'mp) network_builder run" where
  [cfg_defs]: "network_gemini_3g parse =
     run_bind (parse_hardcoded parse ''/ip6/::/tcp/30333'') (\<lambda>a6.
       run_bind (parse_hardcoded parse ''/ip4/0.0.0.0/tcp/30333'') (\<lambda>a4.
         Ret (network_builder_new\<lparr>nb_listen_addresses := Some [a6, a4],
                                  nb_enable_mdns := Some True\<rparr>)))"

definition network_devnet :: "(string \<Rightarrow> 'ma option) \<Rightarrow> ('ma, 'mp) network_builder run" where
  [cfg_defs]: "network_devnet parse =
     run_bind (parse_hardcoded parse ''/ip6/::/tcp/30333'') (\<lambda>a6.
       run_bind (parse_hardcoded parse ''/ip4/0.0.0.0/tcp/30333'') (\<lambda>a4.
         Ret (network_builder_new\<lparr>nb_listen_addresses := Some [a6, a4],
                                  nb_enable_mdns := Some True\<rparr>)))"

section \<open>Base settings\<close>

text \<open>\<open>ImplName\<close> and \<open>ImplVersion\<close> default to build-time strings, which are arguments.\<close>

record build_env =
  CARGO_PKG_NAME :: string
  CARGO_PKG_VERSION :: string
  GIT_HASH :: string

definition impl_name_default :: "build_env \<Rightarrow> string" where
  [cfg_defs]: "impl_name_default e = CARGO_PKG_NAME e"

definition impl_version_default :: "build_env \<Rightarrow> string" where
  [cfg_defs]: "impl_version_default e = CARGO_PKG_VERSION e @ ''-'' @ GIT_HASH e"

record ('ma, 'mp) base =
  base_force_authoring :: bool
  base_role :: role
  base_blocks_pruning :: blocks_pruning
  base_state_pruning :: pruning_mode
  base_impl_name :: string
  base_impl_version :: string
  base_rpc :: rpc
  base_network :: "('ma, 'mp) network"
  base_offchain_worker :: offchain_worker
  base_informant_enable_color :: bool
  base_telemetry :: "('ma \<times> u8) list"
  base_dev_key_seed :: "string option"

definition base_default :: "build_env \<Rightarrow> ('ma, 'mp) base" where
  [cfg_defs]: "base_default e = \<lparr>base_force_authoring = False, base_role = Full,
     base_blocks_pruning = KeepAll, base_state_pruning = ArchiveAll,
     base_impl_name = impl_name_default e, base_impl_version = impl_version_default e,
     base_rpc = rpc_default, base_network = network_default,
     base_offchain_worker = offchain_worker_default, base_informant_enable_color = False,
     base_telemetry = [], base_dev_key_seed = None\<rparr>"

record ('ma, 'mp) base_builder =
  bb_force_authoring :: "bool option"
  bb_role :: "role option"
  bb_blocks_pruning :: "blocks_pruning option"
  bb_state_pruning :: "pruning_mode option"
  bb_impl_name :: "string option"
  bb_impl_version :: "string option"
  bb_rpc :: "rpc option"
  bb_network :: "('ma, 'mp) network option"
  bb_offchain_worker :: "offchain_worker option"
  bb_informant_enable_color :: "bool option"
  bb_telemetry :: "('ma \<times> u8) list option"
  bb_dev_key_seed :: "string option option"

definition base_builder_new :: "('ma, 'mp) base_builder" where
  [cfg_defs]: "base_builder_new = \<lparr>bb_force_authoring = None, bb_role = None,
     bb_blocks_pruning = None, bb_state_pruning = None, bb_impl_name = None,
     bb_impl_version = None, bb_rpc = None, bb_network = None, bb_offchain_worker = None,
     bb_informant_enable_color = None, bb_telemetry = None, bb_dev_key_seed = None\<rparr>"

definition base_build :: "build_env \<Rightarrow> ('ma, 'mp) base_builder \<Rightarrow> ('ma, 'mp) base" where
  [cfg_defs]: "base_build e b =
     \<lparr>base_force_authoring = unwrap_or (bb_force_authoring b) False,
      base_role = unwrap_or (bb_role b) Full,
      base_blocks_pruning = unwrap_or (bb_blocks_pruning b) KeepAll,
      base_state_pruning = unwrap_or (bb_state_pruning b) ArchiveAll,
      base_impl_name = unwrap_or (bb_impl_name b) (impl_name_default e),
      base_impl_version = unwrap_or (bb_impl_version b) (impl_version_default e),
      base_rpc = unwrap_or (bb_rpc b) rpc_default,
      base_network = unwrap_or (bb_network b) network_default,
      base_offchain_worker = unwrap_or (bb_offchain_worker b) offchain_worker_default,
      base_informant_enable_color = unwrap_or (bb_informant_enable_color b) False,
      base_telemetry = unwrap_or (bb_telemetry b) [],
      base_dev_key_seed = unwrap_or (bb_dev_key_seed b) None\<rparr>"

section \<open>The service configuration\<close>

text \<open>A JSON value, as far as the telemetry code matches on it.\<close>

datatype 'j json = JArray "'j list" | JOther

record ('ma, 'mp, 'sa, 'sp, 'j, 'ep) sub_env =
  gen_name :: "string option"
  into_addr :: "'ma \<Rightarrow> 'sa"
  into_peer :: "'mp \<Rightarrow> 'sp"
  addr_to_string :: "'ma \<Rightarrow> string"
  config_dir :: "path \<Rightarrow> string \<Rightarrow> path"
  telemetry_to_value :: "('ma \<times> u8) list \<Rightarrow> 'j json"
  endpoints_to_value :: "'ep \<Rightarrow> 'j json"
  endpoints_from_value :: "'j json \<Rightarrow> (string, 'ep) result"
  endpoints_new :: "(string \<times> u8) list \<Rightarrow> (string, 'ep) result"

record ('sp, 'ep) chain_spec_view =
  cs_id :: string
  cs_boot_nodes :: "'sp list"
  cs_telemetry_endpoints :: "'ep option"

record ('sa, 'sp) network_configuration =
  nc_listen_addresses :: "'sa list"
  nc_boot_nodes :: "'sp list"
  nc_force_synced :: bool
  nc_enable_mdns :: bool
  nc_allow_private_ip :: bool
  nc_allow_non_globals_in_dht :: bool
  nc_node_name :: string
  nc_client_version :: string
  nc_node_key_file :: path
  nc_net_config_path :: path
  nc_out_peers :: u32
  nc_in_peers :: u32

record ('sa, 'sp, 'ep) configuration =
  cfg_impl_name :: string
  cfg_impl_version :: string
  cfg_network :: "('sa, 'sp) network_configuration"
  cfg_database_path :: path
  cfg_trie_cache_maximum_size :: "usize option"
  cfg_state_pruning :: "sc_pruning_mode option"
  cfg_blocks_pruning :: sc_blocks_pruning
  cfg_rpc_addr :: "socket_addr option"
  cfg_rpc_port :: u16
  cfg_rpc_methods :: sc_rpc_methods
  cfg_rpc_max_connections :: u32
  cfg_rpc_cors :: "string list option"
  cfg_rpc_max_request_size :: u32
  cfg_rpc_max_response_size :: u32
  cfg_rpc_max_subs_per_conn :: u32
  cfg_prometheus_enabled :: bool
  cfg_telemetry_endpoints :: "'ep option"
  cfg_offchain_worker :: sc_offchain_worker_config
  cfg_force_authoring :: bool
  cfg_disable_grandpa :: bool
  cfg_dev_key_seed :: "string option"
  cfg_max_runtime_instances :: usize
  cfg_announce_block :: bool
  cfg_role :: sc_role
  cfg_base_path :: path
  cfg_data_path :: path
  cfg_informant_enable_color :: bool
  cfg_runtime_cache_size :: u8

definition NODE_NAME_MAX_LENGTH :: nat where
  "NODE_NAME_MAX_LENGTH = 64"

text \<open>The node name: the configured one, or a generated one of fewer than 64 characters.\<close>

definition node_name :: "string option \<Rightarrow> string option \<Rightarrow> string run" where
  "node_name gen nm = (case nm of Some n \<Rightarrow> Ret n
     | None \<Rightarrow> expect ''RNG is available on all supported platforms; qed''
         (case gen of None \<Rightarrow> None
          | Some n \<Rightarrow> if length n < NODE_NAME_MAX_LENGTH then Some n else None))"

definition network_configuration_of ::
  "('ma, 'mp, 'sa, 'sp, 'j, 'ep) sub_env \<Rightarrow> ('sp, 'ep) chain_spec_view \<Rightarrow> path \<Rightarrow> string \<Rightarrow>
   string \<Rightarrow> ('ma, 'mp) network \<Rightarrow> ('sa, 'sp) network_configuration run" where
  "network_configuration_of env cs dir impl_name impl_version n =
     run_bind (node_name (gen_name env) (net_name n)) (\<lambda>name.
       let client_id = unwrap_or (net_client_id n) (impl_name @ ''/v'' @ impl_version);
           net_dir = join dir ''network''
       in Ret \<lparr>nc_listen_addresses = map (into_addr env) (net_listen_addresses n),
            nc_boot_nodes = cs_boot_nodes cs @ map (into_peer env) (net_boot_nodes n),
            nc_force_synced = net_force_synced n, nc_enable_mdns = net_enable_mdns n,
            nc_allow_private_ip = net_allow_private_ip n,
            nc_allow_non_globals_in_dht = net_allow_non_globals_in_dht n,
            nc_node_name = name, nc_client_version = client_id,
            nc_node_key_file = join net_dir ''secret_ed25519'', nc_net_config_path = net_dir,
            nc_out_peers = 50, nc_in_peers = 25 + 100\<rparr>)"

text \<open>Chain-spec endpoints first, extra ones after them; without a chain-spec list the extra ones
  alone.\<close>

definition telemetry_endpoints ::
  "('ma, 'mp, 'sa, 'sp, 'j, 'ep) sub_env \<Rightarrow> ('sp, 'ep) chain_spec_view \<Rightarrow> ('ma \<times> u8) list \<Rightarrow>
   'ep run" where
  "telemetry_endpoints env cs telemetry =
     (case cs_telemetry_endpoints cs of
        Some endpoints \<Rightarrow>
          (case telemetry_to_value env telemetry of JOther \<Rightarrow> Panic ''Will always return an array''
           | JArray extra \<Rightarrow>
             (case endpoints_to_value env endpoints of JOther \<Rightarrow> Panic ''Will always return an array''
              | JArray own \<Rightarrow> expect_ok ''Serialization is always valid''
                  (endpoints_from_value env (JArray (own @ extra)))))
      | None \<Rightarrow> expect_ok ''Never returns an error''
          (endpoints_new env (map (\<lambda>(endpoint, n). (addr_to_string env endpoint, n)) telemetry)))"

definition base_configuration ::
  "('ma, 'mp, 'sa, 'sp, 'j, 'ep) sub_env \<Rightarrow> ('ma, 'mp) base \<Rightarrow> path \<Rightarrow> ('sp, 'ep) chain_spec_view \<Rightarrow>
   ('sa, 'sp, 'ep) configuration run" where
  "base_configuration env b directory cs =
     (let dir = config_dir env directory (cs_id cs); r = base_rpc b
      in run_bind (network_configuration_of env cs dir (base_impl_name b) (base_impl_version b)
                     (base_network b)) (\<lambda>net.
           run_bind (telemetry_endpoints env cs (base_telemetry b)) (\<lambda>eps.
             Ret \<lparr>cfg_impl_name = base_impl_name b, cfg_impl_version = base_impl_version b,
               cfg_network = net, cfg_database_path = join (join dir ''paritydb'') ''full'',
               cfg_trie_cache_maximum_size = Some 67108864,
               cfg_state_pruning = Some (pruning_mode_into_sc (base_state_pruning b)),
               cfg_blocks_pruning = blocks_pruning_into_sc (base_blocks_pruning b),
               cfg_rpc_addr = rpc_addr r, cfg_rpc_port = unwrap_or (rpc_port r) 0,
               cfg_rpc_methods = rpc_methods_into_sc (rpc_methods_of r),
               cfg_rpc_max_connections = ucast (unwrap_or (rpc_max_connections r) 0),
               cfg_rpc_cors = rpc_cors r,
               cfg_rpc_max_request_size = ucast (unwrap_or (rpc_max_request_size r) 0),
               cfg_rpc_max_response_size = ucast (unwrap_or (rpc_max_response_size r) 0),
               cfg_rpc_max_subs_per_conn = ucast (unwrap_or (rpc_max_subs_per_conn r) 0),
               cfg_prometheus_enabled = False, cfg_telemetry_endpoints = Some eps,
               cfg_offchain_worker = offchain_worker_into_sc (base_offchain_worker b),
               cfg_force_authoring = base_force_authoring b, cfg_disable_grandpa = False,
               cfg_dev_key_seed = base_dev_key_seed b, cfg_max_runtime_instances = 8,
               cfg_announce_block = True, cfg_role = role_into_sc (base_role b),
               cfg_base_path = directory, cfg_data_path = dir,
               cfg_informant_enable_color = base_informant_enable_color b,
               cfg_runtime_cache_size = 2\<rparr>)))"

section \<open>Builders agree with the defaults\<close>

interpretation rpc_bld: config_builder rpc_builder_new rpc_build rpc_default
  by unfold_locales (simp add: cfg_defs)

interpretation network_bld: config_builder network_builder_new network_build network_default
  by unfold_locales (simp add: cfg_defs)

interpretation base_bld: config_builder base_builder_new "base_build e" "base_default e" for e
  by unfold_locales (simp add: cfg_defs)

section \<open>Lemmas on the service configuration\<close>

lemma base_configuration_parts:
  assumes "base_configuration env b d cs = Ret c"
  obtains name eps where "node_name (gen_name env) (net_name (base_network b)) = Ret name"
    "telemetry_endpoints env cs (base_telemetry b) = Ret eps"
    "nc_node_name (cfg_network c) = name" "cfg_telemetry_endpoints c = Some eps"
    "nc_boot_nodes (cfg_network c) =
       cs_boot_nodes cs @ map (into_peer env) (net_boot_nodes (base_network b))"
  using assms
  by (auto simp: base_configuration_def network_configuration_of_def Let_def run_bind_eq_Ret)

lemma base_configuration_rpc:
  assumes "base_configuration env b d cs = Ret c"
  shows "cfg_rpc_max_connections c = ucast (unwrap_or (rpc_max_connections (base_rpc b)) 0)"
    "cfg_rpc_max_request_size c = ucast (unwrap_or (rpc_max_request_size (base_rpc b)) 0)"
    "cfg_rpc_max_response_size c = ucast (unwrap_or (rpc_max_response_size (base_rpc b)) 0)"
    "cfg_rpc_max_subs_per_conn c = ucast (unwrap_or (rpc_max_subs_per_conn (base_rpc b)) 0)"
  using assms
  by (auto simp: base_configuration_def network_configuration_of_def Let_def run_bind_eq_Ret)

lemma node_name_Ret:
  "node_name gen nm = Ret n \<longleftrightarrow>
   nm = Some n \<or> nm = None \<and> gen = Some n \<and> length n < NODE_NAME_MAX_LENGTH"
  by (auto simp: node_name_def split: option.splits)

section \<open>Properties\<close>

text \<open>The service configuration dials the chain specification's boot nodes first and the
  configured ones after them, in order and without dropping any, and a generated node name is
  always shorter than 64 characters.\<close>
theorem configuration_boot_nodes_and_name:
  assumes "base_configuration env b d cs = Ret c"
  shows "nc_boot_nodes (cfg_network c) =
      cs_boot_nodes cs @ map (into_peer env) (net_boot_nodes (base_network b)) \<and>
    (net_name (base_network b) = None \<longrightarrow>
       length (nc_node_name (cfg_network c)) < NODE_NAME_MAX_LENGTH)"
  using base_configuration_parts [OF assms] by (metis node_name_Ret option.distinct(1))

definition demo_env :: "(nat, nat, nat, nat, nat, nat list) sub_env" where
  "demo_env = \<lparr>gen_name = Some ''brave-otter-1234'', into_addr = id, into_peer = (\<lambda>x. x + 1),
     addr_to_string = (\<lambda>_. ''/memory''), config_dir = (\<lambda>p i. p @ [''chains'', i]),
     telemetry_to_value = (\<lambda>xs. JArray (map fst xs)), endpoints_to_value = JArray,
     endpoints_from_value = (\<lambda>j. case j of JArray xs \<Rightarrow> Inr xs | JOther \<Rightarrow> Inl ''bad''),
     endpoints_new = (\<lambda>xs. Inr (map (\<lambda>_. 0) xs))\<rparr>"

definition demo_build_env :: build_env where
  "demo_build_env = \<lparr>CARGO_PKG_NAME = ''sdk-substrate'', CARGO_PKG_VERSION = ''0.1.0'',
     GIT_HASH = ''abc''\<rparr>"

theorem configuration_boot_nodes_and_name_witness:
  "\<exists>c. base_configuration demo_env
         ((base_default demo_build_env)\<lparr>base_network := network_default\<lparr>net_boot_nodes := [3]\<rparr>\<rparr>)
         [''node''] \<lparr>cs_id = ''dev'', cs_boot_nodes = [9], cs_telemetry_endpoints = Some [5]\<rparr>
       = Ret c \<and> nc_boot_nodes (cfg_network c) = [9, 4]"
proof -
  let ?b = "(base_default demo_build_env)\<lparr>base_network := network_default\<lparr>net_boot_nodes := [3]\<rparr>\<rparr>
     :: (nat, nat) base"
  let ?cs = "\<lparr>cs_id = ''dev'', cs_boot_nodes = [9], cs_telemetry_endpoints = Some [5]\<rparr>
     :: (nat, nat list) chain_spec_view"
  obtain c where c: "base_configuration demo_env ?b [''node''] ?cs = Ret c"
    by (simp add: base_configuration_def network_configuration_of_def telemetry_endpoints_def
        node_name_def NODE_NAME_MAX_LENGTH_def demo_env_def cfg_defs Let_def)
  from configuration_boot_nodes_and_name [OF c] have "nc_boot_nodes (cfg_network c) = [9, 4]"
    by (simp add: demo_env_def)
  with c show ?thesis by blast
qed



end
