(* ===== verification/Destructors.thy ===== *)
theory Destructors
  imports SDK_Prelude "HOL-Library.Multiset"
begin

text \<open>
  The destructor sets of \<^verbatim>\<open>utils/src/lib.rs\<close>: \<open>Defer\<close>, \<open>DropCollection\<close>,
  \<open>AsyncDropFutures\<close>, \<open>ToDestruct\<close> and \<open>DestructorSet\<close> with its \<open>Drop\<close> implementation.
  Closures, futures and dropped objects are labels of a type \<open>'x\<close>; running one is an
  \<open>effect\<close>, and an operation returns the effects in the order they happen. Rust's implicit
  drops are written out: \<open>Rev<Drain>\<close> iterators drop what they did not yield, a struct drops
  its fields in declaration order after its \<open>Drop\<close> body, and \<open>async_drop\<close>, which takes
  \<open>self\<close> by value, drops it on every return path. The abstract view of a set is the list of
  its registered entries, and \<open>cleanup_stack\<close> states what the builders of the farmer, the node
  and the domain rely on.
\<close>

section \<open>Collections of things to drop\<close>

text \<open>A boxed value is either a \<open>Defer\<close> guard, whose drop runs its closure, or an ordinary one.\<close>

datatype 'x boxed = Deferred "'x option" | Plain 'x

datatype 'x effect = Ran 'x | DroppedItem 'x | Awaited 'x | DroppedFuture 'x

definition defer_new :: "'x \<Rightarrow> 'x boxed" where
  "defer_new f = Deferred (Some f)"

fun drop_boxed :: "'x boxed \<Rightarrow> 'x effect list run" where
  "drop_boxed (Deferred f) = run_bind (expect ''Always set'' f) (\<lambda>g. Ret [Ran g])"
| "drop_boxed (Plain x) = Ret [DroppedItem x]"

record 'x drop_collection =
  dc_vec :: "'x boxed list"

definition dc_new :: "'x drop_collection" where
  "dc_new = \<lparr>dc_vec = []\<rparr>"

definition dc_push :: "'x boxed \<Rightarrow> 'x drop_collection \<Rightarrow> 'x drop_collection" where
  "dc_push t c = c\<lparr>dc_vec := dc_vec c @ [t]\<rparr>"

definition dc_defer :: "'x \<Rightarrow> 'x drop_collection \<Rightarrow> 'x drop_collection" where
  "dc_defer f c = dc_push (defer_new f) c"

definition dc_drain :: "'x drop_collection \<Rightarrow> 'x boxed list \<times> 'x drop_collection" where
  "dc_drain c = (dc_vec c, c\<lparr>dc_vec := []\<rparr>)"

fun dc_extend :: "'x boxed list \<Rightarrow> 'x drop_collection \<Rightarrow> 'x drop_collection" where
  "dc_extend [] c = c"
| "dc_extend (t # ts) c = dc_extend ts (dc_push t c)"

definition dc_from_iter :: "'x boxed list \<Rightarrow> 'x drop_collection" where
  "dc_from_iter ts = dc_extend ts dc_new"

record 'x async_drop_futures =
  af_vec :: "'x list"

definition af_new :: "'x async_drop_futures" where
  "af_new = \<lparr>af_vec = []\<rparr>"

definition af_push :: "'x \<Rightarrow> 'x async_drop_futures \<Rightarrow> 'x async_drop_futures" where
  "af_push fut c = c\<lparr>af_vec := af_vec c @ [fut]\<rparr>"

definition af_drain :: "'x async_drop_futures \<Rightarrow> 'x list \<times> 'x async_drop_futures" where
  "af_drain c = (af_vec c, c\<lparr>af_vec := []\<rparr>)"

section \<open>The destructor set\<close>

datatype to_destruct = Sync | Async | Item

record 'x destructor_set =
  ds_name :: string
  items_to_drop :: "'x drop_collection"
  sync_destructors :: "'x drop_collection"
  async_destructors :: "'x async_drop_futures"
  ds_order :: "to_destruct list"
  already_ran :: bool
  allow_async :: bool

definition ds_new :: "string \<Rightarrow> 'x destructor_set" where
  "ds_new n = \<lparr>ds_name = n, items_to_drop = dc_new, sync_destructors = dc_new,
     async_destructors = af_new, ds_order = [], already_ran = False, allow_async = True\<rparr>"

definition ds_new_without_async :: "string \<Rightarrow> 'x destructor_set" where
  "ds_new_without_async n = \<lparr>ds_name = n, items_to_drop = dc_new, sync_destructors = dc_new,
     async_destructors = af_new, ds_order = [], already_ran = False, allow_async = False\<rparr>"

definition err_ran :: "string \<Rightarrow> string" where
  "err_ran n = ''Destructor set: '' @ n @ '' has been run already''"

definition err_async :: "string \<Rightarrow> string" where
  "err_async n = ''async destructors are disabled in Destructor set: '' @ n"

definition err_sync_only :: "string \<Rightarrow> string" where
  "err_sync_only n = ''Destructor set: '' @ n @
     '' is only configured to run sync destructors. To run them drop this instance.''"

definition add_sync_destructor ::
  "'x \<Rightarrow> 'x destructor_set \<Rightarrow> (string, 'x destructor_set) result" where
  "add_sync_destructor f s =
     (if already_ran s then Inl (err_ran (ds_name s))
      else Inr (s\<lparr>ds_order := ds_order s @ [Sync],
                   sync_destructors := dc_defer f (sync_destructors s)\<rparr>))"

definition add_async_destructor ::
  "'x \<Rightarrow> 'x destructor_set \<Rightarrow> (string, 'x destructor_set) result" where
  "add_async_destructor fut s =
     (if already_ran s then Inl (err_ran (ds_name s))
      else if \<not> allow_async s then Inl (err_async (ds_name s))
      else Inr (s\<lparr>ds_order := ds_order s @ [Async],
                   async_destructors := af_push fut (async_destructors s)\<rparr>))"

definition add_items_to_drop ::
  "'x \<Rightarrow> 'x destructor_set \<Rightarrow> (string, 'x destructor_set) result" where
  "add_items_to_drop t s =
     (if already_ran s then Inl (err_ran (ds_name s))
      else Inr (s\<lparr>ds_order := ds_order s @ [Item],
                   items_to_drop := dc_push (Plain t) (items_to_drop s)\<rparr>))"

text \<open>
  The loop both \<open>drop\<close> and \<open>async_drop\<close> run over the reversed drains; \<open>h\<close> is what happens
  to an async destructor (dropped or awaited). It returns the effects and what the three
  iterators have not yielded.
\<close>

fun run_order ::
  "('x \<Rightarrow> 'x effect) \<Rightarrow> to_destruct list \<Rightarrow> 'x boxed list \<Rightarrow> 'x list \<Rightarrow> 'x boxed list \<Rightarrow>
   ('x effect list \<times> 'x boxed list \<times> 'x list \<times> 'x boxed list) run" where
  "run_order h [] sf af it = Ret ([], sf, af, it)"
| "run_order h (Sync # os) sf af it =
     (case sf of [] \<Rightarrow> Panic ''sync fn always set''
      | f # sf' \<Rightarrow> run_bind (drop_boxed f) (\<lambda>e.
          run_bind (run_order h os sf' af it) (\<lambda>(es, r). Ret (e @ es, r))))"
| "run_order h (Async # os) sf af it =
     (case af of [] \<Rightarrow> Panic ''async fn always set''
      | f # af' \<Rightarrow> run_bind (run_order h os sf af' it) (\<lambda>(es, r). Ret (h f # es, r)))"
| "run_order h (Item # os) sf af it =
     (case it of [] \<Rightarrow> Panic ''item always set''
      | i # it' \<Rightarrow> run_bind (drop_boxed i) (\<lambda>e.
          run_bind (run_order h os sf af it') (\<lambda>(es, r). Ret (e @ es, r))))"

fun drop_all :: "'x boxed list \<Rightarrow> 'x effect list run" where
  "drop_all [] = Ret []"
| "drop_all (b # bs) = run_bind (drop_boxed b) (\<lambda>e.
     run_bind (drop_all bs) (\<lambda>es. Ret (e @ es)))"

text \<open>
  The drains, the loop, and the drop of the three iterators (reverse declaration order: items,
  futures, sync destructors; each drops its rest from the front).
\<close>

definition run_drains :: "('x \<Rightarrow> 'x effect) \<Rightarrow> 'x destructor_set \<Rightarrow> 'x effect list run" where
  "run_drains h s =
     run_bind (run_order h (rev (ds_order s)) (rev (fst (dc_drain (sync_destructors s))))
                 (rev (fst (af_drain (async_destructors s))))
                 (rev (fst (dc_drain (items_to_drop s)))))
       (\<lambda>(es, sf, af, it). run_bind (drop_all (rev it)) (\<lambda>e1.
          run_bind (drop_all (rev sf)) (\<lambda>e2.
            Ret (es @ e1 @ map DroppedFuture (rev af) @ e2))))"

definition emptied :: "'x destructor_set \<Rightarrow> 'x destructor_set" where
  "emptied s = s\<lparr>items_to_drop := snd (dc_drain (items_to_drop s)),
     sync_destructors := snd (dc_drain (sync_destructors s)),
     async_destructors := snd (af_drain (async_destructors s)), ds_order := []\<rparr>"

text \<open>What the compiler drops after the \<open>Drop\<close> body: the fields, in declaration order.\<close>

definition drop_fields :: "'x destructor_set \<Rightarrow> 'x effect list run" where
  "drop_fields s = run_bind (drop_all (dc_vec (items_to_drop s))) (\<lambda>e1.
     run_bind (drop_all (dc_vec (sync_destructors s))) (\<lambda>e2.
       Ret (e1 @ e2 @ map DroppedFuture (af_vec (async_destructors s)))))"

definition ds_drop :: "'x destructor_set \<Rightarrow> 'x effect list run" where
  "ds_drop s =
     (if already_ran s then drop_fields s
      else run_bind (run_drains DroppedFuture s) (\<lambda>e1.
             run_bind (drop_fields (emptied s)) (\<lambda>e2. Ret (e1 @ e2))))"

definition async_drop ::
  "'x destructor_set \<Rightarrow> ('x effect list \<times> (string, unit) result) run" where
  "async_drop s =
     (if already_ran s then run_bind (ds_drop s) (\<lambda>es. Ret (es, Inl (err_ran (ds_name s))))
      else if \<not> allow_async s
      then run_bind (ds_drop s) (\<lambda>es. Ret (es, Inl (err_sync_only (ds_name s))))
      else run_bind (run_drains Awaited s) (\<lambda>e1.
             run_bind (ds_drop ((emptied s)\<lparr>already_ran := True\<rparr>)) (\<lambda>e2.
               Ret (e1 @ e2, Inr ()))))"

text \<open>
  The async destructors of the SDK join tasks and \<open>expect\<close> the join, so awaiting one panics when
  its task has panicked; \<open>p\<close> tells for which labels, and with which message. The loop stops
  there, and unwinding drops what the iterators have not yielded, then \<open>self\<close>, whose vectors are
  drained but whose \<open>already_ran\<close> is still false.
\<close>

fun run_joins ::
  "('x \<Rightarrow> string option) \<Rightarrow> to_destruct list \<Rightarrow> 'x boxed list \<Rightarrow> 'x list \<Rightarrow> 'x boxed list \<Rightarrow>
   ('x effect list \<times> string option \<times> 'x boxed list \<times> 'x list \<times> 'x boxed list) run" where
  "run_joins p [] sf af it = Ret ([], None, sf, af, it)"
| "run_joins p (Sync # os) sf af it =
     (case sf of [] \<Rightarrow> Panic ''sync fn always set''
      | f # sf' \<Rightarrow> run_bind (drop_boxed f) (\<lambda>e.
          run_bind (run_joins p os sf' af it) (\<lambda>(es, r). Ret (e @ es, r))))"
| "run_joins p (Async # os) sf af it =
     (case af of [] \<Rightarrow> Panic ''async fn always set''
      | f # af' \<Rightarrow>
          (case p f of
             Some m \<Rightarrow> Ret ([Awaited f], Some m, sf, af', it)
           | None \<Rightarrow> run_bind (run_joins p os sf af' it) (\<lambda>(es, r). Ret (Awaited f # es, r))))"
| "run_joins p (Item # os) sf af it =
     (case it of [] \<Rightarrow> Panic ''item always set''
      | i # it' \<Rightarrow> run_bind (drop_boxed i) (\<lambda>e.
          run_bind (run_joins p os sf af it') (\<lambda>(es, r). Ret (e @ es, r))))"

text \<open>\<open>async_drop\<close> when joins can panic: the effects, and how the call itself ends.\<close>

definition async_drop_joins ::
  "('x \<Rightarrow> string option) \<Rightarrow> 'x destructor_set \<Rightarrow>
   ('x effect list \<times> (string, unit) result run) run" where
  "async_drop_joins p s =
     (if already_ran s
      then run_bind (ds_drop s) (\<lambda>es. Ret (es, Ret (Inl (err_ran (ds_name s)))))
      else if \<not> allow_async s
      then run_bind (ds_drop s) (\<lambda>es. Ret (es, Ret (Inl (err_sync_only (ds_name s)))))
      else run_bind (run_joins p (rev (ds_order s)) (rev (fst (dc_drain (sync_destructors s))))
                 (rev (fst (af_drain (async_destructors s))))
                 (rev (fst (dc_drain (items_to_drop s)))))
        (\<lambda>(es, panicked, sf, af, it). run_bind (drop_all (rev it)) (\<lambda>e1.
           run_bind (drop_all (rev sf)) (\<lambda>e2.
             run_bind (ds_drop ((emptied s)\<lparr>already_ran := panicked = None\<rparr>)) (\<lambda>e3.
               Ret (es @ e1 @ map DroppedFuture (rev af) @ e2 @ e3,
                    case panicked of None \<Rightarrow> Ret (Inr ()) | Some m \<Rightarrow> Panic m))))))"

text \<open>Every value of the type a program can hold: the constructors and the three adders.\<close>

inductive ds_api :: "'x destructor_set \<Rightarrow> bool" where
  api_new: "ds_api (ds_new n)"
| api_new_without_async: "ds_api (ds_new_without_async n)"
| api_sync: "ds_api s \<Longrightarrow> add_sync_destructor f s = Inr s' \<Longrightarrow> ds_api s'"
| api_async: "ds_api s \<Longrightarrow> add_async_destructor f s = Inr s' \<Longrightarrow> ds_api s'"
| api_item: "ds_api s \<Longrightarrow> add_items_to_drop f s = Inr s' \<Longrightarrow> ds_api s'"

section \<open>The abstract view: one stack of entries\<close>

datatype 'x entry = SyncE 'x | AsyncE 'x | ItemE 'x

fun kind_of :: "'x entry \<Rightarrow> to_destruct" where
  "kind_of (SyncE f) = Sync" | "kind_of (AsyncE f) = Async" | "kind_of (ItemE f) = Item"

fun syncs :: "'x entry list \<Rightarrow> 'x boxed list" where
  "syncs [] = []"
| "syncs (SyncE f # es) = Deferred (Some f) # syncs es"
| "syncs (_ # es) = syncs es"

fun asyncs :: "'x entry list \<Rightarrow> 'x list" where
  "asyncs [] = []"
| "asyncs (AsyncE f # es) = f # asyncs es"
| "asyncs (_ # es) = asyncs es"

fun items :: "'x entry list \<Rightarrow> 'x boxed list" where
  "items [] = []"
| "items (ItemE x # es) = Plain x # items es"
| "items (_ # es) = items es"

fun effect_of :: "('x \<Rightarrow> 'x effect) \<Rightarrow> 'x entry \<Rightarrow> 'x effect" where
  "effect_of h (SyncE f) = Ran f"
| "effect_of h (AsyncE f) = h f"
| "effect_of h (ItemE x) = DroppedItem x"

fun replay :: "to_destruct list \<Rightarrow> 'x boxed list \<Rightarrow> 'x list \<Rightarrow> 'x boxed list \<Rightarrow> 'x entry list" where
  "replay (Sync # os) (Deferred (Some f) # sf) af it = SyncE f # replay os sf af it"
| "replay (Async # os) sf (f # af) it = AsyncE f # replay os sf af it"
| "replay (Item # os) sf af (Plain x # it) = ItemE x # replay os sf af it"
| "replay _ _ _ _ = []"

definition entries :: "'x destructor_set \<Rightarrow> 'x entry list" where
  "entries s = replay (ds_order s) (dc_vec (sync_destructors s))
     (af_vec (async_destructors s)) (dc_vec (items_to_drop s))"

definition ds_rep :: "'x entry list \<Rightarrow> 'x destructor_set \<Rightarrow> bool" where
  "ds_rep es s \<longleftrightarrow> ds_order s = map kind_of es \<and> dc_vec (sync_destructors s) = syncs es \<and>
     af_vec (async_destructors s) = asyncs es \<and> dc_vec (items_to_drop s) = items es"

text \<open>The representation invariant: the order log and the three vectors describe one stack.\<close>

definition ds_wf :: "'x destructor_set \<Rightarrow> bool" where
  "ds_wf s \<longleftrightarrow> ds_rep (entries s) s \<and> \<not> already_ran s \<and>
     (\<not> allow_async s \<longrightarrow> asyncs (entries s) = [])"

fun register :: "'x entry \<Rightarrow> 'x destructor_set \<Rightarrow> (string, 'x destructor_set) result" where
  "register (SyncE f) s = add_sync_destructor f s"
| "register (AsyncE f) s = add_async_destructor f s"
| "register (ItemE x) s = add_items_to_drop x s"

fun register_all ::
  "('x entry \<Rightarrow> 's \<Rightarrow> (string, 's) result) \<Rightarrow> 'x entry list \<Rightarrow> 's \<Rightarrow> (string, 's) result" where
  "register_all reg [] s = Inr s"
| "register_all reg (e # es) s = result_bind (reg e s) (register_all reg es)"

fun accepts :: "'x entry \<Rightarrow> 'x destructor_set \<Rightarrow> bool" where
  "accepts (AsyncE f) s = allow_async s"
| "accepts _ s = True"

section \<open>The interface the builders use\<close>

locale cleanup_stack =
  fixes invar :: "'s \<Rightarrow> bool"
    and view :: "'s \<Rightarrow> 'x entry list"
    and reg :: "'x entry \<Rightarrow> 's \<Rightarrow> (string, 's) result"
    and ok :: "'x entry \<Rightarrow> 's \<Rightarrow> bool"
    and drop_now :: "'s \<Rightarrow> 'x effect list run"
    and close :: "'s \<Rightarrow> ('x effect list \<times> (string, unit) result) run"
    and may_close :: "'s \<Rightarrow> bool"
  assumes reg_ok: "invar s \<Longrightarrow> ok e s \<Longrightarrow> \<exists>s'. reg e s = Inr s'"
    and reg_invar: "invar s \<Longrightarrow> reg e s = Inr s' \<Longrightarrow> invar s'"
    and reg_view: "invar s \<Longrightarrow> reg e s = Inr s' \<Longrightarrow> view s' = view s @ [e]"
    and reg_flags: "reg e s = Inr s' \<Longrightarrow> ok e' s' = ok e' s \<and> may_close s' = may_close s"
    and drop_view: "invar s \<Longrightarrow> drop_now s = Ret (map (effect_of DroppedFuture) (rev (view s)))"
    and close_view: "invar s \<Longrightarrow> may_close s \<Longrightarrow>
          close s = Ret (map (effect_of Awaited) (rev (view s)), Inr ())"
begin

lemma register_all_view:
  "invar s \<Longrightarrow> register_all reg es s = Inr s' \<Longrightarrow>
   invar s' \<and> view s' = view s @ es \<and> may_close s' = may_close s"
proof (induction es arbitrary: s)
  case Nil
  then show ?case by simp
next
  case (Cons e es)
  then obtain t where t: "reg e s = Inr t" and rest: "register_all reg es t = Inr s'"
    by (auto simp: result_bind_eq_Ok)
  from Cons.prems(1) t have "invar t" "view t = view s @ [e]" "may_close t = may_close s"
    using reg_flags by (auto dest: reg_invar reg_view)
  with Cons.IH [OF this(1) rest] show ?case by simp
qed

lemma register_all_ok:
  "invar s \<Longrightarrow> \<forall>e \<in> set es. ok e s \<Longrightarrow> \<exists>s'. register_all reg es s = Inr s'"
proof (induction es arbitrary: s)
  case Nil
  then show ?case by simp
next
  case (Cons e es)
  then obtain t where t: "reg e s = Inr t" using reg_ok [of s e] by auto
  have "\<forall>e' \<in> set es. ok e' t" using Cons.prems(2) reg_flags [OF t] by auto
  with Cons.IH [of t] reg_invar [OF Cons.prems(1) t] t show ?case by auto
qed

lemma close_reverses_registration:
  assumes "invar s" and "view s = []" and "may_close s" and "register_all reg es s = Inr s'"
  shows "close s' = Ret (map (effect_of Awaited) (rev es), Inr ())"
  using register_all_view [OF assms(1,4)] assms(2,3) by (simp add: close_view)

lemma drop_reverses_registration:
  assumes "invar s" and "view s = []" and "register_all reg es s = Inr s'"
  shows "drop_now s' = Ret (map (effect_of DroppedFuture) (rev es))"
  using register_all_view [OF assms(1,3)] assms(2) by (simp add: drop_view)

end

text \<open>
  What unwinding does to the entries a panic has left: it drops the items, then the futures, then
  runs the sync destructors, each group in the order of registration.
\<close>

definition unwound :: "'x entry list \<Rightarrow> 'x effect list" where
  "unwound es = map (effect_of DroppedFuture)
     ([e \<leftarrow> es. kind_of e = Item] @ [e \<leftarrow> es. kind_of e = Async] @ [e \<leftarrow> es. kind_of e = Sync])"

fun entry_label :: "'x entry \<Rightarrow> 'x" where
  "entry_label (SyncE x) = x" | "entry_label (AsyncE x) = x" | "entry_label (ItemE x) = x"

fun effect_label :: "'x effect \<Rightarrow> 'x" where
  "effect_label (Ran x) = x" | "effect_label (DroppedItem x) = x"
| "effect_label (Awaited x) = x" | "effect_label (DroppedFuture x) = x"

text \<open>What became of an entry: an async destructor may have been awaited or just dropped.\<close>

fun released :: "'x entry \<Rightarrow> 'x effect list \<Rightarrow> bool" where
  "released (SyncE x) es = (Ran x \<in> set es)"
| "released (AsyncE x) es = (Awaited x \<in> set es \<or> DroppedFuture x \<in> set es)"
| "released (ItemE x) es = (DroppedItem x \<in> set es)"

lemma effect_label_effect_of [simp]:
  "effect_label (effect_of Awaited e) = entry_label e"
  "effect_label (effect_of DroppedFuture e) = entry_label e"
  by (cases e; simp)+

lemma released_effect_of:
  "effect_of Awaited e \<in> set es \<Longrightarrow> released e es"
  "effect_of DroppedFuture e \<in> set es \<Longrightarrow> released e es"
  by (cases e; simp)+

lemma mset_kinds:
  "mset [e \<leftarrow> es. kind_of e = Item] + mset [e \<leftarrow> es. kind_of e = Async] +
   mset [e \<leftarrow> es. kind_of e = Sync] = mset es"
proof (induction es)
  case (Cons e es)
  then show ?case by (cases "kind_of e") (auto simp: ac_simps)
qed simp

lemma unwound_labels: "mset (map effect_label (unwound es)) = mset (map entry_label es)"
proof -
  have "mset (map effect_label (unwound es)) = image_mset entry_label
      (mset [e \<leftarrow> es. kind_of e = Item] + mset [e \<leftarrow> es. kind_of e = Async] +
       mset [e \<leftarrow> es. kind_of e = Sync])"
    by (simp add: unwound_def mset_map [symmetric] o_def)
  then show ?thesis by (simp only: mset_kinds mset_map)
qed

lemma awaited_labels:
  "mset (map effect_label (map (effect_of Awaited) (rev es))) = mset (map entry_label es)"
  by (simp add: image_mset.compositionality o_def)

lemma unwound_member: "e \<in> set es \<Longrightarrow> effect_of DroppedFuture e \<in> set (unwound es)"
  by (cases "kind_of e") (auto simp: unwound_def)

text \<open>The stack when a release can panic.\<close>

locale unwinding_stack = cleanup_stack +
  fixes close_joins :: "('b \<Rightarrow> string option) \<Rightarrow> 'a \<Rightarrow>
      ('b effect list \<times> (string, unit) result run) run"
  assumes joins_all: "invar s \<Longrightarrow> may_close s \<Longrightarrow>
          (\<And>f. AsyncE f \<in> set (view s) \<Longrightarrow> p f = None) \<Longrightarrow>
          close_joins p s = Ret (map (effect_of Awaited) (rev (view s)), Ret (Inr ()))"
    and joins_panic: "invar s \<Longrightarrow> may_close s \<Longrightarrow> view s = ys @ AsyncE f # xs \<Longrightarrow> p f = Some m \<Longrightarrow>
          (\<And>g. AsyncE g \<in> set xs \<Longrightarrow> p g = None) \<Longrightarrow>
          close_joins p s =
            Ret (map (effect_of Awaited) (rev xs) @ Awaited f # unwound ys, Panic m)"
begin

text \<open>With or without a panic every entry is released, and exactly once.\<close>

lemma joins_release_all:
  assumes "invar s" and "may_close s"
  shows "\<exists>es r. close_joins p s = Ret (es, r) \<and>
    mset (map effect_label es) = mset (map entry_label (view s)) \<and>
    (\<forall>e \<in> set (view s). released e es) \<and>
    (r = Ret (Inr ()) \<and> (\<forall>f. AsyncE f \<in> set (view s) \<longrightarrow> p f = None) \<or>
     (\<exists>f m. AsyncE f \<in> set (view s) \<and> p f = Some m \<and> r = Panic m))"
proof (cases "\<exists>e \<in> set (view s). \<exists>f. e = AsyncE f \<and> p f \<noteq> None")
  case True
  then obtain ys e xs where v: "view s = ys @ e # xs" and e: "\<exists>f. e = AsyncE f \<and> p f \<noteq> None"
    and last: "\<forall>x \<in> set xs. \<not> (\<exists>f. x = AsyncE f \<and> p f \<noteq> None)"
    using split_list_last_prop [of "view s" "\<lambda>e. \<exists>f. e = AsyncE f \<and> p f \<noteq> None"] by auto
  then obtain f m where f: "e = AsyncE f" "p f = Some m" by auto
  let ?es = "map (effect_of Awaited) (rev xs) @ Awaited f # unwound ys"
  have c: "close_joins p s = Ret (?es, Panic m)"
    using joins_panic [OF assms, of ys f xs p m] v f last by auto
  moreover have "mset (map effect_label ?es) = mset (map entry_label (view s))"
    using unwound_labels [of ys] awaited_labels [of xs] by (simp add: v f(1))
  moreover have "released e' ?es" if mem: "e' \<in> set (view s)" for e'
  proof -
    consider "e' \<in> set xs" | "e' = AsyncE f" | "e' \<in> set ys" using mem v f(1) by auto
    then show ?thesis
    proof cases
      case 1
      then show ?thesis by (intro released_effect_of(1)) simp
    next
      case 3
      then show ?thesis by (intro released_effect_of(2)) (simp add: unwound_member)
    qed simp
  qed
  moreover have "AsyncE f \<in> set (view s)" using v f(1) by simp
  ultimately show ?thesis using f(2) by blast
next
  case False
  then have "close_joins p s = Ret (map (effect_of Awaited) (rev (view s)), Ret (Inr ()))"
    using joins_all [OF assms, of p] by auto
  moreover have "released e (map (effect_of Awaited) (rev (view s)))" if "e \<in> set (view s)" for e
    using that by (intro released_effect_of(1)) simp
  ultimately show ?thesis using False awaited_labels [of "view s"] by blast
qed

end

section \<open>The set implements the stack\<close>

lemma syncs_append [simp]: "syncs (xs @ ys) = syncs xs @ syncs ys"
  by (induction xs rule: syncs.induct) simp_all

lemma asyncs_append [simp]: "asyncs (xs @ ys) = asyncs xs @ asyncs ys"
  by (induction xs rule: asyncs.induct) simp_all

lemma items_append [simp]: "items (xs @ ys) = items xs @ items ys"
  by (induction xs rule: items.induct) simp_all

lemma syncs_rev [simp]: "syncs (rev xs) = rev (syncs xs)"
  by (induction xs rule: syncs.induct) simp_all

lemma asyncs_rev [simp]: "asyncs (rev xs) = rev (asyncs xs)"
  by (induction xs rule: asyncs.induct) simp_all

lemma items_rev [simp]: "items (rev xs) = rev (items xs)"
  by (induction xs rule: items.induct) simp_all

lemma replay_views [simp]: "replay (map kind_of es) (syncs es) (asyncs es) (items es) = es"
proof (induction es)
  case (Cons e es)
  then show ?case by (cases e) simp_all
qed simp

lemma ds_rep_entries: "ds_rep es s \<Longrightarrow> entries s = es"
  by (simp add: ds_rep_def entries_def)

lemma ds_wf_iff:
  "ds_wf s \<longleftrightarrow> (\<exists>es. ds_rep es s \<and> (\<not> allow_async s \<longrightarrow> asyncs es = [])) \<and> \<not> already_ran s"
  by (auto simp: ds_wf_def dest: ds_rep_entries)

lemmas ds_state_defs = dc_new_def af_new_def dc_push_def dc_defer_def defer_new_def af_push_def
  dc_drain_def af_drain_def

lemma ds_rep_new:
  "ds_rep [] (ds_new n)" "ds_rep [] (ds_new_without_async n)"
  by (simp_all add: ds_rep_def ds_new_def ds_new_without_async_def ds_state_defs)

lemma register_rep:
  assumes "ds_rep es s" and "register e s = Inr s'"
  shows "ds_rep (es @ [e]) s'"
  using assms by (cases e) (auto simp: ds_rep_def add_sync_destructor_def
      add_async_destructor_def add_items_to_drop_def ds_state_defs split: if_splits)

lemma register_flags:
  assumes "register e s = Inr s'"
  shows "\<not> already_ran s" "already_ran s' = already_ran s" "allow_async s' = allow_async s"
    "ds_name s' = ds_name s" "\<not> allow_async s \<Longrightarrow> asyncs [e] = []"
  using assms by (cases e; auto simp: add_sync_destructor_def
      add_async_destructor_def add_items_to_drop_def split: if_splits)+

lemma register_wf:
  assumes "ds_wf s" and "register e s = Inr s'"
  shows "ds_wf s'"
proof -
  from assms(1) have "ds_rep (entries s) s" by (simp add: ds_wf_def)
  then have "ds_rep (entries s @ [e]) s'" using assms(2) by (rule register_rep)
  moreover have "asyncs (entries s @ [e]) = []" if "\<not> allow_async s"
    using that assms(1) register_flags(5) [OF assms(2)] by (simp add: ds_wf_def)
  ultimately show ?thesis
    using assms(1) register_flags(2,3) [OF assms(2)] unfolding ds_wf_iff by auto
qed

lemma register_entries: "ds_wf s \<Longrightarrow> register e s = Inr s' \<Longrightarrow> entries s' = entries s @ [e]"
  by (auto simp: ds_wf_def dest: register_rep ds_rep_entries)

lemma register_accepted: "ds_wf s \<Longrightarrow> accepts e s \<Longrightarrow> \<exists>s'. register e s = Inr s'"
  by (cases e) (auto simp: ds_wf_def add_sync_destructor_def
      add_async_destructor_def add_items_to_drop_def)

lemma run_order_views:
  "run_order h (map kind_of es) (syncs es) (asyncs es) (items es) =
   Ret (map (effect_of h) es, [], [], [])"
proof (induction es)
  case (Cons e es)
  then show ?case by (cases e) simp_all
qed simp

lemma run_drains_rep: "ds_rep es s \<Longrightarrow> run_drains h s = Ret (map (effect_of h) (rev es))"
  using run_order_views [of h "rev es"]
  by (simp add: run_drains_def ds_rep_def ds_state_defs rev_map)

lemma drop_fields_emptied [simp]:
  "drop_fields (emptied s) = Ret []" "drop_fields ((emptied s)\<lparr>already_ran := b\<rparr>) = Ret []"
  by (simp_all add: drop_fields_def emptied_def ds_state_defs)

lemma ds_drop_rep:
  "ds_rep es s \<Longrightarrow> \<not> already_ran s \<Longrightarrow>
   ds_drop s = Ret (map (effect_of DroppedFuture) (rev es))"
  by (simp add: ds_drop_def run_drains_rep)

lemma async_drop_rep:
  "ds_rep es s \<Longrightarrow> \<not> already_ran s \<Longrightarrow> allow_async s \<Longrightarrow>
   async_drop s = Ret (map (effect_of Awaited) (rev es), Inr ())"
  by (simp add: async_drop_def run_drains_rep ds_drop_def)

interpretation dset: cleanup_stack ds_wf entries register accepts ds_drop async_drop allow_async
proof (unfold_locales, goal_cases)
  case (1 s e)
  then show ?case by (rule register_accepted)
next
  case (2 s e s')
  then show ?case by (rule register_wf)
next
  case (3 s e s')
  then show ?case by (rule register_entries)
next
  case (4 e s s' e')
  then show ?case using register_flags(3) by (cases e') auto
next
  case (5 s)
  then show ?case by (simp add: ds_wf_def ds_drop_rep)
next
  case (6 s)
  then show ?case by (simp add: ds_wf_def async_drop_rep)
qed

lemma run_joins_views:
  assumes "\<And>g. AsyncE g \<in> set xs \<Longrightarrow> p g = None"
  shows "run_joins p (map kind_of (xs @ ys)) (syncs (xs @ ys)) (asyncs (xs @ ys)) (items (xs @ ys)) =
    run_bind (run_joins p (map kind_of ys) (syncs ys) (asyncs ys) (items ys))
      (\<lambda>(es, r). Ret (map (effect_of Awaited) xs @ es, r))"
  using assms
proof (induction xs)
  case Nil
  show ?case by (cases "run_joins p (map kind_of ys) (syncs ys) (asyncs ys) (items ys)") auto
next
  case (Cons e xs)
  then show ?case
    by (cases e; cases "run_joins p (map kind_of ys) (syncs ys) (asyncs ys) (items ys)") auto
qed

lemma drop_all_views:
  "drop_all (items es) = Ret (map (effect_of DroppedFuture) [e \<leftarrow> es. kind_of e = Item])"
  "drop_all (syncs es) = Ret (map (effect_of DroppedFuture) [e \<leftarrow> es. kind_of e = Sync])"
  "map DroppedFuture (asyncs es) = map (effect_of DroppedFuture) [e \<leftarrow> es. kind_of e = Async]"
proof (induction es)
  case (Cons e es)
  { case 1 then show ?case using Cons by (cases e) simp_all }
  { case 2 then show ?case using Cons by (cases e) simp_all }
  { case 3 then show ?case using Cons by (cases e) simp_all }
qed simp_all

lemma ds_drop_emptied [simp]: "ds_drop ((emptied s)\<lparr>already_ran := b\<rparr>) = Ret []"
  by (simp add: ds_drop_def run_drains_def drop_fields_def emptied_def ds_state_defs)

lemma async_drop_joins_rep:
  assumes "ds_rep es s" and "\<not> already_ran s" and "allow_async s"
  shows "async_drop_joins p s =
    run_bind (run_joins p (map kind_of (rev es)) (syncs (rev es)) (asyncs (rev es)) (items (rev es)))
      (\<lambda>(es, panicked, sf, af, it). run_bind (drop_all (rev it)) (\<lambda>e1.
         run_bind (drop_all (rev sf)) (\<lambda>e2.
           Ret (es @ e1 @ map DroppedFuture (rev af) @ e2,
                case panicked of None \<Rightarrow> Ret (Inr ()) | Some m \<Rightarrow> Panic m))))"
  using assms by (simp add: async_drop_joins_def ds_rep_def ds_state_defs rev_map)

interpretation dset: unwinding_stack ds_wf entries register accepts ds_drop async_drop allow_async
  async_drop_joins
proof (unfold_locales, goal_cases)
  case (1 s p)
  then have "ds_rep (entries s) s" "\<not> already_ran s" by (simp_all add: ds_wf_def)
  moreover have "run_joins p (map kind_of (rev (entries s))) (syncs (rev (entries s)))
      (asyncs (rev (entries s))) (items (rev (entries s))) =
      Ret (map (effect_of Awaited) (rev (entries s)), None, [], [], [])"
    using 1(3) run_joins_views [of "rev (entries s)" p "[]"] by simp
  ultimately show ?case using 1(2) by (simp add: async_drop_joins_rep)
next
  case (2 s ys f xs p m)
  then have "ds_rep (entries s) s" "\<not> already_ran s" by (simp_all add: ds_wf_def)
  moreover have "run_joins p (map kind_of (rev (entries s))) (syncs (rev (entries s)))
      (asyncs (rev (entries s))) (items (rev (entries s))) =
      Ret (map (effect_of Awaited) (rev xs) @ [Awaited f], Some m, syncs (rev ys), asyncs (rev ys),
        items (rev ys))"
    using 2(4,5) run_joins_views [of "rev xs" p "AsyncE f # rev ys"] by (simp add: 2(3))
  ultimately show ?case
    using 2(2) by (simp add: async_drop_joins_rep drop_all_views unwound_def)
qed

text \<open>Without panics this is \<open>async_drop\<close>, for every set.\<close>

lemma run_joins_no_panic:
  "run_joins (\<lambda>_. None) os sf af it =
   run_bind (run_order Awaited os sf af it) (\<lambda>(es, r). Ret (es, None, r))"
proof (induction "Awaited :: 'a \<Rightarrow> 'a effect" os sf af it rule: run_order.induct)
  case (2 os sf af it)
  show ?case
  proof (cases sf)
    case (Cons f sf')
    then show ?thesis
      using "2.hyps" by (cases "drop_boxed f"; cases "run_order Awaited os sf' af it") auto
  qed simp
next
  case (3 os sf af it)
  show ?case
  proof (cases af)
    case (Cons f af')
    then show ?thesis using "3.hyps" by (cases "run_order Awaited os sf af' it") auto
  qed simp
next
  case (4 os sf af it)
  show ?case
  proof (cases it)
    case (Cons i it')
    then show ?thesis
      using "4.hyps" by (cases "drop_boxed i"; cases "run_order Awaited os sf af it'") auto
  qed simp
qed simp

lemma async_drop_joins_no_panic:
  "async_drop_joins (\<lambda>_. None) s = run_bind (async_drop s) (\<lambda>(es, r). Ret (es, Ret r))"
proof -
  consider "already_ran s" | "\<not> already_ran s" "\<not> allow_async s"
    | "\<not> already_ran s" "allow_async s" by blast
  then show ?thesis
  proof cases
    case 3
    show ?thesis
    proof (cases "run_order Awaited (rev (ds_order s)) (rev (fst (dc_drain (sync_destructors s))))
        (rev (fst (af_drain (async_destructors s)))) (rev (fst (dc_drain (items_to_drop s))))")
      case (Ret x)
      then obtain es sf af it where x: "x = (es, sf, af, it)" by (metis prod_cases4)
      show ?thesis
        using 3 Ret x by (cases "drop_all (rev it)"; cases "drop_all (rev sf)")
          (simp_all add: async_drop_joins_def async_drop_def run_drains_def run_joins_no_panic)
    qed (use 3 in \<open>simp add: async_drop_joins_def async_drop_def run_drains_def run_joins_no_panic\<close>)
  qed (cases "ds_drop s"; simp add: async_drop_joins_def async_drop_def)+
qed

lemma ds_wf_new [simp]: "ds_wf (ds_new n)" "ds_wf (ds_new_without_async n)"
  using ds_rep_new [of n] by (auto simp: ds_wf_iff ds_new_def ds_new_without_async_def)

lemma entries_new [simp]: "entries (ds_new n) = []" "entries (ds_new_without_async n) = []"
  using ds_rep_new [of n] by (auto dest: ds_rep_entries)

lemma flags_new [simp]:
  "allow_async (ds_new n)" "\<not> allow_async (ds_new_without_async n)"
  "\<not> already_ran (ds_new n)" "\<not> already_ran (ds_new_without_async n)"
  "ds_name (ds_new n) = n" "ds_name (ds_new_without_async n) = n"
  by (simp_all add: ds_new_def ds_new_without_async_def)

lemma ds_api_wf: "ds_api s \<Longrightarrow> ds_wf s"
proof (induction rule: ds_api.induct)
  case (api_sync s f s')
  then show ?case using register_wf [of s "SyncE f" s'] by simp
next
  case (api_async s f s')
  then show ?case using register_wf [of s "AsyncE f" s'] by simp
next
  case (api_item s f s')
  then show ?case using register_wf [of s "ItemE f" s'] by simp
qed simp_all

lemma register_api: "ds_api s \<Longrightarrow> register e s = Inr s' \<Longrightarrow> ds_api s'"
  by (cases e) (auto intro: ds_api.intros)

lemma register_all_api: "ds_api s \<Longrightarrow> register_all register es s = Inr s' \<Longrightarrow> ds_api s'"
proof (induction es arbitrary: s)
  case (Cons e es)
  then show ?case using register_api by (fastforce simp: result_bind_eq_Ok)
qed simp

lemma register_all_name: "register_all register es s = Inr s' \<Longrightarrow> ds_name s' = ds_name s"
proof (induction es arbitrary: s)
  case (Cons e es)
  then obtain t where "register e s = Inr t" "register_all register es t = Inr s'"
    by (auto simp: result_bind_eq_Ok)
  with Cons.IH [of t] show ?case by (simp add: register_flags(4))
qed simp

lemma register_any:
  "\<exists>s. register_all register es (ds_new n) = Inr s \<and> ds_wf s \<and> entries s = es \<and> allow_async s"
proof -
  have "accepts e (ds_new n)" for e :: "'x entry" by (cases e) simp_all
  then obtain s where "register_all register es (ds_new n) = Inr s"
    using dset.register_all_ok [of "ds_new n" es] by auto
  then show ?thesis using dset.register_all_view [of "ds_new n" es s] by auto
qed

section \<open>Properties\<close>

text \<open>C3: Teardown is exactly the reverse of registration. Any sequence of sync destructors,
  async destructors and items is accepted by a set made with \<open>DestructorSet::new\<close>, and
  \<open>async_drop\<close> then succeeds without a panic, running, awaiting or dropping each of them once,
  in the reverse of the order they were added, although they live in three separate vectors.\<close>
theorem async_drop_reverse_registration:
  "\<exists>s. register_all register es (ds_new n) = Inr s \<and>
       async_drop s = Ret (map (effect_of Awaited) (rev es), Inr ())"
  using register_any [of es n] dset.close_view by blast

text \<open>C18: Teardown is complete even when tasks have panicked. Joining such a task panics in the middle
  of \<open>async_drop\<close>, whose own loop then never reaches the rest; but unwinding does, so every entry is
  still released exactly once: each sync destructor has run, each item is dropped, and each async
  destructor was awaited or at least dropped, which signals its task. The call ends with the panic
  of a task that did panic, and only when there is one.\<close>
theorem async_drop_unwinds_completely:
  "\<exists>s effs r. register_all register es (ds_new n) = Inr s \<and>
     async_drop_joins p s = Ret (effs, r) \<and>
     mset (map effect_label effs) = mset (map entry_label es) \<and>
     (\<forall>e \<in> set es. released e effs) \<and>
     (r = Ret (Inr ()) \<and> (\<forall>f. AsyncE f \<in> set es \<longrightarrow> p f = None) \<or>
      (\<exists>f m. AsyncE f \<in> set es \<and> p f = Some m \<and> r = Panic m))"
proof -
  obtain s where s: "register_all register es (ds_new n) = Inr s"
    and v: "ds_wf s" "entries s = es" "allow_async s"
    using register_any [of es n] by blast
  show ?thesis using dset.joins_release_all [OF v(1,3), of p] s unfolding v(2) by blast
qed

theorem async_drop_unwinds_completely_witness:
  "\<exists>s effs. register_all register [SyncE (1::nat), AsyncE 2, ItemE 3] (ds_new ''farmer'') = Inr s \<and>
     async_drop_joins (\<lambda>x. if x = 2 then Some ''joining should not fail'' else None) s =
       Ret (effs, Panic ''joining should not fail'') \<and> Ran 1 \<in> set effs \<and> DroppedItem 3 \<in> set effs"
  using async_drop_unwinds_completely [of "[SyncE (1::nat), AsyncE 2, ItemE 3]" "''farmer''"
      "\<lambda>x. if x = 2 then Some ''joining should not fail'' else None"] by auto

text \<open>C33: Dropping a destructor set a program can build (by the two constructors and the three
  adders) never hits one of the \<open>expect\<close> calls of its \<open>Drop\<close> body: sync destructors run and
  items are dropped in reverse registration order, while async destructors are dropped without
  being run.\<close>
theorem ds_drop_never_panics:
  assumes "ds_api s"
  shows "ds_drop s = Ret (map (effect_of DroppedFuture) (rev (entries s)))"
  using ds_api_wf [OF assms] by (rule dset.drop_view)

theorem ds_drop_never_panics_witness:
  "\<exists>s. ds_api s \<and> ds_drop s = Ret [DroppedItem (3::nat), DroppedFuture 2, Ran 1]"
proof -
  let ?es = "[SyncE (1::nat), AsyncE 2, ItemE 3]"
  obtain s where s: "register_all register ?es (ds_new ''node'') = Inr s"
    by (simp add: add_sync_destructor_def add_async_destructor_def add_items_to_drop_def
        ds_new_def)
  then have api: "ds_api s" by (rule register_all_api [OF api_new])
  have "entries s = ?es"
    using dset.register_all_view [OF _ s] by simp
  with ds_drop_never_panics [OF api] api show ?thesis by auto
qed



text \<open>C35: A set made without async support refuses async destructors, and \<open>async_drop\<close> on it
  reports an error telling the caller to drop the instance; yet the error path itself drops it,
  so every sync destructor has already run and every item is gone when the error is returned.\<close>
theorem async_drop_sync_only_runs_and_fails:
  assumes "asyncs es = []"
  shows "\<exists>s. register_all register es (ds_new_without_async n) = Inr s \<and>
           async_drop s = Ret (map (effect_of DroppedFuture) (rev es), Inl (err_sync_only n)) \<and>
           add_async_destructor fut s = Inl (err_async n)"
proof -
  have "accepts e (ds_new_without_async n)" if "e \<in> set es" for e
  proof -
    from that obtain xs ys where "es = xs @ [e] @ ys" by (auto dest: split_list)
    with assms show ?thesis by (cases e) simp_all
  qed
  then obtain s where s: "register_all register es (ds_new_without_async n) = Inr s"
    using dset.register_all_ok [of "ds_new_without_async n" es] by auto
  have v: "ds_wf s" "\<not> allow_async s"
    using dset.register_all_view [OF _ s] by simp_all
  have d: "ds_drop s = Ret (map (effect_of DroppedFuture) (rev es))"
    by (rule dset.drop_reverses_registration [OF _ _ s]) simp_all
  have nm: "ds_name s = n" using s by (auto dest: register_all_name)
  from v d nm have "async_drop s =
      Ret (map (effect_of DroppedFuture) (rev es), Inl (err_sync_only n))"
    by (simp add: async_drop_def ds_wf_def)
  moreover have "add_async_destructor fut s = Inl (err_async n)"
    using v nm by (simp add: add_async_destructor_def ds_wf_def)
  ultimately show ?thesis using s by blast
qed

theorem async_drop_sync_only_runs_and_fails_witness:
  "asyncs [ItemE (1::nat), SyncE 2] = [] \<and>
   (\<exists>s. register_all register [ItemE (1::nat), SyncE 2] (ds_new_without_async ''dsn'') = Inr s \<and>
        async_drop s = Ret ([Ran 2, DroppedItem 1], Inl (err_sync_only ''dsn'')))"
  using async_drop_sync_only_runs_and_fails [of "[ItemE (1::nat), SyncE 2]" "''dsn''" 0] by auto

end
