(* ===== verification/Dsn.thy ===== *)
theory Dsn
  imports Substrate_Config Destructors
begin

text \<open>
  The \<open>sdk-dsn\<close> crate (\<^verbatim>\<open>dsn/src/builder.rs\<close>, \<^verbatim>\<open>local_provider_record_utils.rs\<close>): DSN
  settings, builder and presets, the state shared between node and farmer, and \<open>build_dsn\<close>.
  The two slots behind \<open>Arc<Mutex<Option<..>>>\<close> and \<open>Arc<RwLock<Option<..>>>\<close> are the
  record \<open>slots\<close>; request handlers are functions of the slots at the time of the request. The
  networking crate (address conversion, known-peers database, \<open>construct\<close>) is the record
  \<open>dsn_env\<close> of arguments.
\<close>

section \<open>Settings\<close>

record ('ma, 'mp) dsn =
  dsn_provider_storage_path :: "path option"
  dsn_listen_addresses :: "'ma list"
  dsn_boot_nodes :: "'mp list"
  dsn_external_addresses :: "'ma list"
  dsn_reserved_nodes :: "'ma list"
  dsn_allow_non_global_addresses_in_dht :: bool
  dsn_in_connections :: u32
  dsn_out_connections :: u32
  dsn_pending_in_connections :: u32
  dsn_pending_out_connections :: u32
  dsn_target_connections :: u32

text \<open>\<open>ListenAddresses\<close> and the five connection limits have their own defaults.\<close>

definition listen_addresses_default :: "(string \<Rightarrow> 'ma option) \<Rightarrow> 'ma list run" where
  [cfg_defs]: "listen_addresses_default parse =
     run_bind (expect ''Always valid'' (parse ''/ip4/127.0.0.1/tcp/0'')) (\<lambda>a. Ret [a])"

definition in_connections_default :: u32 where [cfg_defs]: "in_connections_default = 300"
definition out_connections_default :: u32 where [cfg_defs]: "out_connections_default = 150"
definition target_connections_default :: u32 where [cfg_defs]: "target_connections_default = 15"
definition pending_in_connections_default :: u32 where
  [cfg_defs]: "pending_in_connections_default = 100"
definition pending_out_connections_default :: u32 where
  [cfg_defs]: "pending_out_connections_default = 150"

definition dsn_default :: "(string \<Rightarrow> 'ma option) \<Rightarrow> ('ma, 'mp) dsn run" where
  [cfg_defs]: "dsn_default parse = run_bind (listen_addresses_default parse) (\<lambda>la.
     Ret \<lparr>dsn_provider_storage_path = None, dsn_listen_addresses = la, dsn_boot_nodes = [],
          dsn_external_addresses = [], dsn_reserved_nodes = [],
          dsn_allow_non_global_addresses_in_dht = False,
          dsn_in_connections = in_connections_default,
          dsn_out_connections = out_connections_default,
          dsn_pending_in_connections = pending_in_connections_default,
          dsn_pending_out_connections = pending_out_connections_default,
          dsn_target_connections = target_connections_default\<rparr>)"

record ('ma, 'mp) dsn_builder =
  db_provider_storage_path :: "path option option"
  db_listen_addresses :: "'ma list option"
  db_boot_nodes :: "'mp list option"
  db_external_addresses :: "'ma list option"
  db_reserved_nodes :: "'ma list option"
  db_allow_non_global_addresses_in_dht :: "bool option"
  db_in_connections :: "u32 option"
  db_out_connections :: "u32 option"
  db_pending_in_connections :: "u32 option"
  db_pending_out_connections :: "u32 option"
  db_target_connections :: "u32 option"

definition dsn_builder_new :: "('ma, 'mp) dsn_builder" where
  [cfg_defs]: "dsn_builder_new = \<lparr>db_provider_storage_path = None, db_listen_addresses = None,
     db_boot_nodes = None, db_external_addresses = None, db_reserved_nodes = None,
     db_allow_non_global_addresses_in_dht = None, db_in_connections = None,
     db_out_connections = None, db_pending_in_connections = None,
     db_pending_out_connections = None, db_target_connections = None\<rparr>"

text \<open>A default is computed only for a field that was not set.\<close>

definition dsn_build :: "(string \<Rightarrow> 'ma option) \<Rightarrow> ('ma, 'mp) dsn_builder \<Rightarrow> ('ma, 'mp) dsn run" where
  [cfg_defs]: "dsn_build parse b =
     run_bind (case db_listen_addresses b of Some la \<Rightarrow> Ret la
               | None \<Rightarrow> listen_addresses_default parse) (\<lambda>la.
     Ret \<lparr>dsn_provider_storage_path = unwrap_or (db_provider_storage_path b) None,
          dsn_listen_addresses = la, dsn_boot_nodes = unwrap_or (db_boot_nodes b) [],
          dsn_external_addresses = unwrap_or (db_external_addresses b) [],
          dsn_reserved_nodes = unwrap_or (db_reserved_nodes b) [],
          dsn_allow_non_global_addresses_in_dht =
            unwrap_or (db_allow_non_global_addresses_in_dht b) False,
          dsn_in_connections = unwrap_or (db_in_connections b) in_connections_default,
          dsn_out_connections = unwrap_or (db_out_connections b) out_connections_default,
          dsn_pending_in_connections =
            unwrap_or (db_pending_in_connections b) pending_in_connections_default,
          dsn_pending_out_connections =
            unwrap_or (db_pending_out_connections b) pending_out_connections_default,
          dsn_target_connections =
            unwrap_or (db_target_connections b) target_connections_default\<rparr>)"

definition dsn_dev :: "('ma, 'mp) dsn_builder" where
  [cfg_defs]: "dsn_dev = dsn_builder_new\<lparr>db_allow_non_global_addresses_in_dht := Some True\<rparr>"

definition dsn_gemini_3g :: "(string \<Rightarrow> 'ma option) \<Rightarrow> ('ma, 'mp) dsn_builder run" where
  [cfg_defs]: "dsn_gemini_3g parse =
     run_bind (parse_hardcoded parse ''/ip6/::/tcp/30433'') (\<lambda>a6.
       run_bind (parse_hardcoded parse ''/ip4/0.0.0.0/tcp/30433'') (\<lambda>a4.
         Ret (dsn_builder_new\<lparr>db_listen_addresses := Some [a6, a4]\<rparr>)))"

definition dsn_devnet :: "(string \<Rightarrow> 'ma option) \<Rightarrow> ('ma, 'mp) dsn_builder run" where
  [cfg_defs]: "dsn_devnet parse =
     run_bind (parse_hardcoded parse ''/ip6/::/tcp/30433'') (\<lambda>a6.
       run_bind (parse_hardcoded parse ''/ip4/0.0.0.0/tcp/30433'') (\<lambda>a4.
         Ret (dsn_builder_new\<lparr>db_listen_addresses := Some [a6, a4]\<rparr>)))"

section \<open>Shared state\<close>

record ('rp, 'pc) slots =
  farmer_readers_and_pieces :: "'rp option"
  farmer_piece_cache :: "'pc option"

text \<open>\<open>MaybeLocalRecordProvider::record\<close>: look the key up in the cache, if there is one.\<close>

definition local_record :: "('pc \<Rightarrow> 'key \<Rightarrow> 'rec option) \<Rightarrow> ('rp, 'pc) slots \<Rightarrow> 'key \<Rightarrow> 'rec option" where
  "local_record record_of s k =
     unwrap_or (map_option (\<lambda>v. record_of v k) (farmer_piece_cache s)) None"

datatype dsn_label = OnNewListener

record ('node, 'rp, 'pc) dsn_shared =
  shared_node :: 'node
  shared_slots :: "('rp, 'pc) slots"
  shared_destructors :: "dsn_label destructor_set"

section \<open>Building the DSN\<close>

text \<open>The handlers and the segment header store of \<open>DsnOptions\<close>.\<close>

record ('rp, 'pc, 'preq, 'presp, 'store, 'sreq, 'sresp) dsn_options =
  opt_genesis_hash :: string
  opt_base_path :: path
  opt_keypair :: bytes
  opt_get_piece_by_index :: "'preq \<Rightarrow> 'rp option option \<Rightarrow> 'pc option \<Rightarrow> 'presp option"
  opt_get_segment_header_by_segment_indexes :: "'sreq \<Rightarrow> 'store \<Rightarrow> 'sresp option"
  opt_segment_header_store :: 'store
  opt_is_metrics_enabled :: bool

record ('na, 'peer, 'kp, 'rp, 'pc, 'preq, 'presp, 'sreq, 'sresp) networking_config =
  ncfg_protocol_version :: string
  ncfg_keypair :: bytes
  ncfg_listen_on :: "'na list"
  ncfg_allow_non_global_addresses_in_dht :: bool
  ncfg_networking_parameters_registry :: 'kp
  ncfg_piece_handler :: "('rp, 'pc) slots \<Rightarrow> 'preq \<Rightarrow> 'presp option"
  ncfg_segment_handler :: "'sreq \<Rightarrow> 'sresp option"
  ncfg_reserved_peers :: "'na list"
  ncfg_max_established_incoming_connections :: u32
  ncfg_max_established_outgoing_connections :: u32
  ncfg_max_pending_incoming_connections :: u32
  ncfg_max_pending_outgoing_connections :: u32
  ncfg_bootstrap_addresses :: "'na list"
  ncfg_external_addresses :: "'na list"
  ncfg_general_connected_peers_target :: u32
  ncfg_special_connected_peers_target :: u32
  ncfg_general_connected_peers_limit :: u32
  ncfg_special_connected_peers_limit :: u32
  ncfg_metrics :: bool

record ('ma, 'mp, 'na, 'peer, 'kp, 'cfg, 'node, 'runner) dsn_env =
  de_into_addr :: "'ma \<Rightarrow> 'na"
  de_into_boot :: "'mp \<Rightarrow> 'na"
  de_hex :: "string \<Rightarrow> string"
  de_strip_peer_id :: "'na list \<Rightarrow> ('peer \<times> 'na) list"
  de_known_peers_new :: "path \<Rightarrow> 'peer set \<Rightarrow> (string, 'kp) result"
  de_construct :: "'cfg \<Rightarrow> (string, 'node \<times> 'runner) result"

text \<open>The connection limits; the sum is a plain \<open>u32\<close> addition.\<close>

definition connected_peers_limits :: "overflow_checks \<Rightarrow> u32 \<Rightarrow> u32 \<Rightarrow> (u32 \<times> u32) run" where
  "connected_peers_limits mode target max_in =
     run_bind (add_arith mode target (max_in div 4)) (\<lambda>special. Ret (max_in div 4, special))"

definition dsn_networking_config ::
  "overflow_checks \<Rightarrow> ('ma, 'mp, 'na, 'peer, 'kp, 'cfg, 'node, 'runner) dsn_env \<Rightarrow>
   ('ma, 'mp) dsn \<Rightarrow> ('rp, 'pc, 'preq, 'presp, 'store, 'sreq, 'sresp) dsn_options \<Rightarrow> 'kp \<Rightarrow>
   ('na, 'peer, 'kp, 'rp, 'pc, 'preq, 'presp, 'sreq, 'sresp) networking_config run" where
  "dsn_networking_config mode env d opts registry =
     run_bind (connected_peers_limits mode (dsn_target_connections d) (dsn_in_connections d))
       (\<lambda>(general, special). Ret
          \<lparr>ncfg_protocol_version = de_hex env (opt_genesis_hash opts),
           ncfg_keypair = opt_keypair opts,
           ncfg_listen_on = map (de_into_addr env) (dsn_listen_addresses d),
           ncfg_allow_non_global_addresses_in_dht = dsn_allow_non_global_addresses_in_dht d,
           ncfg_networking_parameters_registry = registry,
           ncfg_piece_handler = (\<lambda>s req. opt_get_piece_by_index opts req
              (Some (farmer_readers_and_pieces s)) (farmer_piece_cache s)),
           ncfg_segment_handler = (\<lambda>req. opt_get_segment_header_by_segment_indexes opts req
              (opt_segment_header_store opts)),
           ncfg_reserved_peers = map (de_into_addr env) (dsn_reserved_nodes d),
           ncfg_max_established_incoming_connections = dsn_in_connections d,
           ncfg_max_established_outgoing_connections = dsn_out_connections d,
           ncfg_max_pending_incoming_connections = dsn_pending_in_connections d,
           ncfg_max_pending_outgoing_connections = dsn_pending_out_connections d,
           ncfg_bootstrap_addresses = map (de_into_boot env) (dsn_boot_nodes d),
           ncfg_external_addresses = map (de_into_addr env) (dsn_external_addresses d),
           ncfg_general_connected_peers_target = 0,
           ncfg_special_connected_peers_target = dsn_target_connections d,
           ncfg_general_connected_peers_limit = general,
           ncfg_special_connected_peers_limit = special,
           ncfg_metrics = opt_is_metrics_enabled opts\<rparr>)"

text \<open>
  Returns the shared state, the runner and whether a metrics registry is handed out.
  \<open>IGNORED_PEERS\<close> of the known-peers database are the peers of the boot nodes.
\<close>

definition build_dsn ::
  "overflow_checks \<Rightarrow> ('ma, 'mp, 'na, 'peer, 'kp,
     ('na, 'peer, 'kp, 'rp, 'pc, 'preq, 'presp, 'sreq, 'sresp) networking_config,
     'node, 'runner) dsn_env \<Rightarrow> ('ma, 'mp) dsn \<Rightarrow>
   ('rp, 'pc, 'preq, 'presp, 'store, 'sreq, 'sresp) dsn_options \<Rightarrow>
   (string, ('node, 'rp, 'pc) dsn_shared \<times> 'runner \<times> bool) result run" where
  "build_dsn mode env d opts =
     (let boot = map (de_into_boot env) (dsn_boot_nodes d)
      in try_bind (Ret (map_err (\<lambda>e. ''Failed to open known addresses database for DSN'')
             (de_known_peers_new env (join (opt_base_path opts) ''known_addresses.bin'')
                (set (map fst (de_strip_peer_id env boot)))))) (\<lambda>registry.
         run_bind (dsn_networking_config mode env d opts registry) (\<lambda>config.
           try_bind (Ret (de_construct env config)) (\<lambda>(node, runner).
             try_bind (Ret (add_items_to_drop OnNewListener
                 (ds_new_without_async ''dsn-destructors''))) (\<lambda>destructors.
               Ret (Inr (\<lparr>shared_node = node,
                          shared_slots = \<lparr>farmer_readers_and_pieces = None,
                                          farmer_piece_cache = None\<rparr>,
                          shared_destructors = destructors\<rparr>,
                         runner, opt_is_metrics_enabled opts)))))))"

section \<open>Builder and limits\<close>

interpretation dsn_bld: config_builder dsn_builder_new "dsn_build parse" "dsn_default parse" for parse
  by unfold_locales (simp add: cfg_defs)

lemma connected_peers_limits_fit:
  assumes "unat target + unat max_in div 4 < 2 ^ 32"
  shows "connected_peers_limits mode target max_in = Ret (max_in div 4, target + max_in div 4)"
    and "unat (target + max_in div 4) = unat target + unat max_in div 4"
  using assms unat_add_fits [of target "max_in div 4"]
  by (simp_all add: connected_peers_limits_def add_arith_def arith_def unat_word_div)

lemma dsn_networking_config_limits:
  assumes "dsn_networking_config mode env d opts registry = Ret cfg"
  shows "connected_peers_limits mode (dsn_target_connections d) (dsn_in_connections d) =
      Ret (ncfg_general_connected_peers_limit cfg, ncfg_special_connected_peers_limit cfg)"
    "ncfg_special_connected_peers_target cfg = dsn_target_connections d"
    "ncfg_max_established_incoming_connections cfg = dsn_in_connections d"
  using assms by (auto simp: dsn_networking_config_def run_bind_eq_Ret)

section \<open>Properties\<close>


definition demo_dsn_env ::
  "(string, nat, string, nat, unit, (string, nat, unit, nat, nat, nat, nat, nat, nat) networking_config,
    nat, nat) dsn_env" where
  "demo_dsn_env = \<lparr>de_into_addr = id, de_into_boot = (\<lambda>_. ''boot''), de_hex = id,
     de_strip_peer_id = map (\<lambda>a. (length a, a)), de_known_peers_new = (\<lambda>_ _. Inr ()),
     de_construct = (\<lambda>_. Inr (1, 2))\<rparr>"

definition demo_dsn_options :: "(nat, nat, nat, nat, unit, nat, nat) dsn_options" where
  "demo_dsn_options = \<lparr>opt_genesis_hash = ''00'', opt_base_path = [''node''], opt_keypair = [1],
     opt_get_piece_by_index = (\<lambda>_ _ _. None),
     opt_get_segment_header_by_segment_indexes = (\<lambda>_ _. None),
     opt_segment_header_store = (), opt_is_metrics_enabled = False\<rparr>"


text \<open>The Gemini 3g and the devnet presets of the DSN, network, RPC and offchain-worker
  settings are the same configuration, and a fresh builder of each of them builds exactly the
  \<open>Default\<close> value that serialisation leaves out.\<close>
theorem presets_and_defaults_agree:
  "dsn_gemini_3g parse = dsn_devnet parse \<and> network_gemini_3g parse = network_devnet parse \<and>
   rpc_gemini_3g = rpc_devnet \<and> offchain_worker_gemini_3g = offchain_worker_devnet \<and>
   dsn_build parse dsn_builder_new = dsn_default parse \<and>
   is_default rpc_default (rpc_build rpc_builder_new) \<and>
   is_default network_default (network_build network_builder_new) \<and>
   is_default (base_default e) (base_build e base_builder_new) \<and>
   is_default offchain_worker_default (offchain_worker_build offchain_worker_builder_new)"
  by (simp add: is_default_def dsn_bld.build_fresh rpc_bld.build_fresh network_bld.build_fresh
      base_bld.build_fresh offchain_worker_bld.build_fresh)
     (simp add: cfg_defs)

lemma build_dsn_shared:
  assumes "build_dsn mode env d opts = Ret (Inr (shared, runner, metrics))"
  shows "shared_slots shared = \<lparr>farmer_readers_and_pieces = None, farmer_piece_cache = None\<rparr> \<and>
    metrics = opt_is_metrics_enabled opts"
  using assms by (auto simp: build_dsn_def Let_def try_bind_eq_Ok run_bind_eq_Ret)

text \<open>A freshly built DSN serves nothing of a farmer: both shared slots are empty, local
  record lookups find nothing, and the only registered teardown action is the drop of the
  listener handler.\<close>
theorem build_dsn_starts_empty:
  assumes "build_dsn mode env d opts = Ret (Inr (shared, runner, metrics))"
  shows "farmer_readers_and_pieces (shared_slots shared) = None \<and>
    farmer_piece_cache (shared_slots shared) = None \<and>
    local_record record_of (shared_slots shared) k = None \<and>
    ds_drop (shared_destructors shared) = Ret [DroppedItem OnNewListener]"
proof -
  have "register (ItemE OnNewListener) (ds_new_without_async ''dsn-destructors'') =
      Inr (shared_destructors shared)"
    and s: "shared_slots shared = \<lparr>farmer_readers_and_pieces = None, farmer_piece_cache = None\<rparr>"
    using assms by (auto simp: build_dsn_def Let_def try_bind_eq_Ok run_bind_eq_Ret)
  then have "ds_drop (shared_destructors shared) = Ret [DroppedItem OnNewListener]"
    using dset.drop_reverses_registration [of "ds_new_without_async ''dsn-destructors''"
        "[ItemE OnNewListener]"] by simp
  with s show ?thesis by (simp add: local_record_def)
qed

theorem build_dsn_starts_empty_witness:
  "\<exists>d shared. dsn_default Some = Ret (d :: (string, nat) dsn) \<and>
     build_dsn Checked demo_dsn_env d demo_dsn_options = Ret (Inr (shared, 2, False)) \<and>
     farmer_piece_cache (shared_slots shared) = None"
proof -
  obtain d where d: "dsn_default Some = Ret (d :: (string, nat) dsn)"
    "dsn_target_connections d = 15" "dsn_in_connections d = 300"
    by (simp add: cfg_defs)
  then obtain shared where
    b: "build_dsn Checked demo_dsn_env d demo_dsn_options = Ret (Inr (shared, 2, False))"
    by (simp add: build_dsn_def dsn_networking_config_def connected_peers_limits_def
        add_arith_def arith_def demo_dsn_env_def demo_dsn_options_def add_items_to_drop_def)
  from build_dsn_starts_empty [OF b, of "\<lambda>_ (_::nat). None :: nat option" 0]
  have "farmer_piece_cache (shared_slots shared) = None" by simp
  with d(1) b show ?thesis by auto
qed

end
