(* ===== verification/Piece_Serving.thy ===== *)
theory Piece_Serving
  imports Dsn
begin

text \<open>
  The request handlers the node gives to the DSN: \<open>get_piece_by_index\<close> and
  \<open>get_segment_header_by_segment_indexes\<close> of \<^verbatim>\<open>node/src/lib.rs\<close>, and the farmer's
  implementation of the trait method the first one calls (\<^verbatim>\<open>farmer/src/lib.rs\<close>). The trait
  \<open>Farmer\<close> of \<^verbatim>\<open>traits/src/lib.rs\<close> is the locale \<open>piece_source\<close>: the node's handler is
  generic over it, and the farmer's method is its interpretation. The piece cache, the plotted
  pieces and the segment header store are third-party and appear as lookup functions.
\<close>

section \<open>Pieces\<close>

text \<open>
  \<open>weak\<close> is the value of the weak reference: \<open>None\<close> when the shared slot is gone, otherwise
  the content of the slot. \<open>read_piece\<close> returns \<open>None\<close> for a piece that is not plotted and
  otherwise the outcome of the read.
\<close>

definition farmer_get_piece_by_index ::
  "('pi \<Rightarrow> 'key) \<Rightarrow> ('pc \<Rightarrow> 'key \<Rightarrow> 'piece option) \<Rightarrow> ('rp \<Rightarrow> 'pi \<Rightarrow> 'piece option option) \<Rightarrow>
   'pi \<Rightarrow> 'pc \<Rightarrow> 'rp option option \<Rightarrow> 'piece option" where
  "farmer_get_piece_by_index record_key cache_get read_piece piece_index piece_cache weak =
     (case cache_get piece_cache (record_key piece_index) of
        Some piece \<Rightarrow> Some piece
      | None \<Rightarrow>
        (case weak of
           None \<Rightarrow> None
         | Some locked \<Rightarrow>
           (case locked of
              None \<Rightarrow> None
            | Some readers_and_pieces \<Rightarrow>
              (case read_piece readers_and_pieces piece_index of
                 Some outcome \<Rightarrow> outcome
               | None \<Rightarrow> None))))"

record 'piece piece_by_index_response =
  response_piece :: "'piece option"

text \<open>The node's handler, generic over the farmer's \<open>fetch\<close>.\<close>

definition get_piece_by_index ::
  "('pi \<Rightarrow> 'pc \<Rightarrow> 'rp option option \<Rightarrow> 'piece option) \<Rightarrow> 'pi \<Rightarrow> 'rp option option \<Rightarrow>
   'pc option \<Rightarrow> 'piece piece_by_index_response option" where
  "get_piece_by_index fetch piece_index weak cache =
     (case cache of
        Some c \<Rightarrow> Some \<lparr>response_piece = fetch piece_index c weak\<rparr>
      | None \<Rightarrow> None)"

section \<open>Segment headers\<close>

datatype segment_header_request = SegmentIndexes "u64 list" | LastSegmentHeaders u64

record 'h segment_headers_store =
  max_segment_index :: "u64 option"
  get_segment_header :: "u64 \<Rightarrow> 'h option"

record 'h segment_header_response =
  segment_headers :: "'h list"

text \<open>\<open>(ZERO..=m).rev().take(n)\<close>, as the lazy iterator computes it: at most \<open>n\<close> steps down
  from \<open>m\<close>, stopping after zero.\<close>

fun rev_range_take :: "u64 \<Rightarrow> nat \<Rightarrow> u64 list" where
  "rev_range_take m 0 = []"
| "rev_range_take m (Suc n) = m # (if m = 0 then [] else rev_range_take (m - 1) n)"

text \<open>\<open>limit\<close> is \<open>SEGMENT_HEADERS_NUMBER_LIMIT\<close>, a constant of another crate.\<close>

definition requested_segment_indexes ::
  "u64 \<Rightarrow> 'h segment_headers_store \<Rightarrow> segment_header_request \<Rightarrow> u64 list" where
  "requested_segment_indexes limit store req =
     (case req of
        SegmentIndexes segment_indexes \<Rightarrow> segment_indexes
      | LastSegmentHeaders n \<Rightarrow>
          (let segment_headers_limit = (if n > limit then limit else n);
               m = unwrap_or (max_segment_index store) 0
           in rev_range_take m (unat segment_headers_limit)))"

definition get_segment_header_by_segment_indexes ::
  "u64 \<Rightarrow> segment_header_request \<Rightarrow> 'h segment_headers_store \<Rightarrow>
   'h segment_header_response option" where
  "get_segment_header_by_segment_indexes limit req store =
     (case collect_option
        (map (get_segment_header store) (requested_segment_indexes limit store req)) of
        Some hs \<Rightarrow> Some \<lparr>segment_headers = hs\<rparr>
      | None \<Rightarrow> None)"

section \<open>The farmer as the node sees it\<close>

locale piece_source =
  fixes cached :: "'pc \<Rightarrow> 'pi \<Rightarrow> 'piece option"
    and plotted :: "'rp \<Rightarrow> 'pi \<Rightarrow> 'piece option"
    and fetch :: "'pi \<Rightarrow> 'pc \<Rightarrow> 'rp option option \<Rightarrow> 'piece option"
  assumes fetch_cached: "cached c i = Some p \<Longrightarrow> fetch i c w = Some p"
    and fetch_plotted: "cached c i = None \<Longrightarrow> fetch i c (Some (Some r)) = plotted r i"
    and fetch_unavailable: "cached c i = None \<Longrightarrow> fetch i c None = None \<and> fetch i c (Some None) = None"
begin

lemma fetch_eq:
  "fetch i c w =
   option_or (cached c i) (case w of Some (Some r) \<Rightarrow> plotted r i | _ \<Rightarrow> None)"
proof (cases "cached c i")
  case None
  then show ?thesis
    by (auto simp: fetch_plotted fetch_unavailable split: option.splits)
next
  case (Some p)
  then show ?thesis by (simp add: fetch_cached)
qed

lemma handler_eq:
  "get_piece_by_index fetch i w cache =
   map_option (\<lambda>c. \<lparr>response_piece =
     option_or (cached c i) (case w of Some (Some r) \<Rightarrow> plotted r i | _ \<Rightarrow> None)\<rparr>) cache"
  by (simp add: get_piece_by_index_def fetch_eq split: option.splits)

lemma handler_needs_cache: "get_piece_by_index fetch i w None = None"
  by (simp add: get_piece_by_index_def)

end

interpretation farmer_pieces: piece_source
  "\<lambda>c i. cache_get c (record_key i)" "\<lambda>r i. flatten_opt (read_piece r i)"
  "farmer_get_piece_by_index record_key cache_get read_piece"
  for record_key cache_get read_piece
  by unfold_locales (auto simp: farmer_get_piece_by_index_def split: option.splits)

section \<open>Lemmas on segment ranges\<close>

lemma length_rev_range_take: "length (rev_range_take m n) = min n (unat m + 1)"
proof (induction m n rule: rev_range_take.induct)
  case (2 m n)
  show ?case
  proof (cases "m = 0")
    case False
    then have "unat (m - 1) = unat m - 1" "0 < unat m"
      by (simp_all add: unat_minus_one unat_gt_0)
    with 2 False show ?thesis by simp
  qed simp
qed simp

lemma nth_rev_range_take:
  "k < length (rev_range_take m n) \<Longrightarrow> rev_range_take m n ! k = m - of_nat k"
proof (induction m n arbitrary: k rule: rev_range_take.induct)
  case (2 m n)
  then show ?case by (cases k) (auto split: if_splits)
qed simp

lemma collect_map_total:
  assumes "\<And>x. x \<in> set xs \<Longrightarrow> f x \<noteq> None"
  shows "collect_option (map f xs) = Some (map (the \<circ> f) xs)"
  using assms by (auto simp: collect_option_eq_Some)

lemma segment_response_Some:
  "get_segment_header_by_segment_indexes limit req store = Some r \<longleftrightarrow>
   map (get_segment_header store) (requested_segment_indexes limit store req) =
     map Some (segment_headers r)"
proof -
  have "get_segment_header_by_segment_indexes limit req store = Some r \<longleftrightarrow>
      collect_option (map (get_segment_header store) (requested_segment_indexes limit store req))
        = Some (segment_headers r)"
    by (cases r) (auto simp: get_segment_header_by_segment_indexes_def split: option.splits)
  then show ?thesis by (simp add: collect_option_eq_Some)
qed

lemma segment_response_None:
  "get_segment_header_by_segment_indexes limit req store = None \<longleftrightarrow>
   (\<exists>i \<in> set (requested_segment_indexes limit store req). get_segment_header store i = None)"
proof -
  have "get_segment_header_by_segment_indexes limit req store = None \<longleftrightarrow>
      None \<in> set (map (get_segment_header store) (requested_segment_indexes limit store req))"
    by (simp add: get_segment_header_by_segment_indexes_def collect_option_eq_None [symmetric]
        split: option.splits del: set_map)
  then show ?thesis by (auto simp: image_iff eq_commute)
qed

section \<open>Properties\<close>

text \<open>C9: A request for the last \<open>n\<close> segment headers, against a store that holds every header up
  to its maximum, is answered with exactly the \<open>min n limit\<close> newest headers (all of them when
  there are fewer), newest first and without gaps; an empty store counts as holding segment 0.\<close>
theorem last_segment_headers:
  fixes store :: "'h segment_headers_store"
  defines "m \<equiv> unwrap_or (max_segment_index store) 0"
  assumes "\<And>i. i \<le> m \<Longrightarrow> get_segment_header store i \<noteq> None"
  shows "\<exists>r. get_segment_header_by_segment_indexes limit (LastSegmentHeaders n) store = Some r \<and>
    length (segment_headers r) = min (min (unat n) (unat limit)) (unat m + 1) \<and>
    (\<forall>k < length (segment_headers r).
       get_segment_header store (m - of_nat k) = Some (segment_headers r ! k))"
proof -
  let ?is = "requested_segment_indexes limit store (LastSegmentHeaders n)"
  let ?n = "unat (if n > limit then limit else n)"
  have is_eq: "?is = rev_range_take m ?n"
    by (simp add: requested_segment_indexes_def m_def Let_def)
  have n_eq: "?n = min (unat n) (unat limit)"
    by (simp add: min_def word_less_nat_alt)
  have bound: "m - of_nat k \<le> m" if "k < length ?is" for k
  proof -
    have k: "k \<le> unat m" using that by (simp add: is_eq length_rev_range_take)
    then have u: "unat (of_nat k :: u64) = k"
      using le_less_trans [OF k unsigned_less [of m]]
      by (simp add: unat_of_nat take_bit_nat_eq_self)
    with k have "of_nat k \<le> m" by (simp add: word_le_nat_alt)
    then show ?thesis by (simp add: word_sub_le)
  qed
  have "get_segment_header store i \<noteq> None" if "i \<in> set ?is" for i
    using that bound nth_rev_range_take [of _ m ?n] assms(2)
    by (auto simp: in_set_conv_nth is_eq)
  then have c: "collect_option (map (get_segment_header store) ?is) =
      Some (map (the \<circ> get_segment_header store) ?is)"
    by (intro collect_map_total) auto
  have "get_segment_header store (m - of_nat k) = Some (the (get_segment_header store (?is ! k)))"
    if "k < length ?is" for k
    using that bound [OF that] assms(2) nth_rev_range_take [of k m ?n] by (simp add: is_eq)
  with c show ?thesis
    by (simp add: get_segment_header_by_segment_indexes_def is_eq length_rev_range_take
        n_eq [symmetric])
qed

theorem last_segment_headers_witness:
  "\<exists>r. get_segment_header_by_segment_indexes 1000 (LastSegmentHeaders 3)
     \<lparr>max_segment_index = Some 9, get_segment_header = (\<lambda>i. Some (unat i))\<rparr> = Some r \<and>
   length (segment_headers r) = 3"
  using last_segment_headers
    [of "\<lparr>max_segment_index = Some 9, get_segment_header = (\<lambda>i. Some (unat i))\<rparr>" 1000 3]
  by auto

text \<open>A response is all or nothing: it exists exactly when the store has every requested
  header, and then lists them in the order of the request. An explicit list of indexes is served
  whatever its length: the limit applies to the \<open>LastSegmentHeaders\<close> form only.\<close>
theorem segment_headers_all_or_nothing:
  "(get_segment_header_by_segment_indexes limit (SegmentIndexes is) store = None \<longleftrightarrow>
      (\<exists>i \<in> set is. get_segment_header store i = None)) \<and>
   (get_segment_header_by_segment_indexes limit (SegmentIndexes is) store = Some r \<longleftrightarrow>
      map (get_segment_header store) is = map Some (segment_headers r))"
  by (simp add: segment_response_Some segment_response_None requested_segment_indexes_def)

text \<open>The node answers a piece request exactly when a farmer has published its piece cache;
  the answer is the cached piece if there is one, otherwise the plotted piece while the shared
  readers exist and are initialised, and otherwise empty.\<close>
theorem node_piece_handler:
  "get_piece_by_index (farmer_get_piece_by_index record_key cache_get read_piece) i weak cache =
   (case cache of None \<Rightarrow> None
    | Some c \<Rightarrow> Some \<lparr>response_piece =
        (case cache_get c (record_key i) of Some p \<Rightarrow> Some p
         | None \<Rightarrow> (case weak of Some (Some r) \<Rightarrow> flatten_opt (read_piece r i) | _ \<Rightarrow> None))\<rparr>)"
  by (simp add: farmer_pieces.handler_eq split: option.splits)

end
