(* ===== verification/Farmer_Plots.thy ===== *)
theory Farmer_Plots
  imports Piece_Serving
begin

text \<open>
  The farms of a farmer (\<^verbatim>\<open>farmer/src/lib.rs\<close>): settings and builder, error types, the sector
  budget of a farm, the index of plotted pieces built at start-up and kept up to date by the
  plotting handler, \<open>Farm::new\<close>, the initial-plotting progress stream, and the read-only
  queries. \<open>ReadersAndPieces\<close>, \<open>SingleDiskFarm\<close> and the channels belong to other crates: the
  first is the record \<open>rp_ops\<close> of its three operations, the second the record
  \<open>single_disk_farm\<close> of what the farmer reads from it, and a \<open>watch\<close> subscription is the
  sequence of values it yields.
\<close>

section \<open>Settings\<close>

record 'bs farm_description =
  fd_directory :: path
  fd_space_pledged :: "'bs byte_size"

definition farm_description_new :: "path \<Rightarrow> 'bs byte_size \<Rightarrow> 'bs farm_description" where
  "farm_description_new directory space_pledged =
     \<lparr>fd_directory = directory, fd_space_pledged = space_pledged\<rparr>"

text \<open>\<open>remove_dir_all\<close> is the file system operation.\<close>

definition farm_description_wipe ::
  "(path \<Rightarrow> 'fs \<Rightarrow> ('io, unit) result \<times> 'fs) \<Rightarrow> 'bs farm_description \<Rightarrow> 'fs \<Rightarrow>
   ('io, unit) result \<times> 'fs" where
  "farm_description_wipe remove_dir_all d = remove_dir_all (fd_directory d)"

text \<open>\<open>NonZeroUsize::new\<close>.\<close>

definition nonzero_new :: "usize \<Rightarrow> usize option" where
  "nonzero_new n = (if n = 0 then None else Some n)"

definition max_concurrent_farms_default :: "usize run" where
  [cfg_defs]: "max_concurrent_farms_default = expect ''10 > 0'' (nonzero_new 10)"

definition piece_cache_size_default :: "'bs bytesize_crate \<Rightarrow> 'bs byte_size" where
  [cfg_defs]: "piece_cache_size_default crate = bs_mib crate 10"

definition provided_keys_limit_default :: "usize run" where
  [cfg_defs]: "provided_keys_limit_default = expect ''655360 > 0'' (nonzero_new 655360)"

record farmer_config =
  fc_max_concurrent_farms :: usize
  fc_provided_keys_limit :: usize
  fc_max_pieces_in_sector :: "u16 option"
  fc_farming_thread_pool_size :: "usize option"
  fc_plotting_thread_pool_size :: "usize option"
  fc_sector_downloading_concurrency :: "usize option"
  fc_sector_encoding_concurrency :: "usize option"
  fc_replotting_thread_pool_size :: "usize option"

definition farmer_config_default :: "farmer_config run" where
  [cfg_defs]: "farmer_config_default =
     run_bind max_concurrent_farms_default (\<lambda>mcf.
       run_bind provided_keys_limit_default (\<lambda>pkl.
         Ret \<lparr>fc_max_concurrent_farms = mcf, fc_provided_keys_limit = pkl,
              fc_max_pieces_in_sector = None, fc_farming_thread_pool_size = None,
              fc_plotting_thread_pool_size = None, fc_sector_downloading_concurrency = None,
              fc_sector_encoding_concurrency = None, fc_replotting_thread_pool_size = None\<rparr>))"

record farmer_builder =
  fb_max_concurrent_farms :: "usize option"
  fb_provided_keys_limit :: "usize option"
  fb_max_pieces_in_sector :: "u16 option option"
  fb_farming_thread_pool_size :: "usize option option"
  fb_plotting_thread_pool_size :: "usize option option"
  fb_sector_downloading_concurrency :: "usize option option"
  fb_sector_encoding_concurrency :: "usize option option"
  fb_replotting_thread_pool_size :: "usize option option"

definition farmer_builder_new :: farmer_builder where
  [cfg_defs]: "farmer_builder_new = \<lparr>fb_max_concurrent_farms = None, fb_provided_keys_limit = None,
     fb_max_pieces_in_sector = None, fb_farming_thread_pool_size = None,
     fb_plotting_thread_pool_size = None, fb_sector_downloading_concurrency = None,
     fb_sector_encoding_concurrency = None, fb_replotting_thread_pool_size = None\<rparr>"

definition farmer_configuration :: "farmer_builder \<Rightarrow> farmer_config run" where
  [cfg_defs]: "farmer_configuration b =
     run_bind (case fb_max_concurrent_farms b of Some n \<Rightarrow> Ret n
               | None \<Rightarrow> max_concurrent_farms_default) (\<lambda>mcf.
     run_bind (case fb_provided_keys_limit b of Some n \<Rightarrow> Ret n
               | None \<Rightarrow> provided_keys_limit_default) (\<lambda>pkl.
     Ret \<lparr>fc_max_concurrent_farms = mcf, fc_provided_keys_limit = pkl,
          fc_max_pieces_in_sector = unwrap_or (fb_max_pieces_in_sector b) None,
          fc_farming_thread_pool_size = unwrap_or (fb_farming_thread_pool_size b) None,
          fc_plotting_thread_pool_size = unwrap_or (fb_plotting_thread_pool_size b) None,
          fc_sector_downloading_concurrency =
            unwrap_or (fb_sector_downloading_concurrency b) None,
          fc_sector_encoding_concurrency = unwrap_or (fb_sector_encoding_concurrency b) None,
          fc_replotting_thread_pool_size = unwrap_or (fb_replotting_thread_pool_size b) None\<rparr>))"

section \<open>Errors\<close>

text \<open>The variant of the third-party error the sources match on, and all the others with their
  message; errors of other crates are represented by their messages.\<close>

datatype single_disk_farm_error = InsufficientAllocatedSpace u64 u64 | SdfOther string

datatype single_disk_farm_creation_error =
  InsufficientSpaceForFarm u64 u64 | CreationOther single_disk_farm_error

datatype build_error =
  SingleDiskFarmCreate single_disk_farm_creation_error
| NoFarmsSupplied
| RPCError string
| ThreadPoolError string
| BuildOther string

section \<open>The index of plotted pieces\<close>

record ('rp, 'reader, 'sec) rp_ops =
  rp_new :: "'reader list \<Rightarrow> 'rp"
  rp_add_sector :: "u8 \<Rightarrow> 'sec \<Rightarrow> 'rp \<Rightarrow> 'rp"
  rp_delete_sector :: "u8 \<Rightarrow> 'sec \<Rightarrow> 'rp \<Rightarrow> 'rp"

record ('reader, 'sec, 'rerr, 'cache) single_disk_farm =
  sdf_piece_reader :: 'reader
  sdf_plotted_sectors :: "('rerr, 'sec) result list"
  sdf_plotted_sectors_count :: usize
  sdf_piece_cache :: 'cache

text \<open>The inner loop over one farm; a sector that cannot be read is logged and skipped.\<close>

fun add_farm_sectors ::
  "('rp, 'reader, 'sec) rp_ops \<Rightarrow> u8 \<Rightarrow> ('rerr, 'sec) result list \<Rightarrow> 'rp \<Rightarrow> 'rp" where
  "add_farm_sectors ops i [] rp = rp"
| "add_farm_sectors ops i (Inr s # rs) rp = add_farm_sectors ops i rs (rp_add_sector ops i s rp)"
| "add_farm_sectors ops i (Inl e # rs) rp = add_farm_sectors ops i rs rp"

definition err_too_many_farms :: string where
  "err_too_many_farms =
     ''More than 256 farms are not supported, consider running multiple farmer instances''"

text \<open>\<open>enumerate().try_for_each(..)\<close>, from farm index \<open>i\<close>.\<close>

fun collect_sectors ::
  "('rp, 'reader, 'sec) rp_ops \<Rightarrow> nat \<Rightarrow> ('rerr, 'sec) result list list \<Rightarrow> 'rp \<Rightarrow>
   (build_error, 'rp) result" where
  "collect_sectors ops i [] rp = Inr rp"
| "collect_sectors ops i (it # its) rp =
     (case try_into_u8 i of
        None \<Rightarrow> Inl (BuildOther err_too_many_farms)
      | Some d \<Rightarrow> collect_sectors ops (Suc i) its (add_farm_sectors ops d it rp))"

definition create_readers_and_pieces ::
  "('rp, 'reader, 'sec) rp_ops \<Rightarrow> ('reader, 'sec, 'rerr, 'cache) single_disk_farm list \<Rightarrow>
   (build_error, 'rp) result" where
  "create_readers_and_pieces ops farms =
     collect_sectors ops 0 (map sdf_plotted_sectors farms) (rp_new ops (map sdf_piece_reader farms))"

text \<open>The plotting handler: the new content of the shared slot, or a panic.\<close>

definition handler_on_sector_plotted ::
  "('rp, 'reader, 'sec) rp_ops \<Rightarrow> 'sec \<Rightarrow> 'sec option \<Rightarrow> nat \<Rightarrow> 'rp option \<Rightarrow> 'rp option run" where
  "handler_on_sector_plotted ops plotted_sector old disk_farm_index slot =
     run_bind (expect ''More than 256 farms are not supported, this is checked above already; qed''
                 (try_into_u8 disk_farm_index)) (\<lambda>d.
       run_bind (expect ''Initial value was populated before; qed'' slot) (\<lambda>rp.
         let rp' = (case old of Some o' \<Rightarrow> rp_delete_sector ops d o' rp | None \<Rightarrow> rp)
         in Ret (Some (rp_add_sector ops d plotted_sector rp'))))"

text \<open>A sequence of notifications \<open>(farm, new sector, replaced sector)\<close>.\<close>

fun run_handlers ::
  "('rp, 'reader, 'sec) rp_ops \<Rightarrow> (nat \<times> 'sec \<times> 'sec option) list \<Rightarrow> 'rp option \<Rightarrow> 'rp option run" where
  "run_handlers ops [] slot = Ret slot"
| "run_handlers ops ((i, s, old) # ns) slot =
     run_bind (handler_on_sector_plotted ops s old i slot) (run_handlers ops ns)"

section \<open>The sector budget\<close>

text \<open>\<open>identity_size\<close>, \<open>known_peers_size\<close>, \<open>sector\<close> and \<open>metadata\<close> are sizes other crates
  define; all arithmetic is on \<open>u64\<close>, the sum of the two sizes on \<open>usize\<close>.\<close>

definition fixed_space_usage :: "overflow_checks \<Rightarrow> u64 \<Rightarrow> u64 \<Rightarrow> u64 run" where
  "fixed_space_usage mode identity_size known_peers_size =
     run_bind (add_arith mode (2 * 1024 * 1024) identity_size) (\<lambda>a.
       add_arith mode a known_peers_size)"

definition target_sector_count ::
  "overflow_checks \<Rightarrow> u64 \<Rightarrow> u64 \<Rightarrow> u8 \<Rightarrow> usize \<Rightarrow> usize \<Rightarrow> u64 run" where
  "target_sector_count mode allocated_space fixed cache_percentage sector metadata =
     run_bind (sub_arith mode 100 (ucast cache_percentage)) (\<lambda>share.
       run_bind (mul_arith mode (saturating_sub allocated_space fixed div 100) share) (\<lambda>potential.
         run_bind (add_arith mode sector metadata) (\<lambda>unit.
           div_arith potential unit)))"

section \<open>Farms\<close>

record initial_plotting_progress =
  starting_sector :: u64
  current_sector :: u64
  total_sectors :: u64

datatype farm_label = OnSectorPlotted | OnSolution

record ('sec, 'sol) farm =
  farm_directory :: path
  farm_progress :: "('sec \<times> 'sec option) option"
  farm_solutions :: "'sol option"
  farm_initial_plotting_progress :: initial_plotting_progress
  farm_allocated_space :: u64
  farm_destructors :: "farm_label destructor_set"

text \<open>What \<open>Farm::new\<close> passes on, as far as the farmer computes it.\<close>

record farm_options =
  fo_disk_farm_idx :: nat
  fo_cache_percentage :: u8
  fo_reward_address :: public_key
  fo_max_pieces_in_sector :: u16
  fo_farming_thread_pool_size :: usize
  fo_downloading_permits :: usize
  fo_directory :: path
  fo_space_pledged :: u64

record 'sdf farm_env =
  fe_single_disk_farm_new :: "farm_options \<Rightarrow> (single_disk_farm_error, 'sdf) result"
  fe_identity_size :: u64
  fe_known_peers_size :: u64
  fe_sector_size :: "u16 \<Rightarrow> usize"
  fe_metadata_size :: usize

definition map_sdf_error ::
  "single_disk_farm_error \<Rightarrow> build_error" where
  "map_sdf_error error =
     (case error of
        InsufficientAllocatedSpace min_space allocated_space \<Rightarrow>
          SingleDiskFarmCreate (InsufficientSpaceForFarm min_space allocated_space)
      | e \<Rightarrow> SingleDiskFarmCreate (CreationOther e))"

text \<open>\<open>app_info\<close> is the answer of the node to the farmer info request.\<close>

definition farm_new ::
  "overflow_checks \<Rightarrow> ('reader, 'sec, 'rerr, 'cache) single_disk_farm farm_env \<Rightarrow>
   ('rpce, 'info) result \<Rightarrow> farm_options \<Rightarrow>
   (build_error,
    ('sec, 'sol) farm \<times> ('reader, 'sec, 'rerr, 'cache) single_disk_farm) result run" where
  "farm_new mode env app_info opts =
     run_bind (expect_ok ''Node is always reachable'' app_info) (\<lambda>_.
     try_bind (Ret (map_err map_sdf_error (fe_single_disk_farm_new env opts))) (\<lambda>sdf.
     try_bind (Ret (map_err BuildOther
         (add_items_to_drop OnSectorPlotted (ds_new_without_async ''farm-destructors'')))) (\<lambda>d1.
     try_bind (Ret (map_err BuildOther (add_items_to_drop OnSolution d1))) (\<lambda>d2.
     run_bind (fixed_space_usage mode (fe_identity_size env) (fe_known_peers_size env)) (\<lambda>fixed.
     run_bind (target_sector_count mode (fo_space_pledged opts) fixed (fo_cache_percentage opts)
                 (fe_sector_size env (fo_max_pieces_in_sector opts)) (fe_metadata_size env))
       (\<lambda>target. Ret (Inr
          (\<lparr>farm_directory = fo_directory opts, farm_progress = None, farm_solutions = None,
            farm_initial_plotting_progress =
              \<lparr>starting_sector = sdf_plotted_sectors_count sdf,
               current_sector = sdf_plotted_sectors_count sdf, total_sectors = target\<rparr>,
            farm_allocated_space = fo_space_pledged opts, farm_destructors = d2\<rparr>, sdf))))))))"

definition farm_allocated_space_of :: "'bs bytesize_crate \<Rightarrow> ('sec, 'sol) farm \<Rightarrow> 'bs byte_size" where
  "farm_allocated_space_of crate f = bs_b crate (farm_allocated_space f)"

definition subscribe_new_solutions :: "'sol option list \<Rightarrow> 'sol list" where
  "subscribe_new_solutions watched = List.map_filter (\<lambda>s. s) watched"

section \<open>Initial plotting progress\<close>

text \<open>
  The inner stream: \<open>ps_done\<close> is the state of \<open>take_while\<close>, which ends for good at the first
  item that fails its test. The counter it advances is the farm's, shared by all subscribers.
\<close>

record progress_stream =
  ps_done :: bool
  ps_last :: initial_plotting_progress

datatype plotting_stream = Finished | Watching progress_stream

definition subscribe_initial_plotting_progress :: "initial_plotting_progress \<Rightarrow> plotting_stream" where
  "subscribe_initial_plotting_progress initial =
     (if current_sector initial = total_sectors initial then Finished
      else Watching \<lparr>ps_done = False, ps_last = initial\<rparr>)"

text \<open>One poll: \<open>watch\<close> is what the subscription to the farm's notifications yields.\<close>

definition progress_poll ::
  "overflow_checks \<Rightarrow> 'v option poll \<Rightarrow> progress_stream \<Rightarrow> initial_plotting_progress \<Rightarrow>
   (initial_plotting_progress option poll \<times> progress_stream \<times> initial_plotting_progress) run" where
  "progress_poll mode watch st shared =
     (if ps_done st then Ret (Ready None, st, shared)
      else
        (case watch of
           Pending \<Rightarrow> Ret (Pending, st, shared)
         | Ready None \<Rightarrow> Ret (Ready None, st, shared)
         | Ready (Some _) \<Rightarrow>
             run_bind (add_arith mode (current_sector shared) 1) (\<lambda>c.
               let plotting_progress = shared; shared' = shared\<lparr>current_sector := c\<rparr>
               in if current_sector plotting_progress < total_sectors plotting_progress
                  then Ret (Ready (Some plotting_progress), st\<lparr>ps_last := plotting_progress\<rparr>, shared')
                  else Ret (Ready None, st\<lparr>ps_done := True\<rparr>, shared'))))"

definition progress_size_hint ::
  "overflow_checks \<Rightarrow> plotting_stream \<Rightarrow> (usize \<times> usize option) run" where
  "progress_size_hint mode s =
     (case s of
        Finished \<Rightarrow> Ret (0, Some 0)
      | Watching st \<Rightarrow>
          run_bind (sub_arith mode (total_sectors (ps_last st)) (current_sector (ps_last st)))
            (\<lambda>left. Ret (left, Some left)))"

text \<open>
  A schedule: the list of subscribers in the order in which notifications reach them. The result
  lists the delivered items with the subscriber that received each.
\<close>

fun run_notifications ::
  "overflow_checks \<Rightarrow> nat list \<Rightarrow> (nat \<Rightarrow> progress_stream) \<Rightarrow> initial_plotting_progress \<Rightarrow>
   ((nat \<times> initial_plotting_progress) list \<times> (nat \<Rightarrow> progress_stream) \<times>
    initial_plotting_progress) run" where
  "run_notifications mode [] subs shared = Ret ([], subs, shared)"
| "run_notifications mode (i # is) subs shared =
     run_bind (progress_poll mode (Ready (Some ())) (subs i) shared) (\<lambda>(out, st, shared').
       run_bind (run_notifications mode is (subs(i := st)) shared') (\<lambda>(items, r).
         Ret ((case out of Ready (Some p) \<Rightarrow> (i, p) # items | _ \<Rightarrow> items), r)))"

section \<open>Queries\<close>

text \<open>The content of a farm's directory: the only version the sources match on.\<close>

datatype ('id, 'raw) single_disk_farm_info = V0 'id bytes 'raw u64 u16

record ('id, 'bs) farm_info =
  fi_id :: 'id
  fi_genesis_hash :: bytes
  fi_public_key :: public_key
  fi_allocated_space :: "'bs byte_size"
  fi_pieces_in_sector :: u16

fun farm_info_from ::
  "'bs bytesize_crate \<Rightarrow> ('id, bytes) single_disk_farm_info \<Rightarrow> ('id, 'bs) farm_info" where
  "farm_info_from crate (V0 i genesis_hash public_key allocated_space pieces_in_sector) =
     \<lparr>fi_id = i, fi_genesis_hash = genesis_hash, fi_public_key = PublicKey public_key,
      fi_allocated_space = bs_b crate allocated_space, fi_pieces_in_sector = pieces_in_sector\<rparr>"

datatype ('id, 'err) single_disk_farm_summary =
  SummaryFound "('id, bytes) single_disk_farm_info" path
| SummaryNotFound path
| SummaryError path 'err

record ('id, 'bs) farmer_info =
  info_version :: string
  info_reward_address :: public_key
  info_farms :: "(path \<rightharpoonup> ('id, 'bs) farm_info)"
  info_sector_size :: u64

definition summary_result ::
  "'bs bytesize_crate \<Rightarrow> (path \<Rightarrow> string) \<Rightarrow> ('id, 'err) single_disk_farm_summary \<Rightarrow>
   (string, path \<times> ('id, 'bs) farm_info) result" where
  "summary_result crate show_path summary =
     (case summary of
        SummaryFound info directory \<Rightarrow> Inr (directory, farm_info_from crate info)
      | SummaryNotFound directory \<Rightarrow>
          Inl (''Didn't found farm at `'' @ show_path directory @ [CHR 0x27])
      | SummaryError directory error \<Rightarrow>
          Inl (''Failed to get farm summary at `'' @ show_path directory @ [CHR 0x27]))"

text \<open>
  \<open>keys\<close> is the order in which the hash map of farms is walked, \<open>collect_summary\<close> reads the
  directory of a farm, \<open>join\<close> is the join of the blocking task.
\<close>

definition farmer_get_info ::
  "build_env \<Rightarrow> 'bs bytesize_crate \<Rightarrow> (path \<Rightarrow> string) \<Rightarrow>
   (path \<Rightarrow> ('id, 'err) single_disk_farm_summary) \<Rightarrow>
   (('id, 'err) single_disk_farm_summary list \<Rightarrow>
      (string, ('id, 'err) single_disk_farm_summary list) result) \<Rightarrow>
   (u16 \<Rightarrow> usize) \<Rightarrow> path list \<Rightarrow> public_key \<Rightarrow> u16 \<Rightarrow>
   (string, ('id, 'bs) farmer_info) result" where
  "farmer_get_info e crate show_path collect_summary joined sector_size keys reward max_pieces =
     result_bind (joined (map collect_summary keys)) (\<lambda>summaries.
       result_bind (collect_result (map (summary_result crate show_path) summaries)) (\<lambda>farms_info.
         Inr \<lparr>info_version = CARGO_PKG_VERSION e @ ''-'' @ GIT_HASH e, info_reward_address = reward,
              info_farms = map_of (rev farms_info),
              info_sector_size = sector_size max_pieces\<rparr>))"

section \<open>Builder\<close>

interpretation farmer_bld: config_builder farmer_builder_new farmer_configuration farmer_config_default
  by unfold_locales (simp add: cfg_defs)

section \<open>Lemmas on the piece index\<close>

text \<open>The sectors on the disks, with the index of their farm.\<close>

definition disk_sectors ::
  "('reader, 'sec, 'rerr, 'cache) single_disk_farm list \<Rightarrow> (u8 \<times> 'sec) set" where
  "disk_sectors farms =
     (\<Union>i < length farms. {(of_nat i, s) | s. Inr s \<in> set (sdf_plotted_sectors (farms ! i))})"

text \<open>What a notification does to the set of indexed sectors.\<close>

fun track :: "nat \<times> 'sec \<times> 'sec option \<Rightarrow> (u8 \<times> 'sec) set \<Rightarrow> (u8 \<times> 'sec) set" where
  "track (i, s, old) T =
     insert (of_nat i, s) (T - (case old of Some o' \<Rightarrow> {(of_nat i, o')} | None \<Rightarrow> {}))"

text \<open>The documented behaviour of the index, seen as the set of sectors it answers for.\<close>

definition rp_laws :: "('rp, 'reader, 'sec) rp_ops \<Rightarrow> ('rp \<Rightarrow> (u8 \<times> 'sec) set) \<Rightarrow> bool" where
  "rp_laws ops tracked \<longleftrightarrow>
     (\<forall>rs. tracked (rp_new ops rs) = {}) \<and>
     (\<forall>d s rp. tracked (rp_add_sector ops d s rp) = insert (d, s) (tracked rp)) \<and>
     (\<forall>d s rp. tracked (rp_delete_sector ops d s rp) = tracked rp - {(d, s)})"

lemma rp_laws_simps:
  assumes "rp_laws ops tracked"
  shows "tracked (rp_new ops rs) = {}"
    "tracked (rp_add_sector ops d s rp) = insert (d, s) (tracked rp)"
    "tracked (rp_delete_sector ops d s rp) = tracked rp - {(d, s)}"
  using assms by (auto simp: rp_laws_def)

lemma tracked_add_farm_sectors:
  assumes "rp_laws ops tracked"
  shows "tracked (add_farm_sectors ops d its rp) = tracked rp \<union> {(d, s) | s. Inr s \<in> set its}"
proof (induction its arbitrary: rp)
  case (Cons r its)
  then show ?case by (cases r) (auto simp: rp_laws_simps [OF assms])
qed simp

lemma collect_sectors_ok:
  assumes "rp_laws ops tracked" and "i + length its \<le> 256"
  shows "\<exists>rp'. collect_sectors ops i its rp = (Inr rp' :: (build_error, 'rp) result) \<and>
    tracked rp' = tracked rp \<union> (\<Union>j < length its. {(of_nat (i + j), s) | s. Inr s \<in> set (its ! j)})"
  using assms(2)
proof (induction its arbitrary: i rp)
  case (Cons it its)
  let ?rp = "add_farm_sectors ops (of_nat i) it rp"
  obtain rp' where rp': "collect_sectors ops (Suc i) its ?rp = (Inr rp' :: (build_error, 'rp) result)"
    "tracked rp' = tracked ?rp \<union>
      (\<Union>j < length its. {(of_nat (Suc i + j), s) | s. Inr s \<in> set (its ! j)})"
    using Cons.IH [of "Suc i" ?rp] Cons.prems by (auto simp del: of_nat_Suc of_nat_add)
  have "(\<Union>j < length (it # its). {(of_nat (i + j) :: u8, s) | s. Inr s \<in> set ((it # its) ! j)}) =
      {(of_nat i, s) | s. Inr s \<in> set it} \<union>
      (\<Union>j < length its. {(of_nat (Suc i + j), s) | s. Inr s \<in> set (its ! j)})"
    by (simp add: lessThan_Suc_eq_insert_0 add.left_commute)
  moreover have "try_into_u8 i = Some (of_nat i)" using Cons.prems by (simp add: try_into_u8_def)
  ultimately show ?case using rp' by (simp add: tracked_add_farm_sectors [OF assms(1)] Un_assoc)
qed simp

lemma collect_sectors_too_many:
  "i \<le> 256 \<Longrightarrow> 256 < i + length its \<Longrightarrow>
   collect_sectors ops i its rp = Inl (BuildOther err_too_many_farms)"
proof (induction its arbitrary: i rp)
  case (Cons it its)
  then show ?case by (cases "i = 256") (auto simp: try_into_u8_def)
qed simp

lemma handler_on_sector_plotted_ok:
  assumes "rp_laws ops tracked" and "i < 256"
  shows "\<exists>rp'. handler_on_sector_plotted ops s old i (Some rp) = Ret (Some rp') \<and>
    tracked rp' = track (i, s, old) (tracked rp)"
  using assms
  by (cases old) (simp_all add: handler_on_sector_plotted_def try_into_u8_def rp_laws_simps)

lemma run_handlers_ok:
  assumes "rp_laws ops tracked" and "\<forall>n \<in> set ns. fst n < 256"
  shows "\<exists>rp'. run_handlers ops ns (Some rp) = Ret (Some rp') \<and>
    tracked rp' = fold track ns (tracked rp)"
  using assms(2)
proof (induction ns arbitrary: rp)
  case (Cons n ns)
  obtain i s old where n: "n = (i, s, old)" by (cases n)
  with Cons.prems obtain rp1 where
    "handler_on_sector_plotted ops s old i (Some rp) = Ret (Some rp1)"
    "tracked rp1 = track n (tracked rp)"
    using handler_on_sector_plotted_ok [OF assms(1), of i s old rp] by auto
  with Cons.IH [of rp1] Cons.prems n show ?case by auto
qed simp

section \<open>Lemmas on progress\<close>

lemma progress_poll_item:
  assumes "\<not> ps_done st" and "current_sector shared < total_sectors shared"
  shows "progress_poll mode (Ready (Some v)) st shared =
     Ret (Ready (Some shared), st\<lparr>ps_last := shared\<rparr>,
       shared\<lparr>current_sector := current_sector shared + 1\<rparr>)"
    and "unat (current_sector shared + 1) = unat (current_sector shared) + 1"
proof -
  have "unat (current_sector shared) < unat (total_sectors shared)"
    using assms(2) by (simp add: word_less_nat_alt)
  then have fits: "unat (current_sector shared) + 1 < 2 ^ 64"
    using unat_bound [of "total_sectors shared"] by simp
  then show "unat (current_sector shared + 1) = unat (current_sector shared) + 1"
    using unat_add_fits [of "current_sector shared" 1] by simp
  show "progress_poll mode (Ready (Some v)) st shared =
     Ret (Ready (Some shared), st\<lparr>ps_last := shared\<rparr>,
       shared\<lparr>current_sector := current_sector shared + 1\<rparr>)"
    using assms fits by (simp add: progress_poll_def add_arith_def arith_def Let_def)
qed

lemma progress_poll_end:
  assumes "\<not> ps_done st" and "current_sector shared = total_sectors shared"
    and "unat (total_sectors shared) < 2 ^ 64 - 1"
  shows "progress_poll mode (Ready (Some v)) st shared =
     Ret (Ready None, st\<lparr>ps_done := True\<rparr>,
       shared\<lparr>current_sector := total_sectors shared + 1\<rparr>)"
  using assms by (simp add: progress_poll_def add_arith_def arith_def Let_def)

lemma run_notifications_delivers:
  "\<forall>i. \<not> ps_done (subs i) \<Longrightarrow>
   unat (current_sector shared) + length is \<le> unat (total_sectors shared) \<Longrightarrow>
   \<exists>items subs' shared'. run_notifications mode is subs shared = Ret (items, subs', shared') \<and>
     map fst items = is \<and>
     map (\<lambda>(_, p). unat (current_sector p)) items =
       [unat (current_sector shared) ..< unat (current_sector shared) + length is] \<and>
     (\<forall>i. \<not> ps_done (subs' i)) \<and> total_sectors shared' = total_sectors shared \<and>
     unat (current_sector shared') = unat (current_sector shared) + length is"
proof (induction "is" arbitrary: subs shared)
  case (Cons i "is")
  have lt: "current_sector shared < total_sectors shared"
    using Cons.prems(2) by (simp add: word_less_nat_alt)
  note poll = progress_poll_item [OF Cons.prems(1) [rule_format, of i] lt]
  let ?shared = "shared\<lparr>current_sector := current_sector shared + 1\<rparr>"
  let ?subs = "subs(i := (subs i)\<lparr>ps_last := shared\<rparr>)"
  have "\<forall>j. \<not> ps_done (?subs j)" using Cons.prems(1) by simp
  then obtain items subs' shared' where r:
    "run_notifications mode is ?subs ?shared = Ret (items, subs', shared')" "map fst items = is"
    "map (\<lambda>(_, p). unat (current_sector p)) items =
       [Suc (unat (current_sector shared)) ..< Suc (unat (current_sector shared)) + length is]"
    "\<forall>i. \<not> ps_done (subs' i)" "total_sectors shared' = total_sectors shared"
    "unat (current_sector shared') = Suc (unat (current_sector shared)) + length is"
    using Cons.IH [of ?subs ?shared] Cons.prems(2) poll(2)
    by (auto simp del: upt_Suc fun_upd_apply)
  then show ?case by (simp add: poll(1) upt_conv_Cons del: upt_Suc)
qed simp

section \<open>Lemmas on the sector budget\<close>

lemma budget_share:
  assumes "unat p \<le> 100"
  shows "sub_arith mode 100 (ucast (p :: u8) :: u64) = Ret (100 - ucast p)"
    and "unat (100 - ucast p :: u64) = 100 - unat p"
proof -
  have u: "unat (ucast p :: u64) = unat p"
    using unat_bound [of p] by (simp add: unsigned_ucast_eq take_bit_nat_eq_self)
  then have le: "(ucast p :: u64) \<le> 100" using assms by (simp add: word_le_nat_alt)
  then show "sub_arith mode 100 (ucast p :: u64) = Ret (100 - ucast p)"
    by (simp add: sub_arith_def arith_def)
  show "unat (100 - ucast p :: u64) = 100 - unat p"
    using le u by (simp add: unat_sub)
qed

lemma budget_product:
  assumes "unat share \<le> 100"
  shows "unat (space div 100 :: u64) * unat share \<le> unat space"
proof -
  have "unat (space div 100) * unat share \<le> unat space div 100 * 100"
    using assms by (simp add: unat_word_div)
  then show ?thesis by (meson div_times_less_eq_dividend le_trans)
qed

section \<open>Properties\<close>

text \<open>C5: The index of plotted pieces mirrors the disks. With up to 256 farms it starts with exactly
  the readable sectors of each farm, and any sequence of plotting notifications for these farms
  runs without a panic and leaves it holding, for each farm, the sectors added and not replaced;
  with more than 256 farms it is not built at all.\<close>
theorem piece_index_mirrors_disks:
  fixes farms :: "('reader, 'sec, 'rerr, 'cache) single_disk_farm list"
    and ops :: "('rp, 'reader, 'sec) rp_ops"
  defines "created \<equiv> create_readers_and_pieces ops farms :: (build_error, 'rp) result"
  assumes "rp_laws ops tracked" and "\<forall>n \<in> set ns. fst n < length farms"
  shows "if length farms \<le> 256
    then \<exists>rp rp'. created = Inr rp \<and> tracked rp = disk_sectors farms \<and>
      run_handlers ops ns (Some rp) = Ret (Some rp') \<and>
      tracked rp' = fold track ns (disk_sectors farms)
    else created = Inl (BuildOther err_too_many_farms)"
proof (cases "length farms \<le> 256")
  case True
  obtain rp where rp: "created = Inr rp" "tracked rp = disk_sectors farms"
    using collect_sectors_ok [OF assms(2), of 0 "map sdf_plotted_sectors farms"
        "rp_new ops (map sdf_piece_reader farms)"] True
    by (auto simp: created_def create_readers_and_pieces_def disk_sectors_def
        rp_laws_simps [OF assms(2)])
  have "\<forall>n \<in> set ns. fst n < 256" using assms(3) True by auto
  with run_handlers_ok [OF assms(2), of ns rp] rp True show ?thesis by auto
next
  case False
  then show ?thesis
    using collect_sectors_too_many [of 0 "map sdf_plotted_sectors farms" ops]
    by (simp add: created_def create_readers_and_pieces_def)
qed

text \<open>A set of sectors satisfies the laws of the index.\<close>

definition set_index_ops :: "((u8 \<times> nat) set, unit, nat) rp_ops" where
  "set_index_ops = \<lparr>rp_new = (\<lambda>_. {}), rp_add_sector = (\<lambda>d s T. insert (d, s) T),
     rp_delete_sector = (\<lambda>d s T. T - {(d, s)})\<rparr>"

theorem piece_index_mirrors_disks_witness:
  "\<exists>rp'. run_handlers set_index_ops [(0, 8, Some 5)] (Some {(0, 5), (0, 6)}) = Ret (Some rp') \<and>
     rp' = {(0, 8), (0, 6)}"
proof -
  let ?farms = "[\<lparr>sdf_piece_reader = (), sdf_plotted_sectors = [Inr (5::nat), Inl (), Inr 6],
    sdf_plotted_sectors_count = 3, sdf_piece_cache = ()\<rparr>]"
  have d: "disk_sectors ?farms = {(0, 5), (0, 6)}" by (auto simp: disk_sectors_def)
  have laws: "rp_laws set_index_ops (\<lambda>T. T)" by (simp add: rp_laws_def set_index_ops_def)
  have e: "insert (0, 8) ({(0, 5), (0, 6)} - {(0, 5)}) = {(0, 8), (0 :: u8, 6 :: nat)}" by auto
  show ?thesis
    using piece_index_mirrors_disks [OF laws, of "[(0, 8, Some 5)]" ?farms]
    by (auto simp: d e)
qed



text \<open>One counter is shared by all subscribers of a farm's plotting progress. Whatever the order
  in which notifications reach the subscribers, as long as the total is not reached each
  notification is answered by exactly one item carrying the next counter value, so together the
  subscribers see every sector number once, in order, and each alone only a part of them.\<close>
theorem plotting_progress_shared_counter:
  assumes "\<forall>i. \<not> ps_done (subs i)"
    and "unat (current_sector shared) + length schedule \<le> unat (total_sectors shared)"
  shows "\<exists>items subs' shared'.
    run_notifications mode schedule subs shared = Ret (items, subs', shared') \<and>
    map fst items = schedule \<and>
    map (\<lambda>(_, p). unat (current_sector p)) items =
      [unat (current_sector shared) ..< unat (current_sector shared) + length schedule] \<and>
    unat (current_sector shared') = unat (current_sector shared) + length schedule"
  using run_notifications_delivers [OF assms] by blast

theorem plotting_progress_shared_counter_witness:
  "\<exists>items subs' shared'.
    run_notifications Checked [0, 1, 0]
      (\<lambda>_. \<lparr>ps_done = False, ps_last = \<lparr>starting_sector = 2, current_sector = 2, total_sectors = 9\<rparr>\<rparr>)
      \<lparr>starting_sector = 2, current_sector = 2, total_sectors = 9\<rparr> = Ret (items, subs', shared') \<and>
    map (\<lambda>(_, p). unat (current_sector p)) items = [2, 3, 4]"
  using plotting_progress_shared_counter
    [of "\<lambda>_. \<lparr>ps_done = False, ps_last = \<lparr>starting_sector = 2, current_sector = 2, total_sectors = 9\<rparr>\<rparr>"
        "\<lparr>starting_sector = 2, current_sector = 2, total_sectors = 9\<rparr>" "[0, 1, 0]" Checked]
  by (auto simp: upt_conv_Cons)

text \<open>C30: A stream that has reached the total ends with the next notification and ends for good,
  but that notification moves the counter past the total. A subscriber that comes later is
  therefore not told that plotting is complete: its stream is not the finished one, its size hint
  overflows (a panic with overflow checks, about two to the 64 without), and it only ends at its
  first notification.\<close>
theorem plotting_progress_after_completion:
  assumes "\<not> ps_done st" and "current_sector shared = total_sectors shared"
    and "unat (total_sectors shared) < 2 ^ 64 - 1"
  shows "\<exists>st' shared' late.
    progress_poll mode (Ready (Some v)) st shared = Ret (Ready None, st', shared') \<and>
    progress_poll mode w st' shared' = Ret (Ready None, st', shared') \<and>
    subscribe_initial_plotting_progress shared' = Watching late \<and>
    progress_size_hint Checked (Watching late) = Panic ''attempt to subtract with overflow'' \<and>
    progress_size_hint Wrapping (Watching late) = Ret (2 ^ 64 - 1, Some (2 ^ 64 - 1)) \<and>
    \<not> current_sector shared' < total_sectors shared'"
proof -
  let ?shared = "shared\<lparr>current_sector := total_sectors shared + 1\<rparr>"
  have "unat (total_sectors shared + 1) = unat (total_sectors shared) + 1"
    using unat_add_fits [of "total_sectors shared" 1] assms(3) by simp
  then have gt: "total_sectors shared < total_sectors shared + 1"
    by (simp add: word_less_nat_alt)
  then have "\<not> total_sectors shared + 1 \<le> total_sectors shared" "total_sectors shared + 1 \<noteq> total_sectors shared"
    by (simp_all add: not_le)
  then have "subscribe_initial_plotting_progress ?shared =
        Watching \<lparr>ps_done = False, ps_last = ?shared\<rparr>"
    "progress_size_hint Checked (Watching \<lparr>ps_done = False, ps_last = ?shared\<rparr>) =
       Panic ''attempt to subtract with overflow''"
    "progress_size_hint Wrapping (Watching \<lparr>ps_done = False, ps_last = ?shared\<rparr>) =
       Ret (2 ^ 64 - 1, Some (2 ^ 64 - 1))"
    by (simp_all add: subscribe_initial_plotting_progress_def progress_size_hint_def sub_arith_def
        arith_def)
  moreover have "progress_poll mode w (st\<lparr>ps_done := True\<rparr>) ?shared = Ret (Ready None, st\<lparr>ps_done := True\<rparr>, ?shared)"
    by (simp add: progress_poll_def)
  ultimately show ?thesis
    using progress_poll_end [OF assms, of mode v] gt by (simp add: not_less less_imp_le)
qed

theorem plotting_progress_after_completion_witness:
  "subscribe_initial_plotting_progress
     \<lparr>starting_sector = 0, current_sector = 6, total_sectors = 5\<rparr> =
     Watching \<lparr>ps_done = False, ps_last = \<lparr>starting_sector = 0, current_sector = 6, total_sectors = 5\<rparr>\<rparr> \<and>
   progress_size_hint Checked (subscribe_initial_plotting_progress
     \<lparr>starting_sector = 0, current_sector = 6, total_sectors = 5\<rparr>) =
     Panic ''attempt to subtract with overflow''"
  using plotting_progress_after_completion
    [of "\<lparr>ps_done = False, ps_last = \<lparr>starting_sector = 0, current_sector = 4, total_sectors = 5\<rparr>\<rparr>"
        "\<lparr>starting_sector = 0, current_sector = 5, total_sectors = 5\<rparr>" Checked "()" Pending]
  by (auto simp: progress_poll_def add_arith_def arith_def Let_def
      subscribe_initial_plotting_progress_def)

text \<open>The farmer's info lists every farm or fails: with summaries that report the directory
  they were asked for, the query succeeds exactly when every farm is found on disk, and then maps
  exactly the farm directories, each to the information stored there.\<close>
theorem farmer_get_info_complete:
  fixes collect_summary :: "path \<Rightarrow> ('id, 'err) single_disk_farm_summary"
  assumes "\<forall>d i d'. collect_summary d = SummaryFound i d' \<longrightarrow> d' = d"
  shows "case farmer_get_info e crate show_path collect_summary Inr sector_size keys reward n of
      Inl _ \<Rightarrow> \<exists>d \<in> set keys. \<forall>i. collect_summary d \<noteq> SummaryFound i d
    | Inr info \<Rightarrow> dom (info_farms info) = set keys \<and>
        (\<forall>d \<in> set keys. \<exists>i. collect_summary d = SummaryFound i d \<and>
           info_farms info d = Some (farm_info_from crate i))"
proof (cases "\<forall>d \<in> set keys. \<exists>i. collect_summary d = SummaryFound i d")
  case True
  then obtain f where f: "\<forall>d \<in> set keys. collect_summary d = SummaryFound (f d) d" by metis
  let ?farms = "map (\<lambda>d. (d, farm_info_from crate (f d))) keys"
  have "map (\<lambda>d. summary_result crate show_path (collect_summary d)) keys = map Inr ?farms"
    using f by (simp add: summary_result_def)
  then have "collect_result (map (summary_result crate show_path) (map collect_summary keys)) =
      Inr ?farms"
    by (simp only: collect_result_eq_Ok map_map comp_def)
  moreover have "map_of (rev ?farms) = (Some \<circ> (\<lambda>d. farm_info_from crate (f d))) |` set keys"
    by (simp only: rev_map map_of_map_restrict set_rev)
  ultimately show ?thesis
    using f by (auto simp: farmer_get_info_def restrict_map_def split: if_splits)
next
  case False
  then obtain d where d: "d \<in> set keys" "\<And>i. collect_summary d \<noteq> SummaryFound i d" by blast
  have "collect_result (map (summary_result crate show_path) (map collect_summary keys)) \<noteq> Inr fs" for fs
  proof
    assume "collect_result (map (summary_result crate show_path) (map collect_summary keys)) = Inr fs"
    then have "map (\<lambda>d. summary_result crate show_path (collect_summary d)) keys = map Inr fs"
      by (simp only: collect_result_eq_Ok map_map comp_def)
    with d(1) obtain x where "summary_result crate show_path (collect_summary d) = Inr x"
      by (metis (no_types, lifting) image_iff list.set_map)
    with d(2) assms show False
      by (auto simp: summary_result_def split: single_disk_farm_summary.splits)
  qed
  with d show ?thesis
    by (auto simp: farmer_get_info_def result_bind_eq_Ok split: sum.splits)
qed

theorem farmer_get_info_complete_witness:
  "\<exists>info. farmer_get_info demo_build_env \<lparr>crate_b = id, crate_kb = id, crate_kib = id, crate_mb = id,
       crate_mib = id, crate_gb = id, crate_gib = id, crate_as_u64 = id, crate_MIB = 1048576\<rparr>
     (\<lambda>_. []) (\<lambda>d. SummaryFound (V0 (length d) [] [] 7 1) d :: (nat, unit) single_disk_farm_summary)
     Inr (\<lambda>_. 1) [[''farm'']] (PublicKey []) 1 = Inr info \<and> dom (info_farms info) = {[''farm'']}"
  using farmer_get_info_complete
    [where collect_summary = "\<lambda>d. SummaryFound (V0 (length d) [] [] 7 1) d :: (nat, unit) single_disk_farm_summary"
       and e = demo_build_env and show_path = "\<lambda>_. []" and sector_size = "\<lambda>_. 1"
       and keys = "[[''farm'']]" and reward = "PublicKey []" and n = 1
       and crate = "\<lparr>crate_b = id, crate_kb = id, crate_kib = id, crate_mb = id,
       crate_mib = id, crate_gb = id, crate_gib = id, crate_as_u64 = id, crate_MIB = 1048576\<rparr>"]
  by (auto split: sum.splits)

end
