(* ===== verification/Farmer_Build.thy ===== *)
theory Farmer_Build
  imports Farmer_Plots
begin

text \<open>
  The life of a farmer: \<open>Config::build\<close>, the farm driver task and \<open>Farmer::close\<close> of
  \<^verbatim>\<open>farmer/src/lib.rs\<close>. A build is a sequence of stages over a state made of the world it
  shares with the node (the two DSN slots, the plotting handlers attached to the farms, the
  spawned tasks) and its local values that own resources (the destructor set and the vector of
  handler ids). A stage can fail or panic; then the locals are dropped in reverse order of
  declaration, which is how Rust leaves the function. The disk farms, thread pools and the
  network are arguments.
\<close>

section \<open>World and labels\<close>

datatype farmer_label =
  AwaitPieceCacheWorker | ClearPieceCache | AwaitPlottingDelay | ClearReadersAndPieces
| AwaitFarmDriver | DropSectorHandler nat

datatype farmer_task = PieceCacheWorker | PlottingDelayTask | FarmDriver

text \<open>
  A running task was told to stop when the sender of its drop channel has been used or dropped
  (\<open>fw_signalled\<close>); it is gone from \<open>fw_running\<close> only when it has been joined.
\<close>

record ('rp, 'pc) farmer_world =
  fw_slots :: "('rp, 'pc) slots"
  fw_handlers :: "nat set"
  fw_running :: "farmer_task set"
  fw_signalled :: "farmer_task set"

fun awaited_task :: "farmer_label \<Rightarrow> farmer_task option" where
  "awaited_task AwaitPieceCacheWorker = Some PieceCacheWorker"
| "awaited_task AwaitPlottingDelay = Some PlottingDelayTask"
| "awaited_task AwaitFarmDriver = Some FarmDriver"
| "awaited_task _ = None"

text \<open>What the registered closures, futures and items do when they are run, awaited or dropped.\<close>

fun farmer_effect :: "farmer_label effect \<Rightarrow> ('rp, 'pc) farmer_world \<Rightarrow> ('rp, 'pc) farmer_world" where
  "farmer_effect (Ran ClearPieceCache) w =
     w\<lparr>fw_slots := (fw_slots w)\<lparr>farmer_piece_cache := None\<rparr>\<rparr>"
| "farmer_effect (Ran ClearReadersAndPieces) w =
     w\<lparr>fw_slots := (fw_slots w)\<lparr>farmer_readers_and_pieces := None\<rparr>\<rparr>"
| "farmer_effect (DroppedItem (DropSectorHandler i)) w = w\<lparr>fw_handlers := fw_handlers w - {i}\<rparr>"
| "farmer_effect (Awaited l) w =
     (case awaited_task l of
        Some t \<Rightarrow> w\<lparr>fw_signalled := insert t (fw_signalled w), fw_running := fw_running w - {t}\<rparr>
      | None \<Rightarrow> w)"
| "farmer_effect (DroppedFuture l) w =
     (case awaited_task l of
        Some t \<Rightarrow> w\<lparr>fw_signalled := insert t (fw_signalled w)\<rparr>
      | None \<Rightarrow> w)"
| "farmer_effect _ w = w"

definition farmer_effects ::
  "farmer_label effect list \<Rightarrow> ('rp, 'pc) farmer_world \<Rightarrow> ('rp, 'pc) farmer_world" where
  "farmer_effects es w = fold farmer_effect es w"

section \<open>Stages\<close>

record ('rp, 'pc) build_state =
  bst_world :: "('rp, 'pc) farmer_world"
  bst_destructors :: "farmer_label destructor_set"
  bst_handler_ids :: "nat list"

definition stage_bind ::
  "('s \<Rightarrow> ('e, 'a) result run \<times> 's) \<Rightarrow> ('a \<Rightarrow> 's \<Rightarrow> ('e, 'b) result run \<times> 's) \<Rightarrow>
   's \<Rightarrow> ('e, 'b) result run \<times> 's" where
  "stage_bind m f s =
     (case m s of
        (Ret (Inr x), s') \<Rightarrow> f x s'
      | (Ret (Inl e), s') \<Rightarrow> (Ret (Inl e), s')
      | (Panic p, s') \<Rightarrow> (Panic p, s'))"

definition pure_stage :: "('e, 'a) result run \<Rightarrow> 's \<Rightarrow> ('e, 'a) result run \<times> 's" where
  "pure_stage r s = (r, s)"

definition in_world ::
  "(('rp, 'pc) farmer_world \<Rightarrow> ('rp, 'pc) farmer_world) \<Rightarrow> ('rp, 'pc) build_state \<Rightarrow>
   ('e, unit) result run \<times> ('rp, 'pc) build_state" where
  "in_world f s = (Ret (Inr ()), s\<lparr>bst_world := f (bst_world s)\<rparr>)"

text \<open>\<open>destructors.add_..(..)?\<close>\<close>

definition register_stage ::
  "farmer_label entry \<Rightarrow> ('rp, 'pc) build_state \<Rightarrow>
   (build_error, unit) result run \<times> ('rp, 'pc) build_state" where
  "register_stage en s =
     (case register en (bst_destructors s) of
        Inr d \<Rightarrow> (Ret (Inr ()), s\<lparr>bst_destructors := d\<rparr>)
      | Inl m \<Rightarrow> (Ret (Inl (BuildOther m)), s))"

text \<open>Take hold of a resource and register its release.\<close>

definition acquire ::
  "(('rp, 'pc) farmer_world \<Rightarrow> ('rp, 'pc) farmer_world) \<Rightarrow> farmer_label entry \<Rightarrow>
   ('rp, 'pc) build_state \<Rightarrow>
   (build_error, unit) result run \<times> ('rp, 'pc) build_state" where
  "acquire f en = stage_bind (in_world f) (\<lambda>_. register_stage en)"

definition spawn :: "farmer_task \<Rightarrow> ('rp, 'pc) farmer_world \<Rightarrow> ('rp, 'pc) farmer_world" where
  "spawn t w = w\<lparr>fw_running := insert t (fw_running w)\<rparr>"

definition publish_cache :: "'pc \<Rightarrow> ('rp, 'pc) farmer_world \<Rightarrow> ('rp, 'pc) farmer_world" where
  "publish_cache c w = w\<lparr>fw_slots := (fw_slots w)\<lparr>farmer_piece_cache := Some c\<rparr>\<rparr>"

definition publish_readers :: "'rp \<Rightarrow> ('rp, 'pc) farmer_world \<Rightarrow> ('rp, 'pc) farmer_world" where
  "publish_readers r w = w\<lparr>fw_slots := (fw_slots w)\<lparr>farmer_readers_and_pieces := Some r\<rparr>\<rparr>"

text \<open>The loop that attaches a plotting handler to every farm.\<close>

fun attach_handlers ::
  "nat list \<Rightarrow> ('rp, 'pc) build_state \<Rightarrow> ('e, unit) result run \<times> ('rp, 'pc) build_state" where
  "attach_handlers [] s = (Ret (Inr ()), s)"
| "attach_handlers (i # is) s = attach_handlers is
     (s\<lparr>bst_world := (bst_world s)\<lparr>fw_handlers := insert i (fw_handlers (bst_world s))\<rparr>,
        bst_handler_ids := bst_handler_ids s @ [i]\<rparr>)"

text \<open>The loop over \<open>sector_plotting_handler_ids.drain(..)\<close>: \<open>n\<close> is the number of ids left.\<close>

fun register_handlers ::
  "nat \<Rightarrow> ('rp, 'pc) build_state \<Rightarrow>
   (build_error, unit) result run \<times> ('rp, 'pc) build_state" where
  "register_handlers 0 s = (Ret (Inr ()), s)"
| "register_handlers (Suc n) s =
     (case bst_handler_ids s of
        [] \<Rightarrow> (Ret (Inr ()), s)
      | i # is \<Rightarrow>
          (case register (ItemE (DropSectorHandler i)) (bst_destructors s) of
             Inr d \<Rightarrow> register_handlers n (s\<lparr>bst_destructors := d, bst_handler_ids := is\<rparr>)
           | Inl m \<Rightarrow> (Ret (Inl (BuildOther m)), s)))"

section \<open>Building a farmer\<close>

record ('cs, 'rpce, 'sdf, 'rp, 'reader, 'sec, 'pc) build_farmer_env =
  be_erasure_coding :: "(string, unit) result"
  be_piece_cache :: 'pc
  be_app_info :: "nat \<Rightarrow> ('rpce, u16) result"
  be_thread_pool_core_indices :: "usize option \<Rightarrow> usize option \<Rightarrow> 'cs list"
  be_cpu_cores :: "'cs \<Rightarrow> nat"
  be_truncate :: "nat \<Rightarrow> 'cs \<Rightarrow> 'cs"
  be_all_cpu_cores :: "'cs list"
  be_thread_pool_manager :: "('cs \<times> 'cs) list \<Rightarrow> (string, unit) result"
  be_farm_env :: "'sdf farm_env"
  be_rp_ops :: "('rp, 'reader, 'sec) rp_ops"

definition plotting_core_indices ::
  "('cs, 'rpce, 'sdf, 'rp, 'reader, 'sec, 'pc) build_farmer_env \<Rightarrow> farmer_config \<Rightarrow> 'cs list" where
  "plotting_core_indices env c =
     be_thread_pool_core_indices env (fc_plotting_thread_pool_size c) (fc_sector_encoding_concurrency c)"

text \<open>Without an explicit size every replotting pool is cut to half of its cores.\<close>

definition replotting_core_indices ::
  "('cs, 'rpce, 'sdf, 'rp, 'reader, 'sec, 'pc) build_farmer_env \<Rightarrow> farmer_config \<Rightarrow> 'cs list" where
  "replotting_core_indices env c =
     (let sets = be_thread_pool_core_indices env (fc_replotting_thread_pool_size c)
                   (fc_sector_encoding_concurrency c)
      in if fc_replotting_thread_pool_size c = None
         then map (\<lambda>s. be_truncate env (be_cpu_cores env s div 2) s) sets else sets)"

definition downloading_permits ::
  "('cs, 'rpce, 'sdf, 'rp, 'reader, 'sec, 'pc) build_farmer_env \<Rightarrow> farmer_config \<Rightarrow> usize" where
  "downloading_permits env c =
     unwrap_or (fc_sector_downloading_concurrency c)
       (of_nat (length (plotting_core_indices env c) + 1))"

definition farming_threads ::
  "('cs, 'rpce, 'sdf, 'rp, 'reader, 'sec, 'pc) build_farmer_env \<Rightarrow> farmer_config \<Rightarrow> usize run" where
  "farming_threads env c =
     (case fc_farming_thread_pool_size c of
        Some n \<Rightarrow> Ret n
      | None \<Rightarrow>
          (case be_all_cpu_cores env of
             [] \<Rightarrow> Panic ''Not empty according to function description; qed''
           | s # _ \<Rightarrow> Ret (of_nat (be_cpu_cores env s))))"

text \<open>The loop over the descriptions; the farmer info request of farm \<open>i\<close> is call \<open>i + 1\<close>.\<close>

fun open_farms ::
  "overflow_checks \<Rightarrow>
   ('cs, 'rpce, ('reader, 'sec, 'rerr, 'cache) single_disk_farm, 'rp, 'reader, 'sec, 'pc)
     build_farmer_env \<Rightarrow>
   (nat \<Rightarrow> path \<Rightarrow> u64 \<Rightarrow> farm_options) \<Rightarrow> nat \<Rightarrow> (path \<times> u64) list \<Rightarrow>
   (build_error,
    (('sec, 'sol) farm \<times> ('reader, 'sec, 'rerr, 'cache) single_disk_farm) list) result run" where
  "open_farms mode env opts i [] = Ret (Inr [])"
| "open_farms mode env opts i ((dir, space) # ds) =
     try_bind (farm_new mode (be_farm_env env) (be_app_info env (Suc i)) (opts i dir space)) (\<lambda>f.
       try_bind (open_farms mode env opts (Suc i) ds) (\<lambda>fs. Ret (Inr (f # fs))))"

record ('sec, 'sol) farmer =
  fr_reward_address :: public_key
  fr_farm_info :: "path \<rightharpoonup> ('sec, 'sol) farm"
  fr_node_name :: string
  fr_app_info :: u16
  fr_destructors :: "farmer_label destructor_set"

definition farmer_build_stages ::
  "overflow_checks \<Rightarrow>
   ('cs, 'rpce, ('reader, 'sec, 'rerr, 'cache) single_disk_farm, 'rp, 'reader, 'sec, 'pc)
     build_farmer_env \<Rightarrow>
   farmer_config \<Rightarrow> public_key \<Rightarrow> string \<Rightarrow> (path \<times> u64) list \<Rightarrow> u8 \<Rightarrow>
   ('rp, 'pc) build_state \<Rightarrow>
   (build_error,
    farmer_label destructor_set \<Rightarrow> ('sec, 'sol) farmer) result run \<times> ('rp, 'pc) build_state" where
  "farmer_build_stages mode env c reward nname farms cache_percentage =
     stage_bind (pure_stage (Ret (map_err (\<lambda>e. BuildOther
         (''Failed to create erasure coding for farm: '' @ e)) (be_erasure_coding env)))) (\<lambda>_.
     stage_bind (acquire (spawn PieceCacheWorker) (AsyncE AwaitPieceCacheWorker)) (\<lambda>_.
     stage_bind (pure_stage (run_bind (expect_ok ''Node is always reachable'' (be_app_info env 0))
         (\<lambda>x. Ret (Inr x)))) (\<lambda>protocol_max.
     stage_bind (pure_stage (Ret (map_err ThreadPoolError (be_thread_pool_manager env
         (zip (plotting_core_indices env c) (replotting_core_indices env c)))))) (\<lambda>_.
     stage_bind (pure_stage (run_bind (farming_threads env c) (\<lambda>x. Ret (Inr x)))) (\<lambda>threads.
     stage_bind (pure_stage (open_farms mode env
         (\<lambda>i dir space. \<lparr>fo_disk_farm_idx = i, fo_cache_percentage = cache_percentage,
            fo_reward_address = reward,
            fo_max_pieces_in_sector = unwrap_or (fc_max_pieces_in_sector c) protocol_max,
            fo_farming_thread_pool_size = threads,
            fo_downloading_permits = downloading_permits env c,
            fo_directory = dir, fo_space_pledged = space\<rparr>) 0 farms)) (\<lambda>opened.
     stage_bind (acquire (publish_cache (be_piece_cache env)) (SyncE ClearPieceCache)) (\<lambda>_.
     stage_bind (acquire (spawn PlottingDelayTask) (AsyncE AwaitPlottingDelay)) (\<lambda>_.
     stage_bind (pure_stage (Ret (create_readers_and_pieces (be_rp_ops env) (map snd opened)))) (\<lambda>rp.
     stage_bind (acquire (publish_readers rp) (SyncE ClearReadersAndPieces)) (\<lambda>_.
     stage_bind (attach_handlers [0..<length opened]) (\<lambda>_.
     stage_bind (acquire (spawn FarmDriver) (AsyncE AwaitFarmDriver)) (\<lambda>_.
     stage_bind (register_handlers (length opened)) (\<lambda>_.
     stage_bind (pure_stage (run_bind (expect_ok ''Node is always reachable''
         (be_app_info env (Suc (length farms)))) (\<lambda>x. Ret (Inr x)))) (\<lambda>info.
     pure_stage (Ret (Inr (\<lambda>d. \<lparr>fr_reward_address = reward,
        fr_farm_info = map_of (rev (map (\<lambda>(f, _). (farm_directory f, f)) opened)),
        fr_node_name = nname, fr_app_info = info, fr_destructors = d\<rparr>)))))))))))))))))"

text \<open>Leaving the function early: the handler ids are dropped, then the destructor set.\<close>

definition unwind :: "('rp, 'pc) build_state \<Rightarrow> ('rp, 'pc) farmer_world run" where
  "unwind s =
     run_bind (ds_drop (bst_destructors s)) (\<lambda>es.
       Ret (farmer_effects (map (\<lambda>i. DroppedItem (DropSectorHandler i)) (bst_handler_ids s) @ es)
              (bst_world s)))"

text \<open>The outcome of the call, and the world it leaves behind (a panic there would abort).\<close>

definition farmer_build ::
  "overflow_checks \<Rightarrow>
   ('cs, 'rpce, ('reader, 'sec, 'rerr, 'cache) single_disk_farm, 'rp, 'reader, 'sec, 'pc)
     build_farmer_env \<Rightarrow>
   farmer_config \<Rightarrow> public_key \<Rightarrow> string \<Rightarrow> (path \<times> u64) list \<Rightarrow> u8 \<Rightarrow>
   ('rp, 'pc) farmer_world \<Rightarrow>
   (build_error, ('sec, 'sol) farmer) result run \<times> ('rp, 'pc) farmer_world run" where
  "farmer_build mode env c reward nname farms cache_percentage w =
     (if farms = [] then (Ret (Inl NoFarmsSupplied), Ret w)
      else
        (case farmer_build_stages mode env c reward nname farms cache_percentage
            \<lparr>bst_world = w, bst_destructors = ds_new ''farmer-destructors'', bst_handler_ids = []\<rparr> of
           (Ret (Inr mk), s) \<Rightarrow> (Ret (Inr (mk (bst_destructors s))), Ret (bst_world s))
         | (Ret (Inl e), s) \<Rightarrow> (Ret (Inl e), unwind s)
         | (Panic m, s) \<Rightarrow> (Panic m, unwind s)))"

text \<open>\<open>Builder::build\<close>: the configuration of the builder is built.\<close>

definition farmer_builder_build ::
  "overflow_checks \<Rightarrow>
   ('cs, 'rpce, ('reader, 'sec, 'rerr, 'cache) single_disk_farm, 'rp, 'reader, 'sec, 'pc)
     build_farmer_env \<Rightarrow>
   farmer_builder \<Rightarrow> public_key \<Rightarrow> string \<Rightarrow> (path \<times> u64) list \<Rightarrow> u8 \<Rightarrow>
   ('rp, 'pc) farmer_world \<Rightarrow>
   (build_error, ('sec, 'sol) farmer) result run \<times> ('rp, 'pc) farmer_world run" where
  "farmer_builder_build mode env b reward nname farms cache_percentage w =
     (case farmer_configuration b of
        Panic m \<Rightarrow> (Panic m, Ret w)
      | Ret c \<Rightarrow> farmer_build mode env c reward nname farms cache_percentage w)"

text \<open>The values of the hash map of farms, in the order in which \<open>walk\<close> gives its keys.\<close>

definition farmer_iter_farms ::
  "((path \<rightharpoonup> ('sec, 'sol) farm) \<Rightarrow> path list) \<Rightarrow> ('sec, 'sol) farmer \<Rightarrow> ('sec, 'sol) farm list" where
  "farmer_iter_farms walk f = List.map_filter (fr_farm_info f) (walk (fr_farm_info f))"

section \<open>The farm driver\<close>

text \<open>
  The loop of the driver task. \<open>rs\<close> are the results of the farms in the order they finish,
  \<open>signal k\<close> whether the drop signal comes before the next result in iteration \<open>k\<close>; once all
  farms have finished the stream of results is ready at once, and \<open>select\<close> prefers it.
  \<open>try_send\<close> is the sender of the bounded result channel. \<open>None\<close> means out of fuel.
\<close>

definition driver_message ::
  "('e, 'id) result \<Rightarrow> ('e, ('id option, string) task_output) result" where
  "driver_message r = map_ok (\<lambda>i. TaskValue (Some i)) r"

fun farm_driver ::
  "nat \<Rightarrow> (('e, ('id option, string) task_output) result \<Rightarrow> 'ch \<Rightarrow> bool \<times> 'ch) \<Rightarrow> (nat \<Rightarrow> bool) \<Rightarrow>
   nat \<Rightarrow> ('e, 'id) result list \<Rightarrow> 'ch \<Rightarrow> 'ch option" where
  "farm_driver 0 try_send signal k rs ch = None"
| "farm_driver (Suc fuel) try_send signal k rs ch =
     (case rs of
        [] \<Rightarrow>
          (case try_send (Inr (TaskValue None)) ch of
             (ok, ch') \<Rightarrow> if ok then farm_driver fuel try_send signal (Suc k) [] ch' else Some ch')
      | r # rs' \<Rightarrow>
          if signal k
          then Some (snd (try_send (Inr (TaskCancelled ''Received drop signal for farm driver'')) ch))
          else
            (case try_send (driver_message r) ch of
               (ok, ch') \<Rightarrow> if ok then farm_driver fuel try_send signal (Suc k) rs' ch' else Some ch'))"

section \<open>Closing a farmer\<close>

fun drain_results :: "(string, ('v, 'r) task_output) result list \<Rightarrow> (string, unit) result" where
  "drain_results [] = Inr ()"
| "drain_results (Inl e # ms) = Inl e"
| "drain_results (Inr out # ms) = drain_results ms"

text \<open>\<open>received\<close> is the receiver field: the messages it still yields after it was closed.\<close>

definition farmer_close ::
  "('sec, 'sol) farmer \<Rightarrow> (string, ('v, 'r) task_output) result list option \<Rightarrow>
   ('rp, 'pc) farmer_world \<Rightarrow> (string, unit) result run \<times> ('rp, 'pc) farmer_world" where
  "farmer_close f received w =
     (case async_drop (fr_destructors f) of
        Panic m \<Rightarrow> (Panic m, w)
      | Ret (es, Inl e) \<Rightarrow> (Ret (Inl e), farmer_effects es w)
      | Ret (es, Inr _) \<Rightarrow>
          (run_bind (expect ''Handle is always there'' received) (\<lambda>ms. Ret (drain_results ms)),
           farmer_effects es w))"

text \<open>
  The same when spawned tasks may have panicked (\<open>dead\<close>): the registered futures signal their task
  and then \<open>expect\<close> its join, and \<open>async_drop\<close> passes the panic on after it has unwound.
\<close>

fun join_message :: "farmer_task \<Rightarrow> string" where
  "join_message FarmDriver = ''joining should not fail; qed''"
| "join_message _ = ''awaiting worker should not fail except panic by the worker itself; qed''"

definition join_panic :: "(farmer_task \<Rightarrow> bool) \<Rightarrow> farmer_label \<Rightarrow> string option" where
  "join_panic dead l =
     (case awaited_task l of Some t \<Rightarrow> if dead t then Some (join_message t) else None | None \<Rightarrow> None)"

definition farmer_close_joins ::
  "(farmer_task \<Rightarrow> bool) \<Rightarrow> ('sec, 'sol) farmer \<Rightarrow>
   (string, ('v, 'r) task_output) result list option \<Rightarrow>
   ('rp, 'pc) farmer_world \<Rightarrow> (string, unit) result run \<times> ('rp, 'pc) farmer_world" where
  "farmer_close_joins dead f received w =
     (case async_drop_joins (join_panic dead) (fr_destructors f) of
        Panic m \<Rightarrow> (Panic m, w)
      | Ret (es, r) \<Rightarrow>
          (try_bind r (\<lambda>_. run_bind (expect ''Handle is always there'' received)
             (\<lambda>ms. Ret (drain_results ms))),
           farmer_effects es w))"

section \<open>Stage lemmas\<close>

lemma stage_bind_eq_Ok:
  "stage_bind m f s = (Ret (Inr y), s') \<longleftrightarrow>
   (\<exists>x t. m s = (Ret (Inr x), t) \<and> f x t = (Ret (Inr y), s'))"
  by (auto simp: stage_bind_def split: prod.splits run.splits sum.splits)

definition keeps :: "('s \<Rightarrow> bool) \<Rightarrow> ('s \<Rightarrow> 'r \<times> 's) \<Rightarrow> bool" where
  "keeps P m \<longleftrightarrow> (\<forall>s. P s \<longrightarrow> P (snd (m s)))"

lemma keepsD: "keeps P m \<Longrightarrow> P s \<Longrightarrow> m s = (r, t) \<Longrightarrow> P t"
  unfolding keeps_def by (metis snd_conv)

lemma keeps_bind [intro]: "keeps P m \<Longrightarrow> (\<And>x. keeps P (f x)) \<Longrightarrow> keeps P (stage_bind m f)"
  unfolding keeps_def stage_bind_def
  by (auto split: prod.splits run.splits sum.splits)

lemma keeps_pure [intro]: "keeps P (pure_stage r)"
  by (simp add: keeps_def pure_stage_def)

abbreviation live :: "farmer_label destructor_set \<Rightarrow> bool" where
  "live d \<equiv> ds_wf d \<and> allow_async d"

lemma register_live:
  assumes "live d"
  shows "\<exists>d'. register en d = Inr d' \<and> live d' \<and> entries d' = entries d @ [en]"
proof -
  have "accepts en d" using assms by (cases en) simp_all
  then obtain d' where d': "register en d = Inr d'" using assms dset.reg_ok [of d en] by auto
  then show ?thesis
    using assms dset.reg_invar [OF _ d'] dset.reg_view [OF _ d'] dset.reg_flags [OF d'] by auto
qed

lemma acquire_ok:
  assumes "live (bst_destructors s)"
  shows "\<exists>d. acquire f en s =
      (Ret (Inr ()), s\<lparr>bst_world := f (bst_world s), bst_destructors := d\<rparr>) \<and>
    live d \<and> entries d = entries (bst_destructors s) @ [en]"
  using register_live [OF assms, of en]
  by (auto simp: acquire_def stage_bind_def in_world_def register_stage_def)

lemma attach_handlers_eq:
  "attach_handlers is s =
   (Ret (Inr ()), s\<lparr>bst_world := (bst_world s)\<lparr>fw_handlers := fw_handlers (bst_world s) \<union> set is\<rparr>,
      bst_handler_ids := bst_handler_ids s @ is\<rparr>)"
  by (induction "is" arbitrary: s) simp_all

lemma register_handlers_ok:
  "live (bst_destructors s) \<Longrightarrow> length (bst_handler_ids s) = n \<Longrightarrow>
   \<exists>d. register_handlers n s = (Ret (Inr ()), s\<lparr>bst_destructors := d, bst_handler_ids := []\<rparr>) \<and>
     live d \<and> entries d =
       entries (bst_destructors s) @ map (\<lambda>i. ItemE (DropSectorHandler i)) (bst_handler_ids s)"
proof (induction n arbitrary: s)
  case 0
  then show ?case by (intro exI [of _ "bst_destructors s"]) (cases s, simp)
next
  case (Suc n)
  then obtain i "is" where ids: "bst_handler_ids s = i # is" "length is = n"
    by (auto simp: length_Suc_conv)
  obtain d where d: "register (ItemE (DropSectorHandler i)) (bst_destructors s) = Inr d" "live d"
    "entries d = entries (bst_destructors s) @ [ItemE (DropSectorHandler i)]"
    using register_live Suc.prems(1) by blast
  from Suc.IH [of "s\<lparr>bst_destructors := d, bst_handler_ids := is\<rparr>"] d ids show ?case by auto
qed

section \<open>A successful build\<close>

text \<open>What a successful build has registered for \<open>n\<close> farms, in this order.\<close>

definition build_entries :: "nat \<Rightarrow> farmer_label entry list" where
  "build_entries n =
     [AsyncE AwaitPieceCacheWorker, SyncE ClearPieceCache, AsyncE AwaitPlottingDelay,
      SyncE ClearReadersAndPieces, AsyncE AwaitFarmDriver] @
     map (\<lambda>i. ItemE (DropSectorHandler i)) [0..<n]"

text \<open>The world a successful build leaves, from the world it started in.\<close>

definition built_world ::
  "nat \<Rightarrow> 'rp \<Rightarrow> 'pc \<Rightarrow> ('rp, 'pc) farmer_world \<Rightarrow> ('rp, 'pc) farmer_world" where
  "built_world n rp pc w =
     w\<lparr>fw_slots := (fw_slots w)\<lparr>farmer_piece_cache := Some pc,
         farmer_readers_and_pieces := Some rp\<rparr>,
       fw_handlers := fw_handlers w \<union> {0..<n},
       fw_running := {FarmDriver, PlottingDelayTask, PieceCacheWorker} \<union> fw_running w\<rparr>"

lemma open_farms_length:
  "open_farms mode env opts i farms = Ret (Inr fs) \<Longrightarrow> length fs = length farms"
proof (induction farms arbitrary: i fs)
  case (Cons d ds)
  then show ?case by (cases d) (auto simp: try_bind_eq_Ok)
qed simp

lemma create_readers_and_pieces_Ok:
  assumes "create_readers_and_pieces ops farms = (Inr rp :: (build_error, 'rp) result)"
  shows "length farms \<le> 256"
proof (rule ccontr)
  assume "\<not> length farms \<le> 256"
  then have "create_readers_and_pieces ops farms =
      (Inl (BuildOther err_too_many_farms) :: (build_error, 'rp) result)"
    by (simp add: create_readers_and_pieces_def collect_sectors_too_many)
  with assms show False by simp
qed

text \<open>A point of the build: its world, what is registered and the handler ids still held.\<close>

definition build_at ::
  "('rp, 'pc) build_state \<Rightarrow> ('rp, 'pc) farmer_world \<Rightarrow> farmer_label entry list \<Rightarrow> nat list \<Rightarrow> bool" where
  "build_at s w es ids \<longleftrightarrow> bst_world s = w \<and> live (bst_destructors s) \<and>
     entries (bst_destructors s) = es \<and> bst_handler_ids s = ids"

lemma build_at_acquire:
  "acquire f en s = (r, t) \<Longrightarrow> build_at s w es ids \<Longrightarrow> build_at t (f w) (es @ [en]) ids"
  using acquire_ok [of s f en] by (auto simp: build_at_def)

lemma build_at_attach:
  "attach_handlers is s = (r, t) \<Longrightarrow> build_at s w es ids \<Longrightarrow>
   build_at t (w\<lparr>fw_handlers := fw_handlers w \<union> set is\<rparr>) es (ids @ is)"
  by (auto simp: build_at_def attach_handlers_eq)

lemma build_at_register:
  "register_handlers n s = (r, t) \<Longrightarrow> build_at s w es ids \<Longrightarrow> length ids = n \<Longrightarrow>
   build_at t w (es @ map (\<lambda>i. ItemE (DropSectorHandler i)) ids) []"
  using register_handlers_ok [of s n] by (auto simp: build_at_def)

lemma live_new: "live (ds_new n)"
  by simp

lemma farmer_build_stages_Ok:
  assumes "farmer_build_stages mode env c reward nname farms p
      \<lparr>bst_world = w, bst_destructors = ds_new n, bst_handler_ids = []\<rparr> = (Ret (Inr mk), s)"
  shows "length farms \<le> 256 \<and> (\<forall>d. fr_destructors (mk d) = d) \<and>
    (\<exists>rp. build_at s (built_world (length farms) rp (be_piece_cache env) w)
      (build_entries (length farms)) [])"
proof -
  have start: "build_at \<lparr>bst_world = w, bst_destructors = ds_new n, bst_handler_ids = []\<rparr> w [] []"
    using live_new by (simp add: build_at_def)
  show ?thesis
    using assms [unfolded farmer_build_stages_def stage_bind_eq_Ok pure_stage_def]
  proof (elim exE conjE, simp only: prod.inject, elim conjE, hypsubst, goal_cases)
    case prems: 1
    note at = build_at_acquire [OF prems(6) build_at_attach [OF prems(5)
        build_at_acquire [OF prems(4) build_at_acquire [OF prems(3)
          build_at_acquire [OF prems(2) build_at_acquire [OF prems(1) start]]]]]]
    note opened = open_farms_length [OF prems(14)]
    have "length farms \<le> 256"
      using create_readers_and_pieces_Ok prems(15) opened by fastforce
    moreover have "\<forall>d. fr_destructors (mk d) = d" using prems(17) by auto
    moreover have "\<exists>rp. build_at s
        (built_world (length farms) rp (be_piece_cache env) w) (build_entries (length farms)) []"
      using build_at_register [OF prems(7) at] opened
      by (intro exI) (auto simp add: built_world_def build_entries_def spawn_def publish_cache_def
          publish_readers_def)
    ultimately show ?case by blast
  qed
qed

lemma farmer_build_Ok:
  assumes "farmer_build mode env c reward nname farms p w = (Ret (Inr f), w')"
  shows "\<exists>rp. w' = Ret (built_world (length farms) rp (be_piece_cache env) w) \<and>
    live (fr_destructors f) \<and> entries (fr_destructors f) = build_entries (length farms) \<and>
    farms \<noteq> [] \<and> length farms \<le> 256"
  using assms
  by (auto simp: farmer_build_def build_at_def split: if_splits prod.splits run.splits sum.splits
      dest!: farmer_build_stages_Ok)

text \<open>The farms of a farmer are those of the descriptions.\<close>

lemma farm_new_directory:
  "farm_new mode env info opts = Ret (Inr (fm, sdf)) \<Longrightarrow> farm_directory fm = fo_directory opts"
  by (auto simp: farm_new_def try_bind_eq_Ok run_bind_eq_Ret)

lemma open_farms_directories:
  assumes "\<And>i dir space. fo_directory (opts i dir space) = dir"
  shows "open_farms mode env opts i farms = Ret (Inr fs) \<Longrightarrow>
    map (\<lambda>(fm, _). farm_directory fm) fs = map fst farms"
proof (induction farms arbitrary: i fs)
  case (Cons d ds)
  then show ?case
    by (cases d) (auto simp: try_bind_eq_Ok assms dest!: farm_new_directory)
qed simp

lemma farmer_build_farm_info:
  assumes "farmer_build mode env c reward nname farms p w = (Ret (Inr f), w')"
  shows "dom (fr_farm_info f) = fst ` set farms"
proof -
  obtain mk s where st: "farmer_build_stages mode env c reward nname farms p
      \<lparr>bst_world = w, bst_destructors = ds_new ''farmer-destructors'', bst_handler_ids = []\<rparr> = (Ret (Inr mk), s)"
    and f: "f = mk (bst_destructors s)"
    using assms by (auto simp: farmer_build_def split: if_splits prod.splits run.splits sum.splits)
  from st obtain opts opened where o: "open_farms mode env opts 0 farms = Ret (Inr opened)"
    "\<And>i dir space. fo_directory (opts i dir space) = dir"
    "fr_farm_info f = map_of (rev (map (\<lambda>(fm, _). (farm_directory fm, fm)) opened))"
    unfolding farmer_build_stages_def f
    by (auto simp: stage_bind_eq_Ok pure_stage_def)
  have "dom (fr_farm_info f) = set (map (\<lambda>(fm, _). farm_directory fm) opened)"
    unfolding o(3) dom_map_of_conv_image_fst by (auto simp: image_image split_beta)
  also have "\<dots> = fst ` set farms"
    using open_farms_directories [OF o(2,1)] by (metis set_map)
  finally show ?thesis .
qed

section \<open>What the effects of a teardown do to the world\<close>

lemma farmer_effect_fields:
  "farmer_piece_cache (fw_slots (farmer_effect e w)) =
     (if e = Ran ClearPieceCache then None else farmer_piece_cache (fw_slots w))"
  "farmer_readers_and_pieces (fw_slots (farmer_effect e w)) =
     (if e = Ran ClearReadersAndPieces then None else farmer_readers_and_pieces (fw_slots w))"
  "fw_handlers (farmer_effect e w) = fw_handlers w - {i. e = DroppedItem (DropSectorHandler i)}"
  "fw_running (farmer_effect e w) =
     fw_running w - {t. \<exists>l. e = Awaited l \<and> awaited_task l = Some t}"
  "fw_signalled (farmer_effect e w) =
     fw_signalled w \<union> {t. \<exists>l. (e = Awaited l \<or> e = DroppedFuture l) \<and> awaited_task l = Some t}"
  by (cases "(e, w)" rule: farmer_effect.cases; auto split: option.splits)+

lemma farmer_effects_fields:
  "farmer_piece_cache (fw_slots (farmer_effects es w)) =
     (if Ran ClearPieceCache \<in> set es then None else farmer_piece_cache (fw_slots w))"
  "farmer_readers_and_pieces (fw_slots (farmer_effects es w)) =
     (if Ran ClearReadersAndPieces \<in> set es then None else farmer_readers_and_pieces (fw_slots w))"
  "fw_handlers (farmer_effects es w) =
     fw_handlers w - {i. DroppedItem (DropSectorHandler i) \<in> set es}"
  "fw_running (farmer_effects es w) =
     fw_running w - {t. \<exists>l. Awaited l \<in> set es \<and> awaited_task l = Some t}"
  "fw_signalled (farmer_effects es w) =
     fw_signalled w \<union>
       {t. \<exists>l. (Awaited l \<in> set es \<or> DroppedFuture l \<in> set es) \<and> awaited_task l = Some t}"
  unfolding farmer_effects_def
  by (induction es arbitrary: w; auto simp: farmer_effect_fields)+

section \<open>Every resource has its release registered\<close>

definition covered :: "farmer_label entry list \<Rightarrow> nat list \<Rightarrow> ('rp, 'pc) farmer_world \<Rightarrow> bool" where
  "covered es ids w \<longleftrightarrow>
     (farmer_piece_cache (fw_slots w) \<noteq> None \<longrightarrow> SyncE ClearPieceCache \<in> set es) \<and>
     (farmer_readers_and_pieces (fw_slots w) \<noteq> None \<longrightarrow> SyncE ClearReadersAndPieces \<in> set es) \<and>
     (\<forall>i \<in> fw_handlers w. i \<in> set ids \<or> ItemE (DropSectorHandler i) \<in> set es) \<and>
     (\<forall>t \<in> fw_running w. t \<in> fw_signalled w \<or> (\<exists>l. AsyncE l \<in> set es \<and> awaited_task l = Some t))"

definition guarded :: "('rp, 'pc) build_state \<Rightarrow> bool" where
  "guarded s \<longleftrightarrow> live (bst_destructors s) \<and>
     covered (entries (bst_destructors s)) (bst_handler_ids s) (bst_world s)"

lemma keeps_acquire:
  assumes "\<And>es ids w. covered es ids w \<Longrightarrow> covered (es @ [en]) ids (f w)"
  shows "keeps guarded (acquire f en)"
proof -
  have "guarded (snd (acquire f en s))" if "guarded s" for s
    using that assms acquire_ok [of s f en] by (auto simp: guarded_def)
  then show ?thesis by (simp add: keeps_def)
qed

lemma keeps_acquire_instances [intro]:
  "keeps guarded (acquire (spawn PieceCacheWorker) (AsyncE AwaitPieceCacheWorker))"
  "keeps guarded (acquire (spawn PlottingDelayTask) (AsyncE AwaitPlottingDelay))"
  "keeps guarded (acquire (spawn FarmDriver) (AsyncE AwaitFarmDriver))"
  "keeps guarded (acquire (publish_cache pc) (SyncE ClearPieceCache))"
  "keeps guarded (acquire (publish_readers rp) (SyncE ClearReadersAndPieces))"
  by (rule keeps_acquire; fastforce simp: covered_def spawn_def publish_cache_def
      publish_readers_def)+

lemma keeps_attach [intro]: "keeps guarded (attach_handlers is)"
  by (auto simp: keeps_def guarded_def covered_def attach_handlers_eq)

lemma register_handlers_guarded: "guarded s \<Longrightarrow> guarded (snd (register_handlers n s))"
proof (induction n arbitrary: s)
  case (Suc n)
  show ?case
  proof (cases "bst_handler_ids s")
    case Nil
    with Suc.prems show ?thesis by simp
  next
    case (Cons i "is")
    obtain d where d: "register (ItemE (DropSectorHandler i)) (bst_destructors s) = Inr d" "live d"
      "entries d = entries (bst_destructors s) @ [ItemE (DropSectorHandler i)]"
      using register_live Suc.prems unfolding guarded_def by blast
    then have "guarded (s\<lparr>bst_destructors := d, bst_handler_ids := is\<rparr>)"
      using Suc.prems Cons by (auto simp: guarded_def covered_def)
    with Suc.IH d Cons show ?thesis by simp
  qed
qed simp

lemma keeps_register_handlers [intro]: "keeps guarded (register_handlers n)"
  by (simp add: keeps_def register_handlers_guarded)

lemma keeps_build_stages:
  "keeps guarded (farmer_build_stages mode env c reward nname farms p)"
  unfolding farmer_build_stages_def
  by (intro keeps_bind keeps_pure keeps_acquire_instances keeps_attach keeps_register_handlers)

text \<open>Nothing of a farmer is left: the slots are empty, no handler is attached, and every task
  was told to stop.\<close>

definition clean :: "('rp, 'pc) farmer_world \<Rightarrow> bool" where
  "clean w \<longleftrightarrow> farmer_piece_cache (fw_slots w) = None \<and> farmer_readers_and_pieces (fw_slots w) = None \<and>
     fw_handlers w = {} \<and> fw_running w \<subseteq> fw_signalled w"

lemma effect_of_memI:
  "SyncE l \<in> E \<Longrightarrow> Ran l \<in> effect_of h ` E"
  "ItemE l \<in> E \<Longrightarrow> DroppedItem l \<in> effect_of h ` E"
  "AsyncE l \<in> E \<Longrightarrow> h l \<in> effect_of h ` E"
  by (erule rev_image_eqI, simp)+

lemma clean_effects:
  assumes "farmer_piece_cache (fw_slots w) \<noteq> None \<Longrightarrow> Ran ClearPieceCache \<in> set es"
    and "farmer_readers_and_pieces (fw_slots w) \<noteq> None \<Longrightarrow> Ran ClearReadersAndPieces \<in> set es"
    and "\<And>i. i \<in> fw_handlers w \<Longrightarrow> DroppedItem (DropSectorHandler i) \<in> set es"
    and "\<And>t. t \<in> fw_running w \<Longrightarrow>
      t \<in> fw_signalled w \<or> (\<exists>l. DroppedFuture l \<in> set es \<and> awaited_task l = Some t)"
  shows "clean (farmer_effects es w)"
proof -
  have "fw_running (farmer_effects es w) \<subseteq> fw_signalled (farmer_effects es w)"
    using assms(4) unfolding farmer_effects_fields by blast
  moreover have "fw_handlers (farmer_effects es w) = {}"
    using assms(3) unfolding farmer_effects_fields by blast
  moreover have "farmer_piece_cache (fw_slots (farmer_effects es w)) = None"
    using assms(1) unfolding farmer_effects_fields by presburger
  moreover have "farmer_readers_and_pieces (fw_slots (farmer_effects es w)) = None"
    using assms(2) unfolding farmer_effects_fields by presburger
  ultimately show ?thesis by (simp add: clean_def)
qed

lemma unwind_clean:
  assumes "guarded s"
  shows "\<exists>w. unwind s = Ret w \<and> clean w"
proof -
  let ?E = "set (entries (bst_destructors s))"
  let ?es = "map (effect_of DroppedFuture) (rev (entries (bst_destructors s)))"
  let ?all = "map (\<lambda>i. DroppedItem (DropSectorHandler i)) (bst_handler_ids s) @ ?es"
  let ?w = "bst_world s"
  have es: "set ?es = effect_of DroppedFuture ` ?E" by simp
  have c: "covered (entries (bst_destructors s)) (bst_handler_ids s) ?w"
    using assms by (simp add: guarded_def)
  have "farmer_piece_cache (fw_slots ?w) \<noteq> None \<Longrightarrow> Ran ClearPieceCache \<in> set ?all"
    "farmer_readers_and_pieces (fw_slots ?w) \<noteq> None \<Longrightarrow> Ran ClearReadersAndPieces \<in> set ?all"
    using c unfolding covered_def set_append es by (blast intro: effect_of_memI(1))+
  moreover have "DroppedItem (DropSectorHandler i) \<in> set ?all" if "i \<in> fw_handlers ?w" for i
    using c that effect_of_memI(2) [of "DropSectorHandler i" ?E DroppedFuture]
    unfolding covered_def set_append es by auto
  moreover have "t \<in> fw_signalled ?w \<or> (\<exists>l. DroppedFuture l \<in> set ?all \<and> awaited_task l = Some t)"
    if "t \<in> fw_running ?w" for t
    using c that effect_of_memI(3) [of _ ?E DroppedFuture]
    unfolding covered_def set_append es by blast
  ultimately have "clean (farmer_effects ?all ?w)" by (rule clean_effects)
  moreover have "ds_drop (bst_destructors s) = Ret ?es"
    using assms dset.drop_view [of "bst_destructors s"] by (simp add: guarded_def)
  ultimately show ?thesis by (simp add: unwind_def)
qed

lemma stages_clean:
  assumes "farmer_build_stages mode env c reward nname farms p s = (r, t)" and "guarded s"
  shows "\<exists>w. unwind t = Ret w \<and> clean w"
  by (rule unwind_clean [OF keepsD [OF keeps_build_stages assms(2,1)]])

lemma farmer_build_not_Ok:
  assumes "clean w" and "farmer_build mode env c reward nname farms p w = (r, w')"
    and "\<nexists>f. r = Ret (Inr f)"
  shows "\<exists>w1. w' = Ret w1 \<and> clean w1"
proof (cases "farms = []")
  case True
  with assms show ?thesis by (auto simp: farmer_build_def)
next
  case False
  let ?s0 = "\<lparr>bst_world = w, bst_destructors = ds_new ''farmer-destructors'', bst_handler_ids = []\<rparr>"
  have "guarded ?s0"
    using assms(1) live_new by (auto simp: guarded_def covered_def clean_def)
  with assms(2,3) False show ?thesis
    by (auto simp: farmer_build_def split: prod.splits run.splits sum.splits dest: stages_clean)
qed

section \<open>The close of a built farmer\<close>

definition close_effects :: "nat \<Rightarrow> farmer_label effect list" where
  "close_effects n =
     map (\<lambda>i. DroppedItem (DropSectorHandler i)) (rev [0..<n]) @
     [Awaited AwaitFarmDriver, Ran ClearReadersAndPieces, Awaited AwaitPlottingDelay,
      Ran ClearPieceCache, Awaited AwaitPieceCacheWorker]"

lemma async_drop_built:
  assumes "live d" and "entries d = build_entries n"
  shows "async_drop d = Ret (close_effects n, Inr ())"
  using assms dset.close_view [of d]
  by (simp add: build_entries_def close_effects_def rev_map comp_def)

lemma set_close_effects:
  "set (close_effects n) =
     (\<lambda>i. DroppedItem (DropSectorHandler i)) ` {0..<n} \<union>
     {Awaited AwaitFarmDriver, Ran ClearReadersAndPieces, Awaited AwaitPlottingDelay,
      Ran ClearPieceCache, Awaited AwaitPieceCacheWorker}"
  by (auto simp: close_effects_def)

lemma close_effects_prefix:
  "Ran ClearReadersAndPieces \<in> set (take k (close_effects n)) \<Longrightarrow> i < n \<Longrightarrow>
   DroppedItem (DropSectorHandler i) \<in> set (take k (close_effects n))"
proof -
  let ?items = "map (\<lambda>i. DroppedItem (DropSectorHandler i)) (rev [0..<n]) :: farmer_label effect list"
  assume r: "Ran ClearReadersAndPieces \<in> set (take k (close_effects n))" and i: "i < n"
  have "Ran ClearReadersAndPieces \<notin> set (take k ?items)" by (auto dest: in_set_takeD)
  then have "take (k - length ?items) [Awaited AwaitFarmDriver, Ran ClearReadersAndPieces,
      Awaited AwaitPlottingDelay, Ran ClearPieceCache, Awaited AwaitPieceCacheWorker] \<noteq> []"
    using r by (auto simp: close_effects_def)
  then have "take k ?items = ?items" by simp
  moreover have "DroppedItem (DropSectorHandler i) \<in> set ?items" using i by auto
  ultimately show ?thesis by (simp add: close_effects_def)
qed

lemma close_effects_world:
  assumes "clean w"
  shows "clean (farmer_effects (close_effects n) (built_world n rp pc w))"
    and "fw_running w = {} \<Longrightarrow> fw_running (farmer_effects (close_effects n) (built_world n rp pc w)) = {}"
proof -
  show "fw_running w = {} \<Longrightarrow>
      fw_running (farmer_effects (close_effects n) (built_world n rp pc w)) = {}"
    by (auto simp: farmer_effects_fields set_close_effects built_world_def)
  have "fw_running (farmer_effects (close_effects n) (built_world n rp pc w)) \<subseteq>
      fw_signalled (farmer_effects (close_effects n) (built_world n rp pc w))"
    using assms
    by (auto simp: farmer_effects_fields set_close_effects built_world_def clean_def)
  then show "clean (farmer_effects (close_effects n) (built_world n rp pc w))"
    using assms
    by (auto simp: farmer_effects_fields set_close_effects built_world_def clean_def)
qed

lemma farmer_close_joins_no_panic: "farmer_close_joins (\<lambda>_. False) f = farmer_close f"
proof -
  have j: "join_panic (\<lambda>_. False) = (\<lambda>_. None)"
    by (simp add: join_panic_def fun_eq_iff split: option.split)
  show ?thesis
    by (intro ext) (simp add: farmer_close_joins_def farmer_close_def j async_drop_joins_no_panic
        split: run.split prod.split sum.split)
qed

text \<open>What the close of a built farmer does when some of its tasks have panicked.\<close>

definition joins_effects :: "(farmer_task \<Rightarrow> bool) \<Rightarrow> nat \<Rightarrow> farmer_label effect list" where
  "joins_effects dead n =
     map (\<lambda>i. DroppedItem (DropSectorHandler i)) (rev [0..<n]) @ Awaited AwaitFarmDriver #
     (if dead FarmDriver
      then [DroppedFuture AwaitPieceCacheWorker, DroppedFuture AwaitPlottingDelay,
            Ran ClearPieceCache, Ran ClearReadersAndPieces]
      else Ran ClearReadersAndPieces # Awaited AwaitPlottingDelay #
       (if dead PlottingDelayTask then [DroppedFuture AwaitPieceCacheWorker, Ran ClearPieceCache]
        else [Ran ClearPieceCache, Awaited AwaitPieceCacheWorker]))"

definition joins_outcome :: "(farmer_task \<Rightarrow> bool) \<Rightarrow> (string, unit) result run" where
  "joins_outcome dead =
     (if dead FarmDriver then Panic (join_message FarmDriver)
      else if dead PlottingDelayTask then Panic (join_message PlottingDelayTask)
      else if dead PieceCacheWorker then Panic (join_message PieceCacheWorker)
      else Ret (Inr ()))"

lemma async_drop_joins_built:
  assumes "live d" and "entries d = build_entries n"
  shows "async_drop_joins (join_panic dead) d = Ret (joins_effects dead n, joins_outcome dead)"
proof -
  let ?items = "map (\<lambda>i. ItemE (DropSectorHandler i)) [0..<n]"
  have d: "ds_wf d" "allow_async d" using assms(1) by auto
  have panic: "async_drop_joins (join_panic dead) d =
      Ret (map (effect_of Awaited) (rev (xs @ ?items)) @ Awaited l # unwound ys, Panic (join_message t))"
    if "build_entries n = ys @ AsyncE l # xs @ ?items" "awaited_task l = Some t" "dead t"
      "\<forall>e \<in> set xs. \<forall>g u. e = AsyncE g \<longrightarrow> awaited_task g = Some u \<longrightarrow> \<not> dead u" for xs ys l t
    by (rule dset.joins_panic [OF d])
      (use that in \<open>auto simp: assms(2) join_panic_def split: option.split\<close>)
  note simps = build_entries_def joins_effects_def joins_outcome_def unwound_def rev_map comp_def
  consider "dead FarmDriver" | "\<not> dead FarmDriver" "dead PlottingDelayTask"
    | "\<not> dead FarmDriver" "\<not> dead PlottingDelayTask" "dead PieceCacheWorker"
    | "\<not> dead FarmDriver" "\<not> dead PlottingDelayTask" "\<not> dead PieceCacheWorker" by blast
  then show ?thesis
  proof cases
    case 1
    then show ?thesis
      using panic [of "[AsyncE AwaitPieceCacheWorker, SyncE ClearPieceCache, AsyncE AwaitPlottingDelay,
          SyncE ClearReadersAndPieces]" AwaitFarmDriver "[]"] by (simp add: simps)
  next
    case 2
    then show ?thesis
      using panic [of "[AsyncE AwaitPieceCacheWorker, SyncE ClearPieceCache]" AwaitPlottingDelay
          "[SyncE ClearReadersAndPieces, AsyncE AwaitFarmDriver]"] by (simp add: simps)
  next
    case 3
    then show ?thesis
      using panic [of "[]" AwaitPieceCacheWorker "[SyncE ClearPieceCache, AsyncE AwaitPlottingDelay,
          SyncE ClearReadersAndPieces, AsyncE AwaitFarmDriver]"] by (simp add: simps)
  next
    case 4
    have "async_drop_joins (join_panic dead) d = Ret (map (effect_of Awaited) (rev (entries d)), Ret (Inr ()))"
      by (rule dset.joins_all [OF d]) (use 4 in \<open>auto simp: assms(2) build_entries_def join_panic_def\<close>)
    with 4 show ?thesis by (simp add: assms(2) simps)
  qed
qed

lemma set_joins_effects:
  "Ran ClearPieceCache \<in> set (joins_effects dead n)"
  "Ran ClearReadersAndPieces \<in> set (joins_effects dead n)"
  "DroppedItem (DropSectorHandler i) \<in> set (joins_effects dead n) \<longleftrightarrow> i < n"
  by (auto simp: joins_effects_def)

lemma joins_effects_world:
  assumes "clean w"
  shows "clean (farmer_effects (joins_effects dead n) (built_world n rp pc w))"
    and "fw_running w = {} \<Longrightarrow>
      fw_running (farmer_effects (joins_effects dead n) (built_world n rp pc w)) =
        (if dead FarmDriver then {PlottingDelayTask, PieceCacheWorker}
         else if dead PlottingDelayTask then {PieceCacheWorker} else {})"
proof -
  let ?w2 = "farmer_effects (joins_effects dead n) (built_world n rp pc w)"
  show "fw_running w = {} \<Longrightarrow> fw_running ?w2 =
      (if dead FarmDriver then {PlottingDelayTask, PieceCacheWorker}
       else if dead PlottingDelayTask then {PieceCacheWorker} else {})"
    by (auto simp: farmer_effects_fields joins_effects_def built_world_def)
  have "fw_running ?w2 \<subseteq> fw_signalled ?w2"
    using assms by (auto simp: farmer_effects_fields joins_effects_def built_world_def clean_def)
  then show "clean ?w2"
    using assms by (auto simp: clean_def farmer_effects_fields set_joins_effects built_world_def)
qed

text \<open>A built farmer that is dropped without being closed leaves its tasks signalled.\<close>

lemma dropped_farmer_world:
  assumes "clean w"
  shows "clean (farmer_effects (map (effect_of DroppedFuture) (rev (build_entries n))) (built_world n rp pc w))"
proof -
  let ?es = "map (effect_of DroppedFuture) (rev (build_entries n))"
  let ?w2 = "farmer_effects ?es (built_world n rp pc w)"
  have es: "set ?es = (\<lambda>i. DroppedItem (DropSectorHandler i)) ` {0..<n} \<union>
      {DroppedFuture AwaitFarmDriver, Ran ClearReadersAndPieces, DroppedFuture AwaitPlottingDelay,
       Ran ClearPieceCache, DroppedFuture AwaitPieceCacheWorker}"
    by (auto simp: build_entries_def image_image)
  have "fw_running ?w2 \<subseteq> fw_signalled ?w2"
    using assms unfolding farmer_effects_fields es by (auto simp: built_world_def clean_def)
  moreover have "fw_handlers ?w2 = {}"
    using assms unfolding farmer_effects_fields es by (auto simp: built_world_def clean_def)
  ultimately show ?thesis unfolding clean_def farmer_effects_fields es by simp
qed

section \<open>Lemmas on the driver\<close>

text \<open>The documented behaviour of a bounded channel whose receiver is open and not reading.\<close>

definition bounded_channel ::
  "('m \<Rightarrow> 'ch \<Rightarrow> bool \<times> 'ch) \<Rightarrow> ('ch \<Rightarrow> nat) \<Rightarrow> ('ch \<Rightarrow> 'm list) \<Rightarrow> bool" where
  "bounded_channel try_send room msgs \<longleftrightarrow>
     (\<forall>m ch. (if room ch = 0 then try_send m ch = (False, ch)
              else \<exists>ch'. try_send m ch = (True, ch') \<and> room ch' = room ch - 1 \<and>
                     msgs ch' = msgs ch @ [m]))"

lemma bounded_channel_full:
  "bounded_channel try_send room msgs \<Longrightarrow> room ch = 0 \<Longrightarrow> try_send m ch = (False, ch)"
  unfolding bounded_channel_def by presburger

lemma bounded_channel_send:
  "bounded_channel try_send room msgs \<Longrightarrow> room ch = Suc n \<Longrightarrow>
   \<exists>ch'. try_send m ch = (True, ch') \<and> room ch' = n \<and> msgs ch' = msgs ch @ [m]"
  unfolding bounded_channel_def by (metis diff_Suc_1 nat.distinct(1))

lemma farm_driver_returns:
  assumes "bounded_channel try_send room msgs"
  shows "room ch < fuel \<Longrightarrow> \<exists>ch'. farm_driver fuel try_send signal k rs ch = Some ch'"
proof (induction fuel arbitrary: ch k rs)
  case (Suc fuel)
  show ?case
  proof (cases "room ch")
    case 0
    then show ?thesis
      by (auto simp: bounded_channel_full [OF assms] split: list.splits)
  next
    case (Suc n)
    have "\<exists>ch'. farm_driver fuel try_send signal (Suc k) rs' (snd (try_send m ch)) = Some ch' \<and>
        fst (try_send m ch)" for m rs'
      using bounded_channel_send [OF assms Suc, of m] Suc.IH Suc.prems Suc by force
    then show ?thesis by (auto simp: split_beta split: list.splits)
  qed
qed simp

lemma farm_driver_idle:
  assumes "bounded_channel try_send room msgs"
  shows "room ch < fuel \<Longrightarrow> \<exists>ch'. farm_driver fuel try_send signal k [] ch = Some ch' \<and>
    msgs ch' = msgs ch @ replicate (room ch) (Inr (TaskValue None))"
proof (induction fuel arbitrary: ch k)
  case (Suc fuel)
  show ?case
  proof (cases "room ch")
    case 0
    then show ?thesis by (simp add: bounded_channel_full [OF assms])
  next
    case (Suc n)
    then obtain ch1 where "try_send (Inr (TaskValue None)) ch = (True, ch1)" "room ch1 = n"
      "msgs ch1 = msgs ch @ [Inr (TaskValue None)]"
      using bounded_channel_send [OF assms, of ch n "Inr (TaskValue None)"] by blast
    with Suc.IH [of ch1 "Suc k"] Suc.prems Suc show ?thesis by auto
  qed
qed simp

lemma farm_driver_unsignalled:
  assumes "bounded_channel try_send room msgs" and "\<forall>k. \<not> signal k"
  shows "room ch < fuel \<Longrightarrow> length rs \<le> room ch \<Longrightarrow>
    \<exists>ch'. farm_driver fuel try_send signal k rs ch = Some ch' \<and>
      msgs ch' = msgs ch @ map driver_message rs @
        replicate (room ch - length rs) (Inr (TaskValue None))"
proof (induction rs arbitrary: ch k fuel)
  case Nil
  then show ?case using farm_driver_idle [OF assms(1)] by simp
next
  case (Cons r rs)
  then obtain n fuel' where nf: "room ch = Suc n" "fuel = Suc fuel'"
    by (metis Suc_le_D length_Cons less_imp_Suc_add)
  obtain ch1 where "try_send (driver_message r) ch = (True, ch1)" "room ch1 = n"
    "msgs ch1 = msgs ch @ [driver_message r]"
    using bounded_channel_send [OF assms(1) nf(1), of "driver_message r"] by blast
  with Cons.IH [of ch1 fuel' "Suc k"] Cons.prems nf assms(2) show ?case by auto
qed

lemma drain_results_Err:
  "drain_results ms = Inl e \<longleftrightarrow> (\<exists>pre post. ms = map Inr pre @ Inl e # post)"
proof (induction ms rule: drain_results.induct)
  case (2 e' ms)
  then show ?case by (auto simp: Cons_eq_append_conv Cons_eq_map_conv)
next
  case (3 out ms)
  then show ?case
    by (simp add: Cons_eq_append_conv) (metis append_Cons list.simps(9) map_eq_Cons_conv sum.inject(2))
qed simp

lemma drain_driver_messages:
  "drain_results (map driver_message rs @ replicate n (Inr m)) =
   (case collect_result rs of Inl e \<Rightarrow> Inl e | Inr _ \<Rightarrow> Inr ())"
proof (induction rs)
  case Nil
  show ?case by (induction n) simp_all
next
  case (Cons r rs)
  then show ?case
    by (cases r; cases "collect_result rs") (simp_all add: driver_message_def)
qed

section \<open>A concrete farmer\<close>

text \<open>Every farm has two plotted sectors; a farm without space cannot be created.\<close>

definition demo_farmer_env ::
  "(nat, unit, (unit, nat, unit, unit) single_disk_farm, (u8 \<times> nat) set, unit, nat, nat)
     build_farmer_env" where
  "demo_farmer_env = \<lparr>be_erasure_coding = Inr (), be_piece_cache = 7, be_app_info = (\<lambda>_. Inr 1000),
     be_thread_pool_core_indices = (\<lambda>_ _. [4]), be_cpu_cores = id, be_truncate = (\<lambda>n _. n),
     be_all_cpu_cores = [4], be_thread_pool_manager = (\<lambda>_. Inr ()),
     be_farm_env = \<lparr>fe_single_disk_farm_new = (\<lambda>opts.
         if fo_space_pledged opts = 0 then Inl (InsufficientAllocatedSpace 100 0)
         else Inr \<lparr>sdf_piece_reader = (), sdf_plotted_sectors = [Inr 5, Inr 6],
                    sdf_plotted_sectors_count = 2, sdf_piece_cache = ()\<rparr>),
       fe_identity_size = 100, fe_known_peers_size = 1000, fe_sector_size = (\<lambda>_. 1000),
       fe_metadata_size = 24\<rparr>,
     be_rp_ops = set_index_ops\<rparr>"

definition demo_farmer_config :: farmer_config where
  "demo_farmer_config = \<lparr>fc_max_concurrent_farms = 10, fc_provided_keys_limit = 655360,
     fc_max_pieces_in_sector = None, fc_farming_thread_pool_size = None,
     fc_plotting_thread_pool_size = None, fc_sector_downloading_concurrency = None,
     fc_sector_encoding_concurrency = None, fc_replotting_thread_pool_size = None\<rparr>"

definition demo_world :: "((u8 \<times> nat) set, nat) farmer_world" where
  "demo_world = \<lparr>fw_slots = \<lparr>farmer_readers_and_pieces = None, farmer_piece_cache = None\<rparr>,
     fw_handlers = {}, fw_running = {}, fw_signalled = {}\<rparr>"

lemma clean_demo_world: "clean demo_world"
  by (simp add: clean_def demo_world_def)

text \<open>A build with one farm succeeds, a build whose second farm is too small fails.\<close>

lemma demo_build_succeeds:
  "\<exists>(f :: (nat, unit) farmer) w. farmer_build Checked demo_farmer_env demo_farmer_config (PublicKey [])
     ''node'' [([''a''], 10000000)] 10 demo_world = (Ret (Inr f), w)"
  by (simp add: farmer_build_def farmer_build_stages_def demo_farmer_env_def demo_farmer_config_def
      stage_bind_def pure_stage_def acquire_def in_world_def register_stage_def
      add_sync_destructor_def add_async_destructor_def add_items_to_drop_def ds_new_def
      farming_threads_def farm_new_def ds_new_without_async_def
      fixed_space_usage_def target_sector_count_def add_arith_def sub_arith_def mul_arith_def
      arith_def div_arith_def saturating_sub_def create_readers_and_pieces_def try_into_u8_def
      cfg_defs)

lemma demo_build_fails:
  "\<exists>w. (farmer_build Checked demo_farmer_env demo_farmer_config (PublicKey [])
     ''node'' [([''a''], 10000000), ([''b''], 0)] 10 demo_world
       :: (build_error, (nat, unit) farmer) result run \<times> _) =
     (Ret (Inl (SingleDiskFarmCreate (InsufficientSpaceForFarm 100 0))), w)"
  by (simp add: farmer_build_def farmer_build_stages_def demo_farmer_env_def demo_farmer_config_def
      stage_bind_def pure_stage_def acquire_def in_world_def register_stage_def
      add_sync_destructor_def add_async_destructor_def add_items_to_drop_def ds_new_def
      farming_threads_def farm_new_def ds_new_without_async_def map_sdf_error_def
      fixed_space_usage_def target_sector_count_def add_arith_def sub_arith_def mul_arith_def
      arith_def div_arith_def saturating_sub_def create_readers_and_pieces_def try_into_u8_def
      cfg_defs)

section \<open>Properties\<close>

text \<open>C2: A farmer build is all or nothing. However it fails, by an error or by a panic at any
  stage, leaving the function undoes what it did: from a world without traces of a farmer the
  cleanup itself does not panic, both DSN slots are empty again, no plotting handler stays
  attached, and every task that was spawned has been told to stop.\<close>
theorem farmer_build_failure_cleans:
  assumes "clean w" and "farmer_build mode env c reward nname farms p w = (r, w')"
    and "\<nexists>f. r = Ret (Inr f)"
  shows "\<exists>w1. w' = Ret w1 \<and> clean w1"
  by (rule farmer_build_not_Ok [OF assms])

theorem farmer_build_failure_cleans_witness:
  "\<exists>e w1. (farmer_build Checked demo_farmer_env demo_farmer_config (PublicKey []) ''node''
      [([''a''], 10000000), ([''b''], 0)] 10 demo_world
      :: (build_error, (nat, unit) farmer) result run \<times> _) = (Ret (Inl e), Ret w1) \<and> clean w1"
proof -
  obtain e w where b: "(farmer_build Checked demo_farmer_env demo_farmer_config (PublicKey [])
      ''node'' [([''a''], 10000000), ([''b''], 0)] 10 demo_world
      :: (build_error, (nat, unit) farmer) result run \<times> _) = (Ret (Inl e), w)"
    using demo_build_fails by blast
  with farmer_build_failure_cleans [OF clean_demo_world b] show ?thesis by auto
qed

text \<open>C14: Closing a farmer that was built releases everything in one fixed order: the plotting
  handlers are dropped first (the last farm's first), the farm driver is stopped and awaited, the
  readers slot is emptied, the delay task is awaited, the piece cache slot is emptied, and the
  cache worker is awaited. Nothing panics, no task is left running, and the world is as free of
  the farmer as before the build; a failure of a farm changes the result only.\<close>
theorem farmer_close_releases:
  assumes "farmer_build mode env c reward nname farms p w = (Ret (Inr f), Ret w1)"
    and "clean w" and "fw_running w = {}"
  shows "async_drop (fr_destructors f) = Ret
      (map (\<lambda>i. DroppedItem (DropSectorHandler i)) (rev [0..<length farms]) @
       [Awaited AwaitFarmDriver, Ran ClearReadersAndPieces, Awaited AwaitPlottingDelay,
        Ran ClearPieceCache, Awaited AwaitPieceCacheWorker], Inr ()) \<and>
    (\<exists>w2. farmer_close f (Some ms) w1 = (Ret (drain_results ms), w2) \<and>
       clean w2 \<and> fw_running w2 = {})"
proof -
  obtain rp where b: "w1 = built_world (length farms) rp (be_piece_cache env) w"
    "live (fr_destructors f)" "entries (fr_destructors f) = build_entries (length farms)"
    using farmer_build_Ok [OF assms(1)] by auto
  note d = async_drop_built [OF b(2,3)]
  have "farmer_close f (Some ms) w1 =
      (Ret (drain_results ms), farmer_effects (close_effects (length farms)) w1)"
    by (simp add: farmer_close_def d)
  with d close_effects_world [OF assms(2)] assms(3) show ?thesis
    by (auto simp: b(1) close_effects_def)
qed

theorem farmer_close_releases_witness:
  "\<exists>(f :: (nat, unit) farmer) w1 w2. farmer_build Checked demo_farmer_env demo_farmer_config (PublicKey [])
      ''node'' [([''a''], 10000000)] 10 demo_world = (Ret (Inr f), Ret w1) \<and>
    farmer_close f (Some [Inr (TaskValue () :: (unit, unit) task_output), Inl ''disk'']) w1 =
      (Ret (Inl ''disk''), w2) \<and> clean w2"
proof -
  obtain f :: "(nat, unit) farmer" and w where b: "farmer_build Checked demo_farmer_env
      demo_farmer_config (PublicKey []) ''node'' [([''a''], 10000000)] 10 demo_world = (Ret (Inr f), w)"
    using demo_build_succeeds by blast
  then obtain w1 where w1: "w = Ret w1" using farmer_build_Ok by blast
  have "fw_running demo_world = {}" by (simp add: demo_world_def)
  from farmer_close_releases [OF b [unfolded w1] clean_demo_world this,
      of "[Inr (TaskValue () :: (unit, unit) task_output), Inl ''disk'']"] b w1
  show ?thesis by auto
qed

text \<open>C19: Closing a farmer some of whose tasks have panicked. The close panics, for the farm driver
  before the others; but the node is as free of the farmer as after a good close: the slots are
  empty, no handler is attached and every task was told to stop. What is lost is the waiting: the
  tasks that come after the panicked one in the teardown may still be running.\<close>
theorem farmer_close_after_task_panic:
  assumes "farmer_build mode env c reward nname farms p w = (Ret (Inr f), Ret w1)"
    and "clean w" and "fw_running w = {}"
  shows "\<exists>w2. farmer_close_joins dead f (Some ms) w1 =
      (if dead FarmDriver then Panic ''joining should not fail; qed''
       else if dead PlottingDelayTask \<or> dead PieceCacheWorker
       then Panic ''awaiting worker should not fail except panic by the worker itself; qed''
       else Ret (drain_results ms), w2) \<and>
    clean w2 \<and>
    fw_running w2 = (if dead FarmDriver then {PlottingDelayTask, PieceCacheWorker}
      else if dead PlottingDelayTask then {PieceCacheWorker} else {})"
proof -
  obtain rp where b: "w1 = built_world (length farms) rp (be_piece_cache env) w"
    "live (fr_destructors f)" "entries (fr_destructors f) = build_entries (length farms)"
    using farmer_build_Ok [OF assms(1)] by auto
  have "farmer_close_joins dead f (Some ms) w1 = (try_bind (joins_outcome dead) (\<lambda>_. Ret (drain_results ms)),
      farmer_effects (joins_effects dead (length farms)) w1)"
    by (simp add: farmer_close_joins_def async_drop_joins_built [OF b(2,3)])
  with joins_effects_world [OF assms(2)] assms(3) show ?thesis by (auto simp: joins_outcome_def b(1))
qed

theorem farmer_close_after_task_panic_witness:
  "\<exists>(f :: (nat, unit) farmer) w1 w2. farmer_build Checked demo_farmer_env demo_farmer_config (PublicKey [])
      ''node'' [([''a''], 10000000)] 10 demo_world = (Ret (Inr f), Ret w1) \<and>
    farmer_close_joins (\<lambda>t. t = FarmDriver) f
      (Some [] :: (string, (unit, unit) task_output) result list option) w1 =
      (Panic ''joining should not fail; qed'', w2) \<and> clean w2"
proof -
  obtain f :: "(nat, unit) farmer" and w where b: "farmer_build Checked demo_farmer_env
      demo_farmer_config (PublicKey []) ''node'' [([''a''], 10000000)] 10 demo_world = (Ret (Inr f), w)"
    using demo_build_succeeds by blast
  then obtain w1 where w1: "w = Ret w1" using farmer_build_Ok by blast
  have "fw_running demo_world = {}" by (simp add: demo_world_def)
  from farmer_close_after_task_panic [OF b [unfolded w1] clean_demo_world this,
      of "\<lambda>t. t = FarmDriver" "[] :: (string, (unit, unit) task_output) result list"] b w1
  show ?thesis by auto
qed

text \<open>C4: While a farmer is being closed a plotting notification can still arrive. At every point
  of the teardown, a handler that is still attached finds the readers slot populated and its farm
  index in range, so it never panics: the handlers go before the slot does.\<close>
theorem farmer_handlers_safe_during_close:
  assumes "farmer_build mode env c reward nname farms p w = (Ret (Inr f), Ret w1)"
    and "clean w" and "async_drop (fr_destructors f) = Ret (es, r)"
    and "i \<in> fw_handlers (farmer_effects (take k es) w1)"
  shows "\<exists>rp. handler_on_sector_plotted ops s old i
     (farmer_readers_and_pieces (fw_slots (farmer_effects (take k es) w1))) = Ret (Some rp)"
proof -
  obtain rp where b: "w1 = built_world (length farms) rp (be_piece_cache env) w"
    "live (fr_destructors f)" "entries (fr_destructors f) = build_entries (length farms)"
    "length farms \<le> 256"
    using farmer_build_Ok [OF assms(1)] by auto
  have es: "es = close_effects (length farms)"
    using assms(3) async_drop_built [OF b(2,3)] by simp
  have i: "i < length farms" "DroppedItem (DropSectorHandler i) \<notin> set (take k es)"
    using assms(2,4) by (auto simp: b(1) built_world_def clean_def farmer_effects_fields)
  then have "Ran ClearReadersAndPieces \<notin> set (take k es)"
    using close_effects_prefix [of k "length farms" i] by (auto simp: es)
  then have "farmer_readers_and_pieces (fw_slots (farmer_effects (take k es) w1)) = Some rp"
    by (simp add: farmer_effects_fields b(1) built_world_def)
  with i(1) b(4) show ?thesis
    by (simp add: handler_on_sector_plotted_def try_into_u8_def Let_def)
qed

theorem farmer_handlers_safe_during_close_witness:
  "\<exists>(f :: (nat, unit) farmer) w1 es r rp. farmer_build Checked demo_farmer_env demo_farmer_config (PublicKey [])
      ''node'' [([''a''], 10000000)] 10 demo_world = (Ret (Inr f), Ret w1) \<and>
    async_drop (fr_destructors f) = Ret (es, r) \<and>
    handler_on_sector_plotted set_index_ops 9 None 0
      (farmer_readers_and_pieces (fw_slots (farmer_effects (take 0 es) w1))) = Ret (Some rp)"
proof -
  obtain f :: "(nat, unit) farmer" and w where b: "farmer_build Checked demo_farmer_env
      demo_farmer_config (PublicKey []) ''node'' [([''a''], 10000000)] 10 demo_world = (Ret (Inr f), w)"
    using demo_build_succeeds by blast
  from farmer_build_Ok [OF b] obtain rp where w: "w = Ret (built_world 1 rp 7 demo_world)"
    and d: "live (fr_destructors f)" "entries (fr_destructors f) = build_entries 1"
    by (auto simp: demo_farmer_env_def)
  note drop = async_drop_built [OF d]
  have "0 \<in> fw_handlers (farmer_effects (take 0 (close_effects 1)) (built_world 1 rp 7 demo_world))"
    by (simp add: farmer_effects_def built_world_def)
  from farmer_handlers_safe_during_close [OF b [unfolded w] clean_demo_world drop this,
      of set_index_ops 9 None] b w drop
  show ?thesis by blast
qed

text \<open>C38: The slots belong to the node, not to the farmer. When a second farmer was built on the same
  node, closing the first one empties both slots whatever they hold, and from then on every
  plotting notification of the second farmer panics in its handler.\<close>
theorem farmer_close_clears_shared_slots:
  assumes "farmer_build mode env c reward nname farms p w = (Ret (Inr f), Ret w1)"
  shows "let w2 = snd (farmer_close f received any_world)
    in farmer_piece_cache (fw_slots w2) = None \<and> farmer_readers_and_pieces (fw_slots w2) = None \<and>
       (i < 256 \<longrightarrow> handler_on_sector_plotted ops s old i (farmer_readers_and_pieces (fw_slots w2)) =
          Panic ''Initial value was populated before; qed'')"
proof -
  have d: "live (fr_destructors f)" "entries (fr_destructors f) = build_entries (length farms)"
    using farmer_build_Ok [OF assms] by auto
  show ?thesis
    by (simp add: farmer_close_def async_drop_built [OF d] farmer_effects_fields set_close_effects
        handler_on_sector_plotted_def try_into_u8_def)
qed

theorem farmer_close_clears_shared_slots_witness:
  "\<exists>(f :: (nat, unit) farmer) w1. farmer_build Checked demo_farmer_env demo_farmer_config (PublicKey [])
      ''node'' [([''a''], 10000000)] 10 demo_world = (Ret (Inr f), Ret w1) \<and>
    farmer_piece_cache (fw_slots (snd (farmer_close f
      (Some [] :: (string, (unit, unit) task_output) result list option)
      (w1\<lparr>fw_slots := \<lparr>farmer_readers_and_pieces = Some {}, farmer_piece_cache = Some 8\<rparr>\<rparr>)))) = None"
proof -
  obtain f :: "(nat, unit) farmer" and w where b: "farmer_build Checked demo_farmer_env
      demo_farmer_config (PublicKey []) ''node'' [([''a''], 10000000)] 10 demo_world = (Ret (Inr f), w)"
    using demo_build_succeeds by blast
  then obtain w1 where w1: "w = Ret w1" using farmer_build_Ok by blast
  from farmer_close_clears_shared_slots [OF b [unfolded w1],
      of "Some [] :: (string, (unit, unit) task_output) result list option"
         "w1\<lparr>fw_slots := \<lparr>farmer_readers_and_pieces = Some {}, farmer_piece_cache = Some 8\<rparr>\<rparr>"
         0 set_index_ops 0 None] b w1
  show ?thesis by (auto simp: Let_def)
qed


text \<open>A channel of a given capacity as a list of messages.\<close>

definition list_channel_send :: "'m \<Rightarrow> nat \<times> 'm list \<Rightarrow> bool \<times> (nat \<times> 'm list)" where
  "list_channel_send m ch =
     (case ch of (room, q) \<Rightarrow> if room = 0 then (False, ch) else (True, (room - 1, q @ [m])))"

lemma list_channel: "bounded_channel list_channel_send fst snd"
  by (auto simp: bounded_channel_def list_channel_send_def)


text \<open>What \<open>close\<close> reports: over a channel with room for all farms, after an undisturbed run of
  the driver the result of closing is the error of the first farm that failed, in the order in
  which the farms ended, and success when none did; the fill-in values are ignored.\<close>
theorem farmer_close_reports_first_failure:
  assumes "bounded_channel try_send room msgs" and "room ch < fuel" and "length rs \<le> room ch"
    and "msgs ch = []"
  shows "\<exists>ch'. farm_driver fuel try_send (\<lambda>_. False) 0 rs ch = Some ch' \<and>
    drain_results (msgs ch') = (case collect_result rs of Inl e \<Rightarrow> Inl e | Inr _ \<Rightarrow> Inr ())"
  using farm_driver_unsignalled [OF assms(1), of "\<lambda>_. False" ch fuel rs 0] assms(2-4)
  by (auto simp: drain_driver_messages)

theorem farmer_close_reports_first_failure_witness:
  "\<exists>ch'. farm_driver 9 list_channel_send (\<lambda>_. False) 0 [Inr (3::nat), Inl ''a'', Inl ''b''] (8, []) = Some ch' \<and>
     drain_results (snd ch') = Inl ''a''"
  using farmer_close_reports_first_failure
    [OF list_channel, of "(8, [])" 9 "[Inr (3::nat), Inl ''a'', Inl ''b'']"] by simp

end
