(* ===== verification/Node_Config.thy ===== *)
theory Node_Config
  imports Farmer_Plots
begin

text \<open>
  The node's settings (\<^verbatim>\<open>node/src/builder.rs\<close>): \<open>Config\<close>, its builder with the setters that
  the macro \<open>derive_base!\<close> of \<^verbatim>\<open>substrate/src/lib.rs\<close> forwards to the embedded
  \<open>BaseBuilder\<close>, and the three presets. The domain settings are a type parameter here; their
  theory comes later.
\<close>

section \<open>Settings\<close>

definition node_piece_cache_size_default :: "'bs bytesize_crate \<Rightarrow> 'bs byte_size" where
  [cfg_defs]: "node_piece_cache_size_default crate = bs_gib crate 3"

definition segment_publish_concurrency_default :: "usize run" where
  [cfg_defs]: "segment_publish_concurrency_default = expect ''10 > 0'' (nonzero_new 10)"

record ('ma, 'mp, 'bs, 'dom) node_config =
  ncf_segment_publish_concurrency :: usize
  ncf_sync_from_dsn :: bool
  ncf_base :: "('ma, 'mp) base"
  ncf_dsn :: "('ma, 'mp) dsn"
  ncf_storage_monitor :: "'bs storage_monitor option"
  ncf_enable_subspace_block_relay :: bool
  ncf_domain :: "'dom option"
  ncf_is_timekeeper :: bool
  ncf_timekeeper_cpu_cores :: "usize set"
  ncf_pot_external_entropy :: "bytes option"

definition node_config_default ::
  "build_env \<Rightarrow> (string \<Rightarrow> 'ma option) \<Rightarrow> ('ma, 'mp, 'bs, 'dom) node_config run" where
  [cfg_defs]: "node_config_default e parse =
     run_bind segment_publish_concurrency_default (\<lambda>spc.
       run_bind (dsn_default parse) (\<lambda>d.
         Ret \<lparr>ncf_segment_publish_concurrency = spc, ncf_sync_from_dsn = False,
              ncf_base = base_default e, ncf_dsn = d, ncf_storage_monitor = None,
              ncf_enable_subspace_block_relay = False, ncf_domain = None,
              ncf_is_timekeeper = False, ncf_timekeeper_cpu_cores = {},
              ncf_pot_external_entropy = None\<rparr>))"

section \<open>Builder\<close>

record ('ma, 'mp, 'bs, 'dom) node_builder =
  nb_segment_publish_concurrency :: "usize option"
  nb_sync_from_dsn :: "bool option"
  nb_base :: "('ma, 'mp) base_builder"
  nb_dsn :: "('ma, 'mp) dsn option"
  nb_storage_monitor :: "'bs storage_monitor option option"
  nb_enable_subspace_block_relay :: "bool option"
  nb_domain :: "'dom option option"
  nb_is_timekeeper :: "bool option"
  nb_timekeeper_cpu_cores :: "usize set option"
  nb_pot_external_entropy :: "bytes option option"

definition node_builder_new :: "('ma, 'mp, 'bs, 'dom) node_builder" where
  [cfg_defs]: "node_builder_new = \<lparr>nb_segment_publish_concurrency = None, nb_sync_from_dsn = None,
     nb_base = base_builder_new, nb_dsn = None, nb_storage_monitor = None,
     nb_enable_subspace_block_relay = None, nb_domain = None, nb_is_timekeeper = None,
     nb_timekeeper_cpu_cores = None, nb_pot_external_entropy = None\<rparr>"

definition node_configuration ::
  "build_env \<Rightarrow> (string \<Rightarrow> 'ma option) \<Rightarrow> ('ma, 'mp, 'bs, 'dom) node_builder \<Rightarrow>
   ('ma, 'mp, 'bs, 'dom) node_config run" where
  [cfg_defs]: "node_configuration e parse b =
     run_bind (case nb_segment_publish_concurrency b of Some n \<Rightarrow> Ret n
               | None \<Rightarrow> segment_publish_concurrency_default) (\<lambda>spc.
       run_bind (case nb_dsn b of Some d \<Rightarrow> Ret d | None \<Rightarrow> dsn_default parse) (\<lambda>d.
         Ret \<lparr>ncf_segment_publish_concurrency = spc,
              ncf_sync_from_dsn = unwrap_or (nb_sync_from_dsn b) False,
              ncf_base = base_build e (nb_base b), ncf_dsn = d,
              ncf_storage_monitor = unwrap_or (nb_storage_monitor b) None,
              ncf_enable_subspace_block_relay =
                unwrap_or (nb_enable_subspace_block_relay b) False,
              ncf_domain = unwrap_or (nb_domain b) None,
              ncf_is_timekeeper = unwrap_or (nb_is_timekeeper b) False,
              ncf_timekeeper_cpu_cores = unwrap_or (nb_timekeeper_cpu_cores b) {},
              ncf_pot_external_entropy = unwrap_or (nb_pot_external_entropy b) None\<rparr>))"

text \<open>The forwarded setters; values are already converted by \<open>Into\<close>.\<close>

datatype ('ma, 'mp) base_field =
  SetForceAuthoring bool
| SetRole role
| SetBlocksPruning blocks_pruning
| SetStatePruning pruning_mode
| SetImplName string
| SetImplVersion string
| SetRpc rpc
| SetNetwork "('ma, 'mp) network"
| SetOffchainWorker offchain_worker
| SetInformantEnableColor bool
| SetTelemetry "('ma \<times> u8) list"
| SetDevKeySeed string

fun base_set :: "('ma, 'mp) base_field \<Rightarrow> ('ma, 'mp) base_builder \<Rightarrow> ('ma, 'mp) base_builder" where
  "base_set (SetForceAuthoring v) b = b\<lparr>bb_force_authoring := Some v\<rparr>"
| "base_set (SetRole v) b = b\<lparr>bb_role := Some v\<rparr>"
| "base_set (SetBlocksPruning v) b = b\<lparr>bb_blocks_pruning := Some v\<rparr>"
| "base_set (SetStatePruning v) b = b\<lparr>bb_state_pruning := Some v\<rparr>"
| "base_set (SetImplName v) b = b\<lparr>bb_impl_name := Some v\<rparr>"
| "base_set (SetImplVersion v) b = b\<lparr>bb_impl_version := Some v\<rparr>"
| "base_set (SetRpc v) b = b\<lparr>bb_rpc := Some v\<rparr>"
| "base_set (SetNetwork v) b = b\<lparr>bb_network := Some v\<rparr>"
| "base_set (SetOffchainWorker v) b = b\<lparr>bb_offchain_worker := Some v\<rparr>"
| "base_set (SetInformantEnableColor v) b = b\<lparr>bb_informant_enable_color := Some v\<rparr>"
| "base_set (SetTelemetry v) b = b\<lparr>bb_telemetry := Some v\<rparr>"
| "base_set (SetDevKeySeed v) b = b\<lparr>bb_dev_key_seed := Some (Some v)\<rparr>"

definition derive_base ::
  "('ma, 'mp) base_field \<Rightarrow> ('ma, 'mp, 'bs, 'dom) node_builder \<Rightarrow> ('ma, 'mp, 'bs, 'dom) node_builder" where
  [cfg_defs]: "derive_base f b = b\<lparr>nb_base := base_set f (nb_base b)\<rparr>"

section \<open>Presets\<close>

definition node_dev ::
  "(string \<Rightarrow> 'ma option) \<Rightarrow> ('ma, 'mp, 'bs, 'dom) node_builder run" where
  [cfg_defs]: "node_dev parse =
     run_bind (dsn_build parse dsn_dev) (\<lambda>d.
       Ret (derive_base (SetOffchainWorker (offchain_worker_build offchain_worker_dev))
         (derive_base (SetRpc (rpc_build rpc_dev))
           ((derive_base (SetNetwork (network_build network_dev))
             (derive_base (SetForceAuthoring True)
               (node_builder_new\<lparr>nb_is_timekeeper := Some True\<rparr>)))\<lparr>nb_dsn := Some d\<rparr>))))"

definition node_gemini_3g ::
  "(string \<Rightarrow> 'ma option) \<Rightarrow> ('ma, 'mp, 'bs, 'dom) node_builder run" where
  [cfg_defs]: "node_gemini_3g parse =
     run_bind (network_gemini_3g parse) (\<lambda>nb.
       run_bind (run_bind (dsn_gemini_3g parse) (dsn_build parse)) (\<lambda>d.
         Ret (derive_base (SetBlocksPruning (blocks_pruning_from_sc (ScKeepSome 256)))
           (derive_base (SetStatePruning ArchiveAll)
             (derive_base (SetRole Authority)
               (derive_base (SetOffchainWorker (offchain_worker_build offchain_worker_gemini_3g))
                 (derive_base (SetRpc (rpc_build rpc_gemini_3g))
                   ((derive_base (SetNetwork (network_build nb)) node_builder_new)
                      \<lparr>nb_dsn := Some d\<rparr>))))))))"

definition node_devnet ::
  "(string \<Rightarrow> 'ma option) \<Rightarrow> ('ma, 'mp, 'bs, 'dom) node_builder run" where
  [cfg_defs]: "node_devnet parse =
     run_bind (network_devnet parse) (\<lambda>nb.
       run_bind (run_bind (dsn_devnet parse) (dsn_build parse)) (\<lambda>d.
         Ret (derive_base (SetBlocksPruning (blocks_pruning_from_sc (ScKeepSome 256)))
           (derive_base (SetStatePruning ArchiveAll)
             (derive_base (SetRole Authority)
               (derive_base (SetOffchainWorker (offchain_worker_build offchain_worker_devnet))
                 (derive_base (SetRpc (rpc_build rpc_devnet))
                   ((derive_base (SetNetwork (network_build nb)) node_builder_new)
                      \<lparr>nb_dsn := Some d\<rparr>))))))))"

section \<open>Properties\<close>

interpretation node_bld: config_builder node_builder_new "node_configuration e parse"
  "node_config_default e parse" for e parse
  by unfold_locales (simp add: cfg_defs)

text \<open>The addresses the presets and defaults parse.\<close>

definition hardcoded_addresses :: "string set" where
  "hardcoded_addresses = {''/ip6/::/tcp/30433'', ''/ip4/0.0.0.0/tcp/30433'',
     ''/ip6/::/tcp/30333'', ''/ip4/0.0.0.0/tcp/30333'', ''/ip4/127.0.0.1/tcp/0''}"

text \<open>The public presets start authorities that keep the full state and the last 256 blocks,
  with the offchain worker on, and never force authoring or timekeeping; the dev preset is the
  opposite in each respect. Both are built without a panic once the hard-coded addresses parse.\<close>
theorem node_presets:
  assumes "\<forall>s \<in> hardcoded_addresses. parse s \<noteq> None"
  shows "\<exists>dev pub. run_bind (node_dev parse) (node_configuration e parse) = Ret dev \<and>
    run_bind (node_gemini_3g parse) (node_configuration e parse) = Ret pub \<and>
    run_bind (node_devnet parse) (node_configuration e parse) = Ret pub \<and>
    base_role (ncf_base pub) = Authority \<and> base_state_pruning (ncf_base pub) = ArchiveAll \<and>
    base_blocks_pruning (ncf_base pub) = KeepSome 256 \<and>
    ow_enabled (base_offchain_worker (ncf_base pub)) \<and>
    \<not> base_force_authoring (ncf_base pub) \<and> \<not> ncf_is_timekeeper pub \<and>
    base_role (ncf_base dev) = Full \<and> base_blocks_pruning (ncf_base dev) = KeepAll \<and>
    \<not> ow_enabled (base_offchain_worker (ncf_base dev)) \<and>
    base_force_authoring (ncf_base dev) \<and> ncf_is_timekeeper dev"
proof -
  obtain a6 a4 n6 n4 l where
    "parse ''/ip6/::/tcp/30433'' = Some a6" "parse ''/ip4/0.0.0.0/tcp/30433'' = Some a4"
    "parse ''/ip6/::/tcp/30333'' = Some n6" "parse ''/ip4/0.0.0.0/tcp/30333'' = Some n4"
    "parse ''/ip4/127.0.0.1/tcp/0'' = Some l"
    using assms by (auto simp: hardcoded_addresses_def)
  then show ?thesis by (simp add: cfg_defs nonzero_new_def)
qed

theorem node_presets_witness:
  "\<exists>pub :: (string, nat, nat, nat) node_config.
     run_bind (node_gemini_3g Some) (node_configuration demo_build_env Some) = Ret pub \<and>
     base_blocks_pruning (ncf_base pub) = KeepSome 256"
proof -
  have "\<forall>s \<in> hardcoded_addresses. Some s \<noteq> None" by simp
  from node_presets [OF this, of demo_build_env] show ?thesis by blast
qed

end
