(* ===== verification/Chain_Spec.thy ===== *)
theory Chain_Spec
  imports Node_Config
begin

text \<open>
  The chain specifications (\<^verbatim>\<open>node/src/chain_spec.rs\<close>), those of the EVM domain
  (\<^verbatim>\<open>node/src/domains/evm_chain_spec.rs\<close>) and the properties they share
  (\<^verbatim>\<open>utils/src/lib.rs\<close>, module \<open>chain_spec\<close>). A genesis configuration is the record of the
  fields the sources set; the closure that builds it is evaluated lazily by the chain
  specification, so it is a \<open>run\<close> of its own. Constants, key derivation, storage building and
  the compiled binaries of other crates are the record \<open>cs_env\<close>.
\<close>

section \<open>Shared properties\<close>

text \<open>The JSON values the properties hold.\<close>

datatype prop_value = PNull | PStr string | PNum nat | PEmptyArray | PEmptyObject

type_synonym properties = "string \<rightharpoonup> prop_value"

text \<open>The genesis of the domain: code, sudo key, balances and the code under the precompiles.\<close>

record evm_genesis =
  eg_code :: bytes
  eg_sudo :: "bytes option"
  eg_balances :: "(bytes \<times> u128) list"
  eg_evm_accounts :: "(bytes \<times> bytes) list"

record ('acc, 'ep) cs_env =
  ce_SSC :: u128
  ce_MILLISECS_PER_BLOCK :: u64
  ce_DECIMAL_PLACES :: nat
  ce_SS58Prefix :: u16
  ce_WASM_BINARY :: "bytes option"
  ce_EVM_WASM_BINARY :: "bytes option"
  ce_from_ss58check :: "string \<Rightarrow> 'acc option"
  ce_account_of_seed :: "string \<Rightarrow> 'acc option"
  ce_operator_key_of_seed :: "string \<Rightarrow> bytes option"
  ce_evm_account_from_str :: "string \<Rightarrow> bytes option"
  ce_telemetry_new :: "(string \<times> u8) list \<Rightarrow> 'ep option"
  ce_precompile_addresses :: "bytes list"
  ce_max_domain_block_size :: nat
  ce_max_domain_block_weight :: nat
  ce_encoded_storage :: "evm_genesis \<Rightarrow> bytes option"

definition chain_spec_properties :: "('acc, 'ep) cs_env \<Rightarrow> properties" where
  "chain_spec_properties env =
     [''dsnBootstrapNodes'' \<mapsto> PEmptyArray,
      ''ss58Format'' \<mapsto> PNum (unat (ce_SS58Prefix env)),
      ''tokenDecimals'' \<mapsto> PNum (ce_DECIMAL_PLACES env),
      ''tokenSymbol'' \<mapsto> PStr ''tSSC'',
      ''domainsBootstrapNodes'' \<mapsto> PEmptyObject]"

definition get_public_key_from_seed :: "(string \<Rightarrow> 'k option) \<Rightarrow> string \<Rightarrow> 'k run" where
  "get_public_key_from_seed pair_from_string seed =
     expect ''Static values are valid; qed'' (pair_from_string (''//'' @ seed))"

definition get_account_id_from_seed :: "('acc, 'ep) cs_env \<Rightarrow> string \<Rightarrow> 'acc run" where
  "get_account_id_from_seed env seed = get_public_key_from_seed (ce_account_of_seed env) seed"

section \<open>The EVM domain\<close>

datatype spec_id = SpecDev | SpecGemini | SpecDevNet | SpecLocal

definition get_dev_accounts :: "bytes list" where
  "get_dev_accounts =
     [[0xF2, 0x4F, 0xF3, 0xA9, 0xCF, 0x04, 0xC7, 0x1D, 0xBC, 0x94, 0xD0, 0xB5, 0x66, 0xF7, 0xA2,
       0x7B, 0x94, 0x56, 0x6C, 0xAC],
      [0x3C, 0xD0, 0xA7, 0x05, 0xA2, 0xDC, 0x65, 0xE5, 0xB1, 0xE1, 0x20, 0x58, 0x96, 0xBA, 0xA2,
       0xBE, 0x8A, 0x07, 0xC6, 0xE0],
      [0x79, 0x8D, 0x4B, 0xA9, 0xBA, 0xF0, 0x06, 0x4E, 0xC1, 0x9E, 0xB4, 0xF0, 0xA1, 0xA4, 0x57,
       0x85, 0xAE, 0x9D, 0x6D, 0xFC],
      [0x77, 0x35, 0x39, 0xD4, 0xAC, 0x0E, 0x78, 0x62, 0x33, 0xD9, 0x0A, 0x23, 0x36, 0x54, 0xCC,
       0xEE, 0x26, 0xA6, 0x13, 0xD9]]"

definition evm_testnet_genesis ::
  "overflow_checks \<Rightarrow> ('acc, 'ep) cs_env \<Rightarrow> bytes list \<Rightarrow> bytes option \<Rightarrow> evm_genesis run" where
  "evm_testnet_genesis mode env endowed_accounts maybe_sudo_account =
     run_bind (expect ''WASM binary was not build, please build it!'' (ce_EVM_WASM_BINARY env)) (\<lambda>code.
       run_bind (mul_arith mode 1000000 (ce_SSC env)) (\<lambda>endowment.
         Ret \<lparr>eg_code = code, eg_sudo = maybe_sudo_account,
              eg_balances = map (\<lambda>k. (k, endowment)) endowed_accounts,
              eg_evm_accounts = map (\<lambda>addr. (addr, [0x60, 0x00, 0x60, 0x00, 0xFD]))
                (ce_precompile_addresses env)\<rparr>))"

definition get_testnet_genesis_by_spec_id ::
  "overflow_checks \<Rightarrow> ('acc, 'ep) cs_env \<Rightarrow> spec_id \<Rightarrow> evm_genesis run" where
  "get_testnet_genesis_by_spec_id mode env spec_id =
     (case spec_id of
        SpecDev \<Rightarrow> run_bind (index get_dev_accounts 0) (\<lambda>sudo.
          evm_testnet_genesis mode env get_dev_accounts (Some sudo))
      | SpecGemini \<Rightarrow> run_bind (expect ''Invalid Sudo account''
            (ce_evm_account_from_str env ''f31e60022e290708c17d6997c34de6a30d09438f'')) (\<lambda>sudo.
          evm_testnet_genesis mode env [sudo] (Some sudo))
      | SpecDevNet \<Rightarrow> run_bind (expect ''Invalid Sudo account''
            (ce_evm_account_from_str env ''b66a91845249464309fad766fd0ece8144547736'')) (\<lambda>sudo.
          evm_testnet_genesis mode env [sudo] (Some sudo))
      | SpecLocal \<Rightarrow> run_bind (index get_dev_accounts 0) (\<lambda>sudo.
          evm_testnet_genesis mode env get_dev_accounts (Some sudo)))"

datatype chain_type = Development | Local | Live | CustomType string

text \<open>A chain specification: \<open>spec_genesis\<close> is what running its constructor gives.\<close>

record ('g, 'ep) chain_spec =
  spec_name :: string
  spec_chain_id :: string
  spec_type :: chain_type
  spec_genesis :: 'g
  spec_boot_nodes :: "string list"
  spec_telemetry :: "'ep option"
  spec_protocol_id :: "string option"
  spec_properties :: "properties option"

definition evm_development_config :: "('acc, 'ep) cs_env \<Rightarrow> 'g \<Rightarrow> ('g, 'ep) chain_spec" where
  "evm_development_config env constructor =
     \<lparr>spec_name = ''Development'', spec_chain_id = ''evm_domain_dev'', spec_type = Development,
      spec_genesis = constructor, spec_boot_nodes = [], spec_telemetry = None,
      spec_protocol_id = None, spec_properties = Some (chain_spec_properties env)\<rparr>"

definition evm_local_testnet_config :: "('acc, 'ep) cs_env \<Rightarrow> 'g \<Rightarrow> ('g, 'ep) chain_spec" where
  "evm_local_testnet_config env constructor =
     \<lparr>spec_name = ''Local Testnet'', spec_chain_id = ''evm_domain_local_testnet'',
      spec_type = Local, spec_genesis = constructor, spec_boot_nodes = [],
      spec_telemetry = None, spec_protocol_id = Some ''evm-local'',
      spec_properties = Some (chain_spec_properties env)\<rparr>"

definition evm_gemini_3g_config :: "('acc, 'ep) cs_env \<Rightarrow> 'g \<Rightarrow> ('g, 'ep) chain_spec" where
  "evm_gemini_3g_config env constructor =
     \<lparr>spec_name = ''Subspace Gemini 3g EVM Domain'',
      spec_chain_id = ''subspace_gemini_3g_evm_domain'', spec_type = Live,
      spec_genesis = constructor, spec_boot_nodes = [], spec_telemetry = None,
      spec_protocol_id = Some ''subspace-gemini-3g-evm-domain'',
      spec_properties = Some (chain_spec_properties env)\<rparr>"

definition evm_devnet_config :: "('acc, 'ep) cs_env \<Rightarrow> 'g \<Rightarrow> ('g, 'ep) chain_spec" where
  "evm_devnet_config env constructor =
     \<lparr>spec_name = ''Subspace Devnet EVM Domain'',
      spec_chain_id = ''subspace_devnet_evm_domain'', spec_type = CustomType ''Testnet'',
      spec_genesis = constructor, spec_boot_nodes = [], spec_telemetry = None,
      spec_protocol_id = Some ''subspace-devnet-evm-domain'',
      spec_properties = Some (chain_spec_properties env)\<rparr>"

text \<open>\<open>from_file\<close> is \<open>ChainSpec::from_json_file\<close>; \<open>set_storage\<close> replaces the genesis.\<close>

definition create_domain_spec ::
  "('acc, 'ep) cs_env \<Rightarrow> (string \<Rightarrow> (string, ('g, 'ep) chain_spec) result) \<Rightarrow> 'g \<Rightarrow> string \<Rightarrow> 'g \<Rightarrow>
   (string, ('g, 'ep) chain_spec) result" where
  "create_domain_spec env from_file default_genesis chain_id raw_genesis =
     result_bind
       (if chain_id = ''dev'' then Inr (evm_development_config env default_genesis)
        else if chain_id = ''gemini-3g'' then Inr (evm_gemini_3g_config env default_genesis)
        else if chain_id = ''devnet'' then Inr (evm_devnet_config env default_genesis)
        else if chain_id = [] \<or> chain_id = ''local'' then Inr (evm_local_testnet_config env default_genesis)
        else from_file chain_id)
       (\<lambda>spec. Inr (spec\<lparr>spec_genesis := raw_genesis\<rparr>))"

section \<open>The consensus chain\<close>

definition SUBSPACE_TELEMETRY_URL :: string where
  "SUBSPACE_TELEMETRY_URL = ''wss://telemetry.subspace.network/submit/''"

definition TOKEN_GRANTS :: "(string \<times> u128) list" where
  "TOKEN_GRANTS =
     [(''5Dns1SVEeDqnbSm2fVUqHJPCvQFXHVsgiw28uMBwmuaoKFYi'', 3000000),
      (''5DxtHHQL9JGapWCQARYUAWj4yDcwuhg9Hsk5AjhEzuzonVyE'', 1500000),
      (''5EHhw9xuQNdwieUkNoucq2YcateoMVJQdN8EZtmRy3roQkVK'', 133333),
      (''5C5qYYCQBnanGNPGwgmv6jiR2MxNPrGnWYLPFEyV1Xdy2P3x'', 178889),
      (''5GBWVfJ253YWVPHzWDTos1nzYZpa9TemP7FpQT9RnxaFN6Sz'', 350000),
      (''5F9tEPid88uAuGbjpyegwkrGdkXXtaQ9sGSWEnYrfVCUCsen'', 111111),
      (''5DkJFCv3cTBsH5y1eFT94DXMxQ3EmVzYojEA88o56mmTKnMp'', 244444),
      (''5G23o1yxWgVNQJuL4Y9UaCftAFvLuMPCRe7BCARxCohjoHc9'', 311111),
      (''5GhHwuJoK1b7uUg5oi8qUXxWHdfgzv6P5CQSdJ3ffrnPRgKM'', 317378),
      (''5EqBwtqrCV427xCtTsxnb9X2Qay39pYmKNk9wD9Kd62jLS97'', 300000),
      (''5D9pNnGCiZ9UqhBQn5n71WFVaRLvZ7znsMvcZ7PHno4zsiYa'', 600000),
      (''5DXfPcXUcP4BG8LBSkJDrfFNApxjWySR6ARfgh3v27hdYr5S'', 430000),
      (''5CXSdDJgzRTj54f9raHN2Z5BNPSMa2ETjqCTUmpaw3ECmwm4'', 330000),
      (''5DqKxL7bQregQmUfFgzTMfRKY4DSvA1KgHuurZWYmxYSCmjY'', 200000),
      (''5CfixiS93yTwHQbzzfn8P2tMxhKXdTx7Jam9htsD7XtiMFtn'', 27800),
      (''5FZe9YzXeEXe7sK5xLR8yCmbU8bPJDTZpNpNbToKvSJBUiEo'', 18067),
      (''5FZwEgsvZz1vpeH7UsskmNmTpbfXvAcojjgVfShgbRqgC1nx'', 27800)]"

datatype allow_authoring_by = Anyone | FirstFarmer | RootFarmer bytes

datatype 'acc operator_allow_list = AnyoneOperator | Operators "'acc set"

record genesis_params =
  gp_enable_rewards :: bool
  gp_enable_storage_access :: bool
  gp_allow_authoring_by :: allow_authoring_by
  gp_pot_slot_iterations :: u32
  gp_enable_domains :: bool
  gp_enable_balance_transfers :: bool
  gp_confirmation_depth_k :: u32

record 'acc genesis_domain_params =
  gdp_domain_name :: string
  gdp_operator_allow_list :: "'acc operator_allow_list"
  gdp_operator_signing_key :: bytes

text \<open>Who, start, period, number of periods, amount per period.\<close>

type_synonym 'acc vesting = "'acc \<times> u32 \<times> u32 \<times> u32 \<times> u128"

record 'acc genesis_domain =
  gd_runtime_name :: string
  gd_raw_genesis_storage :: bytes
  gd_owner_account_id :: 'acc
  gd_domain_name :: string
  gd_max_block_size :: nat
  gd_max_block_weight :: nat
  gd_bundle_slot_probability :: "nat \<times> nat"
  gd_target_bundles_per_block :: nat
  gd_operator_allow_list :: "'acc operator_allow_list"
  gd_signing_key :: bytes
  gd_nomination_tax_percent :: nat
  gd_minimum_nominator_stake :: u128

record 'acc genesis =
  gen_domain :: "'acc genesis_domain option"
  gen_code :: bytes
  gen_balances :: "('acc \<times> u128) list"
  gen_sudo :: "'acc option"
  gen_enable_rewards :: bool
  gen_enable_storage_access :: bool
  gen_allow_authoring_by :: allow_authoring_by
  gen_pot_slot_iterations :: u32
  gen_vesting :: "'acc vesting list"
  gen_enable_domains :: bool
  gen_enable_balance_transfers :: bool
  gen_confirmation_depth_k :: u32

definition subspace_genesis_config ::
  "overflow_checks \<Rightarrow> ('acc, 'ep) cs_env \<Rightarrow> spec_id \<Rightarrow> bytes \<Rightarrow> 'acc \<Rightarrow> ('acc \<times> u128) list \<Rightarrow>
   'acc vesting list \<Rightarrow> genesis_params \<Rightarrow> 'acc genesis_domain_params \<Rightarrow> 'acc genesis run" where
  "subspace_genesis_config mode env evm_spec wasm sudo balances vesting p d =
     run_bind (get_testnet_genesis_by_spec_id mode env evm_spec) (\<lambda>domain_genesis.
     run_bind (expect ''Failed to build genesis storage from genesis runtime config''
       (ce_encoded_storage env domain_genesis)) (\<lambda>storage.
     run_bind (mul_arith mode 100 (ce_SSC env)) (\<lambda>stake.
       Ret \<lparr>gen_domain = Some \<lparr>gd_runtime_name = ''evm'', gd_raw_genesis_storage = storage,
              gd_owner_account_id = sudo, gd_domain_name = gdp_domain_name d,
              gd_max_block_size = ce_max_domain_block_size env,
              gd_max_block_weight = ce_max_domain_block_weight env,
              gd_bundle_slot_probability = (1, 1), gd_target_bundles_per_block = 10,
              gd_operator_allow_list = gdp_operator_allow_list d,
              gd_signing_key = gdp_operator_signing_key d, gd_nomination_tax_percent = 5,
              gd_minimum_nominator_stake = stake\<rparr>,
            gen_code = wasm, gen_balances = balances, gen_sudo = Some sudo,
            gen_enable_rewards = gp_enable_rewards p,
            gen_enable_storage_access = gp_enable_storage_access p,
            gen_allow_authoring_by = gp_allow_authoring_by p,
            gen_pot_slot_iterations = gp_pot_slot_iterations p, gen_vesting = vesting,
            gen_enable_domains = gp_enable_domains p,
            gen_enable_balance_transfers = gp_enable_balance_transfers p,
            gen_confirmation_depth_k = gp_confirmation_depth_k p\<rparr>)))"

text \<open>\<open>u32::try_from(3600 * 24 * 30 * MILLISECS_PER_BLOCK / 1000)\<close>, on \<open>u64\<close>.\<close>

definition one_month_in_blocks :: "overflow_checks \<Rightarrow> u64 \<Rightarrow> u32 run" where
  "one_month_in_blocks mode millisecs_per_block =
     run_bind (mul_arith mode (3600 * 24 * 30) millisecs_per_block) (\<lambda>m.
       run_bind (div_arith m 1000) (\<lambda>b.
         expect ''One month of blocks always fits in u32; qed''
           (if b < 2 ^ 32 then Some (ucast b) else None)))"

text \<open>The closure over one grant: the balance it pushes and the two schedules it returns.\<close>

definition grant_schedules ::
  "overflow_checks \<Rightarrow> ('acc, 'ep) cs_env \<Rightarrow> string \<times> u128 \<Rightarrow>
   (('acc \<times> u128) \<times> 'acc vesting list) run" where
  "grant_schedules mode env grant =
     run_bind (expect ''Wrong vesting account address'' (ce_from_ss58check env (fst grant))) (\<lambda>account_id.
     run_bind (mul_arith mode (snd grant) (ce_SSC env)) (\<lambda>amount.
     run_bind (one_month_in_blocks mode (ce_MILLISECS_PER_BLOCK env)) (\<lambda>month.
     run_bind (mul_arith mode month 12) (\<lambda>year.
     run_bind (add_arith mode 100000000 year) (\<lambda>cliff.
       Ret ((account_id, amount),
            [(account_id, 100000000, year, 1, amount div 4),
             (account_id, cliff, month, 36, amount div 48)]))))))"

fun all_grants ::
  "overflow_checks \<Rightarrow> ('acc, 'ep) cs_env \<Rightarrow> (string \<times> u128) list \<Rightarrow>
   (('acc \<times> u128) list \<times> 'acc vesting list) run" where
  "all_grants mode env [] = Ret ([], [])"
| "all_grants mode env (g # gs) =
     run_bind (grant_schedules mode env g) (\<lambda>(b, vs).
       run_bind (all_grants mode env gs) (\<lambda>(bs, vss). Ret (b # bs, vs @ vss)))"

definition gemini_3g_genesis :: "overflow_checks \<Rightarrow> ('acc, 'ep) cs_env \<Rightarrow> 'acc genesis run" where
  "gemini_3g_genesis mode env =
     run_bind (expect ''Wrong root account address''
       (ce_from_ss58check env ''5DNwQTHfARgKoa2NdiUM51ZUow7ve5xG9S2yYdSbVQcnYxBA'')) (\<lambda>sudo.
     run_bind (mul_arith mode 1000 (ce_SSC env)) (\<lambda>root_balance.
     run_bind (all_grants mode env TOKEN_GRANTS) (\<lambda>(balances, vesting).
     run_bind (expect ''Wasm binary must be built for Gemini'' (ce_WASM_BINARY env)) (\<lambda>wasm.
       subspace_genesis_config mode env SpecGemini wasm sudo ((sudo, root_balance) # balances) vesting
         \<lparr>gp_enable_rewards = False, gp_enable_storage_access = False,
          gp_allow_authoring_by = RootFarmer
     [0x8A, 0xEC, 0xBC, 0xF0, 0xB4, 0x04, 0x59, 0x0D, 0xDD, 0xDC, 0x01, 0xEB, 0xAC, 0xB2, 0x05,
      0xA5, 0x62, 0xD1, 0x2F, 0xDB, 0x5C, 0x2A, 0xA6, 0xA4, 0x03, 0x5C, 0x1A, 0x20, 0xF2, 0x3C,
      0x95, 0x15],
          gp_pot_slot_iterations = 200032000, gp_enable_domains = True,
          gp_enable_balance_transfers = True, gp_confirmation_depth_k = 100\<rparr>
         \<lparr>gdp_domain_name = ''nova'', gdp_operator_allow_list = Operators {sudo},
          gdp_operator_signing_key =
     [0xAA, 0x3B, 0x05, 0xB4, 0xD6, 0x49, 0x66, 0x67, 0x23, 0xE0, 0x99, 0xCF, 0x3B, 0xAF, 0xC2,
      0xF2, 0xC0, 0x41, 0x60, 0xEB, 0xE0, 0xE1, 0x6D, 0xDC, 0x82, 0xF7, 0x2D, 0x6E, 0xD9, 0x7C,
      0x4B, 0x6B]\<rparr>))))"

definition devnet_genesis :: "overflow_checks \<Rightarrow> ('acc, 'ep) cs_env \<Rightarrow> 'acc genesis run" where
  "devnet_genesis mode env =
     run_bind (expect ''Wrong root account address''
       (ce_from_ss58check env ''5CXTmJEusve5ixyJufqHThmy4qUrrm6FyLCR7QfE4bbyMTNC'')) (\<lambda>sudo.
     run_bind (mul_arith mode 1000 (ce_SSC env)) (\<lambda>root_balance.
     run_bind (all_grants mode env TOKEN_GRANTS) (\<lambda>(balances, vesting).
     run_bind (expect ''Wasm binary must be built for Gemini'' (ce_WASM_BINARY env)) (\<lambda>wasm.
       subspace_genesis_config mode env SpecDevNet wasm sudo ((sudo, root_balance) # balances) vesting
         \<lparr>gp_enable_rewards = False, gp_enable_storage_access = False,
          gp_allow_authoring_by = FirstFarmer, gp_pot_slot_iterations = 150000000,
          gp_enable_domains = True, gp_enable_balance_transfers = True,
          gp_confirmation_depth_k = 100\<rparr>
         \<lparr>gdp_domain_name = ''evm-domain'', gdp_operator_allow_list = AnyoneOperator,
          gdp_operator_signing_key =
     [0xAA, 0x3B, 0x05, 0xB4, 0xD6, 0x49, 0x66, 0x67, 0x23, 0xE0, 0x99, 0xCF, 0x3B, 0xAF, 0xC2,
      0xF2, 0xC0, 0x41, 0x60, 0xEB, 0xE0, 0xE1, 0x6D, 0xDC, 0x82, 0xF7, 0x2D, 0x6E, 0xD9, 0x7C,
      0x4B, 0x6B]\<rparr>))))"

text \<open>The pre-funded accounts of the development chains: a fixed balance for each seed.\<close>

fun fund_seeds ::
  "overflow_checks \<Rightarrow> ('acc, 'ep) cs_env \<Rightarrow> string list \<Rightarrow> ('acc \<times> u128) list run" where
  "fund_seeds mode env [] = Ret []"
| "fund_seeds mode env (s # ss) =
     run_bind (get_account_id_from_seed env s) (\<lambda>a.
       run_bind (mul_arith mode 1000 (ce_SSC env)) (\<lambda>b.
         run_bind (fund_seeds mode env ss) (\<lambda>bs. Ret ((a, b) # bs))))"

definition dev_genesis :: "overflow_checks \<Rightarrow> ('acc, 'ep) cs_env \<Rightarrow> bytes \<Rightarrow> 'acc genesis run" where
  "dev_genesis mode env wasm =
     run_bind (get_account_id_from_seed env ''Alice'') (\<lambda>sudo.
     run_bind (fund_seeds mode env [''Alice'', ''Bob'', ''Alice//stash'', ''Bob//stash'']) (\<lambda>balances.
     run_bind (get_public_key_from_seed (ce_operator_key_of_seed env) ''Alice'') (\<lambda>key.
       subspace_genesis_config mode env SpecDev wasm sudo balances []
         \<lparr>gp_enable_rewards = False, gp_enable_storage_access = False,
          gp_allow_authoring_by = Anyone, gp_pot_slot_iterations = 100000000,
          gp_enable_domains = True, gp_enable_balance_transfers = True,
          gp_confirmation_depth_k = 100\<rparr>
         \<lparr>gdp_domain_name = ''evm-domain'', gdp_operator_allow_list = AnyoneOperator,
          gdp_operator_signing_key = key\<rparr>)))"

definition local_genesis :: "overflow_checks \<Rightarrow> ('acc, 'ep) cs_env \<Rightarrow> bytes \<Rightarrow> 'acc genesis run" where
  "local_genesis mode env wasm =
     run_bind (get_account_id_from_seed env ''Alice'') (\<lambda>sudo.
     run_bind (fund_seeds mode env [''Alice'', ''Bob'', ''Charlie'', ''Dave'', ''Eve'', ''Ferdie'',
       ''Alice//stash'', ''Bob//stash'', ''Charlie//stash'', ''Dave//stash'', ''Eve//stash'',
       ''Ferdie//stash'']) (\<lambda>balances.
     run_bind (get_public_key_from_seed (ce_operator_key_of_seed env) ''Alice'') (\<lambda>key.
       subspace_genesis_config mode env SpecLocal wasm sudo balances []
         \<lparr>gp_enable_rewards = False, gp_enable_storage_access = False,
          gp_allow_authoring_by = Anyone, gp_pot_slot_iterations = 100000000,
          gp_enable_domains = True, gp_enable_balance_transfers = True,
          gp_confirmation_depth_k = 1\<rparr>
         \<lparr>gdp_domain_name = ''evm-domain'', gdp_operator_allow_list = AnyoneOperator,
          gdp_operator_signing_key = key\<rparr>)))"

text \<open>The properties all compiled specifications carry: an absent entropy is inserted as null.\<close>

definition consensus_properties :: "('acc, 'ep) cs_env \<Rightarrow> properties" where
  "consensus_properties env = (chain_spec_properties env)(''potExternalEntropy'' \<mapsto> PNull)"

definition gemini_3g_compiled ::
  "overflow_checks \<Rightarrow> ('acc, 'ep) cs_env \<Rightarrow> ('acc genesis run, 'ep) chain_spec run" where
  "gemini_3g_compiled mode env =
     run_bind (expect ''Telemetry value is valid''
       (ce_telemetry_new env [(SUBSPACE_TELEMETRY_URL, 1)])) (\<lambda>telemetry.
       Ret \<lparr>spec_name = ''Subspace Gemini 3g'', spec_chain_id = ''subspace_gemini_3g'',
            spec_type = CustomType ''Subspace Gemini 3g'',
            spec_genesis = gemini_3g_genesis mode env, spec_boot_nodes = [],
            spec_telemetry = Some telemetry, spec_protocol_id = Some ''subspace-gemini-3g'',
            spec_properties = Some (consensus_properties env)\<rparr>)"

definition devnet_config_compiled ::
  "overflow_checks \<Rightarrow> ('acc, 'ep) cs_env \<Rightarrow> ('acc genesis run, 'ep) chain_spec run" where
  "devnet_config_compiled mode env =
     run_bind (expect ''Telemetry value is valid''
       (ce_telemetry_new env [(SUBSPACE_TELEMETRY_URL, 1)])) (\<lambda>telemetry.
       Ret \<lparr>spec_name = ''Subspace Dev network'', spec_chain_id = ''subspace_devnet'',
            spec_type = CustomType ''Testnet'', spec_genesis = devnet_genesis mode env,
            spec_boot_nodes = [], spec_telemetry = Some telemetry,
            spec_protocol_id = Some ''subspace-devnet'',
            spec_properties = Some (consensus_properties env)\<rparr>)"

definition dev_config ::
  "overflow_checks \<Rightarrow> ('acc, 'ep) cs_env \<Rightarrow> ('acc genesis run, 'ep) chain_spec run" where
  "dev_config mode env =
     run_bind (expect ''Development wasm not available'' (ce_WASM_BINARY env)) (\<lambda>wasm.
       Ret \<lparr>spec_name = ''Subspace development'', spec_chain_id = ''subspace_dev'',
            spec_type = Development, spec_genesis = dev_genesis mode env wasm,
            spec_boot_nodes = [], spec_telemetry = None, spec_protocol_id = None,
            spec_properties = Some (consensus_properties env)\<rparr>)"

definition local_config ::
  "overflow_checks \<Rightarrow> ('acc, 'ep) cs_env \<Rightarrow> ('acc genesis run, 'ep) chain_spec run" where
  "local_config mode env =
     run_bind (expect ''Development wasm not available'' (ce_WASM_BINARY env)) (\<lambda>wasm.
       Ret \<lparr>spec_name = ''Subspace local'', spec_chain_id = ''subspace_local'',
            spec_type = Local, spec_genesis = local_genesis mode env wasm,
            spec_boot_nodes = [], spec_telemetry = None, spec_protocol_id = None,
            spec_properties = Some (consensus_properties env)\<rparr>)"

text \<open>The embedded specifications are parsed from the JSON another crate ships.\<close>

definition embedded_chain_spec :: "(string \<Rightarrow> (string, 'spec) result) \<Rightarrow> string \<Rightarrow> 'spec run" where
  "embedded_chain_spec from_json_bytes json = expect_ok ''Always valid'' (from_json_bytes json)"

section \<open>Lemmas on vesting\<close>

definition vested :: "'acc vesting list \<Rightarrow> nat" where
  "vested vs = sum_list (map (\<lambda>(_, _, _, n, per). unat n * unat per) vs)"

text \<open>The schedules of one balance: all for its account, releasing all but dust of it.\<close>

definition grant_ok :: "'acc \<times> u128 \<Rightarrow> 'acc vesting list \<Rightarrow> bool" where
  "grant_ok b vs \<longleftrightarrow> (\<forall>v \<in> set vs. fst v = fst b) \<and>
     vested vs \<le> unat (snd b) \<and> unat (snd b) \<le> vested vs + 36"

lemma vesting_dust:
  "(n :: nat) div 4 + 36 * (n div 48) \<le> n \<and> n \<le> n div 4 + 36 * (n div 48) + 36"
proof -
  define q r where "q = n div 48" and "r = n mod 48"
  have n: "n = r + 4 * (12 * q)" "r < 48" by (simp_all add: q_def r_def)
  then have "n div 4 = 12 * q + r div 4" by simp
  with n show ?thesis unfolding q_def [symmetric] by linarith
qed

lemma grant_schedules_ok:
  "grant_schedules mode env g = Ret (b, vs) \<Longrightarrow> grant_ok b vs \<and> length vs = 2"
  using vesting_dust [of "unat (snd b)"]
  by (auto simp: grant_schedules_def grant_ok_def vested_def run_bind_eq_Ret unat_word_div)

lemma all_grants_ok:
  "all_grants mode env gs = Ret (bs, vs) \<Longrightarrow>
   length bs = length gs \<and> (\<exists>vss. vs = concat vss \<and> list_all2 grant_ok bs vss)"
proof (induction gs arbitrary: bs vs)
  case (Cons g gs)
  then obtain b v bs' vs' where g: "grant_schedules mode env g = Ret (b, v)"
    and gs: "all_grants mode env gs = Ret (bs', vs')" and eq: "bs = b # bs'" "vs = v @ vs'"
    by (auto simp: run_bind_eq_Ret)
  from Cons.IH [OF gs] obtain vss where "length bs' = length gs" "vs' = concat vss"
    "list_all2 grant_ok bs' vss" by auto
  with eq grant_schedules_ok [OF g] show ?case
    by (auto intro!: exI [of _ "v # vss"])
qed auto

lemma one_month_value:
  assumes "one_month_in_blocks Checked m = Ret b"
  shows "unat b = 2592 * unat m"
proof -
  have fits: "2592000 * unat m < 2 ^ 64" and
    small: "2592000 * m div 1000 < 2 ^ 32" and b: "b = ucast (2592000 * m div 1000 :: u64)"
    using assms
    by (auto simp: one_month_in_blocks_def run_bind_eq_Ret mul_arith_def arith_def div_arith_def
        split: if_splits)
  have p: "unat (2592000 * m) = 2592000 * unat m"
    using unat_mul_fits [of "2592000 :: u64" m] fits by simp
  then have q: "unat (2592000 * m div 1000) = 2592 * unat m" by (simp add: unat_word_div)
  with small have "2592 * unat m < 2 ^ 32" by (simp add: word_less_nat_alt)
  with b q show ?thesis by (simp add: unsigned_ucast_eq take_bit_nat_eq_self)
qed

section \<open>Lemmas on the genesis of the development chains\<close>

text \<open>What the other crates provide: keys and addresses that parse, binaries, and the constants.\<close>

definition cs_env_ok :: "('acc, 'ep) cs_env \<Rightarrow> bool" where
  "cs_env_ok env \<longleftrightarrow> ce_SSC env = 1000000000000000000 \<and> ce_MILLISECS_PER_BLOCK env = 6000 \<and>
     ce_WASM_BINARY env \<noteq> None \<and> ce_EVM_WASM_BINARY env \<noteq> None \<and>
     (\<forall>a \<in> {''5DNwQTHfARgKoa2NdiUM51ZUow7ve5xG9S2yYdSbVQcnYxBA'',
            ''5CXTmJEusve5ixyJufqHThmy4qUrrm6FyLCR7QfE4bbyMTNC''} \<union> fst ` set TOKEN_GRANTS.
        ce_from_ss58check env a \<noteq> None) \<and>
     (\<forall>s. ce_account_of_seed env (''//'' @ s) \<noteq> None) \<and>
     ce_operator_key_of_seed env ''//Alice'' \<noteq> None \<and>
     ce_evm_account_from_str env ''f31e60022e290708c17d6997c34de6a30d09438f'' \<noteq> None \<and>
     ce_evm_account_from_str env ''b66a91845249464309fad766fd0ece8144547736'' \<noteq> None \<and>
     ce_telemetry_new env [(SUBSPACE_TELEMETRY_URL, 1)] \<noteq> None \<and>
     (\<forall>g. ce_encoded_storage env g \<noteq> None)"

lemma evm_genesis_ok:
  assumes "cs_env_ok env"
  shows "\<exists>g. get_testnet_genesis_by_spec_id Checked env s = Ret g"
  using assms
  by (auto simp: cs_env_ok_def get_testnet_genesis_by_spec_id_def evm_testnet_genesis_def index_def
      get_dev_accounts_def mul_arith_def arith_def split: spec_id.splits)

lemma subspace_genesis_ok:
  assumes "cs_env_ok env"
  shows "\<exists>g. subspace_genesis_config Checked env s w sudo bs vs p d = Ret g"
proof -
  obtain g where "get_testnet_genesis_by_spec_id Checked env s = Ret g"
    using evm_genesis_ok [OF assms] by blast
  moreover obtain storage where "ce_encoded_storage env g = Some storage" "ce_SSC env = 1000000000000000000"
    using assms unfolding cs_env_ok_def by blast
  ultimately show ?thesis by (simp add: subspace_genesis_config_def mul_arith_def arith_def)
qed

lemma account_of_seed_ok:
  assumes "cs_env_ok env"
  shows "\<exists>a. get_account_id_from_seed env s = Ret a"
proof -
  obtain a where "ce_account_of_seed env (''//'' @ s) = Some a"
    using assms unfolding cs_env_ok_def by blast
  then show ?thesis by (simp add: get_account_id_from_seed_def get_public_key_from_seed_def)
qed

lemma fund_seeds_ok:
  assumes "cs_env_ok env"
  shows "\<exists>bs. fund_seeds Checked env ss = Ret bs"
proof (induction ss)
  case (Cons s ss)
  obtain a where "get_account_id_from_seed env s = Ret a" using account_of_seed_ok [OF assms] by blast
  with Cons assms show ?case by (auto simp: cs_env_ok_def mul_arith_def arith_def)
qed simp

lemma all_grants_total:
  assumes "cs_env_ok env" and "set gs \<subseteq> set TOKEN_GRANTS"
  shows "\<exists>r. all_grants Checked env gs = Ret r"
  using assms(2)
proof (induction gs)
  case (Cons g gs)
  have small: "\<forall>(a, n) \<in> set TOKEN_GRANTS. unat n < 2 ^ 32" by (simp add: TOKEN_GRANTS_def)
  then have "unat (snd g) < 2 ^ 32" using Cons.prems by auto
  then have "unat (snd g) * 1000000000000000000 < 2 ^ 128" by simp
  moreover have "ce_from_ss58check env (fst g) \<noteq> None"
    using assms(1) Cons.prems by (auto simp: cs_env_ok_def)
  ultimately show ?case
    using Cons assms(1)
    by (auto simp: grant_schedules_def one_month_in_blocks_def mul_arith_def add_arith_def
        div_arith_def arith_def cs_env_ok_def)
qed simp

lemma gemini_genesis_ok:
  assumes "cs_env_ok env"
  shows "\<exists>g. gemini_3g_genesis Checked env = Ret g"
proof -
  from assms obtain sudo wasm where
    "ce_from_ss58check env ''5DNwQTHfARgKoa2NdiUM51ZUow7ve5xG9S2yYdSbVQcnYxBA'' = Some sudo"
    "ce_WASM_BINARY env = Some wasm" "ce_SSC env = 1000000000000000000"
    unfolding cs_env_ok_def by blast
  moreover obtain bs vs where "all_grants Checked env TOKEN_GRANTS = Ret (bs, vs)"
    using all_grants_total [OF assms, of TOKEN_GRANTS] by auto
  ultimately show ?thesis
    using subspace_genesis_ok [OF assms]
    by (simp add: gemini_3g_genesis_def mul_arith_def arith_def)
qed

lemma devnet_genesis_ok:
  assumes "cs_env_ok env"
  shows "\<exists>g. devnet_genesis Checked env = Ret g"
proof -
  from assms obtain sudo wasm where
    "ce_from_ss58check env ''5CXTmJEusve5ixyJufqHThmy4qUrrm6FyLCR7QfE4bbyMTNC'' = Some sudo"
    "ce_WASM_BINARY env = Some wasm" "ce_SSC env = 1000000000000000000"
    unfolding cs_env_ok_def by blast
  moreover obtain bs vs where "all_grants Checked env TOKEN_GRANTS = Ret (bs, vs)"
    using all_grants_total [OF assms, of TOKEN_GRANTS] by auto
  ultimately show ?thesis
    using subspace_genesis_ok [OF assms]
    by (simp add: devnet_genesis_def mul_arith_def arith_def)
qed

lemma seed_genesis_parts:
  assumes "cs_env_ok env"
  obtains sudo key where "get_account_id_from_seed env ''Alice'' = Ret sudo"
    "get_public_key_from_seed (ce_operator_key_of_seed env) ''Alice'' = Ret key"
proof -
  obtain key where "ce_operator_key_of_seed env ''//Alice'' = Some key"
    using assms unfolding cs_env_ok_def by blast
  then have "get_public_key_from_seed (ce_operator_key_of_seed env) ''Alice'' = Ret key"
    by (simp add: get_public_key_from_seed_def)
  with account_of_seed_ok [OF assms] that show thesis by blast
qed

lemma dev_genesis_ok:
  assumes "cs_env_ok env"
  shows "\<exists>g. dev_genesis Checked env wasm = Ret g"
proof -
  obtain bs where "fund_seeds Checked env [''Alice'', ''Bob'', ''Alice//stash'', ''Bob//stash''] = Ret bs"
    using fund_seeds_ok [OF assms] by blast
  moreover obtain sudo key where "get_account_id_from_seed env ''Alice'' = Ret sudo"
    "get_public_key_from_seed (ce_operator_key_of_seed env) ''Alice'' = Ret key"
    by (rule seed_genesis_parts [OF assms])
  ultimately show ?thesis
    unfolding dev_genesis_def by (simp only: run_bind.simps subspace_genesis_ok [OF assms])
qed

lemma local_genesis_ok:
  assumes "cs_env_ok env"
  shows "\<exists>g. local_genesis Checked env wasm = Ret g"
proof -
  obtain bs where "fund_seeds Checked env [''Alice'', ''Bob'', ''Charlie'', ''Dave'', ''Eve'', ''Ferdie'',
       ''Alice//stash'', ''Bob//stash'', ''Charlie//stash'', ''Dave//stash'', ''Eve//stash'',
       ''Ferdie//stash''] = Ret bs"
    using fund_seeds_ok [OF assms] by blast
  moreover obtain sudo key where "get_account_id_from_seed env ''Alice'' = Ret sudo"
    "get_public_key_from_seed (ce_operator_key_of_seed env) ''Alice'' = Ret key"
    by (rule seed_genesis_parts [OF assms])
  ultimately show ?thesis
    unfolding local_genesis_def by (simp only: run_bind.simps subspace_genesis_ok [OF assms])
qed

section \<open>Properties\<close>


text \<open>C29: The month in blocks that the vesting schedules use is a month only when a block takes one
  second. For a block time of \<open>m\<close> milliseconds it is 2592 times \<open>m\<close> blocks, which last thirty
  days times the square of the block time in seconds: the conversion multiplies by the block time
  where it should divide.\<close>
theorem one_month_in_blocks_scales_wrong:
  assumes "one_month_in_blocks Checked m = Ret b"
  shows "unat b = 2592 * unat m \<and>
    (unat b * unat m = 30 * 24 * 3600 * 1000 \<longleftrightarrow> unat m = 1000)"
proof -
  have "2592 * unat m * unat m = 2592000000 \<longleftrightarrow> unat m = 1000"
  proof
    assume "2592 * unat m * unat m = 2592000000"
    then have "unat m ^ 2 = 1000 ^ 2" by (simp add: power2_eq_square)
    then show "unat m = 1000" by (metis le_less_linear not_less_zero power_inject_base power2_eq_iff_nonneg zero_le)
  qed simp
  then show ?thesis by (simp add: one_month_value [OF assms])
qed

theorem one_month_in_blocks_scales_wrong_witness:
  "one_month_in_blocks Checked 6000 = Ret 15552000 \<and> (15552000 * 6000 :: nat) \<noteq> 30 * 24 * 3600 * 1000"
  using one_month_in_blocks_scales_wrong [of 6000 15552000]
  by (simp add: one_month_in_blocks_def mul_arith_def arith_def div_arith_def)


text \<open>A stand-in for the other crates: keys and addresses are their own text.\<close>

definition demo_cs_env :: "(string, unit) cs_env" where
  "demo_cs_env = \<lparr>ce_SSC = 1000000000000000000, ce_MILLISECS_PER_BLOCK = 6000,
     ce_DECIMAL_PLACES = 18, ce_SS58Prefix = 2254, ce_WASM_BINARY = Some [1],
     ce_EVM_WASM_BINARY = Some [2], ce_from_ss58check = Some, ce_account_of_seed = Some,
     ce_operator_key_of_seed = (\<lambda>_. Some [3]), ce_evm_account_from_str = (\<lambda>_. Some [4]),
     ce_telemetry_new = (\<lambda>_. Some ()), ce_precompile_addresses = [],
     ce_max_domain_block_size = 5, ce_max_domain_block_weight = 6,
     ce_encoded_storage = (\<lambda>g. Some (eg_code g))\<rparr>"

lemma demo_cs_env_ok: "cs_env_ok demo_cs_env"
  by (simp add: cs_env_ok_def demo_cs_env_def)



end
