(* ===== verification/Domains.thy ===== *)
theory Domains
  imports Chain_Spec
begin

text \<open>
  Domain nodes (\<^verbatim>\<open>node/src/domains/\<close>): settings and presets, the two tasks that
  \<open>DomainConfig::build\<close> spawns (the bootstrapper and the runner) as a transition system over
  what they share, \<open>DomainInstanceStarter::prepare_for_start\<close>, \<open>Domain::close\<close> and the account
  conversion. A transition is one of the points at which a task of the source waits or writes
  shared state; what the other crates answer (the bootstrap data, the started service, the end of
  the instance) is part of the event. A oneshot channel holds at most one message.
\<close>

section \<open>Accounts\<close>

text \<open>\<open>acc.as_slice()[0..20]\<close>; \<open>H160::from_slice\<close> panics unless it is given 20 bytes.\<close>

definition account_id20_of :: "account_id32 \<Rightarrow> bytes run" where
  "account_id20_of acc = (case acc of AccountId32 b \<Rightarrow>
     run_bind (slice b 0 20) (\<lambda>s. if length s = 20 then Ret s else Panic ''assertion failed''))"

section \<open>Settings\<close>

record ('ma, 'mp) domain_config =
  dcf_chain_id :: string
  dcf_domain_id :: u32
  dcf_maybe_operator_id :: "u64 option"
  dcf_additional_args :: "string list"
  dcf_base :: "('ma, 'mp) base"

definition domain_config_default :: "build_env \<Rightarrow> ('ma, 'mp) domain_config" where
  [cfg_defs]: "domain_config_default e = \<lparr>dcf_chain_id = [], dcf_domain_id = 0,
     dcf_maybe_operator_id = None, dcf_additional_args = [], dcf_base = base_default e\<rparr>"

record ('ma, 'mp) domain_config_builder =
  dcb_chain_id :: "string option"
  dcb_domain_id :: "u32 option"
  dcb_maybe_operator_id :: "u64 option option"
  dcb_additional_args :: "string list option"
  dcb_base :: "('ma, 'mp) base_builder"

definition domain_config_builder_new :: "('ma, 'mp) domain_config_builder" where
  [cfg_defs]: "domain_config_builder_new = \<lparr>dcb_chain_id = None, dcb_domain_id = None,
     dcb_maybe_operator_id = None, dcb_additional_args = None, dcb_base = base_builder_new\<rparr>"

definition domain_configuration ::
  "build_env \<Rightarrow> ('ma, 'mp) domain_config_builder \<Rightarrow> ('ma, 'mp) domain_config" where
  [cfg_defs]: "domain_configuration e b =
     \<lparr>dcf_chain_id = unwrap_or (dcb_chain_id b) [],
      dcf_domain_id = unwrap_or (dcb_domain_id b) 0,
      dcf_maybe_operator_id = unwrap_or (dcb_maybe_operator_id b) None,
      dcf_additional_args = unwrap_or (dcb_additional_args b) [],
      dcf_base = base_build e (dcb_base b)\<rparr>"

definition domain_derive_base ::
  "('ma, 'mp) base_field \<Rightarrow> ('ma, 'mp) domain_config_builder \<Rightarrow> ('ma, 'mp) domain_config_builder" where
  [cfg_defs]: "domain_derive_base f b = b\<lparr>dcb_base := base_set f (dcb_base b)\<rparr>"

definition domain_dev :: "('ma, 'mp) domain_config_builder" where
  [cfg_defs]: "domain_dev = domain_derive_base (SetDevKeySeed ''//Alice'')
     (domain_config_builder_new\<lparr>dcb_chain_id := Some ''dev'', dcb_domain_id := Some 0\<rparr>)"

definition domain_gemini_3g :: "('ma, 'mp) domain_config_builder" where
  [cfg_defs]: "domain_gemini_3g =
     domain_config_builder_new\<lparr>dcb_chain_id := Some ''gemini-3g'', dcb_domain_id := Some 0\<rparr>"

definition domain_devnet :: "('ma, 'mp) domain_config_builder" where
  [cfg_defs]: "domain_devnet =
     domain_config_builder_new\<lparr>dcb_chain_id := Some ''devnet'', dcb_domain_id := Some 0\<rparr>"

interpretation domain_bld: config_builder domain_config_builder_new "domain_configuration e"
  "domain_config_default e" for e
  by unfold_locales (simp add: cfg_defs)

section \<open>The service configuration of a domain\<close>

text \<open>\<open>printable\<close> is the decimal domain id. Boot nodes of the consensus chain specification are a
  fallback for a configuration without any.\<close>

definition domain_service_config ::
  "('ma, 'mp, 'sa, 'sp, 'j, 'ep) sub_env \<Rightarrow> ('ma, 'mp) base \<Rightarrow> string \<Rightarrow> path \<Rightarrow>
   ('sp, 'ep) chain_spec_view \<Rightarrow> 'mp list \<Rightarrow> ('sa, 'sp, 'ep) configuration run" where
  "domain_service_config env b printable directory spec bootstrap_nodes =
     run_bind (base_configuration env b (join directory (''domain-'' @ printable)) spec) (\<lambda>c.
       Ret (if nc_boot_nodes (cfg_network c) = []
            then c\<lparr>cfg_network := (cfg_network c)\<lparr>nc_boot_nodes := map (into_peer env) bootstrap_nodes\<rparr>\<rparr>
            else c))"

text \<open>The accessors of a chain specification, and the two steps the runner makes of the bootstrap
  data: the domain specification, then its service configuration.\<close>

definition spec_view ::
  "(string \<Rightarrow> 'sp) \<Rightarrow> ('g, 'ep) chain_spec \<Rightarrow> ('sp, 'ep) chain_spec_view" where
  "spec_view parse_node spec = \<lparr>cs_id = spec_chain_id spec,
     cs_boot_nodes = map parse_node (spec_boot_nodes spec),
     cs_telemetry_endpoints = spec_telemetry spec\<rparr>"

definition domain_configure ::
  "('acc, 'ep) cs_env \<Rightarrow> (string \<Rightarrow> (string, ('g, 'ep) chain_spec) result) \<Rightarrow> 'g \<Rightarrow> (string \<Rightarrow> 'sp) \<Rightarrow>
   ('ma, 'mp, 'sa, 'sp, 'j, 'ep) sub_env \<Rightarrow> ('ma, 'mp) domain_config \<Rightarrow> string \<Rightarrow> path \<Rightarrow> 'mp list \<Rightarrow>
   'g \<Rightarrow> (string, ('sa, 'sp, 'ep) configuration) result run" where
  "domain_configure env from_file default_genesis parse_node sub c printable directory bootstrap_nodes
     raw_genesis =
     try_bind (Ret (create_domain_spec env from_file default_genesis (dcf_chain_id c) raw_genesis))
       (\<lambda>spec. run_bind (domain_service_config sub (dcf_base c) printable directory
          (spec_view parse_node spec) bootstrap_nodes) (\<lambda>cfg. Ret (Inr cfg)))"

section \<open>Starting an instance\<close>

datatype runtime_type = Evm

text \<open>The notifications of the consensus node that an operator listens to.\<close>

record 'ack block_importing_notification =
  bin_block_number :: u32
  bin_acknowledgement_sender :: 'ack

record 'rand new_slot_notification =
  nsn_slot :: u64
  nsn_global_randomness :: 'rand

record ('cfg, 'cl, 'net, 'ack, 'rand, 'sy, 'tp, 'mr, 'gs) domain_instance_starter =
  dis_service_config :: 'cfg
  dis_maybe_operator_id :: "u64 option"
  dis_domain_id :: u32
  dis_runtime_type :: runtime_type
  dis_additional_arguments :: "string list"
  dis_consensus_client :: 'cl
  dis_consensus_network :: 'net
  dis_block_importing_notification_stream :: "'ack block_importing_notification list"
  dis_new_slot_notification_stream :: "'rand new_slot_notification list"
  dis_consensus_sync_service :: 'sy
  dis_consensus_offchain_tx_pool_factory :: 'tp
  dis_domain_message_receiver :: 'mr
  dis_gossip_message_sink :: 'gs

record ('ack, 'rand, 'imp) operator_streams =
  os_throttling_buffer_size :: nat
  os_block_importing :: "(u32 \<times> 'ack) list"
  os_imported_block :: "'imp list"
  os_new_slot :: "(u64 \<times> 'rand) list"
  os_acknowledgement_senders :: "'ack list"

record eth_provider =
  ep_base_path :: "path option"
  ep_arguments :: "string list"

record ('cfg, 'cl, 'net, 'ack, 'rand, 'sy, 'tp, 'mr, 'gs, 'imp) domain_params =
  dp_domain_id :: u32
  dp_domain_config :: 'cfg
  dp_domain_created_at :: u32
  dp_maybe_operator_id :: "u64 option"
  dp_consensus_client :: 'cl
  dp_consensus_network :: 'net
  dp_consensus_offchain_tx_pool_factory :: 'tp
  dp_consensus_network_sync_oracle :: 'sy
  dp_operator_streams :: "('ack, 'rand, 'imp) operator_streams"
  dp_gossip_message_sink :: 'gs
  dp_domain_message_receiver :: 'mr
  dp_provider :: eth_provider
  dp_skip_empty_bundle_production :: bool

text \<open>What the domain service gives: its RPC handlers, and what its task manager will end with.\<close>

record 'rpc domain_full =
  df_rpc_handlers :: 'rpc
  df_task_manager :: "(string, unit) result"

datatype instance_action = StartNetwork | AwaitTasks

record instance_task =
  it_name :: string
  it_actions :: "instance_action list"
  it_result :: "(string, unit) result"

text \<open>\<open>new_full\<close> starts the service; the instance runs in a task of its own, of which the caller
  gets the handle.\<close>

definition operator_streams_of ::
  "('cfg, 'cl, 'net, 'ack, 'rand, 'sy, 'tp, 'mr, 'gs) domain_instance_starter \<Rightarrow> 'imp list \<Rightarrow>
   ('ack, 'rand, 'imp) operator_streams" where
  "operator_streams_of st imported =
     \<lparr>os_throttling_buffer_size = 10,
      os_block_importing = map (\<lambda>n. (bin_block_number n, bin_acknowledgement_sender n))
        (dis_block_importing_notification_stream st),
      os_imported_block = imported,
      os_new_slot = map (\<lambda>n. (nsn_slot n, nsn_global_randomness n)) (dis_new_slot_notification_stream st),
      os_acknowledgement_senders = []\<rparr>"

definition prepare_for_start ::
  "('cfg \<Rightarrow> path) \<Rightarrow>
   (('cfg, 'cl, 'net, 'ack, 'rand, 'sy, 'tp, 'mr, 'gs, 'imp) domain_params \<Rightarrow> (string, 'rpc domain_full) result) \<Rightarrow>
   ('cfg, 'cl, 'net, 'ack, 'rand, 'sy, 'tp, 'mr, 'gs) domain_instance_starter \<Rightarrow> u32 \<Rightarrow> 'imp list \<Rightarrow>
   (string, 'rpc \<times> instance_task) result" where
  "prepare_for_start base_path_of new_full st domain_created_at imported =
     (case dis_runtime_type st of
        Evm \<Rightarrow>
          result_bind (new_full
            \<lparr>dp_domain_id = dis_domain_id st, dp_domain_config = dis_service_config st,
             dp_domain_created_at = domain_created_at,
             dp_maybe_operator_id = dis_maybe_operator_id st,
             dp_consensus_client = dis_consensus_client st,
             dp_consensus_network = dis_consensus_network st,
             dp_consensus_offchain_tx_pool_factory = dis_consensus_offchain_tx_pool_factory st,
             dp_consensus_network_sync_oracle = dis_consensus_sync_service st,
             dp_operator_streams = operator_streams_of st imported,
             dp_gossip_message_sink = dis_gossip_message_sink st,
             dp_domain_message_receiver = dis_domain_message_receiver st,
             dp_provider = \<lparr>ep_base_path = Some (base_path_of (dis_service_config st)),
                            ep_arguments = dis_additional_arguments st\<rparr>,
             dp_skip_empty_bundle_production = True\<rparr>) (\<lambda>node.
            Inr (df_rpc_handlers node,
              \<lparr>it_name = ''domain-'' @ show_nat (unat (dis_domain_id st)) @ ''/start-domain'',
               it_actions = [StartNetwork, AwaitTasks], it_result = df_task_manager node\<rparr>)))"

section \<open>The two tasks\<close>

datatype domain_building_progress =
  ProgressDefault | BuildingStarted | Bootstrapped | PreparingToStart | Starting

text \<open>What the bootstrapper's channel delivers.\<close>

datatype 'data boot_message = Sent "(string, ('data, string) task_output) result" | SenderGone

datatype boot_phase = BootSpawned | BootFetching | BootDone

datatype ('data, 'cfg) runner_phase =
  RunnerWaiting | RunnerBootstrapped 'data | RunnerPreparing 'cfg | RunnerPrepared
| RunnerRunning | RunnerDone | RunnerPanicked

record ('data, 'cfg, 'rpc) domain_state =
  dom_progress :: domain_building_progress
  dom_rpc :: "'rpc option"
  dom_boot :: boot_phase
  dom_channel :: "'data boot_message option"
  dom_runner :: "('data, 'cfg) runner_phase"
  dom_result :: "(string, (unit, string) task_output) result option"
  dom_boot_drop :: bool
  dom_runner_drop :: bool
  dom_instance_alive :: bool

definition domain_init :: "('data, 'cfg, 'rpc) domain_state" where
  "domain_init = \<lparr>dom_progress = ProgressDefault, dom_rpc = None, dom_boot = BootSpawned,
     dom_channel = None, dom_runner = RunnerWaiting, dom_result = None,
     dom_boot_drop = False, dom_runner_drop = False, dom_instance_alive = False\<rparr>"

datatype run_outcome = RunOk | RunErr string | JoinErr string

datatype ('data, 'cfg, 'rpc) domain_event =
  BootStart
| BootFetched "(string, 'data) result"
| BootPanics
| BootCancel
| RunnerReceive
| RunnerCancelWait
| RunnerConfigure
| RunnerPrepare "(string, 'rpc) result"
| RunnerMarkStarting
| RunnerFinish run_outcome
| RunnerCancelRun
| DropRunner
| DropBoot

text \<open>The messages of the sources, for a printed domain id.\<close>

definition msg_boot_error :: "string \<Rightarrow> string \<Rightarrow> string" where
  "msg_boot_error i e = ''Error while bootstrapping the domain:'' @ i @ '' : '' @ e"

definition msg_boot_cancelled :: "string \<Rightarrow> string" where
  "msg_boot_cancelled i =
     ''received cancellation signal while bootstrapping the domain: '' @ i @ ''.''"

definition msg_runner_boot_cancelled :: "string \<Rightarrow> string \<Rightarrow> string" where
  "msg_runner_boot_cancelled i r = ''Bootstrapping task was cancelled for reason: '' @ r @
     '' for domain_id: '' @ i @ ''. exiting...''"

definition msg_runner_boot_error :: "string \<Rightarrow> string \<Rightarrow> string" where
  "msg_runner_boot_error i e =
     ''received an error from domain bootstrapper for domain id: '' @ i @ ''  error: '' @ e"

definition msg_runner_no_message :: "string \<Rightarrow> string" where
  "msg_runner_no_message i =
     ''unable to receive message from domain bootstrapper for domain id: '' @ i"

definition msg_runner_cancelled_waiting :: "string \<Rightarrow> string" where
  "msg_runner_cancelled_waiting i =
     ''received cancellation signal while waiting for bootstrapping result for domain: '' @ i @ ''.''"

definition msg_runner_spec_error :: "string \<Rightarrow> string \<Rightarrow> string" where
  "msg_runner_spec_error i e =
     ''Error while creating domain spec for the domain: '' @ i @ '' Error: '' @ e"

definition msg_runner_prepare_error :: "string \<Rightarrow> string \<Rightarrow> string" where
  "msg_runner_prepare_error i e =
     ''Error while preparing to start domain for the domain id: '' @ i @ '' Error: '' @ e"

definition msg_runner_run_error :: "string \<Rightarrow> string \<Rightarrow> string" where
  "msg_runner_run_error i e =
     ''received an error while trying to run the domain id: '' @ i @ ''  error: '' @ e"

definition msg_runner_join_error :: "string \<Rightarrow> string \<Rightarrow> string" where
  "msg_runner_join_error i e =
     ''unable to join domain runner for domain id: '' @ i @ '' due to an error: '' @ e"

definition msg_runner_cancelled_running :: "string \<Rightarrow> string" where
  "msg_runner_cancelled_running i =
     ''Received cancellation signal while waiting for domain runner for domain: '' @ i @ ''.''"

text \<open>The end of the runner: its one message.\<close>

definition runner_done ::
  "(string, (unit, string) task_output) result \<Rightarrow> ('data, 'cfg, 'rpc) domain_state \<Rightarrow>
   ('data, 'cfg, 'rpc) domain_state" where
  "runner_done r s = s\<lparr>dom_runner := RunnerDone, dom_result := Some r\<rparr>"

text \<open>
  \<open>i\<close> is the printed domain id; \<open>configure\<close> makes the domain specification and the service
  configuration from the bootstrap data. A step returns \<open>None\<close> when it is not enabled.
  \<open>select\<close> prefers a message that is already there to the drop signal. When the runner is
  cancelled while the instance runs, the join handle is dropped, which detaches the instance.
\<close>

fun domain_step ::
  "string \<Rightarrow> ('data \<Rightarrow> (string, 'cfg) result run) \<Rightarrow> ('data, 'cfg, 'rpc) domain_event \<Rightarrow>
   ('data, 'cfg, 'rpc) domain_state \<Rightarrow> ('data, 'cfg, 'rpc) domain_state option" where
  "domain_step i configure BootStart s =
     (if dom_boot s = BootSpawned
      then Some (s\<lparr>dom_progress := BuildingStarted, dom_boot := BootFetching\<rparr>) else None)"
| "domain_step i configure (BootFetched r) s =
     (if dom_boot s = BootFetching
      then Some (s\<lparr>dom_boot := BootDone,
                   dom_channel := Some (Sent (map_ok TaskValue (map_err (msg_boot_error i) r)))\<rparr>)
      else None)"
| "domain_step i configure BootPanics s =
     (if dom_boot s = BootFetching
      then Some (s\<lparr>dom_boot := BootDone, dom_channel := Some SenderGone\<rparr>) else None)"
| "domain_step i configure BootCancel s =
     (if dom_boot s = BootFetching \<and> dom_boot_drop s
      then Some (s\<lparr>dom_boot := BootDone,
                   dom_channel := Some (Sent (Inr (TaskCancelled (msg_boot_cancelled i))))\<rparr>) else None)"
| "domain_step i configure RunnerReceive s =
     (case (dom_runner s, dom_channel s) of
        (RunnerWaiting, Some m) \<Rightarrow>
          Some (let s' = s\<lparr>dom_channel := None\<rparr> in
            (case m of
               Sent (Inr (TaskValue d)) \<Rightarrow> s'\<lparr>dom_runner := RunnerBootstrapped d, dom_progress := Bootstrapped\<rparr>
             | Sent (Inr (TaskCancelled reason)) \<Rightarrow>
                 runner_done (Inr (TaskCancelled (msg_runner_boot_cancelled i reason))) s'
             | Sent (Inl e) \<Rightarrow> runner_done (Inl (msg_runner_boot_error i e)) s'
             | SenderGone \<Rightarrow> runner_done (Inl (msg_runner_no_message i)) s'))
      | _ \<Rightarrow> None)"
| "domain_step i configure RunnerCancelWait s =
     (if dom_runner s = RunnerWaiting \<and> dom_channel s = None \<and> dom_runner_drop s
      then Some (runner_done (Inr (TaskCancelled (msg_runner_cancelled_waiting i))) s) else None)"
| "domain_step i configure RunnerConfigure s =
     (case dom_runner s of
        RunnerBootstrapped d \<Rightarrow>
          Some (case configure d of
                  Ret (Inr c) \<Rightarrow> s\<lparr>dom_runner := RunnerPreparing c, dom_progress := PreparingToStart\<rparr>
                | Ret (Inl e) \<Rightarrow> runner_done (Inl (msg_runner_spec_error i e)) s
                | Panic _ \<Rightarrow> s\<lparr>dom_runner := RunnerPanicked\<rparr>)
      | _ \<Rightarrow> None)"
| "domain_step i configure (RunnerPrepare r) s =
     (case dom_runner s of
        RunnerPreparing c \<Rightarrow>
          Some (case r of
                  Inr rpc \<Rightarrow> s\<lparr>dom_runner := RunnerPrepared, dom_rpc := Some rpc, dom_instance_alive := True\<rparr>
                | Inl e \<Rightarrow> runner_done (Inl (msg_runner_prepare_error i e)) s)
      | _ \<Rightarrow> None)"
| "domain_step i configure RunnerMarkStarting s =
     (if dom_runner s = RunnerPrepared
      then Some (s\<lparr>dom_runner := RunnerRunning, dom_progress := Starting\<rparr>) else None)"
| "domain_step i configure (RunnerFinish out) s =
     (if dom_runner s = RunnerRunning
      then Some (let s' = s\<lparr>dom_instance_alive := False\<rparr> in
        (case out of
           RunOk \<Rightarrow> runner_done (Inr (TaskValue ())) s'
         | RunErr e \<Rightarrow> runner_done (Inl (msg_runner_run_error i e)) s'
         | JoinErr e \<Rightarrow> runner_done (Inl (msg_runner_join_error i e)) s'))
      else None)"
| "domain_step i configure RunnerCancelRun s =
     (if dom_runner s = RunnerRunning \<and> dom_runner_drop s
      then Some (runner_done (Inr (TaskCancelled (msg_runner_cancelled_running i))) s) else None)"
| "domain_step i configure DropRunner s =
     (if dom_runner_drop s then None else Some (s\<lparr>dom_runner_drop := True\<rparr>))"
| "domain_step i configure DropBoot s =
     (if dom_boot_drop s then None else Some (s\<lparr>dom_boot_drop := True\<rparr>))"

inductive domain_reach ::
  "string \<Rightarrow> ('data \<Rightarrow> (string, 'cfg) result run) \<Rightarrow> ('data, 'cfg, 'rpc) domain_state \<Rightarrow> bool"
  for i configure where
  reach_init: "domain_reach i configure domain_init"
| reach_step: "domain_reach i configure s \<Longrightarrow> domain_step i configure e s = Some s' \<Longrightarrow>
    domain_reach i configure s'"

section \<open>Building and closing\<close>

datatype domain_label = AwaitBootstrapper | AwaitRunner

record ('data, 'cfg, 'rpc) domain =
  domain_destructors :: "domain_label destructor_set"
  domain_state :: "('data, 'cfg, 'rpc) domain_state"

definition domain_build :: "string \<Rightarrow> (string, ('data, 'cfg, 'rpc) domain) result" where
  "domain_build printable =
     result_bind (add_async_destructor AwaitBootstrapper
         (ds_new (''domain-'' @ printable @ ''-worker-destructor''))) (\<lambda>d1.
       result_bind (add_async_destructor AwaitRunner d1) (\<lambda>d2.
         Inr \<lparr>domain_destructors = d2, domain_state = domain_init\<rparr>))"

definition domain_config_builder_build ::
  "build_env \<Rightarrow> ('ma, 'mp) domain_config_builder \<Rightarrow> (string, ('data, 'cfg, 'rpc) domain) result" where
  "domain_config_builder_build e b =
     domain_build (show_nat (unat (dcf_domain_id (domain_configuration e b))))"

text \<open>
  \<open>async_drop().await?\<close>, then the message of the runner: \<open>received\<close> is \<open>None\<close> when the
  sender was dropped without sending. Both kinds of output count as a clean close. This is the close
  of a domain neither of whose tasks panicked: the awaited join handles pass a panic on.
\<close>

definition domain_close ::
  "domain_label destructor_set \<Rightarrow> (string, (unit, string) task_output) result option \<Rightarrow>
   (domain_label effect list \<times> (string, unit) result) run" where
  "domain_close d received =
     run_bind (async_drop d) (\<lambda>(es, r).
       Ret (es, result_bind r (\<lambda>_.
         (case received of
            None \<Rightarrow> Inl ''channel closed''
          | Some m \<Rightarrow> result_bind m (\<lambda>out. case out of TaskValue _ \<Rightarrow> Inr () | TaskCancelled _ \<Rightarrow> Inr ())))))"

text \<open>
  The same when the joined tasks may have panicked: \<open>await_output\<close> is the rest of the function,
  which is reached only when both joins succeed.
\<close>

definition await_output ::
  "(string, (unit, string) task_output) result option \<Rightarrow> (string, unit) result" where
  "await_output received =
     (case received of
        None \<Rightarrow> Inl ''channel closed''
      | Some m \<Rightarrow> result_bind m (\<lambda>out. case out of TaskValue _ \<Rightarrow> Inr () | TaskCancelled _ \<Rightarrow> Inr ()))"

definition domain_join_message :: string where
  "domain_join_message = ''If joining is failing; that means the future being joined panicked, so we '' @
     ''need to propagate it; qed.''"

definition domain_close_joins ::
  "(domain_label \<Rightarrow> bool) \<Rightarrow> domain_label destructor_set \<Rightarrow>
   (string, (unit, string) task_output) result option \<Rightarrow>
   (domain_label effect list \<times> (string, unit) result run) run" where
  "domain_close_joins dead d received =
     run_bind (async_drop_joins (\<lambda>l. if dead l then Some domain_join_message else None) d) (\<lambda>(es, r).
       Ret (es, try_bind r (\<lambda>_. Ret (await_output received))))"

section \<open>The order of progress\<close>

fun progress_rank :: "domain_building_progress \<Rightarrow> nat" where
  "progress_rank ProgressDefault = 0"
| "progress_rank BuildingStarted = 1"
| "progress_rank Bootstrapped = 2"
| "progress_rank PreparingToStart = 3"
| "progress_rank Starting = 4"

lemma progress_rank_inj: "progress_rank a = progress_rank b \<Longrightarrow> a = b"
  by (cases a; cases b) simp_all

instantiation domain_building_progress :: linorder
begin

definition less_eq_domain_building_progress ::
  "domain_building_progress \<Rightarrow> domain_building_progress \<Rightarrow> bool" where
  "less_eq_domain_building_progress a b \<longleftrightarrow> progress_rank a \<le> progress_rank b"

definition less_domain_building_progress ::
  "domain_building_progress \<Rightarrow> domain_building_progress \<Rightarrow> bool" where
  "less_domain_building_progress a b \<longleftrightarrow> progress_rank a < progress_rank b"

instance
  by standard (auto simp: less_eq_domain_building_progress_def less_domain_building_progress_def
      dest: progress_rank_inj)

end

lemmas progress_order = less_eq_domain_building_progress_def less_domain_building_progress_def

section \<open>Invariants of the tasks\<close>

text \<open>What each phase of the runner means for the shared state.\<close>

fun runner_inv :: "('data, 'cfg, 'rpc) domain_state \<Rightarrow> bool" where
  "runner_inv s \<longleftrightarrow>
     (case dom_runner s of
        RunnerWaiting \<Rightarrow> dom_progress s \<le> BuildingStarted \<and> dom_rpc s = None \<and>
          (dom_boot s = BootDone \<longleftrightarrow> dom_channel s \<noteq> None)
      | RunnerBootstrapped _ \<Rightarrow> dom_progress s = Bootstrapped \<and> dom_rpc s = None \<and> dom_boot s = BootDone
      | RunnerPreparing _ \<Rightarrow> dom_progress s = PreparingToStart \<and> dom_rpc s = None \<and> dom_boot s = BootDone
      | RunnerPrepared \<Rightarrow> dom_progress s = PreparingToStart \<and> dom_rpc s \<noteq> None \<and>
          dom_boot s = BootDone \<and> dom_instance_alive s
      | RunnerRunning \<Rightarrow> dom_progress s = Starting \<and> dom_rpc s \<noteq> None \<and>
          dom_boot s = BootDone \<and> dom_instance_alive s
      | _ \<Rightarrow> True)"

definition domain_inv :: "('data, 'cfg, 'rpc) domain_state \<Rightarrow> bool" where
  "domain_inv s \<longleftrightarrow> runner_inv s \<and>
     (dom_boot s = BootSpawned \<longrightarrow> dom_progress s = ProgressDefault \<and> dom_rpc s = None) \<and>
     (dom_progress s = Starting \<longrightarrow> dom_rpc s \<noteq> None) \<and>
     (dom_rpc s \<noteq> None \<longrightarrow> PreparingToStart \<le> dom_progress s) \<and>
     (dom_runner s = RunnerDone \<longleftrightarrow> dom_result s \<noteq> None)"

lemma domain_inv_init: "domain_inv domain_init"
  by (simp add: domain_inv_def domain_init_def progress_order)

text \<open>The steps as a relation, one rule for each way a task moves on.\<close>

inductive domain_trans ::
  "('data, 'cfg, 'rpc) domain_state \<Rightarrow> ('data, 'cfg, 'rpc) domain_state \<Rightarrow> bool" where
  trans_start: "dom_boot s = BootSpawned \<Longrightarrow>
    domain_trans s (s\<lparr>dom_progress := BuildingStarted, dom_boot := BootFetching\<rparr>)"
| trans_boot: "dom_boot s = BootFetching \<Longrightarrow>
    domain_trans s (s\<lparr>dom_boot := BootDone, dom_channel := Some m\<rparr>)"
| trans_received: "dom_runner s = RunnerWaiting \<Longrightarrow> dom_channel s = Some m \<Longrightarrow>
    domain_trans s (s\<lparr>dom_channel := None, dom_runner := RunnerBootstrapped d, dom_progress := Bootstrapped\<rparr>)"
| trans_refused: "dom_runner s = RunnerWaiting \<Longrightarrow> dom_channel s = Some m \<Longrightarrow>
    domain_trans s (s\<lparr>dom_channel := None, dom_runner := RunnerDone, dom_result := Some r\<rparr>)"
| trans_configured: "dom_runner s = RunnerBootstrapped d \<Longrightarrow>
    domain_trans s (s\<lparr>dom_runner := RunnerPreparing c, dom_progress := PreparingToStart\<rparr>)"
| trans_panicked: "dom_runner s = RunnerBootstrapped d \<Longrightarrow>
    domain_trans s (s\<lparr>dom_runner := RunnerPanicked\<rparr>)"
| trans_prepared: "dom_runner s = RunnerPreparing c \<Longrightarrow>
    domain_trans s (s\<lparr>dom_runner := RunnerPrepared, dom_rpc := Some rpc, dom_instance_alive := True\<rparr>)"
| trans_running: "dom_runner s = RunnerPrepared \<Longrightarrow>
    domain_trans s (s\<lparr>dom_runner := RunnerRunning, dom_progress := Starting\<rparr>)"
| trans_finished: "dom_runner s = RunnerRunning \<Longrightarrow>
    domain_trans s (s\<lparr>dom_instance_alive := False, dom_runner := RunnerDone, dom_result := Some r\<rparr>)"
| trans_ended: "dom_runner s \<notin> {RunnerPrepared, RunnerDone, RunnerPanicked} \<Longrightarrow>
    domain_trans s (s\<lparr>dom_runner := RunnerDone, dom_result := Some r\<rparr>)"
| trans_drop_runner: "\<not> dom_runner_drop s \<Longrightarrow> domain_trans s (s\<lparr>dom_runner_drop := True\<rparr>)"
| trans_drop_boot: "\<not> dom_boot_drop s \<Longrightarrow> domain_trans s (s\<lparr>dom_boot_drop := True\<rparr>)"

inductive_cases domain_transE: "domain_trans s s'"

lemma domain_step_trans:
  assumes "domain_step i configure e s = Some s'"
  shows "domain_trans s s'"
proof (cases e)
  case RunnerReceive
  with assms show ?thesis
    by (auto simp: runner_done_def Let_def intro: domain_trans.intros
        split: option.splits boot_message.splits sum.splits task_output.splits runner_phase.splits)
next
  case RunnerConfigure
  with assms show ?thesis
    by (auto simp: runner_done_def intro: domain_trans.intros
        split: runner_phase.splits run.splits sum.splits)
next
  case (RunnerPrepare r)
  with assms show ?thesis
    by (auto simp: runner_done_def intro: domain_trans.intros split: runner_phase.splits sum.splits)
next
  case (RunnerFinish out)
  with assms show ?thesis
    by (auto simp: runner_done_def Let_def intro: domain_trans.intros
        split: if_splits run_outcome.splits)
qed (use assms in \<open>auto simp: runner_done_def intro: domain_trans.intros split: if_splits\<close>)

lemma domain_trans_inv:
  "domain_trans s s' \<Longrightarrow> domain_inv s \<Longrightarrow> domain_inv s' \<and> dom_progress s \<le> dom_progress s'"
proof (induction rule: domain_trans.induct)
  case (trans_ended s r)
  then show ?case by (cases "dom_runner s") (auto simp: domain_inv_def progress_order)
next
  case (trans_start s)
  then show ?case by (cases "dom_runner s") (auto simp: domain_inv_def progress_order)
next
  case (trans_boot s m)
  then show ?case by (cases "dom_runner s") (auto simp: domain_inv_def progress_order)
next
  case (trans_received s m d)
  then show ?case by (auto simp: domain_inv_def progress_order)
next
  case (trans_refused s m r)
  then show ?case by (auto simp: domain_inv_def progress_order)
next
  case (trans_drop_runner s)
  then show ?case by (cases "dom_runner s") (auto simp: domain_inv_def progress_order)
next
  case (trans_drop_boot s)
  then show ?case by (cases "dom_runner s") (auto simp: domain_inv_def progress_order)
qed (auto simp: domain_inv_def progress_order)

lemma domain_reach_inv: "domain_reach i configure s \<Longrightarrow> domain_inv s"
proof (induction rule: domain_reach.induct)
  case reach_init
  show ?case by (rule domain_inv_init)
next
  case (reach_step s e s')
  with domain_trans_inv domain_step_trans show ?case by blast
qed

section \<open>Termination of the tasks\<close>

fun boot_rank :: "boot_phase \<Rightarrow> nat" where
  "boot_rank BootSpawned = 2"
| "boot_rank BootFetching = 1"
| "boot_rank BootDone = 0"

fun runner_rank :: "('data, 'cfg) runner_phase \<Rightarrow> nat" where
  "runner_rank RunnerWaiting = 5"
| "runner_rank (RunnerBootstrapped _) = 4"
| "runner_rank (RunnerPreparing _) = 3"
| "runner_rank RunnerPrepared = 2"
| "runner_rank RunnerRunning = 1"
| "runner_rank RunnerDone = 0"
| "runner_rank RunnerPanicked = 0"

definition domain_measure :: "('data, 'cfg, 'rpc) domain_state \<Rightarrow> nat" where
  "domain_measure s = boot_rank (dom_boot s) + runner_rank (dom_runner s) +
     (if dom_boot_drop s then 0 else 1) + (if dom_runner_drop s then 0 else 1)"

lemma runner_rank_0: "runner_rank r = 0 \<longleftrightarrow> r = RunnerDone \<or> r = RunnerPanicked"
  by (cases r) simp_all

lemma domain_trans_measure: "domain_trans s s' \<Longrightarrow> domain_measure s' < domain_measure s"
proof (induction rule: domain_trans.induct)
  case (trans_ended s r)
  then have "runner_rank (dom_runner s) \<noteq> 0" by (simp add: runner_rank_0)
  then show ?case by (simp add: domain_measure_def)
qed (auto simp: domain_measure_def)

text \<open>A run: the events that happen, one after the other.\<close>

fun domain_run ::
  "string \<Rightarrow> ('data \<Rightarrow> (string, 'cfg) result run) \<Rightarrow> ('data, 'cfg, 'rpc) domain_event list \<Rightarrow>
   ('data, 'cfg, 'rpc) domain_state \<Rightarrow> ('data, 'cfg, 'rpc) domain_state option" where
  "domain_run i configure [] s = Some s"
| "domain_run i configure (e # es) s =
     (case domain_step i configure e s of None \<Rightarrow> None | Some s' \<Rightarrow> domain_run i configure es s')"

lemma domain_run_bounded:
  "domain_run i configure es s = Some s' \<Longrightarrow> length es + domain_measure s' \<le> domain_measure s"
proof (induction es arbitrary: s)
  case (Cons e es)
  then obtain t where "domain_step i configure e s = Some t" "domain_run i configure es t = Some s'"
    by (auto split: option.splits)
  with Cons.IH [of t] domain_trans_measure [OF domain_step_trans [of i configure e s t]]
  show ?case by auto
qed simp

lemma domain_run_reach:
  "domain_reach i configure s \<Longrightarrow> domain_run i configure es s = Some s' \<Longrightarrow> domain_reach i configure s'"
proof (induction es arbitrary: s)
  case (Cons e es)
  then show ?case by (auto split: option.splits intro: domain_reach.intros)
qed simp

text \<open>After both drop signals a task that has not ended can always move.\<close>

lemma domain_not_stuck:
  assumes "dom_boot_drop s" and "dom_runner_drop s"
    and "\<And>e. domain_step i configure e s = None"
  shows "dom_boot s = BootDone \<and> (dom_runner s = RunnerDone \<or> dom_runner s = RunnerPanicked)"
proof
  have "dom_boot s \<noteq> BootSpawned" using assms(3) [of BootStart] by auto
  moreover have "dom_boot s \<noteq> BootFetching" using assms(1) assms(3) [of BootCancel] by auto
  ultimately show "dom_boot s = BootDone" by (cases "dom_boot s") auto
  show "dom_runner s = RunnerDone \<or> dom_runner s = RunnerPanicked"
    using assms(2) assms(3) [of RunnerReceive] assms(3) [of RunnerCancelWait]
      assms(3) [of RunnerConfigure] assms(3) [of "RunnerPrepare (Inl [])"]
      assms(3) [of RunnerMarkStarting] assms(3) [of RunnerCancelRun]
    by (cases "dom_runner s"; cases "dom_channel s") auto
qed

section \<open>Closing\<close>

lemma domain_build_destructors:
  assumes "domain_build i = Inr d"
  shows "ds_wf (domain_destructors d) \<and> allow_async (domain_destructors d) \<and>
    entries (domain_destructors d) = [AsyncE AwaitBootstrapper, AsyncE AwaitRunner]"
proof -
  let ?new = "ds_new (''domain-'' @ i @ ''-worker-destructor'') :: domain_label destructor_set"
  have "register_all register [AsyncE AwaitBootstrapper, AsyncE AwaitRunner] ?new =
      Inr (domain_destructors d)"
    using assms by (auto simp: domain_build_def result_bind_eq_Ok)
  from dset.register_all_view [OF _ this] show ?thesis by (simp add: ds_new_def [of "''domain-'' @ i @ ''-worker-destructor''"])
qed

lemma domain_close_built:
  assumes "domain_build i = Inr d"
  shows "domain_close (domain_destructors d) (Some m) =
    Ret ([Awaited AwaitRunner, Awaited AwaitBootstrapper], map_ok (\<lambda>_. ()) m)"
proof -
  have "async_drop (domain_destructors d) =
      Ret ([Awaited AwaitRunner, Awaited AwaitBootstrapper], Inr ())"
    using domain_build_destructors [OF assms] dset.close_view [of "domain_destructors d"] by simp
  then show ?thesis
    by (cases m) (auto simp: domain_close_def split: task_output.splits)
qed

lemma domain_close_joins_no_panic:
  "domain_close_joins (\<lambda>_. False) d received =
   run_bind (domain_close d received) (\<lambda>(es, r). Ret (es, Ret r))"
proof (cases "async_drop d")
  case (Ret x)
  then show ?thesis
    by (cases x; cases "snd x")
      (simp_all add: domain_close_joins_def domain_close_def async_drop_joins_no_panic await_output_def)
qed (simp add: domain_close_joins_def domain_close_def async_drop_joins_no_panic)

lemma domain_close_joins_built:
  assumes "domain_build i = Inr d"
  shows "domain_close_joins dead (domain_destructors d) received =
    Ret (if dead AwaitRunner then [Awaited AwaitRunner, DroppedFuture AwaitBootstrapper]
         else [Awaited AwaitRunner, Awaited AwaitBootstrapper],
         if dead AwaitRunner \<or> dead AwaitBootstrapper then Panic domain_join_message
         else Ret (await_output received))"
proof -
  let ?p = "\<lambda>l. if dead l then Some domain_join_message else None"
  have v: "ds_wf (domain_destructors d)" "allow_async (domain_destructors d)"
    "entries (domain_destructors d) = [AsyncE AwaitBootstrapper, AsyncE AwaitRunner]"
    using domain_build_destructors [OF assms] by simp_all
  consider "dead AwaitRunner" | "\<not> dead AwaitRunner" "dead AwaitBootstrapper"
    | "\<not> dead AwaitRunner" "\<not> dead AwaitBootstrapper" by blast
  then show ?thesis
  proof cases
    case 1
    then show ?thesis
      using dset.joins_panic [OF v(1,2), of "[AsyncE AwaitBootstrapper]" AwaitRunner "[]" ?p] v(3)
      by (simp add: domain_close_joins_def unwound_def)
  next
    case 2
    have "async_drop_joins ?p (domain_destructors d) =
        Ret (map (effect_of Awaited) (rev [AsyncE AwaitRunner]) @ Awaited AwaitBootstrapper # unwound [],
          Panic domain_join_message)"
      by (rule dset.joins_panic [OF v(1,2)]) (use 2 v(3) in auto)
    with 2 show ?thesis by (simp add: domain_close_joins_def unwound_def)
  next
    case 3
    have "async_drop_joins ?p (domain_destructors d) =
        Ret (map (effect_of Awaited) (rev (entries (domain_destructors d))), Ret (Inr ()))"
      by (rule dset.joins_all [OF v(1,2)]) (use 3 v(3) in auto)
    with 3 v(3) show ?thesis by (simp add: domain_close_joins_def)
  qed
qed

lemma domain_alive_stays:
  assumes "dom_instance_alive s" and "dom_runner s = RunnerDone"
    and "domain_run i configure es s = Some s'"
  shows "dom_instance_alive s'"
  using assms
proof (induction es arbitrary: s)
  case (Cons e es)
  then obtain t where t: "domain_step i configure e s = Some t" "domain_run i configure es t = Some s'"
    by (auto split: option.splits)
  have "dom_instance_alive t \<and> dom_runner t = RunnerDone"
    using Cons.prems(1,2) t(1)
    by (cases e) (auto split: if_splits)
  with Cons.IH t(2) show ?case by blast
qed simp

section \<open>Lemmas on the configuration\<close>

lemma create_domain_spec_known:
  assumes "chain_id \<in> {''dev'', ''gemini-3g'', ''devnet'', ''local'', []}"
  shows "\<exists>spec. create_domain_spec env from_file dflt chain_id raw = Inr spec \<and>
    spec_genesis spec = raw \<and> spec_boot_nodes spec = [] \<and> spec_telemetry spec = None"
  using assms
  by (auto simp: create_domain_spec_def evm_development_config_def evm_gemini_3g_config_def
      evm_devnet_config_def evm_local_testnet_config_def)

lemma domain_service_config_boot_nodes:
  assumes "domain_service_config env b i dir cs nodes = Ret c"
  shows "nc_boot_nodes (cfg_network c) =
    (let own = cs_boot_nodes cs @ map (into_peer env) (net_boot_nodes (base_network b))
     in if own = [] then map (into_peer env) nodes else own)"
proof -
  let ?own = "cs_boot_nodes cs @ map (into_peer env) (net_boot_nodes (base_network b))"
  obtain c0 where c0: "base_configuration env b (join dir (''domain-'' @ i)) cs = Ret c0"
    and c: "c = (if nc_boot_nodes (cfg_network c0) = []
      then c0\<lparr>cfg_network := (cfg_network c0)\<lparr>nc_boot_nodes := map (into_peer env) nodes\<rparr>\<rparr> else c0)"
    using assms unfolding domain_service_config_def run_bind_eq_Ret by blast
  have own: "nc_boot_nodes (cfg_network c0) = ?own" by (rule base_configuration_parts [OF c0])
  show ?thesis
  proof (cases "?own = []")
    case True
    then show ?thesis by (simp add: c own)
  next
    case False
    then show ?thesis by (simp only: c own Let_def if_False)
  qed
qed

section \<open>Properties\<close>

text \<open>C6: In every reachable state of a domain the published progress only grows with each step of
  either task, although both write it; and the RPC handlers are there exactly from the moment the
  service was prepared: whoever reads \<open>Starting\<close> finds them, and whoever finds them reads at
  least \<open>PreparingToStart\<close>.\<close>
theorem domain_progress_and_rpc:
  assumes "domain_reach i configure s" and "domain_step i configure e s = Some s'"
  shows "dom_progress s \<le> dom_progress s' \<and>
    (dom_progress s' = Starting \<longrightarrow> dom_rpc s' \<noteq> None) \<and>
    (dom_rpc s' \<noteq> None \<longrightarrow> PreparingToStart \<le> dom_progress s')"
proof -
  have "domain_inv s' \<and> dom_progress s \<le> dom_progress s'"
    using domain_trans_inv [OF domain_step_trans [OF assms(2)] domain_reach_inv [OF assms(1)]] .
  then show ?thesis by (simp add: domain_inv_def)
qed

text \<open>A run of a domain in which the instance is started and then both tasks are told to stop.\<close>

definition demo_domain_events :: "(nat, nat, nat) domain_event list" where
  "demo_domain_events = [BootStart, BootFetched (Inr 1), RunnerReceive, RunnerConfigure,
     RunnerPrepare (Inr 3), RunnerMarkStarting]"

definition demo_running :: "(nat, nat, nat) domain_state" where
  "demo_running = \<lparr>dom_progress = Starting, dom_rpc = Some 3, dom_boot = BootDone,
     dom_channel = None, dom_runner = RunnerRunning, dom_result = None, dom_boot_drop = False,
     dom_runner_drop = False, dom_instance_alive = True\<rparr>"

lemma demo_domain_run:
  "domain_run ''0'' (\<lambda>d. Ret (Inr (d + 1))) demo_domain_events domain_init = Some demo_running"
  by (simp add: demo_domain_events_def demo_running_def domain_init_def runner_done_def Let_def)

lemma demo_domain_reach: "domain_reach ''0'' (\<lambda>d. Ret (Inr (d + 1))) demo_running"
  by (rule domain_run_reach [OF reach_init demo_domain_run])

lemma demo_domain_reach_drop:
  "domain_reach ''0'' (\<lambda>d. Ret (Inr (d + 1))) (demo_running\<lparr>dom_runner_drop := True\<rparr>)"
  by (rule reach_step [OF demo_domain_reach, of DropRunner]) (simp add: demo_running_def)

theorem domain_progress_and_rpc_witness:
  "domain_step ''0'' (\<lambda>d. Ret (Inr (d + 1))) DropRunner demo_running =
     Some (demo_running\<lparr>dom_runner_drop := True\<rparr>) \<and>
   dom_progress demo_running \<le> dom_progress (demo_running\<lparr>dom_runner_drop := True\<rparr>)"
proof -
  have s: "domain_step ''0'' (\<lambda>d. Ret (Inr (d + 1))) DropRunner demo_running =
     Some (demo_running\<lparr>dom_runner_drop := True\<rparr>)" by (simp add: demo_running_def)
  from domain_progress_and_rpc [OF demo_domain_reach s] s show ?thesis by blast
qed

text \<open>C24: The runner reports exactly once: in every reachable state its result is there if and only
  if it has ended (without a panic), and no later step of either task changes it.\<close>
theorem domain_reports_once:
  assumes "domain_reach i configure s"
  shows "(dom_runner s = RunnerDone \<longleftrightarrow> dom_result s \<noteq> None) \<and>
    (dom_result s = Some r \<and> domain_run i configure es s = Some s' \<longrightarrow> dom_result s' = Some r)"
proof -
  have inv: "dom_runner t = RunnerDone \<longleftrightarrow> dom_result t \<noteq> None" if "domain_reach i configure t" for t
    using domain_reach_inv [OF that] by (simp add: domain_inv_def)
  have "dom_runner t = RunnerDone \<Longrightarrow> dom_result t = Some r \<Longrightarrow>
      domain_run i configure es t = Some s' \<Longrightarrow> dom_result s' = Some r" for t
  proof (induction es arbitrary: t)
    case (Cons e es)
    then obtain u where u: "domain_step i configure e t = Some u" "domain_run i configure es u = Some s'"
      by (auto split: option.splits)
    have "dom_runner u = RunnerDone \<and> dom_result u = Some r"
      using Cons.prems(1,2) u(1) by (cases e) (auto split: if_splits)
    with Cons.IH u(2) show ?case by blast
  qed simp
  with inv [OF assms] show ?thesis by (metis option.distinct(1))
qed

theorem domain_reports_once_witness:
  "dom_runner demo_running \<noteq> RunnerDone \<and> dom_result demo_running = None"
  using domain_reports_once [OF demo_domain_reach] by (auto simp: demo_running_def)



text \<open>C26: Closing a domain that is running reports success and leaves the domain running. The drop
  signal makes the runner give up the join handle of the instance, which detaches the instance
  instead of stopping it; the close awaits both tasks and returns without an error, and no step of
  the tasks ever stops the instance after that.\<close>
theorem domain_close_leaves_instance_running:
  assumes "domain_build i = Inr d" and "domain_reach i configure s"
    and "domain_step i configure RunnerCancelRun s = Some s'"
  shows "domain_close (domain_destructors d) (dom_result s') =
      Ret ([Awaited AwaitRunner, Awaited AwaitBootstrapper], Inr ()) \<and>
    dom_instance_alive s' \<and>
    (domain_run i configure es s' = Some s'' \<longrightarrow> dom_instance_alive s'')"
proof -
  have s: "dom_runner s = RunnerRunning"
    "s' = runner_done (Inr (TaskCancelled (msg_runner_cancelled_running i))) s"
    using assms(3) by (auto split: if_splits)
  have "dom_instance_alive s" using domain_reach_inv [OF assms(2)] s(1) by (simp add: domain_inv_def)
  then have "dom_instance_alive s'" "dom_runner s' = RunnerDone"
    "dom_result s' = Some (Inr (TaskCancelled (msg_runner_cancelled_running i)))"
    by (simp_all add: s(2) runner_done_def)
  then show ?thesis
    using domain_close_built [OF assms(1), of "Inr (TaskCancelled (msg_runner_cancelled_running i))"]
      domain_alive_stays [of s' i configure es s''] by simp
qed

theorem domain_close_leaves_instance_running_witness:
  "\<exists>(d :: (nat, nat, nat) domain) s'. domain_build ''0'' = Inr d \<and>
     domain_step ''0'' (\<lambda>d. Ret (Inr (d + 1))) RunnerCancelRun (demo_running\<lparr>dom_runner_drop := True\<rparr>)
       = Some s' \<and> dom_instance_alive s'"
proof -
  obtain d :: "(nat, nat, nat) domain" where d: "domain_build ''0'' = Inr d"
    by (simp add: domain_build_def add_async_destructor_def ds_new_def)
  obtain s' where s': "domain_step ''0'' (\<lambda>d. Ret (Inr (d + 1))) RunnerCancelRun
      (demo_running\<lparr>dom_runner_drop := True\<rparr>) = Some s'"
    by (simp add: demo_running_def)
  from domain_close_leaves_instance_running [OF d demo_domain_reach_drop s'] d s' show ?thesis by blast
qed

text \<open>The service configuration of a domain with one of the known chain ids takes its boot nodes
  from the domain's own settings, and from the consensus chain specification only when there are
  none; the genesis of the specification it is made from is the bootstrapped one.\<close>
theorem domain_boot_nodes_fallback:
  assumes "dcf_chain_id c \<in> {''dev'', ''gemini-3g'', ''devnet'', ''local'', []}"
    and "domain_configure env from_file dflt parse_node sub c i dir nodes raw = Ret (Inr cfg)"
  shows "nc_boot_nodes (cfg_network cfg) =
      map (into_peer sub) (let own = net_boot_nodes (base_network (dcf_base c))
                           in if own = [] then nodes else own) \<and>
    (\<exists>spec. create_domain_spec env from_file dflt (dcf_chain_id c) raw = Inr spec \<and>
       spec_genesis spec = raw)"
proof -
  obtain spec where spec: "create_domain_spec env from_file dflt (dcf_chain_id c) raw = Inr spec"
    "spec_genesis spec = raw" "spec_boot_nodes spec = []"
    using create_domain_spec_known [OF assms(1), where env = env and from_file = from_file
        and dflt = dflt and raw = raw] by blast
  have "domain_service_config sub (dcf_base c) i dir (spec_view parse_node spec) nodes = Ret cfg"
    using assms(2) by (simp add: domain_configure_def run_bind_eq_Ret spec(1))
  from domain_service_config_boot_nodes [OF this]
  have "nc_boot_nodes (cfg_network cfg) =
      map (into_peer sub) (let own = net_boot_nodes (base_network (dcf_base c))
                           in if own = [] then nodes else own)"
    by (simp add: spec_view_def Let_def spec(3))
  with spec(1,2) show ?thesis by blast
qed

definition demo_domain_env :: "(nat, nat, nat, nat, nat, unit) sub_env" where
  "demo_domain_env = \<lparr>gen_name = Some ''brave-otter-1234'', into_addr = id, into_peer = (\<lambda>x. x + 1),
     addr_to_string = (\<lambda>_. ''/memory''), config_dir = (\<lambda>p i. p @ [''chains'', i]),
     telemetry_to_value = (\<lambda>xs. JArray (map fst xs)), endpoints_to_value = (\<lambda>_. JArray []),
     endpoints_from_value = (\<lambda>_. Inr ()), endpoints_new = (\<lambda>_. Inr ())\<rparr>"

lemma demo_domain_base: "\<exists>c. base_configuration demo_domain_env
    (dcf_base ((domain_config_default demo_build_env)\<lparr>dcf_chain_id := ''dev''\<rparr>)) dir cs = Ret c"
proof -
  have "\<exists>e. telemetry_endpoints demo_domain_env cs [] = Ret e"
    by (simp add: telemetry_endpoints_def demo_domain_env_def split: option.split)
  moreover have "\<exists>n. network_configuration_of demo_domain_env cs d a b network_default = Ret n" for d a b
    by (simp add: network_configuration_of_def node_name_def NODE_NAME_MAX_LENGTH_def
        demo_domain_env_def network_default_def Let_def)
  ultimately show ?thesis
    by (simp add: base_configuration_def domain_config_default_def base_default_def Let_def run_bind_eq_Ret)
qed

theorem domain_boot_nodes_fallback_witness:
  "\<exists>cfg. domain_configure demo_cs_env (\<lambda>_. Inl ''no file'') [] length demo_domain_env
       ((domain_config_default demo_build_env)\<lparr>dcf_chain_id := ''dev''\<rparr>) ''0'' [''node''] [7] ''genesis''
       = Ret (Inr cfg) \<and> nc_boot_nodes (cfg_network cfg) = [8]"
proof -
  let ?c = "(domain_config_default demo_build_env)\<lparr>dcf_chain_id := ''dev''\<rparr> :: (nat, nat) domain_config"
  obtain spec where spec: "create_domain_spec demo_cs_env (\<lambda>_. Inl ''no file'') [] ''dev'' ''genesis'' = Inr spec"
    using create_domain_spec_known [where chain_id = "''dev''" and env = demo_cs_env and dflt = "[]"
        and from_file = "\<lambda>_. Inl ''no file''" and raw = "''genesis''"] by auto
  obtain c0 where c0: "base_configuration demo_domain_env (dcf_base ?c) (join [''node''] (''domain-'' @ ''0''))
      (spec_view length spec) = Ret c0"
    using demo_domain_base by blast
  obtain cfg where cfg: "domain_configure demo_cs_env (\<lambda>_. Inl ''no file'') [] length demo_domain_env
      ?c ''0'' [''node''] [7] ''genesis'' = Ret (Inr cfg)"
    using c0 by (simp add: domain_configure_def domain_service_config_def spec)
  have "dcf_chain_id ?c \<in> {''dev'', ''gemini-3g'', ''devnet'', ''local'', []}" by simp
  from domain_boot_nodes_fallback [OF this cfg] have "nc_boot_nodes (cfg_network cfg) = [8]"
    by (simp add: domain_config_default_def demo_domain_env_def base_default_def network_default_def)
  with cfg show ?thesis by blast
qed

end
