(* ===== verification/Rpc.thy ===== *)
theory Rpc
  imports Ss58 "HOL-Library.Sublist"
begin

text \<open>
  The RPC client of \<^verbatim>\<open>utils/src/lib.rs\<close>: \<open>Rpc\<close> wraps the node's in-process RPC module and
  is both the low-level client (\<open>ClientT\<close>, \<open>SubscriptionClientT\<close>) and the farmer's
  \<open>NodeClient\<close>. A subscription is a background task that forwards notifications through a
  bounded channel; it is a transition system over the events of the task and of the reader. Typed
  API calls are generated by another crate and are the record \<open>rpc_api\<close>; a stream is the list of
  what it yields. Also here: the conversions of network addresses between two versions of a
  library, all by way of their text.
\<close>

section \<open>The in-process module\<close>

record ('params, 'json, 'id, 'item) rpc_module =
  module_call :: "string \<Rightarrow> 'params \<Rightarrow> (string, 'json) result"
  module_subscribe :: "string \<Rightarrow> 'params \<Rightarrow>
    (string, 'id \<times> (string, 'item \<times> 'id) result list) result"

record ('params, 'json, 'id, 'item) rpc_client =
  rpc_inner :: "('params, 'json, 'id, 'item) rpc_module"

definition rpc_new ::
  "('handlers \<Rightarrow> ('params, 'json, 'id, 'item) rpc_module) \<Rightarrow> 'handlers \<Rightarrow>
   ('params, 'json, 'id, 'item) rpc_client" where
  "rpc_new handle handlers = \<lparr>rpc_inner = handle handlers\<rparr>"

definition rpc_notification ::
  "('params, unit, 'id, 'item) rpc_client \<Rightarrow> string \<Rightarrow> 'params \<Rightarrow> (string, unit) result" where
  "rpc_notification c method params = module_call (rpc_inner c) method params"

definition rpc_request ::
  "('params, 'json, 'id, 'item) rpc_client \<Rightarrow> string \<Rightarrow> 'params \<Rightarrow> (string, 'json) result" where
  "rpc_request c method params = module_call (rpc_inner c) method params"

definition rpc_batch_request :: "('params, 'json, 'id, 'item) rpc_client \<Rightarrow> 'batch \<Rightarrow> 'r run" where
  "rpc_batch_request c batch = Panic ''It isn't called at all''"

definition rpc_subscribe_to_method ::
  "('params, 'json, 'id, 'item) rpc_client \<Rightarrow> string \<Rightarrow> 'r run" where
  "rpc_subscribe_to_method c method = Panic ''It isn't called''"

section \<open>Subscriptions\<close>

text \<open>
  The forwarding task, its channel and the reader. \<open>fwd_source\<close> is what the module's
  subscription still yields. \<open>futures::channel::mpsc::channel(n)\<close> holds \<open>n\<close> items and one
  more for each sender.
\<close>

definition mpsc_capacity :: "nat \<Rightarrow> nat \<Rightarrow> nat" where
  "mpsc_capacity buffer senders = buffer + senders"

record ('item, 'id) forwarder =
  fwd_source :: "(string, 'item \<times> 'id) result list"
  fwd_channel :: "'item list"
  fwd_received :: "'item list"
  fwd_receiver :: bool
  fwd_running :: bool

record ('item, 'id) subscription =
  sub_kind :: 'id
  sub_forwarder :: "('item, 'id) forwarder"

definition forwarder_init :: "(string, 'item \<times> 'id) result list \<Rightarrow> ('item, 'id) forwarder" where
  "forwarder_init source = \<lparr>fwd_source = source, fwd_channel = [], fwd_received = [],
     fwd_receiver = True, fwd_running = True\<rparr>"

definition rpc_subscribe ::
  "('params, 'json, 'id, 'item) rpc_client \<Rightarrow> string \<Rightarrow> 'params \<Rightarrow> string \<Rightarrow>
   (string, ('item, 'id) subscription) result" where
  "rpc_subscribe c subscribe_method params unsubscribe_method =
     result_bind (module_subscribe (rpc_inner c) subscribe_method params) (\<lambda>(kind, source).
       Inr \<lparr>sub_kind = kind, sub_forwarder = forwarder_init source\<rparr>)"

datatype forward_event = Forward | Receive | DropReceiver

text \<open>
  One turn of the loop is \<open>Forward\<close>: it waits while the channel is full and read from; an error
  of the subscription or a gone reader ends the task.
\<close>

fun forward_step ::
  "nat \<Rightarrow> forward_event \<Rightarrow> ('item, 'id) forwarder \<Rightarrow> ('item, 'id) forwarder option" where
  "forward_step cap Forward s =
     (if \<not> fwd_running s \<or> fwd_receiver s \<and> cap \<le> length (fwd_channel s) then None
      else Some (case fwd_source s of
         [] \<Rightarrow> s\<lparr>fwd_running := False\<rparr>
       | Inl _ # rs \<Rightarrow> s\<lparr>fwd_source := rs, fwd_running := False\<rparr>
       | Inr (item, _) # rs \<Rightarrow>
           if fwd_receiver s then s\<lparr>fwd_source := rs, fwd_channel := fwd_channel s @ [item]\<rparr>
           else s\<lparr>fwd_source := rs, fwd_running := False\<rparr>))"
| "forward_step cap Receive s =
     (if \<not> fwd_receiver s then None
      else (case fwd_channel s of
         [] \<Rightarrow> None
       | item # items \<Rightarrow>
           Some (s\<lparr>fwd_channel := items, fwd_received := fwd_received s @ [item]\<rparr>)))"
| "forward_step cap DropReceiver s =
     (if fwd_receiver s then Some (s\<lparr>fwd_receiver := False, fwd_channel := []\<rparr>) else None)"

fun forward_run ::
  "nat \<Rightarrow> forward_event list \<Rightarrow> ('item, 'id) forwarder \<Rightarrow> ('item, 'id) forwarder option" where
  "forward_run cap [] s = Some s"
| "forward_run cap (e # es) s =
     (case forward_step cap e s of None \<Rightarrow> None | Some t \<Rightarrow> forward_run cap es t)"

section \<open>The node client\<close>

record ('info, 'slot, 'sol, 'rsi, 'rsig, 'seg, 'sync, 'hdr, 'hash) rpc_api =
  api_subscribe_new_heads :: "(string, (string, 'hdr) result list) result"
  api_subscribe_finalized_heads :: "(string, (string, 'hdr) result list) result"
  api_storage :: "bytes \<Rightarrow> 'hash option \<Rightarrow> (string, bytes option) result"
  api_get_farmer_app_info :: "(string, 'info) result"
  api_subscribe_slot_info :: "(string, (string, 'slot) result list) result"
  api_submit_solution_response :: "'sol \<Rightarrow> (string, unit) result"
  api_subscribe_reward_signing :: "(string, (string, 'rsi) result list) result"
  api_submit_reward_signature :: "'rsig \<Rightarrow> (string, unit) result"
  api_subscribe_archived_segment_header :: "(string, (string, 'seg) result list) result"
  api_subscribe_node_sync_status_change :: "(string, (string, 'sync) result list) result"
  api_segment_headers :: "u64 list \<Rightarrow> (string, 'seg option list) result"
  api_piece :: "u64 \<Rightarrow> (string, bytes option) result"
  api_acknowledge_archived_segment_header :: "u64 \<Rightarrow> (string, unit) result"

type_synonym ('info, 'slot, 'sol, 'rsi, 'rsig, 'seg, 'sync, 'hdr, 'hash) api =
  "('info, 'slot, 'sol, 'rsi, 'rsig, 'seg, 'sync, 'hdr, 'hash) rpc_api"

text \<open>\<open>.filter_map(|result| ready(result.ok()))\<close> over the stream of a subscription.\<close>

definition ok_stream :: "(string, (string, 'a) result list) result \<Rightarrow> (string, 'a list) result" where
  "ok_stream r = result_bind r (\<lambda>stream. Inr (filter_ok stream))"

definition rpc_subscribe_new_heads ::
  "('info, 'slot, 'sol, 'rsi, 'rsig, 'seg, 'sync, 'hdr, 'hash) api \<Rightarrow> (string, 'hdr list) result" where
  "rpc_subscribe_new_heads a = ok_stream (api_subscribe_new_heads a)"

definition rpc_subscribe_finalized_heads ::
  "('info, 'slot, 'sol, 'rsi, 'rsig, 'seg, 'sync, 'hdr, 'hash) api \<Rightarrow> (string, 'hdr list) result" where
  "rpc_subscribe_finalized_heads a = ok_stream (api_subscribe_finalized_heads a)"

definition rpc_farmer_app_info ::
  "('info, 'slot, 'sol, 'rsi, 'rsig, 'seg, 'sync, 'hdr, 'hash) api \<Rightarrow> (string, 'info) result" where
  "rpc_farmer_app_info a = result_bind (api_get_farmer_app_info a) Inr"

definition rpc_subscribe_slot_info ::
  "('info, 'slot, 'sol, 'rsi, 'rsig, 'seg, 'sync, 'hdr, 'hash) api \<Rightarrow> (string, 'slot list) result" where
  "rpc_subscribe_slot_info a = ok_stream (api_subscribe_slot_info a)"

definition rpc_submit_solution_response ::
  "('info, 'slot, 'sol, 'rsi, 'rsig, 'seg, 'sync, 'hdr, 'hash) api \<Rightarrow> 'sol \<Rightarrow> (string, unit) result" where
  "rpc_submit_solution_response a s = result_bind (api_submit_solution_response a s) Inr"

definition rpc_subscribe_reward_signing ::
  "('info, 'slot, 'sol, 'rsi, 'rsig, 'seg, 'sync, 'hdr, 'hash) api \<Rightarrow> (string, 'rsi list) result" where
  "rpc_subscribe_reward_signing a = ok_stream (api_subscribe_reward_signing a)"

definition rpc_submit_reward_signature ::
  "('info, 'slot, 'sol, 'rsi, 'rsig, 'seg, 'sync, 'hdr, 'hash) api \<Rightarrow> 'rsig \<Rightarrow> (string, unit) result" where
  "rpc_submit_reward_signature a s = result_bind (api_submit_reward_signature a s) Inr"

definition rpc_subscribe_archived_segment_headers ::
  "('info, 'slot, 'sol, 'rsi, 'rsig, 'seg, 'sync, 'hdr, 'hash) api \<Rightarrow> (string, 'seg list) result" where
  "rpc_subscribe_archived_segment_headers a = ok_stream (api_subscribe_archived_segment_header a)"

definition rpc_subscribe_node_sync_status_change ::
  "('info, 'slot, 'sol, 'rsi, 'rsig, 'seg, 'sync, 'hdr, 'hash) api \<Rightarrow> (string, 'sync list) result" where
  "rpc_subscribe_node_sync_status_change a = ok_stream (api_subscribe_node_sync_status_change a)"

definition rpc_segment_headers ::
  "('info, 'slot, 'sol, 'rsi, 'rsig, 'seg, 'sync, 'hdr, 'hash) api \<Rightarrow> u64 list \<Rightarrow>
   (string, 'seg option list) result" where
  "rpc_segment_headers a is = result_bind (api_segment_headers a is) Inr"

definition rpc_piece ::
  "('info, 'slot, 'sol, 'rsi, 'rsig, 'seg, 'sync, 'hdr, 'hash) api \<Rightarrow> (bytes \<Rightarrow> 'piece option) \<Rightarrow>
   (u64 \<Rightarrow> string) \<Rightarrow> u64 \<Rightarrow> (string, 'piece option) result" where
  "rpc_piece a try_from show_index i =
     result_bind (api_piece a i) (\<lambda>r.
       (case r of
          Some bs \<Rightarrow>
            (case try_from bs of
               Some piece \<Rightarrow> Inr (Some piece)
             | None \<Rightarrow> Inl (''Cannot convert piece. PieceIndex='' @ show_index i))
        | None \<Rightarrow> Inr None))"

definition rpc_acknowledge_archived_segment_header ::
  "('info, 'slot, 'sol, 'rsi, 'rsig, 'seg, 'sync, 'hdr, 'hash) api \<Rightarrow> u64 \<Rightarrow> (string, unit) result" where
  "rpc_acknowledge_archived_segment_header a i =
     result_bind (api_acknowledge_archived_segment_header a i) Inr"

section \<open>Storage and events\<close>

text \<open>\<open>.context(m)\<close> replaces the message that is shown.\<close>

definition with_context :: "string \<Rightarrow> ('e, 'a) result \<Rightarrow> (string, 'a) result" where
  "with_context m r = map_err (\<lambda>_. m) r"

definition get_storage ::
  "('info, 'slot, 'sol, 'rsi, 'rsig, 'seg, 'sync, 'hdr, 'hash) api \<Rightarrow> bytes \<Rightarrow> 'hash option \<Rightarrow>
   (string, bytes option) result" where
  "get_storage a key block = with_context ''Failed to fetch storage entry'' (api_storage a key block)"

definition rpc_get_events ::
  "('info, 'slot, 'sol, 'rsi, 'rsig, 'seg, 'sync, 'hdr, 'hash) api \<Rightarrow> (bytes \<Rightarrow> bytes) \<Rightarrow>
   (bytes \<Rightarrow> (string, 'ev list) result) \<Rightarrow> 'hash option \<Rightarrow> (string, 'ev list) result" where
  "rpc_get_events a twox_128 decode_all block =
     result_bind (with_context ''Failed to get events from storage''
         (get_storage a (storage_key_events twox_128) block)) (\<lambda>r.
       (case r of
          Some events \<Rightarrow> with_context ''Failed to decode events'' (decode_all events)
        | None \<Rightarrow> Inr []))"

section \<open>Network addresses\<close>

text \<open>\<open>.to_string().parse().expect(..)\<close> between the types of two versions of one library.\<close>

definition convert_by_text :: "('a \<Rightarrow> string) \<Rightarrow> (string \<Rightarrow> 'b option) \<Rightarrow> 'a \<Rightarrow> 'b run" where
  "convert_by_text show parse a =
     expect ''Conversion between 2 libp2p versions is always right'' (parse (show a))"

definition multiaddr_into_sc :: "('ma \<Rightarrow> string) \<Rightarrow> (string \<Rightarrow> 'sa option) \<Rightarrow> 'ma \<Rightarrow> 'sa run" where
  "multiaddr_into_sc show parse value = convert_by_text show parse value"

definition multiaddr_from_sc :: "('sa \<Rightarrow> string) \<Rightarrow> (string \<Rightarrow> 'ma option) \<Rightarrow> 'sa \<Rightarrow> 'ma run" where
  "multiaddr_from_sc show parse value = convert_by_text show parse value"

record ('sa, 'peer) multiaddr_with_peer_id =
  mp_multiaddr :: 'sa
  mp_peer_id :: 'peer

text \<open>\<open>to_multiaddr\<close> is the conversion of the argument type into \<open>Multiaddr\<close>.\<close>

definition multiaddr_with_peer_id_new ::
  "('x \<Rightarrow> 'ma run) \<Rightarrow> ('ma \<Rightarrow> 'sa run) \<Rightarrow> 'x \<Rightarrow> 'peer \<Rightarrow> ('sa, 'peer) multiaddr_with_peer_id run" where
  "multiaddr_with_peer_id_new to_multiaddr to_sc multiaddr peer_id =
     run_bind (to_multiaddr multiaddr) (\<lambda>m. run_bind (to_sc m) (\<lambda>a.
       Ret \<lparr>mp_multiaddr = a, mp_peer_id = peer_id\<rparr>))"

definition multiaddr_with_peer_id_into ::
  "(('sa, 'peer) multiaddr_with_peer_id \<Rightarrow> string) \<Rightarrow> (string \<Rightarrow> 'b option) \<Rightarrow>
   ('sa, 'peer) multiaddr_with_peer_id \<Rightarrow> 'b run" where
  "multiaddr_with_peer_id_into show parse value = convert_by_text show parse value"

text \<open>What the two versions of the library have to agree on: they read each other's text.\<close>

definition same_text ::
  "('a \<Rightarrow> string) \<Rightarrow> (string \<Rightarrow> 'a option) \<Rightarrow> ('b \<Rightarrow> string) \<Rightarrow> (string \<Rightarrow> 'b option) \<Rightarrow> bool" where
  "same_text show_a parse_a show_b parse_b \<longleftrightarrow>
     (\<forall>a. parse_a (show_a a) = Some a) \<and> (\<forall>b. parse_b (show_b b) = Some b) \<and>
     (\<forall>a. \<exists>b. parse_b (show_a a) = Some b \<and> show_b b = show_a a) \<and>
     (\<forall>b. \<exists>a. parse_a (show_b b) = Some a \<and> show_a a = show_b b)"

lemma multiaddr_there_and_back:
  assumes "same_text show_a parse_a show_b parse_b"
  shows "run_bind (multiaddr_from_sc show_b parse_a b) (multiaddr_into_sc show_a parse_b) = Ret b"
proof -
  obtain a where "parse_a (show_b b) = Some a" "show_a a = show_b b"
    using assms unfolding same_text_def by blast
  moreover have "parse_b (show_b b) = Some b" using assms unfolding same_text_def by blast
  ultimately show ?thesis by (simp add: multiaddr_from_sc_def multiaddr_into_sc_def convert_by_text_def)
qed

section \<open>Lemmas on subscriptions\<close>

text \<open>What a subscription can deliver at all: its items up to the first error.\<close>

fun deliverable :: "('e, 'item \<times> 'id) result list \<Rightarrow> 'item list" where
  "deliverable [] = []"
| "deliverable (Inl _ # rs) = []"
| "deliverable (Inr (item, _) # rs) = item # deliverable rs"

definition forward_inv ::
  "nat \<Rightarrow> (string, 'item \<times> 'id) result list \<Rightarrow> ('item, 'id) forwarder \<Rightarrow> bool" where
  "forward_inv cap rs s \<longleftrightarrow>
     length (fwd_channel s) \<le> cap \<and>
     (if fwd_receiver s
      then fwd_received s @ fwd_channel s @ (if fwd_running s then deliverable (fwd_source s) else [])
        = deliverable rs
      else fwd_channel s = [] \<and> prefix (fwd_received s) (deliverable rs))"

lemma forward_inv_init: "forward_inv cap rs (forwarder_init rs)"
  by (simp add: forward_inv_def forwarder_init_def)

lemma forward_inv_prefix: "forward_inv cap rs s \<Longrightarrow> prefix (fwd_received s) (deliverable rs)"
  by (metis forward_inv_def prefixI)

lemma forward_inv_forward:
  assumes "forward_inv cap rs s" and "forward_step cap Forward s = Some t"
  shows "forward_inv cap rs t"
proof (cases "fwd_source s")
  case Nil
  then show ?thesis using assms by (auto simp: forward_inv_def split: if_splits)
next
  case (Cons r rs')
  show ?thesis
  proof (cases r)
    case (Inl e)
    then show ?thesis using assms Cons by (auto simp: forward_inv_def split: if_splits)
  next
    case (Inr p)
    then show ?thesis
      using assms Cons by (cases p) (auto simp: forward_inv_def split: if_splits)
  qed
qed

lemma forward_inv_step:
  assumes "forward_inv cap rs s" and "forward_step cap e s = Some t"
  shows "forward_inv cap rs t"
proof (cases e)
  case Forward
  with assms show ?thesis by (blast intro: forward_inv_forward)
next
  case Receive
  then show ?thesis
    using assms by (cases "fwd_channel s") (auto simp: forward_inv_def split: if_splits)
next
  case DropReceiver
  then show ?thesis
    using assms forward_inv_prefix [OF assms(1)] by (auto simp: forward_inv_def split: if_splits)
qed

definition forward_measure :: "('item, 'id) forwarder \<Rightarrow> nat" where
  "forward_measure s = 2 * length (fwd_source s) + length (fwd_channel s) +
     (if fwd_running s then 1 else 0) + (if fwd_receiver s then 1 else 0)"

lemma forward_step_measure:
  assumes "forward_step cap e s = Some t"
  shows "forward_measure t < forward_measure s"
proof (cases e)
  case Forward
  then show ?thesis
    using assms
    by (cases "fwd_source s" rule: deliverable.cases) (auto simp: forward_measure_def split: if_splits)
next
  case Receive
  then show ?thesis
    using assms by (cases "fwd_channel s") (auto simp: forward_measure_def split: if_splits)
next
  case DropReceiver
  then show ?thesis using assms by (auto simp: forward_measure_def split: if_splits)
qed

lemma forward_run_inv:
  "forward_inv cap rs s \<Longrightarrow> forward_run cap es s = Some t \<Longrightarrow>
   forward_inv cap rs t \<and> length es + forward_measure t \<le> forward_measure s"
proof (induction es arbitrary: s)
  case (Cons e es)
  then obtain u where u: "forward_step cap e s = Some u" "forward_run cap es u = Some t"
    by (auto split: option.splits)
  from Cons.IH [OF forward_inv_step [OF Cons.prems(1) u(1)] u(2)] forward_step_measure [OF u(1)]
  show ?case by simp
qed simp

lemma forward_stuck:
  assumes "0 < cap" and "fwd_receiver s"
    and "forward_step cap Forward s = None" and "forward_step cap Receive s = None"
  shows "\<not> fwd_running s \<and> fwd_channel s = []"
  using assms by (cases "fwd_channel s") (auto split: if_splits)

section \<open>Properties\<close>

text \<open>C10: A subscription delivers in order, without gaps and within its bound, and it gets done. In
  every run of the forwarding task and the reader at most eleven notifications are waiting and
  what the reader has got is a prefix of the notifications before the subscription's first error;
  no run is longer than twice the number of notifications and two; and when a run with a reader
  that is still there cannot go on, the reader has got all of that prefix.\<close>
theorem subscription_delivers:
  assumes "rpc_subscribe c m ps u = Inr sub"
    and "module_subscribe (rpc_inner c) m ps = Inr (kind, source)"
    and "forward_run (mpsc_capacity 10 1) es (sub_forwarder sub) = Some s"
  shows "length (fwd_channel s) \<le> 11 \<and> prefix (fwd_received s) (deliverable source) \<and>
    length es \<le> 2 * length source + 2 \<and>
    (fwd_receiver s \<and> forward_step (mpsc_capacity 10 1) Forward s = None \<and>
       forward_step (mpsc_capacity 10 1) Receive s = None \<longrightarrow>
     \<not> fwd_running s \<and> fwd_received s = deliverable source)"
proof -
  have cap: "mpsc_capacity 10 1 = 11" by (simp add: mpsc_capacity_def)
  have init: "sub_forwarder sub = forwarder_init source"
    using assms(1,2) by (auto simp: rpc_subscribe_def)
  have "forward_measure (forwarder_init source) = 2 * length source + 2"
    by (simp add: forward_measure_def forwarder_init_def)
  moreover have inv: "forward_inv 11 source s"
    and "length es + forward_measure s \<le> forward_measure (forwarder_init source)"
    using forward_run_inv [OF forward_inv_init, of 11 es source s] assms(3) unfolding cap init by blast+
  moreover have "\<not> fwd_running s \<and> fwd_received s = deliverable source"
    if "fwd_receiver s" "forward_step 11 Forward s = None" "forward_step 11 Receive s = None"
    using forward_stuck [of 11 s] that inv by (simp add: forward_inv_def)
  moreover have "length (fwd_channel s) \<le> 11" using inv by (simp add: forward_inv_def)
  ultimately show ?thesis unfolding cap using forward_inv_prefix [OF inv] by linarith
qed

definition demo_rpc :: "(unit, unit, nat, nat) rpc_client" where
  "demo_rpc = \<lparr>rpc_inner = \<lparr>module_call = (\<lambda>_ _. Inr ()),
     module_subscribe = (\<lambda>_ _. Inr (7, [Inr (1, 7), Inr (2, 7), Inl ''lagged'', Inr (3, 7)]))\<rparr>\<rparr>"

theorem subscription_delivers_witness:
  "\<exists>s. forward_run (mpsc_capacity 10 1) [Forward, Receive, Forward, Receive, Forward]
     (forwarder_init [Inr (1 :: nat, 7 :: nat), Inr (2, 7), Inl ''lagged'', Inr (3, 7)]) = Some s \<and>
     fwd_received s = [1, 2]"
proof -
  let ?src = "[Inr (1, 7), Inr (2, 7), Inl ''lagged'', Inr (3, 7)] :: (string, nat \<times> nat) result list"
  let ?es = "[Forward, Receive, Forward, Receive, Forward]"
  obtain s where s: "forward_run (mpsc_capacity 10 1) ?es (forwarder_init ?src) = Some s"
    "forward_step (mpsc_capacity 10 1) Forward s = None" "forward_step (mpsc_capacity 10 1) Receive s = None"
    "fwd_receiver s"
    by (simp add: forwarder_init_def mpsc_capacity_def)
  from subscription_delivers [of demo_rpc "''sub''" "()" "''unsub''"
      "\<lparr>sub_kind = 7, sub_forwarder = forwarder_init ?src\<rparr>" 7 ?src ?es s] s
  show ?thesis by (simp add: rpc_subscribe_def demo_rpc_def)
qed

end
