(* ===== verification/Node.thy ===== *)
theory Node
  imports Domains Rpc
begin

text \<open>
  The node itself (\<^verbatim>\<open>node/src/lib.rs\<close>): the external entropy, \<open>Config::build\<close> with every
  step that can fail, the task that runs the task manager, \<open>Node::close\<close>, and the queries of a
  running node. The service crates (partial components, the full service, decoding of chain
  specification properties) are the record \<open>node_env\<close> of arguments; the DSN and the domain are
  built by the definitions of their own theories.
\<close>

section \<open>External entropy\<close>

definition pot_external_entropy ::
  "(prop_value \<Rightarrow> (string, bytes option) result) \<Rightarrow> properties \<Rightarrow> bytes option \<Rightarrow>
   (string, bytes) result" where
  "pot_external_entropy from_value props config_pot_external_entropy =
     result_bind
       (map_err (\<lambda>e. ''Failed to decode PoT initial key: '' @ e)
         (transpose_opt (map_option from_value (props ''potExternalEntropy''))))
       (\<lambda>spec. Inr (unwrap_or (option_or (flatten_opt spec) config_pot_external_entropy) []))"

section \<open>The task manager task\<close>

datatype node_label = AwaitTaskManager

text \<open>The three branches of \<open>select!\<close>: the drop signal, the end of the task manager, and the end
  of the networking thread.\<close>

datatype task_manager_event =
  DropSignal
| ManagerFinished "(string, unit) result"
| RunnerExited

definition task_manager_result ::
  "task_manager_event \<Rightarrow> (string, (unit, string) task_output) result" where
  "task_manager_result e =
     (case e of
        DropSignal \<Rightarrow> Inr (TaskCancelled ''received drop signal for task manager'')
      | ManagerFinished r \<Rightarrow> map_ok TaskValue r
      | RunnerExited \<Rightarrow> Inr (TaskValue ()))"

section \<open>Building a node\<close>

record ('partial, 'client, 'store) partial_ops =
  po_client :: "'partial \<Rightarrow> 'client"
  po_segment_headers_store :: "'partial \<Rightarrow> 'store"
  po_genesis_hash :: "'client \<Rightarrow> string"

record ('client, 'rpch, 'sync, 'net) new_full =
  nf_client :: 'client
  nf_rpc_handlers :: 'rpch
  nf_sync_service :: 'sync
  nf_network_service :: 'net

record ('sa, 'sp, 'ep, 'dnode, 'na) subspace_configuration =
  sc_base :: "('sa, 'sp, 'ep) configuration"
  sc_force_new_slot_notifications :: bool
  sc_networking_node :: 'dnode
  sc_networking_bootstrap_nodes :: "'na list"
  sc_networking_metrics_registry :: bool
  sc_sync_from_dsn :: bool
  sc_enable_subspace_block_relay :: bool
  sc_is_timekeeper :: bool
  sc_timekeeper_cpu_cores :: "usize set"

text \<open>
  \<open>ne_keypair\<close> reads the network key and encodes it; the networking crate decodes it again.
  The \<open>ne_.._from_value\<close> functions decode JSON values of the chain specification.
\<close>

record ('mp, 'sa, 'sp, 'ep, 'na, 'partial, 'dnode, 'runner, 'nf, 'bs) node_env =
  ne_entropy_from_value :: "prop_value \<Rightarrow> (string, bytes option) result"
  ne_nodes_from_value :: "prop_value \<Rightarrow> (string, 'mp list) result"
  ne_map_from_value :: "prop_value \<Rightarrow> (string, string \<rightharpoonup> prop_value) result"
  ne_new_partial :: "('sa, 'sp, 'ep) configuration \<Rightarrow> bytes \<Rightarrow> (string, 'partial) result"
  ne_keypair :: "path \<Rightarrow> (string, bytes) result"
  ne_decode_keypair :: "bytes \<Rightarrow> (string, bytes) result"
  ne_run_in_thread :: "'runner \<Rightarrow> string \<Rightarrow> (string, unit) result"
  ne_new_full :: "('sa, 'sp, 'ep, 'dnode, 'na) subspace_configuration \<Rightarrow> 'partial \<Rightarrow> (string, 'nf) result"
  ne_storage_monitor :: "sc_storage_monitor_params \<Rightarrow> path \<Rightarrow> (string, unit) result"

text \<open>The DSN boot nodes of the chain specification.\<close>

definition spec_dsn_boot_nodes ::
  "(prop_value \<Rightarrow> (string, 'mp list) result) \<Rightarrow> properties \<Rightarrow> (string, 'mp list) result" where
  "spec_dsn_boot_nodes nodes_from_value props =
     map_ok (\<lambda>nodes. unwrap_or nodes [])
       (with_context ''Failed to decode DSN bootsrap nodes''
         (transpose_opt (map_option nodes_from_value (props ''dsnBootstrapNodes''))))"

text \<open>
  The DSN: its boot nodes are those of the settings, then those of the chain specification. The
  result has the shared state, the bootstrap addresses, the runner and the metrics registry.
\<close>

definition node_dsn ::
  "overflow_checks \<Rightarrow>
   ('mp, 'sa, 'sp, 'ep, 'na, 'partial, 'dnode, 'runner, 'nf, 'bs) node_env \<Rightarrow>
   ('partial, 'client, 'h segment_headers_store) partial_ops \<Rightarrow>
   ('ma, 'mp, 'na, 'peer, 'kp,
     ('na, 'peer, 'kp, 'rp, 'pc, 'pi, 'piece piece_by_index_response, segment_header_request,
      'h segment_header_response) networking_config, 'dnode, 'runner) dsn_env \<Rightarrow>
   ('pi \<Rightarrow> 'pc \<Rightarrow> 'rp option option \<Rightarrow> 'piece option) \<Rightarrow> u64 \<Rightarrow>
   ('sa, 'sp, 'ep) configuration \<Rightarrow> ('ma, 'mp) dsn \<Rightarrow> 'partial \<Rightarrow> path \<Rightarrow> properties \<Rightarrow>
   (string, ('dnode, 'rp, 'pc) dsn_shared \<times> 'na list \<times> 'runner \<times> bool) result run" where
  "node_dsn mode env po denv fetch limit base d partial directory props =
     try_bind (Ret (with_context ''Failed to convert network keypair''
         (ne_keypair env (nc_node_key_file (cfg_network base))))) (\<lambda>encoded.
     run_bind (expect_ok ''Address is correct'' (ne_decode_keypair env encoded)) (\<lambda>keypair.
     try_bind (Ret (spec_dsn_boot_nodes (ne_nodes_from_value env) props)) (\<lambda>spec_nodes.
       let d' = d\<lparr>dsn_boot_nodes := dsn_boot_nodes d @ spec_nodes\<rparr>
       in try_bind (build_dsn mode denv d'
            \<lparr>opt_genesis_hash = po_genesis_hash po (po_client po partial),
             opt_base_path = directory, opt_keypair = keypair,
             opt_get_piece_by_index = get_piece_by_index fetch,
             opt_get_segment_header_by_segment_indexes = get_segment_header_by_segment_indexes limit,
             opt_segment_header_store = po_segment_headers_store po partial,
             opt_is_metrics_enabled = cfg_prometheus_enabled base\<rparr>) (\<lambda>(shared, runner, metrics).
              Ret (Inr (shared, map (de_into_boot denv) (dsn_boot_nodes d'), runner, metrics))))))"

text \<open>The domains' bootstrap nodes of the chain specification, and those of one domain.\<close>

definition spec_domains ::
  "(prop_value \<Rightarrow> (string, string \<rightharpoonup> prop_value) result) \<Rightarrow> properties \<Rightarrow>
   (string, string \<rightharpoonup> prop_value) result" where
  "spec_domains map_from_value props =
     map_ok (\<lambda>m. unwrap_or m Map.empty)
       (map_err (\<lambda>e. ''Failed to decode Domains bootstrap nodes: '' @ e)
         (transpose_opt (map_option map_from_value (props ''domainsBootstrapNodes''))))"

definition domain_bootstrap_nodes ::
  "(prop_value \<Rightarrow> (string, 'mp list) result) \<Rightarrow> (string \<rightharpoonup> prop_value) \<Rightarrow> u32 \<Rightarrow>
   (string, 'mp list) result" where
  "domain_bootstrap_nodes nodes_from_value domains domain_id =
     map_ok (\<lambda>nodes. unwrap_or nodes [])
       (map_err (\<lambda>e. ''Failed to decode Domain: '' @ show_nat (unat domain_id) @
            '' bootstrap nodes: '' @ e)
         (transpose_opt (map_option nodes_from_value (domains (show_nat (unat domain_id))))))"

text \<open>A configured domain, with the bootstrap nodes it is given, and the essential tasks that are
  spawned for it.\<close>

definition node_domain ::
  "(prop_value \<Rightarrow> (string, 'mp list) result) \<Rightarrow> (string \<rightharpoonup> prop_value) \<Rightarrow>
   ('ma, 'mp) domain_config option \<Rightarrow>
   (string, (('data, 'cfg, 'drpc) domain \<times> 'mp list) option \<times> string list) result" where
  "node_domain nodes_from_value domains c =
     (case c of
        None \<Rightarrow> Inr (None, [])
      | Some dc \<Rightarrow>
          result_bind (domain_bootstrap_nodes nodes_from_value domains (dcf_domain_id dc)) (\<lambda>nodes.
          result_bind (domain_build (show_nat (unat (dcf_domain_id dc)))) (\<lambda>dom.
            Inr (Some (dom, nodes),
              [''consensus-chain-relayer'', ''consensus-message-listener'',
               ''cross-domain-gossip-message-worker'']))))"

record ('client, 'net, 'sync, 'rpc, 'dnode, 'rp, 'pc, 'mp, 'data, 'cfg, 'drpc) node =
  nd_client :: 'client
  nd_network_service :: 'net
  nd_sync_service :: 'sync
  nd_name :: string
  nd_rpc_handle :: 'rpc
  nd_dsn :: "('dnode, 'rp, 'pc) dsn_shared"
  nd_destructors :: "node_label destructor_set"
  nd_maybe_domain :: "(('data, 'cfg, 'drpc) domain \<times> 'mp list) option"

text \<open>
  The result has the node, the names of the tasks that were spawned, in order, and the networking
  configuration's bootstrap addresses. \<open>rpc_of\<close> is \<open>Rpc::new\<close>.
\<close>

definition node_build ::
  "overflow_checks \<Rightarrow>
   ('mp, 'sa, 'sp, 'ep, 'na, 'partial, 'dnode, 'runner, ('client, 'rpch, 'sync, 'net) new_full, 'bs) node_env \<Rightarrow>
   ('partial, 'client, 'h segment_headers_store) partial_ops \<Rightarrow>
   ('ma, 'mp, 'sa, 'sp, 'j, 'ep) sub_env \<Rightarrow>
   ('ma, 'mp, 'na, 'peer, 'kp,
     ('na, 'peer, 'kp, 'rp, 'pc, 'pi, 'piece piece_by_index_response, segment_header_request,
      'h segment_header_response) networking_config, 'dnode, 'runner) dsn_env \<Rightarrow>
   'bs bytesize_crate \<Rightarrow> ('rpch \<Rightarrow> 'rpc) \<Rightarrow>
   ('pi \<Rightarrow> 'pc \<Rightarrow> 'rp option option \<Rightarrow> 'piece option) \<Rightarrow> u64 \<Rightarrow> (string \<Rightarrow> 'sp) \<Rightarrow>
   ('ma, 'mp, 'bs, ('ma, 'mp) domain_config) node_config \<Rightarrow> path \<Rightarrow> ('g, 'ep) chain_spec \<Rightarrow>
   (string, ('client, 'net, 'sync, 'rpc, 'dnode, 'rp, 'pc, 'mp, 'data, 'cfg, 'drpc) node \<times>
     string list) result run" where
  "node_build mode env po sub denv crate rpc_of fetch limit parse_node c directory spec =
     (let props = unwrap_or (spec_properties spec) Map.empty in
      run_bind (base_configuration sub (ncf_base c) directory (spec_view parse_node spec)) (\<lambda>base.
      try_bind (Ret (with_context ''Failed to get proof of time external entropy''
          (pot_external_entropy (ne_entropy_from_value env) props (ncf_pot_external_entropy c)))) (\<lambda>entropy.
      try_bind (Ret (with_context ''Failed to build a partial subspace node''
          (ne_new_partial env base entropy))) (\<lambda>partial.
      try_bind (node_dsn mode env po denv fetch limit base (ncf_dsn c) partial directory props)
        (\<lambda>(shared, bootstrap, runner, metrics).
      try_bind (Ret (spec_domains (ne_map_from_value env) props)) (\<lambda>domains.
      try_bind (Ret (with_context ''Failed to run node runner future''
          (ne_run_in_thread env runner
            (''subspace-sdk-networking-'' @ nc_node_name (cfg_network base))))) (\<lambda>_.
      try_bind (Ret (with_context ''Failed to build a full subspace node'' (ne_new_full env
          \<lparr>sc_base = base, sc_force_new_slot_notifications = False,
           sc_networking_node = shared_node shared, sc_networking_bootstrap_nodes = bootstrap,
           sc_networking_metrics_registry = metrics, sc_sync_from_dsn = ncf_sync_from_dsn c,
           sc_enable_subspace_block_relay = ncf_enable_subspace_block_relay c,
           sc_is_timekeeper = ncf_is_timekeeper c,
           sc_timekeeper_cpu_cores = ncf_timekeeper_cpu_cores c\<rparr> partial))) (\<lambda>full.
      try_bind (case ncf_storage_monitor c of None \<Rightarrow> Ret (Inr ())
        | Some monitor \<Rightarrow> run_bind (storage_monitor_into_sc crate monitor) (\<lambda>params.
            Ret (with_context ''Failed to start storage monitor''
              (ne_storage_monitor env params (cfg_database_path base))))) (\<lambda>_.
      try_bind (Ret (node_domain (ne_nodes_from_value env) domains (ncf_domain c)))
        (\<lambda>(maybe_domain, essential_tasks).
      try_bind (Ret (add_async_destructor AwaitTaskManager (ds_new ''node-destructors'')))
        (\<lambda>destructors.
      Ret (Inr
        (\<lparr>nd_client = nf_client full, nd_network_service = nf_network_service full,
          nd_sync_service = nf_sync_service full, nd_name = nc_node_name (cfg_network base),
          nd_rpc_handle = rpc_of (nf_rpc_handlers full), nd_dsn = shared,
          nd_destructors = destructors, nd_maybe_domain = maybe_domain\<rparr>,
         essential_tasks @
           [''subspace-sdk-node-'' @ nc_node_name (cfg_network base) @ ''-task-manager''])))))))))))))"

text \<open>\<open>Builder::build\<close>, with \<open>build\<close> for \<open>Config::build\<close>.\<close>

definition node_builder_build ::
  "build_env \<Rightarrow> (string \<Rightarrow> 'ma option) \<Rightarrow>
   (('ma, 'mp, 'bs, 'dom) node_config \<Rightarrow> path \<Rightarrow> 'spec \<Rightarrow> (string, 'node) result run) \<Rightarrow>
   ('ma, 'mp, 'bs, 'dom) node_builder \<Rightarrow> path \<Rightarrow> 'spec \<Rightarrow> (string, 'node) result run" where
  "node_builder_build e parse build b directory spec =
     run_bind (node_configuration e parse b) (\<lambda>c. build c directory spec)"

section \<open>Closing a node\<close>

datatype node_effect = DomainEffect "domain_label effect" | NodeEffect "node_label effect"

text \<open>
  \<open>domain_received\<close> and \<open>received\<close> are what the result channels of the domain's runner and of
  the task manager deliver. When the domain fails to close the function returns, and the node's
  own destructor set is dropped. This is the close of a node none of whose tasks panicked.
\<close>

definition node_close ::
  "domain_label destructor_set option \<Rightarrow> (string, (unit, string) task_output) result option \<Rightarrow>
   node_label destructor_set \<Rightarrow> (string, (unit, string) task_output) result option \<Rightarrow>
   (node_effect list \<times> (string, unit) result) run" where
  "node_close maybe_domain domain_received destructors received =
     run_bind (case maybe_domain of None \<Rightarrow> Ret ([], Inr ())
       | Some d \<Rightarrow> domain_close d domain_received) (\<lambda>(des, dr).
       (case dr of
          Inl e \<Rightarrow> run_bind (ds_drop destructors) (\<lambda>es.
            Ret (map DomainEffect des @ map NodeEffect es, Inl e))
        | Inr _ \<Rightarrow> run_bind (async_drop destructors) (\<lambda>(es, r).
            Ret (map DomainEffect des @ map NodeEffect es,
              result_bind r (\<lambda>_.
                (case received of
                   None \<Rightarrow> Inl ''channel closed''
                 | Some m \<Rightarrow> result_bind m (\<lambda>out.
                     case out of TaskValue _ \<Rightarrow> Inr () | TaskCancelled _ \<Rightarrow> Inr ())))))))"

text \<open>
  The same when tasks may have panicked. A panic of the domain's close unwinds through this function,
  which drops the node's own destructor set.
\<close>

definition node_close_joins ::
  "(domain_label \<Rightarrow> bool) \<Rightarrow> bool \<Rightarrow>
   domain_label destructor_set option \<Rightarrow> (string, (unit, string) task_output) result option \<Rightarrow>
   node_label destructor_set \<Rightarrow> (string, (unit, string) task_output) result option \<Rightarrow>
   (node_effect list \<times> (string, unit) result run) run" where
  "node_close_joins domain_dead manager_dead maybe_domain domain_received destructors received =
     run_bind (case maybe_domain of None \<Rightarrow> Ret ([], Ret (Inr ()))
       | Some d \<Rightarrow> domain_close_joins domain_dead d domain_received) (\<lambda>(des, dr).
       (case dr of
          Ret (Inr _) \<Rightarrow>
            run_bind (async_drop_joins (\<lambda>_. if manager_dead then Some ''joining should not fail; qed''
                else None) destructors) (\<lambda>(es, r).
              Ret (map DomainEffect des @ map NodeEffect es,
                try_bind r (\<lambda>_. Ret (await_output received))))
        | r \<Rightarrow> run_bind (ds_drop destructors) (\<lambda>es.
            Ret (map DomainEffect des @ map NodeEffect es, r))))"

definition node_is_closed ::
  "('client, 'net, 'sync, 'rpc, 'dnode, 'rp, 'pc, 'mp, 'data, 'cfg, 'drpc) node \<Rightarrow> bool" where
  "node_is_closed n = already_ran (nd_destructors n)"

definition node_wipe :: "(path \<Rightarrow> (string, unit) result) \<Rightarrow> path \<Rightarrow> (string, unit) result" where
  "node_wipe remove_dir_all path = remove_dir_all path"

section \<open>Block headers\<close>

datatype digest_item = PreRuntime bytes bytes | OtherDigest

record 'hash header =
  hd_number :: u32
  hd_parent_hash :: 'hash
  hd_state_root :: 'hash
  hd_extrinsics_root :: 'hash
  hd_digest :: "digest_item list"

record ('hash, 'pd) block_header =
  bh_hash :: 'hash
  bh_number :: u32
  bh_parent_hash :: 'hash
  bh_state_root :: 'hash
  bh_extrinsics_root :: 'hash
  bh_pre_digest :: "'pd option"

text \<open>\<open>Digest::log\<close> returns what the function gives for the first item it accepts.\<close>

fun digest_log :: "(digest_item \<Rightarrow> 'a option) \<Rightarrow> digest_item list \<Rightarrow> 'a option" where
  "digest_log f [] = None"
| "digest_log f (i # is) = (case f i of Some x \<Rightarrow> Some x | None \<Rightarrow> digest_log f is)"

fun pre_runtime :: "digest_item \<Rightarrow> bytes option" where
  "pre_runtime (PreRuntime _ digest) = Some digest"
| "pre_runtime OtherDigest = None"

definition block_header_from ::
  "('hash header \<Rightarrow> 'hash) \<Rightarrow> (bytes \<Rightarrow> 'pd option) \<Rightarrow> 'hash header \<Rightarrow> ('hash, 'pd) block_header run" where
  "block_header_from hash_of decode h =
     run_bind (case digest_log pre_runtime (hd_digest h) of
         None \<Rightarrow> Ret None
       | Some d \<Rightarrow> run_bind (expect ''Pre digest is always scale encoded'' (decode d)) (\<lambda>p. Ret (Some p)))
       (\<lambda>pre_digest. Ret \<lparr>bh_hash = hash_of h, bh_number = hd_number h,
          bh_parent_hash = hd_parent_hash h, bh_state_root = hd_state_root h,
          bh_extrinsics_root = hd_extrinsics_root h, bh_pre_digest = pre_digest\<rparr>)"

definition node_block_hash ::
  "(u32 \<Rightarrow> (string, 'hash option) result) \<Rightarrow> u32 \<Rightarrow> (string, 'hash option) result" where
  "node_block_hash block_hash number =
     with_context ''Failed to get primary node block hash by number'' (block_hash number)"

definition node_block_header ::
  "('hash header \<Rightarrow> 'hash) \<Rightarrow> (bytes \<Rightarrow> 'pd option) \<Rightarrow> ('hash \<Rightarrow> (string, 'hash header option) result) \<Rightarrow>
   'hash \<Rightarrow> (string, ('hash, 'pd) block_header option) result run" where
  "node_block_header hash_of decode header hash =
     try_bind (Ret (with_context ''Failed to get primary node block hash by number'' (header hash)))
       (\<lambda>opt. case opt of
          None \<Rightarrow> Ret (Inr None)
        | Some h \<Rightarrow> run_bind (block_header_from hash_of decode h) (\<lambda>b. Ret (Inr (Some b))))"

text \<open>The streams of heads: every item is converted when it is read.\<close>

definition node_subscribe_new_heads ::
  "('hash header \<Rightarrow> 'hash) \<Rightarrow> (bytes \<Rightarrow> 'pd option) \<Rightarrow>
   ('info, 'slot, 'sol, 'rsi, 'rsig, 'seg, 'sync, 'hash header, 'hash) api \<Rightarrow>
   (string, ('hash, 'pd) block_header run list) result" where
  "node_subscribe_new_heads hash_of decode a =
     map_ok (map (block_header_from hash_of decode))
       (with_context ''Failed to subscribe to new blocks'' (rpc_subscribe_new_heads a))"

definition node_subscribe_finalized_heads ::
  "('hash header \<Rightarrow> 'hash) \<Rightarrow> (bytes \<Rightarrow> 'pd option) \<Rightarrow>
   ('info, 'slot, 'sol, 'rsi, 'rsig, 'seg, 'sync, 'hash header, 'hash) api \<Rightarrow>
   (string, ('hash, 'pd) block_header run list) result" where
  "node_subscribe_finalized_heads hash_of decode a =
     map_ok (map (block_header_from hash_of decode))
       (with_context ''Failed to subscribe to finalized blocks'' (rpc_subscribe_finalized_heads a))"

text \<open>\<open>event_of\<close> is the event of an event record.\<close>

definition node_get_events ::
  "('rec \<Rightarrow> 'ev) \<Rightarrow> ('info, 'slot, 'sol, 'rsi, 'rsig, 'seg, 'sync, 'hdr, 'hash) api \<Rightarrow>
   (bytes \<Rightarrow> bytes) \<Rightarrow> (bytes \<Rightarrow> (string, 'rec list) result) \<Rightarrow> 'hash option \<Rightarrow>
   (string, 'ev list) result" where
  "node_get_events event_of a twox_128 decode_all block =
     result_bind (rpc_get_events a twox_128 decode_all block) (\<lambda>rs. Inr (map event_of rs))"

section \<open>Information about a node\<close>

record ('hash, 'ver) chain_client =
  cc_best_hash :: 'hash
  cc_best_number :: u32
  cc_genesis_hash :: 'hash
  cc_finalized_hash :: 'hash
  cc_finalized_number :: u32
  cc_block_gap :: "(u32 \<times> u32) option"

text \<open>Who is connected and who is only known, and the addresses the node listens on.\<close>

record ('peer, 'sa) network_state =
  ns_connected_peers :: "'peer list"
  ns_not_connected_peers :: "'peer list"
  ns_listened_addresses :: "'sa list"

record ('hash, 'ver) node_info =
  ni_genesis_hash :: 'hash
  ni_best_block :: "'hash \<times> u32"
  ni_finalized_block :: "'hash \<times> u32"
  ni_block_gap :: "(u32 \<times> u32) option"
  ni_version :: 'ver
  ni_name :: string
  ni_connected_peers :: u64
  ni_not_connected_peers :: u64
  ni_history_size :: u64

definition node_get_info ::
  "(unit, ('peer, 'sa) network_state) result \<Rightarrow> ('hash, 'ver) chain_client \<Rightarrow>
   ('hash option \<Rightarrow> (string, 'ver) result) \<Rightarrow> ('info \<Rightarrow> u64) \<Rightarrow>
   ('info, 'slot, 'sol, 'rsi, 'rsig, 'seg, 'sync, 'hdr, 'hash) api \<Rightarrow> string \<Rightarrow>
   (string, ('hash, 'ver) node_info) result" where
  "node_get_info state client runtime_version history_size a nname =
     result_bind (with_context ''Failed to fetch node info: node already exited'' state) (\<lambda>net.
     result_bind (runtime_version (Some (cc_best_hash client))) (\<lambda>version.
     result_bind (rpc_farmer_app_info a) (\<lambda>info.
       Inr \<lparr>ni_genesis_hash = cc_genesis_hash client,
            ni_best_block = (cc_best_hash client, cc_best_number client),
            ni_finalized_block = (cc_finalized_hash client, cc_finalized_number client),
            ni_block_gap = cc_block_gap client, ni_version = version, ni_name = nname,
            ni_connected_peers = of_nat (length (ns_connected_peers net)),
            ni_not_connected_peers = of_nat (length (ns_not_connected_peers net)),
            ni_history_size = history_size info\<rparr>)))"

definition node_listen_addresses ::
  "('sa \<Rightarrow> 'ma run) \<Rightarrow> ('ma \<Rightarrow> 'sa run) \<Rightarrow> 'peer \<Rightarrow> (unit, ('peer, 'sa) network_state) result \<Rightarrow>
   (string, ('sa, 'peer) multiaddr_with_peer_id list) result run" where
  "node_listen_addresses from_sc to_sc peer_id state =
     try_bind (Ret (map_err (\<lambda>_. ''Network worker exited'') state)) (\<lambda>net.
       run_bind (run_map (\<lambda>a. multiaddr_with_peer_id_new from_sc to_sc a peer_id)
           (ns_listened_addresses net)) (\<lambda>as. Ret (Inr as)))"

definition node_dsn_listen_addresses ::
  "('la \<Rightarrow> 'ma run) \<Rightarrow> ('ma \<Rightarrow> 'sa run) \<Rightarrow> ('id \<Rightarrow> string) \<Rightarrow> (string \<Rightarrow> 'peer option) \<Rightarrow> 'id \<Rightarrow>
   'la list \<Rightarrow> (string, ('sa, 'peer) multiaddr_with_peer_id list) result run" where
  "node_dsn_listen_addresses from_la to_sc show_id parse_id node_id listeners =
     run_bind (expect ''Conversion between 2 libp2p versions'' (parse_id (show_id node_id))) (\<lambda>peer_id.
       run_bind (run_map (\<lambda>a. multiaddr_with_peer_id_new from_la to_sc a peer_id) listeners) (\<lambda>as.
         Ret (Inr as)))"

section \<open>Lemmas\<close>

lemma with_context_eq_Ok [simp]: "with_context m r = Inr x \<longleftrightarrow> r = Inr x"
  by (cases r) (simp_all add: with_context_def)

lemma pot_external_entropy_cases:
  "pot_external_entropy from_value props cfg =
     (case props ''potExternalEntropy'' of
        None \<Rightarrow> Inr (unwrap_or cfg [])
      | Some v \<Rightarrow>
          (case from_value v of
             Inl e \<Rightarrow> Inl (''Failed to decode PoT initial key: '' @ e)
           | Inr None \<Rightarrow> Inr (unwrap_or cfg [])
           | Inr (Some entropy) \<Rightarrow> Inr entropy))"
  by (simp add: pot_external_entropy_def split: option.splits sum.splits)

lemma digest_log_first:
  "digest_log f is = (case List.map_filter f is of [] \<Rightarrow> None | x # _ \<Rightarrow> Some x)"
  by (induction "is") (simp_all add: List.map_filter_simps split: option.splits)

text \<open>A header converts unless its first pre-runtime item, of whichever engine, does not decode.\<close>

lemma block_header_from_panics:
  "(\<exists>m. block_header_from hash_of decode h = Panic m) \<longleftrightarrow>
   (\<exists>d ds. List.map_filter pre_runtime (hd_digest h) = d # ds \<and> decode d = None)"
proof (cases "List.map_filter pre_runtime (hd_digest h)")
  case (Cons d ds)
  then show ?thesis by (cases "decode d") (simp_all add: block_header_from_def digest_log_first)
qed (simp add: block_header_from_def digest_log_first)

lemma node_domain_parts:
  assumes "node_domain nodes_from_value domains c = Inr (maybe_domain, tasks)"
  shows "(c = None \<longleftrightarrow> maybe_domain = None) \<and>
    (\<forall>d nodes. maybe_domain = Some (d, nodes) \<longrightarrow>
       (\<exists>dc. c = Some dc \<and> domain_build (show_nat (unat (dcf_domain_id dc))) = Inr d \<and>
          domain_bootstrap_nodes nodes_from_value domains (dcf_domain_id dc) = Inr nodes))"
  using assms by (auto simp: node_domain_def result_bind_eq_Ok split: option.splits)

lemma node_dsn_parts:
  assumes "node_dsn mode env po denv fetch limit base d partial directory props =
    Ret (Inr (shared, bootstrap, runner, metrics))"
  shows "\<exists>spec_nodes. spec_dsn_boot_nodes (ne_nodes_from_value env) props = Inr spec_nodes \<and>
    bootstrap = map (de_into_boot denv) (dsn_boot_nodes d @ spec_nodes) \<and>
    shared_slots shared = \<lparr>farmer_readers_and_pieces = None, farmer_piece_cache = None\<rparr> \<and>
    metrics = cfg_prometheus_enabled base"
  using assms
  by (auto simp: node_dsn_def try_bind_eq_Ok run_bind_eq_Ret Let_def dest!: build_dsn_shared)

lemma await_task_manager_set:
  assumes "add_async_destructor AwaitTaskManager (ds_new n) = Inr d"
  shows "async_drop d = Ret ([Awaited AwaitTaskManager], Inr ()) \<and>
    ds_drop d = Ret [DroppedFuture AwaitTaskManager] \<and> \<not> already_ran d"
proof -
  have "\<not> already_ran d" using assms by (auto simp: add_async_destructor_def ds_new_def)
  moreover have "register_all register [AsyncE AwaitTaskManager] (ds_new n) = Inr d"
    using assms by simp
  ultimately show ?thesis
    using dset.close_reverses_registration [of "ds_new n" "[AsyncE AwaitTaskManager]" d]
      dset.drop_reverses_registration [of "ds_new n" "[AsyncE AwaitTaskManager]" d] by simp
qed

lemma node_close_joins_no_panic:
  "node_close_joins (\<lambda>_. False) False md dr d r =
   run_bind (node_close md dr d r) (\<lambda>(es, x). Ret (es, Ret x))"
proof -
  have dom: "(case md of None \<Rightarrow> Ret ([], Ret (Inr ())) | Some d \<Rightarrow> domain_close_joins (\<lambda>_. False) d dr) =
      run_bind (case md of None \<Rightarrow> Ret ([], Inr ()) | Some d \<Rightarrow> domain_close d dr) (\<lambda>(es, x). Ret (es, Ret x))"
    by (simp add: domain_close_joins_no_panic split: option.split)
  show ?thesis
  proof (cases "case md of None \<Rightarrow> Ret ([], Inr ()) | Some d \<Rightarrow> domain_close d dr")
    case (Ret x)
    then obtain des y where x: "x = (des, y)" by (cases x)
    show ?thesis
    proof (cases y)
      case (Inl e)
      then show ?thesis
        by (cases "ds_drop d") (simp_all add: node_close_joins_def node_close_def dom Ret x)
    next
      case (Inr u)
      then show ?thesis
      proof (cases "async_drop d")
        case (Ret z)
        then show ?thesis using \<open>y = Inr u\<close>
          by (cases z; cases "snd z")
            (simp_all add: node_close_joins_def node_close_def dom \<open>_ = Ret x\<close> x
              async_drop_joins_no_panic await_output_def)
      qed (simp add: node_close_joins_def node_close_def dom Ret x async_drop_joins_no_panic)
    qed
  qed (simp add: node_close_joins_def node_close_def dom)
qed

lemma await_task_manager_joins:
  assumes "add_async_destructor AwaitTaskManager (ds_new n) = Inr d"
  shows "async_drop_joins p d = Ret ([Awaited AwaitTaskManager],
    case p AwaitTaskManager of None \<Rightarrow> Ret (Inr ()) | Some m \<Rightarrow> Panic m)"
proof -
  have v: "ds_wf d" "entries d = [AsyncE AwaitTaskManager]" "allow_async d"
    using dset.register_all_view [of "ds_new n" "[AsyncE AwaitTaskManager]" d] assms by simp_all
  show ?thesis
  proof (cases "p AwaitTaskManager")
    case None
    have "async_drop_joins p d = Ret (map (effect_of Awaited) (rev (entries d)), Ret (Inr ()))"
      by (rule dset.joins_all [OF v(1,3)]) (use None v(2) in auto)
    with None v(2) show ?thesis by simp
  next
    case (Some m)
    then show ?thesis
      using dset.joins_panic [OF v(1,3), of "[]" AwaitTaskManager "[]" p m] v(2) by (simp add: unwound_def)
  qed
qed

lemma node_build_parts:
  assumes "node_build mode env po sub denv crate rpc_of fetch limit parse_node c directory spec =
    Ret (Inr (n, tasks))"
  obtains base partial bootstrap runner metrics domains ets where
    "base_configuration sub (ncf_base c) directory (spec_view parse_node spec) = Ret base"
    "node_dsn mode env po denv fetch limit base (ncf_dsn c) partial directory
       (unwrap_or (spec_properties spec) Map.empty) = Ret (Inr (nd_dsn n, bootstrap, runner, metrics))"
    "node_domain (ne_nodes_from_value env) domains (ncf_domain c) = Inr (nd_maybe_domain n, ets)"
    "add_async_destructor AwaitTaskManager (ds_new ''node-destructors'') = Inr (nd_destructors n)"
    "nd_name n = nc_node_name (cfg_network base)"
  using assms by (auto simp: node_build_def Let_def try_bind_eq_Ok run_bind_eq_Ret)

section \<open>Properties\<close>

text \<open>C23: A node that was just built serves no piece, whatever is asked: the slots the farmer fills
  are empty. It has a domain exactly when one was configured; and whether it is closed or dropped,
  the one thing registered for its end is the task manager, awaited in the first case and only
  signalled in the second.\<close>
theorem node_build_starts_without_pieces:
  assumes "node_build mode env po sub denv crate rpc_of fetch limit parse_node c directory spec =
    Ret (Inr (n, tasks))"
  shows "get_piece_by_index fetch i (Some (farmer_readers_and_pieces (shared_slots (nd_dsn n))))
      (farmer_piece_cache (shared_slots (nd_dsn n))) = None \<and>
    (nd_maybe_domain n = None \<longleftrightarrow> ncf_domain c = None) \<and> \<not> node_is_closed n \<and>
    async_drop (nd_destructors n) = Ret ([Awaited AwaitTaskManager], Inr ()) \<and>
    ds_drop (nd_destructors n) = Ret [DroppedFuture AwaitTaskManager]"
proof (rule node_build_parts [OF assms])
  fix base partial bootstrap runner metrics domains ets
  assume dsn: "node_dsn mode env po denv fetch limit base (ncf_dsn c) partial directory
       (unwrap_or (spec_properties spec) Map.empty) = Ret (Inr (nd_dsn n, bootstrap, runner, metrics))"
    and nd: "node_domain (ne_nodes_from_value env) domains (ncf_domain c) = Inr (nd_maybe_domain n, ets)"
    and d: "add_async_destructor AwaitTaskManager (ds_new ''node-destructors'') = Inr (nd_destructors n)"
  have "shared_slots (nd_dsn n) = \<lparr>farmer_readers_and_pieces = None, farmer_piece_cache = None\<rparr>"
    using node_dsn_parts [OF dsn] by blast
  then show ?thesis
    using node_domain_parts [OF nd] await_task_manager_set [OF d]
    by (auto simp: get_piece_by_index_def node_is_closed_def)
qed

text \<open>A small instance of everything a node is built from.\<close>

type_synonym demo_dsn_config =
  "(nat, nat, unit, (u8 \<times> nat) set, nat, nat, nat piece_by_index_response, segment_header_request,
    nat segment_header_response) networking_config"

definition demo_node_dsn_env ::
  "(nat, nat, nat, nat, unit, demo_dsn_config, nat, nat) dsn_env" where
  "demo_node_dsn_env = \<lparr>de_into_addr = id, de_into_boot = id, de_hex = id,
     de_strip_peer_id = map (\<lambda>a. (a, a)), de_known_peers_new = (\<lambda>_ _. Inr ()),
     de_construct = (\<lambda>_. Inr (1, 2))\<rparr>"

definition demo_node_env ::
  "(nat, nat, nat, unit, nat, nat, nat, nat, (nat, nat, nat, nat) new_full, nat) node_env" where
  "demo_node_env = \<lparr>ne_entropy_from_value = (\<lambda>_. Inr None), ne_nodes_from_value = (\<lambda>_. Inr [3]),
     ne_map_from_value = (\<lambda>_. Inr Map.empty), ne_new_partial = (\<lambda>_ _. Inr 4),
     ne_keypair = (\<lambda>_. Inr [1]), ne_decode_keypair = Inr, ne_run_in_thread = (\<lambda>_ _. Inr ()),
     ne_new_full = (\<lambda>_ _. Inr \<lparr>nf_client = 5, nf_rpc_handlers = 6, nf_sync_service = 7,
       nf_network_service = 8\<rparr>), ne_storage_monitor = (\<lambda>_ _. Inr ())\<rparr>"

definition demo_partial_ops :: "(nat, nat, nat segment_headers_store) partial_ops" where
  "demo_partial_ops = \<lparr>po_client = id, po_segment_headers_store =
       (\<lambda>_. \<lparr>max_segment_index = None, get_segment_header = (\<lambda>_. None)\<rparr>), po_genesis_hash = (\<lambda>_. ''00'')\<rparr>"

definition demo_node_config :: "(nat, nat, nat, (nat, nat) domain_config) node_config" where
  "demo_node_config = \<lparr>ncf_segment_publish_concurrency = 10, ncf_sync_from_dsn = False,
     ncf_base = base_default demo_build_env,
     ncf_dsn = \<lparr>dsn_provider_storage_path = None, dsn_listen_addresses = [1], dsn_boot_nodes = [2],
       dsn_external_addresses = [], dsn_reserved_nodes = [],
       dsn_allow_non_global_addresses_in_dht = False, dsn_in_connections = 300,
       dsn_out_connections = 150, dsn_pending_in_connections = 100,
       dsn_pending_out_connections = 150, dsn_target_connections = 15\<rparr>,
     ncf_storage_monitor = None, ncf_enable_subspace_block_relay = False,
     ncf_domain = Some ((domain_config_default demo_build_env)\<lparr>dcf_chain_id := ''dev''\<rparr>),
     ncf_is_timekeeper = False, ncf_timekeeper_cpu_cores = {}, ncf_pot_external_entropy = None\<rparr>"

definition demo_bytesize :: "nat bytesize_crate" where
  "demo_bytesize = \<lparr>crate_b = unat, crate_kb = unat, crate_kib = unat, crate_mb = unat,
     crate_mib = unat, crate_gb = unat, crate_gib = unat, crate_as_u64 = of_nat, crate_MIB = 1048576\<rparr>"

lemma demo_node_dsn:
  "\<exists>r. node_dsn Checked demo_node_env demo_partial_ops demo_node_dsn_env (\<lambda>i _ _. Some i) 10 base
     (ncf_dsn demo_node_config) partial dir props = Ret (Inr r)"
  by (cases "props ''dsnBootstrapNodes''")
    (simp_all add: node_dsn_def demo_node_env_def demo_partial_ops_def demo_node_dsn_env_def
      demo_node_config_def with_context_def spec_dsn_boot_nodes_def build_dsn_def
      dsn_networking_config_def connected_peers_limits_def add_arith_def arith_def
      add_items_to_drop_def Let_def)

lemma demo_node_domain:
  "\<exists>r. node_domain (ne_nodes_from_value demo_node_env) domains (ncf_domain demo_node_config) =
     (Inr r :: (string, ((nat, nat, nat) domain \<times> nat list) option \<times> string list) result)"
proof -
  obtain dc where dc: "ncf_domain demo_node_config = Some dc" by (simp add: demo_node_config_def)
  obtain ns where ns: "domain_bootstrap_nodes (ne_nodes_from_value demo_node_env) domains (dcf_domain_id dc) = Inr ns"
    by (cases "domains (show_nat (unat (dcf_domain_id dc)))")
      (simp_all add: domain_bootstrap_nodes_def demo_node_env_def)
  obtain d :: "(nat, nat, nat) domain" where d: "domain_build (show_nat (unat (dcf_domain_id dc))) = Inr d"
    by (simp add: domain_build_def add_async_destructor_def ds_new_def)
  show ?thesis unfolding node_domain_def dc by (simp add: ns d)
qed

lemma demo_node_build:
  "\<exists>spec (n :: (nat, nat, nat, nat, nat, (u8 \<times> nat) set, nat, nat, nat, nat, nat) node) tasks.
     local_config Checked demo_cs_env = Ret spec \<and>
     node_build Checked demo_node_env demo_partial_ops demo_domain_env demo_node_dsn_env demo_bytesize id
       (\<lambda>i _ _. Some i) 10 length demo_node_config [''node''] spec = Ret (Inr (n, tasks))"
proof -
  obtain spec where spec: "local_config Checked demo_cs_env = Ret spec"
    by (simp add: local_config_def demo_cs_env_def)
  let ?props = "unwrap_or (spec_properties spec) Map.empty"
  have "\<exists>c. base_configuration demo_domain_env (ncf_base demo_node_config) [''node'']
      (spec_view length spec) = Ret c"
    using demo_domain_base [of "[''node'']" "spec_view length spec"]
    by (simp add: demo_node_config_def domain_config_default_def)
  then obtain base where base: "base_configuration demo_domain_env (ncf_base demo_node_config) [''node'']
      (spec_view length spec) = Ret base" by blast
  obtain shared bootstrap runner metrics where dsn: "node_dsn Checked demo_node_env demo_partial_ops
      demo_node_dsn_env (\<lambda>i _ _. Some i) 10 base (ncf_dsn demo_node_config) 4 [''node''] ?props =
      Ret (Inr (shared, bootstrap, runner, metrics))"
    using demo_node_dsn by (metis surj_pair)
  have entropy: "pot_external_entropy (ne_entropy_from_value demo_node_env) ?props x = Inr (unwrap_or x [])" for x
    by (simp add: pot_external_entropy_cases demo_node_env_def split: option.splits)
  have domains: "spec_domains (ne_map_from_value demo_node_env) ?props = Inr Map.empty"
    by (cases "?props ''domainsBootstrapNodes''") (simp_all add: spec_domains_def demo_node_env_def)
  obtain md ets where nd: "node_domain (ne_nodes_from_value demo_node_env) Map.empty
      (ncf_domain demo_node_config) =
      (Inr (md, ets) :: (string, ((nat, nat, nat) domain \<times> nat list) option \<times> string list) result)"
    using demo_node_domain by (metis surj_pair)
  obtain d where d: "add_async_destructor AwaitTaskManager (ds_new ''node-destructors'') = Inr d"
    by (simp add: add_async_destructor_def ds_new_def)
  have parts: "ne_new_partial demo_node_env c e = Inr 4" "ne_run_in_thread demo_node_env r x = Inr ()"
    "ne_new_full demo_node_env sc p = Inr \<lparr>nf_client = 5, nf_rpc_handlers = 6, nf_sync_service = 7,
       nf_network_service = 8\<rparr>" "ncf_storage_monitor demo_node_config = None" for c e r x sc p
    by (simp_all add: demo_node_env_def demo_node_config_def)
  obtain n :: "(nat, nat, nat, nat, nat, (u8 \<times> nat) set, nat, nat, nat, nat, nat) node" and tasks where
    b: "node_build Checked demo_node_env demo_partial_ops demo_domain_env demo_node_dsn_env demo_bytesize id
       (\<lambda>i _ _. Some i) 10 length demo_node_config [''node''] spec = Ret (Inr (n, tasks))"
    by (simp add: node_build_def Let_def base entropy dsn domains nd d parts with_context_def)
  with spec show ?thesis by blast
qed

theorem node_build_starts_without_pieces_witness:
  "\<exists>(spec :: (string genesis run, unit) chain_spec) (n :: (nat, nat, nat, nat, nat, (u8 \<times> nat) set, nat, nat, nat, nat, nat) node) tasks.
     node_build Checked demo_node_env demo_partial_ops demo_domain_env demo_node_dsn_env demo_bytesize id
       (\<lambda>i _ _. Some i) 10 length demo_node_config [''node''] spec = Ret (Inr (n, tasks)) \<and>
     nd_maybe_domain n \<noteq> None"
proof -
  obtain spec :: "(string genesis run, unit) chain_spec" and n :: "(nat, nat, nat, nat, nat, (u8 \<times> nat) set, nat, nat, nat, nat, nat) node" and tasks
    where b: "node_build Checked demo_node_env demo_partial_ops demo_domain_env demo_node_dsn_env
       demo_bytesize id (\<lambda>i _ _. Some i) 10 length demo_node_config [''node''] spec = Ret (Inr (n, tasks))"
    using demo_node_build by blast
  have "ncf_domain demo_node_config \<noteq> None" by (simp add: demo_node_config_def)
  with node_build_starts_without_pieces [OF b, of 0] b show ?thesis by blast
qed

text \<open>C8: How a node closes. With a domain that closes well, or without one, the task manager is told
  to stop and awaited, and the close fails only with the task manager's own error. But when the
  domain reports a failure the close returns it at once: the task manager is signalled by the drop
  of the destructor set and not awaited, so the node goes on shutting down after the close.\<close>
theorem node_close_outcomes:
  assumes "add_async_destructor AwaitTaskManager (ds_new name) = Inr d" and "domain_build i = Inr dm"
  shows "node_close None r d (Some (task_manager_result ev)) =
      Ret ([NodeEffect (Awaited AwaitTaskManager)],
        case ev of ManagerFinished (Inl e) \<Rightarrow> Inl e | _ \<Rightarrow> Inr ()) \<and>
    node_close (Some (domain_destructors dm)) (Some (Inr out)) d (Some (task_manager_result ev)) =
      Ret ([DomainEffect (Awaited AwaitRunner), DomainEffect (Awaited AwaitBootstrapper),
            NodeEffect (Awaited AwaitTaskManager)],
        case ev of ManagerFinished (Inl e) \<Rightarrow> Inl e | _ \<Rightarrow> Inr ()) \<and>
    node_close (Some (domain_destructors dm)) (Some (Inl e)) d r' =
      Ret ([DomainEffect (Awaited AwaitRunner), DomainEffect (Awaited AwaitBootstrapper),
            NodeEffect (DroppedFuture AwaitTaskManager)], Inl e)"
  using await_task_manager_set [OF assms(1)] domain_close_built [OF assms(2)]
  by (cases ev) (auto simp: node_close_def task_manager_result_def split: sum.splits)

theorem node_close_outcomes_witness:
  "\<exists>d (dm :: (nat, nat, nat) domain).
     node_close (Some (domain_destructors dm)) (Some (Inl ''run error'')) d None =
       Ret ([DomainEffect (Awaited AwaitRunner), DomainEffect (Awaited AwaitBootstrapper),
             NodeEffect (DroppedFuture AwaitTaskManager)], Inl ''run error'')"
proof -
  obtain d where d: "add_async_destructor AwaitTaskManager (ds_new ''node-destructors'') = Inr d"
    by (simp add: add_async_destructor_def ds_new_def)
  obtain dm :: "(nat, nat, nat) domain" where "domain_build ''0'' = Inr dm"
    by (simp add: domain_build_def add_async_destructor_def ds_new_def)
  from node_close_outcomes [OF d this, of _ "RunnerExited" _ "''run error''" None] show ?thesis by blast
qed

text \<open>C20: Closing a node some of whose tasks have panicked. The close panics when a task of the domain
  has, and otherwise, if the domain closed well, when the task manager has; it never hides the panic
  behind an error. In every case each of the three tasks has been told to stop, the runner was
  awaited, and the task manager was awaited exactly when the domain closed without panic or error.\<close>
theorem node_close_after_task_panic:
  assumes "add_async_destructor AwaitTaskManager (ds_new name) = Inr d" and "domain_build i = Inr dm"
  shows "\<exists>es. node_close_joins domain_dead manager_dead (Some (domain_destructors dm)) dr d (Some (task_manager_result ev)) =
      Ret (es, if domain_dead AwaitRunner \<or> domain_dead AwaitBootstrapper then Panic domain_join_message
        else case await_output dr of
          Inl e \<Rightarrow> Ret (Inl e)
        | Inr _ \<Rightarrow> if manager_dead then Panic ''joining should not fail; qed''
            else Ret (case ev of ManagerFinished (Inl e) \<Rightarrow> Inl e | _ \<Rightarrow> Inr ())) \<and>
    (NodeEffect (Awaited AwaitTaskManager) \<in> set es \<or> NodeEffect (DroppedFuture AwaitTaskManager) \<in> set es) \<and>
    (NodeEffect (Awaited AwaitTaskManager) \<in> set es \<longleftrightarrow>
       \<not> domain_dead AwaitRunner \<and> \<not> domain_dead AwaitBootstrapper \<and> await_output dr = Inr ()) \<and>
    DomainEffect (Awaited AwaitRunner) \<in> set es \<and>
    (DomainEffect (Awaited AwaitBootstrapper) \<in> set es \<or> DomainEffect (DroppedFuture AwaitBootstrapper) \<in> set es)"
proof -
  have d: "ds_drop d = Ret [DroppedFuture AwaitTaskManager]" using await_task_manager_set [OF assms(1)] by simp
  have out: "await_output (Some (task_manager_result ev)) = (case ev of ManagerFinished (Inl e) \<Rightarrow> Inl e | _ \<Rightarrow> Inr ())"
    by (cases ev) (auto simp: await_output_def task_manager_result_def split: sum.splits)
  show ?thesis
    by (cases "await_output dr")
      (simp_all add: node_close_joins_def domain_close_joins_built [OF assms(2)] d out
        await_task_manager_joins [OF assms(1)])
qed

theorem node_close_after_task_panic_witness:
  "\<exists>d (dm :: (nat, nat, nat) domain) es.
     node_close_joins (\<lambda>l. l = AwaitBootstrapper) False (Some (domain_destructors dm))
       (Some (Inr (TaskValue ()))) d (Some (task_manager_result DropSignal)) =
       Ret (es, Panic domain_join_message) \<and> NodeEffect (Awaited AwaitTaskManager) \<notin> set es"
proof -
  obtain d where d: "add_async_destructor AwaitTaskManager (ds_new ''node-destructors'') = Inr d"
    by (simp add: add_async_destructor_def ds_new_def)
  obtain dm :: "(nat, nat, nat) domain" where "domain_build ''0'' = Inr dm"
    by (simp add: domain_build_def add_async_destructor_def ds_new_def)
  from node_close_after_task_panic [OF d this, of "\<lambda>l. l = AwaitBootstrapper" False
      "Some (Inr (TaskValue ()))" DropSignal] show ?thesis by auto
qed

text \<open>The compiled chain specifications leave everything to the settings: with a JSON decoder that
  reads null as no entropy, the empty array as no nodes and the empty object as no domains, a node
  started from any of them uses the configured entropy (or the empty one), bootstraps its DSN from
  the configured nodes only, and gives no bootstrap nodes to a domain.\<close>
theorem compiled_specs_leave_settings:
  assumes "entropy_from_value PNull = Inr None" and "nodes_from_value PEmptyArray = Inr []"
    and "map_from_value PEmptyObject = Inr Map.empty"
    and "Ret spec \<in> {gemini_3g_compiled mode ce, devnet_config_compiled mode ce, dev_config mode ce,
      local_config mode ce}"
  shows "\<exists>props. spec_properties spec = Some props \<and>
    pot_external_entropy entropy_from_value props cfg = Inr (unwrap_or cfg []) \<and>
    spec_dsn_boot_nodes nodes_from_value props = Inr [] \<and>
    spec_domains map_from_value props = Inr Map.empty \<and>
    domain_bootstrap_nodes nodes_from_value Map.empty domain_id = Inr []"
proof -
  have "spec_properties spec = Some (consensus_properties ce)"
    using assms(4)
    by (auto simp: gemini_3g_compiled_def devnet_config_compiled_def dev_config_def local_config_def
        Ret_eq_run_bind)
  then show ?thesis
    using assms(1,2,3)
    by (simp add: pot_external_entropy_cases spec_dsn_boot_nodes_def spec_domains_def
        domain_bootstrap_nodes_def with_context_def consensus_properties_def chain_spec_properties_def)
qed

theorem compiled_specs_leave_settings_witness:
  "\<exists>spec props. local_config Checked demo_cs_env = Ret spec \<and> spec_properties spec = Some props \<and>
     pot_external_entropy (\<lambda>v. if v = PNull then Inr None else Inl ''no bytes'') props (Some [7]) = Inr [7]"
proof -
  obtain spec where spec: "local_config Checked demo_cs_env = Ret spec"
    by (simp add: local_config_def demo_cs_env_def)
  have "\<exists>props. spec_properties spec = Some props \<and>
    pot_external_entropy (\<lambda>v. if v = PNull then Inr None else Inl ''no bytes'') props (Some [7]) =
      Inr (unwrap_or (Some [7]) []) \<and>
    spec_dsn_boot_nodes (\<lambda>_. Inr [] :: (string, nat list) result) props = Inr [] \<and>
    spec_domains (\<lambda>_. Inr Map.empty) props = Inr Map.empty \<and>
    domain_bootstrap_nodes (\<lambda>_. Inr [] :: (string, nat list) result) Map.empty 0 = Inr []"
    by (rule compiled_specs_leave_settings [where mode = Checked and ce = demo_cs_env])
      (simp_all add: spec)
  with spec show ?thesis by auto
qed

text \<open>The addresses a node reports are those its network listens on, all of them, in order and
  unchanged, with its own peer id, although each goes through the text of two versions of the
  address type; it fails exactly when the network worker has exited, and it does not panic.\<close>
theorem listen_addresses_faithful:
  assumes "same_text show_a parse_a show_b parse_b"
  shows "node_listen_addresses (multiaddr_from_sc show_b parse_a) (multiaddr_into_sc show_a parse_b)
      peer_id state =
    Ret (case state of
           Inl _ \<Rightarrow> Inl ''Network worker exited''
         | Inr net \<Rightarrow> Inr (map (\<lambda>a. \<lparr>mp_multiaddr = a, mp_peer_id = peer_id\<rparr>) (ns_listened_addresses net)))"
proof -
  have new: "multiaddr_with_peer_id_new (multiaddr_from_sc show_b parse_a) (multiaddr_into_sc show_a parse_b)
      b peer_id = Ret \<lparr>mp_multiaddr = b, mp_peer_id = peer_id\<rparr>" for b
  proof -
    obtain a where "multiaddr_from_sc show_b parse_a b = Ret a" "multiaddr_into_sc show_a parse_b a = Ret b"
      using multiaddr_there_and_back [OF assms, of b] by (auto simp: run_bind_eq_Ret)
    then show ?thesis by (simp add: multiaddr_with_peer_id_new_def)
  qed
  show ?thesis
    by (cases state) (simp_all add: node_listen_addresses_def run_map_Ret [OF new])
qed

theorem listen_addresses_faithful_witness:
  "node_listen_addresses (multiaddr_from_sc id Some) (multiaddr_into_sc id Some) (1 :: nat)
     (Inr \<lparr>ns_connected_peers = [], ns_not_connected_peers = [],
       ns_listened_addresses = [''/ip4/127.0.0.1/tcp/30333'']\<rparr>) =
   Ret (Inr [\<lparr>mp_multiaddr = ''/ip4/127.0.0.1/tcp/30333'', mp_peer_id = 1\<rparr>])"
proof -
  have "same_text id Some id Some" by (simp add: same_text_def)
  from listen_addresses_faithful [OF this, where peer_id = "1 :: nat" and state =
      "Inr \<lparr>ns_connected_peers = [], ns_not_connected_peers = [],
         ns_listened_addresses = [''/ip4/127.0.0.1/tcp/30333'']\<rparr>"]
  show ?thesis by simp
qed

end
