(* ===== verification/Node_Sync.thy ===== *)
theory Node_Sync
  imports SDK_Prelude
begin

text \<open>
  Syncing progress of a node (\<^verbatim>\<open>node/src/lib.rs\<close>): the progress stream,
  \<open>subscribe_syncing_progress\<close> with its background task, and \<open>sync\<close>. The answers of the sync
  service and of the client are functions of the number of calls made so far. The retry of the
  \<open>backoff\<close> crate is an argument with one law: it makes attempts until one succeeds or it gives
  up, and returns the outcome of the last one. The background task is a loop that may run
  forever, so it has fuel: \<open>None\<close> is a run that is not over.
\<close>

section \<open>Progress\<close>

datatype sync_status = StatusImporting | StatusDownloading

record syncing_progress =
  sp_at :: u32
  sp_target :: u32
  sp_status :: sync_status

record syncing_progress_stream =
  sps_at :: u32
  sps_target :: u32

text \<open>\<open>next\<close> is what polling the inner stream gives.\<close>

definition syncing_poll_next ::
  "('e, syncing_progress) result option poll \<Rightarrow> syncing_progress_stream \<Rightarrow>
   ('e, syncing_progress) result option poll \<times> syncing_progress_stream" where
  "syncing_poll_next next s =
     (next,
      (case next of
         Ready (Some (Inr p)) \<Rightarrow> s\<lparr>sps_at := sp_at p, sps_target := sp_target p\<rparr>
       | _ \<Rightarrow> s))"

definition syncing_size_hint :: "syncing_progress_stream \<Rightarrow> usize \<times> usize option" where
  "syncing_size_hint s = (ucast (sps_at s), Some (ucast (sps_target s)))"

section \<open>The sync service\<close>

datatype sync_state =
  SyncImporting u32 | SyncDownloading u32 | SyncIdle | SyncPending

record sync_env =
  se_status :: "nat \<Rightarrow> (unit, sync_state) result"
  se_offline :: "nat \<Rightarrow> bool"
  se_best_number :: "nat \<Rightarrow> u32"

text \<open>
  A retry runs attempts from call number \<open>n\<close> on; it returns the outcome and the number of the
  next call. There is one for each type the code uses it at.
\<close>

type_synonym ('e, 'a) retry = "(nat \<Rightarrow> ('e, 'a) result) \<Rightarrow> nat \<Rightarrow> ('e, 'a) result \<times> nat"

definition retry_law :: "('e, 'a) retry \<Rightarrow> bool" where
  "retry_law retry \<longleftrightarrow> (\<forall>attempt n. \<exists>k \<ge> n. retry attempt n = (attempt k, Suc k) \<and>
     (\<forall>j. n \<le> j \<and> j < k \<longrightarrow> \<not> is_ok (attempt j)))"

record retries =
  re_offline :: "(unit, unit) retry"
  re_first :: "(string option, u32 \<times> sync_status) retry"
  re_next :: "(unit, (string, u32 \<times> sync_status) result) retry"

definition check_offline :: "sync_env \<Rightarrow> nat \<Rightarrow> (unit, unit) result" where
  "check_offline env n = (if se_offline env n then Inl () else Inr ())"

definition first_check :: "sync_env \<Rightarrow> nat \<Rightarrow> (string option, u32 \<times> sync_status) result" where
  "first_check env n =
     (case se_status env n of
        Inr (SyncImporting target) \<Rightarrow> Inr (target, StatusImporting)
      | Inr (SyncDownloading target) \<Rightarrow> Inr (target, StatusDownloading)
      | other \<Rightarrow>
          if se_offline env n then Inl (Some ''Node went offline'')
          else (case other of
                  Inl _ \<Rightarrow> Inl (Some ''Failed to fetch networking status'')
                | Inr _ \<Rightarrow> Inl None))"

definition next_check ::
  "sync_env \<Rightarrow> nat \<Rightarrow> (unit, (string, u32 \<times> sync_status) result) result" where
  "next_check env n =
     (case se_status env n of
        Inr (SyncImporting target) \<Rightarrow> Inr (Inr (target, StatusImporting))
      | Inr (SyncDownloading target) \<Rightarrow> Inr (Inr (target, StatusDownloading))
      | Inl _ \<Rightarrow> Inr (Inl ''Failed to fetch networking status'')
      | Inr _ \<Rightarrow> Inl ())"

section \<open>Subscribing\<close>

text \<open>One turn of the background task: \<open>None\<close> when the retry gave up and the loop ends.\<close>

definition sync_turn ::
  "sync_env \<Rightarrow> retries \<Rightarrow> nat \<Rightarrow> ((string, syncing_progress) result \<times> nat) option" where
  "sync_turn env re n =
     (case re_next re (next_check env) n of
        (Inl _, _) \<Rightarrow> None
      | (Inr r, n') \<Rightarrow> Some (map_ok (\<lambda>(target, status).
           \<lparr>sp_at = se_best_number env n', sp_target = target, sp_status = status\<rparr>) r, n'))"

text \<open>The loop, for a subscriber that takes \<open>limit\<close> items and then drops the stream.\<close>

fun sync_task ::
  "nat \<Rightarrow> sync_env \<Rightarrow> retries \<Rightarrow> nat option \<Rightarrow> nat \<Rightarrow> (string, syncing_progress) result list option" where
  "sync_task 0 env re limit n = None"
| "sync_task (Suc fuel) env re limit n =
     (case sync_turn env re n of
        None \<Rightarrow> Some []
      | Some (item, n') \<Rightarrow>
          if limit = Some 0 then Some []
          else map_option (Cons item) (sync_task fuel env re (map_option (\<lambda>k. k - 1) limit) n'))"

text \<open>
  What a subscription gives: the initial values of the stream, the item that is sent before the
  task starts, and the call number at which the task starts; or a stream that is over.
\<close>

datatype sync_subscription =
  NothingToSync
| Syncing syncing_progress nat

definition subscribe_syncing_progress ::
  "sync_env \<Rightarrow> retries \<Rightarrow> (string, sync_subscription) result" where
  "subscribe_syncing_progress env re =
     (case re_offline re (check_offline env) 0 of
        (Inl _, _) \<Rightarrow> Inl ''Failed to connect to the network''
      | (Inr _, n) \<Rightarrow>
          (case re_first re (first_check env) n of
             (Inr (target, status), n') \<Rightarrow>
               Inr (Syncing \<lparr>sp_at = se_best_number env n', sp_target = target, sp_status = status\<rparr> n')
           | (Inl (Some e), _) \<Rightarrow> Inl e
           | (Inl None, _) \<Rightarrow> Inr NothingToSync))"

definition initial_stream :: "sync_subscription \<Rightarrow> syncing_progress_stream" where
  "initial_stream s =
     (case s of
        NothingToSync \<Rightarrow> \<lparr>sps_at = 0, sps_target = 0\<rparr>
      | Syncing p _ \<Rightarrow> \<lparr>sps_at = sp_at p, sps_target = sp_target p\<rparr>)"

text \<open>All items of the stream, for a reader that takes them all.\<close>

definition sync_items ::
  "nat \<Rightarrow> sync_env \<Rightarrow> retries \<Rightarrow> sync_subscription \<Rightarrow>
   (string, syncing_progress) result list option" where
  "sync_items fuel env re s =
     (case s of
        NothingToSync \<Rightarrow> Some []
      | Syncing p n \<Rightarrow> map_option (Cons (Inr p)) (sync_task fuel env re None n))"

text \<open>\<open>sync\<close> reads the whole stream and ignores what the items say.\<close>

definition node_sync :: "nat \<Rightarrow> sync_env \<Rightarrow> retries \<Rightarrow> (string, unit) result option" where
  "node_sync fuel env re =
     (case subscribe_syncing_progress env re of
        Inl e \<Rightarrow> Some (Inl e)
      | Inr s \<Rightarrow> map_option (\<lambda>_. Inr ()) (sync_items fuel env re s))"

section \<open>Lemmas on the retry\<close>

lemma retry_lawE:
  assumes "retry_law retry" and "retry attempt n = (r, n')"
  obtains k where "n \<le> k" "r = attempt k" "n' = Suc k"
    "\<And>j. n \<le> j \<Longrightarrow> j < k \<Longrightarrow> \<not> is_ok (attempt j)"
proof -
  obtain k where "k \<ge> n" "retry attempt n = (attempt k, Suc k)"
    "\<forall>j. n \<le> j \<and> j < k \<longrightarrow> \<not> is_ok (attempt j)"
    using assms(1) unfolding retry_law_def by blast
  with assms(2) that show thesis by auto
qed

lemma sync_turn_cases:
  assumes "retry_law (re_next re)"
  obtains k where "n \<le> k" "sync_turn env re n =
    (case next_check env k of
       Inl _ \<Rightarrow> None
     | Inr r \<Rightarrow> Some (map_ok (\<lambda>(target, status).
         \<lparr>sp_at = se_best_number env (Suc k), sp_target = target, sp_status = status\<rparr>) r, Suc k))"
proof -
  obtain r n' where r: "re_next re (next_check env) n = (r, n')" by force
  from retry_lawE [OF assms r] obtain k where "n \<le> k" "r = next_check env k" "n' = Suc k" by metis
  with r that show thesis by (auto simp: sync_turn_def split: sum.splits)
qed

lemma next_check_idle:
  "next_check env k = Inl u \<longleftrightarrow> se_status env k \<in> {Inr SyncIdle, Inr SyncPending}"
  by (auto simp: next_check_def split: sum.splits sync_state.splits)

text \<open>Once the service stays idle the task ends within as many turns as calls went before.\<close>

lemma sync_task_ends:
  assumes law: "retry_law (re_next re)"
    and idle: "\<And>k. N \<le> k \<Longrightarrow> se_status env k \<in> {Inr SyncIdle, Inr SyncPending}"
    and "N \<le> fuel + n"
  shows "\<exists>items. sync_task (Suc fuel) env re limit n = Some items"
  using assms(3)
proof (induction fuel arbitrary: n limit)
  case 0
  obtain k where k: "n \<le> k" "sync_turn env re n = (case next_check env k of Inl _ \<Rightarrow> None
     | Inr r \<Rightarrow> Some (map_ok (\<lambda>(target, status). \<lparr>sp_at = se_best_number env (Suc k),
         sp_target = target, sp_status = status\<rparr>) r, Suc k))"
    by (rule sync_turn_cases [OF law])
  from k(1) 0 idle [of k] have "next_check env k = Inl ()" by (simp add: next_check_idle)
  with k(2) show ?case by simp
next
  case (Suc fuel)
  obtain k where k: "n \<le> k" "sync_turn env re n = (case next_check env k of Inl _ \<Rightarrow> None
     | Inr r \<Rightarrow> Some (map_ok (\<lambda>(target, status). \<lparr>sp_at = se_best_number env (Suc k),
         sp_target = target, sp_status = status\<rparr>) r, Suc k))"
    by (rule sync_turn_cases [OF law])
  then have "sync_turn env re n = None \<or> (\<exists>item. sync_turn env re n = Some (item, Suc k))"
    by (auto split: sum.splits)
  moreover from k(1) Suc.prems have "N \<le> fuel + Suc k" by simp
  ultimately show ?case using Suc.IH [of "Suc k"] by (auto simp del: sync_task.simps(2) simp: sync_task.simps(2) [of "Suc fuel"])
qed

text \<open>And whatever the service does, it ends soon after its reader has left.\<close>

lemma sync_task_leaves: "\<exists>items. sync_task (Suc (Suc m)) env re (Some m) n = Some items \<and> length items \<le> m"
proof (induction m arbitrary: n)
  case 0
  then show ?case by (auto split: option.splits)
next
  case (Suc m)
  show ?case
  proof (cases "sync_turn env re n")
    case (Some t)
    then obtain item n' where t: "sync_turn env re n = Some (item, n')" by (cases t) simp
    obtain items where "sync_task (Suc (Suc m)) env re (Some m) n' = Some items" "length items \<le> m"
      using Suc.IH by blast
    then show ?thesis by (subst sync_task.simps(2)) (simp add: t del: sync_task.simps)
  qed simp
qed

lemma sync_task_diverges:
  assumes law: "retry_law (re_next re)"
    and err: "\<And>k. n \<le> k \<Longrightarrow> se_status env k = Inl ()"
  shows "sync_task fuel env re None n = None"
  using err
proof (induction fuel arbitrary: n)
  case (Suc fuel)
  obtain k where k: "n \<le> k" "sync_turn env re n = (case next_check env k of Inl _ \<Rightarrow> None
     | Inr r \<Rightarrow> Some (map_ok (\<lambda>(target, status). \<lparr>sp_at = se_best_number env (Suc k),
         sp_target = target, sp_status = status\<rparr>) r, Suc k))"
    by (rule sync_turn_cases [OF law])
  have "next_check env k = Inr (Inl ''Failed to fetch networking status'')"
    using Suc.prems [OF k(1)] by (simp add: next_check_def)
  with k(2) have "sync_turn env re n = Some (Inl ''Failed to fetch networking status'', Suc k)" by simp
  moreover have "sync_task fuel env re None (Suc k) = None"
    using Suc.IH [of "Suc k"] Suc.prems k(1) by simp
  ultimately show ?case by simp
qed simp

lemma subscribe_cases:
  assumes "retry_law (re_offline re)" and "retry_law (re_first re)"
  obtains (Offline) j where "se_offline env j"
    "subscribe_syncing_progress env re = Inl ''Failed to connect to the network''"
  | (Asked) j k where "\<not> se_offline env j" "j < k"
    "subscribe_syncing_progress env re =
       (case first_check env k of
          Inr (target, status) \<Rightarrow> Inr (Syncing \<lparr>sp_at = se_best_number env (Suc k),
            sp_target = target, sp_status = status\<rparr> (Suc k))
        | Inl (Some e) \<Rightarrow> Inl e
        | Inl None \<Rightarrow> Inr NothingToSync)"
proof -
  obtain r n where r: "re_offline re (check_offline env) 0 = (r, n)" by force
  obtain j where j: "r = check_offline env j" "n = Suc j" by (metis retry_lawE [OF assms(1) r])
  show thesis
  proof (cases "se_offline env j")
    case True
    with r j Offline [of j] show thesis by (simp add: subscribe_syncing_progress_def check_offline_def)
  next
    case False
    obtain r' n' where r': "re_first re (first_check env) n = (r', n')" by force
    obtain k where "n \<le> k" "r' = first_check env k" "n' = Suc k" by (metis retry_lawE [OF assms(2) r'])
    with r j r' False Asked [of j k] show thesis
      by (auto simp: subscribe_syncing_progress_def check_offline_def split: sum.splits option.splits)
  qed
qed

section \<open>Properties\<close>

lemma node_sync_ends:
  assumes "retry_law (re_next re)"
    and "\<And>k. N \<le> k \<Longrightarrow> se_status env k \<in> {Inr SyncIdle, Inr SyncPending}"
  shows "\<exists>r. node_sync (Suc N) env re = Some r \<and>
    (r = Inr () \<or> (\<exists>e. r = Inl e \<and> subscribe_syncing_progress env re = Inl e))"
proof (cases "subscribe_syncing_progress env re")
  case (Inr s)
  show ?thesis
  proof (cases s)
    case (Syncing p n)
    have "\<exists>items. sync_task (Suc N) env re None n = Some items"
      using assms(2) by (intro sync_task_ends [OF assms(1), where N = N]) simp_all
    with Inr Syncing show ?thesis by (auto simp: node_sync_def sync_items_def simp del: sync_task.simps)
  qed (simp add: Inr node_sync_def sync_items_def)
qed (simp add: node_sync_def)

text \<open>C11: Waiting for the sync to end returns once there is nothing left to sync: when the service
  answers idle or pending from its \<open>N\<close>-th call on, \<open>sync\<close> returns within \<open>N + 1\<close> turns, and it
  returns an error only when the subscription itself failed.\<close>
theorem node_sync_returns:
  assumes "retry_law (re_next re)"
    and "\<And>k. N \<le> k \<Longrightarrow> se_status env k \<in> {Inr SyncIdle, Inr SyncPending}"
  shows "\<exists>r. node_sync (Suc N) env re = Some r \<and>
    (r = Inr () \<or> (\<exists>e. r = Inl e \<and> subscribe_syncing_progress env re = Inl e))"
  using assms by (rule node_sync_ends)

text \<open>A retry of three attempts, and a service that imports two blocks and then is idle.\<close>

definition three_attempts :: "('e, 'a) retry" where
  "three_attempts attempt n =
     (let k = (if is_ok (attempt n) then n else if is_ok (attempt (n + 1)) then n + 1 else n + 2)
      in (attempt k, Suc k))"

lemma three_attempts_law: "retry_law three_attempts"
  unfolding retry_law_def
proof (intro allI)
  fix attempt n
  let ?k = "if is_ok (attempt n) then n else if is_ok (attempt (Suc n)) then Suc n else Suc (Suc n)"
  have t: "three_attempts attempt n = (attempt ?k, Suc ?k)"
    unfolding three_attempts_def Let_def by simp
  have "\<not> is_ok (attempt j)" if "n \<le> j" "j < ?k" for j
  proof -
    have "j = n \<and> \<not> is_ok (attempt n) \<or> j = Suc n \<and> \<not> is_ok (attempt (Suc n))"
      using that by (auto split: if_splits)
    then show ?thesis by blast
  qed
  moreover have "n \<le> ?k" by simp
  ultimately show "\<exists>k\<ge>n. three_attempts attempt n = (attempt k, Suc k) \<and>
      (\<forall>j. n \<le> j \<and> j < k \<longrightarrow> \<not> is_ok (attempt j))"
    using t by blast
qed

definition demo_retries :: retries where
  "demo_retries = \<lparr>re_offline = three_attempts, re_first = three_attempts, re_next = three_attempts\<rparr>"

definition demo_sync_env :: sync_env where
  "demo_sync_env = \<lparr>se_status = (\<lambda>n. if n < 4 then Inr (SyncImporting 9) else Inr SyncIdle),
     se_offline = (\<lambda>_. False), se_best_number = of_nat\<rparr>"

theorem node_sync_returns_witness: "node_sync 5 demo_sync_env demo_retries = Some (Inr ())"
proof -
  have "\<exists>r. node_sync (Suc 4) demo_sync_env demo_retries = Some r \<and>
    (r = Inr () \<or> (\<exists>e. r = Inl e \<and> subscribe_syncing_progress demo_sync_env demo_retries = Inl e))"
    by (rule node_sync_returns) (simp_all add: demo_retries_def three_attempts_law demo_sync_env_def)
  moreover have "is_ok (subscribe_syncing_progress demo_sync_env demo_retries)"
    by (simp add: subscribe_syncing_progress_def demo_retries_def three_attempts_def demo_sync_env_def
        check_offline_def first_check_def is_ok_def)
  ultimately show ?thesis by (auto simp: is_ok_def split: sum.splits)
qed

text \<open>C25: Waiting for the sync never returns once the sync service is gone. When every later question
  for the status is answered with an error, as after the network worker has exited, the task sends
  an error in every turn and goes on, and \<open>sync\<close>, which looks at no item, waits for ever.\<close>
theorem node_sync_never_returns:
  assumes "retry_law (re_next re)" and "subscribe_syncing_progress env re = Inr (Syncing p n)"
    and "\<And>k. n \<le> k \<Longrightarrow> se_status env k = Inl ()"
  shows "node_sync fuel env re = None"
  using sync_task_diverges [OF assms(1,3)] assms(2) by (simp add: node_sync_def sync_items_def)

definition gone_env :: sync_env where
  "gone_env = demo_sync_env\<lparr>se_status := (\<lambda>n. if n < 2 then Inr (SyncImporting 9) else Inl ())\<rparr>"

theorem node_sync_never_returns_witness:
  "(\<forall>fuel. node_sync fuel gone_env demo_retries = None) \<and>
   is_ok (subscribe_syncing_progress gone_env demo_retries)"
proof -
  let ?p = "\<lparr>sp_at = 2, sp_target = 9, sp_status = StatusImporting\<rparr>"
  have s: "subscribe_syncing_progress gone_env demo_retries = Inr (Syncing ?p 2)"
    by (simp add: subscribe_syncing_progress_def demo_retries_def three_attempts_def demo_sync_env_def
        gone_env_def check_offline_def first_check_def is_ok_def)
  have "node_sync fuel gone_env demo_retries = None" for fuel
    by (rule node_sync_never_returns [OF _ s])
      (simp_all add: demo_retries_def three_attempts_law gone_env_def)
  with s show ?thesis by (simp add: is_ok_def)
qed

text \<open>A subscription tells the truth about the service: it fails only when the node was offline or
  the service gave no status; it is over at once only when the service answered, online, that it is
  idle or pending; and otherwise its first item has the target and the status of an answer, and the
  best block at that time.\<close>
theorem syncing_subscription_outcomes:
  assumes "retry_law (re_offline re)" and "retry_law (re_first re)"
  shows "case subscribe_syncing_progress env re of
      Inl _ \<Rightarrow> \<exists>k. se_offline env k \<or> se_status env k = Inl ()
    | Inr NothingToSync \<Rightarrow> \<exists>k. \<not> se_offline env k \<and> se_status env k \<in> {Inr SyncIdle, Inr SyncPending}
    | Inr (Syncing p n) \<Rightarrow> \<exists>k. n = Suc k \<and> sp_at p = se_best_number env n \<and>
        se_status env k = Inr (case sp_status p of StatusImporting \<Rightarrow> SyncImporting (sp_target p)
                                 | StatusDownloading \<Rightarrow> SyncDownloading (sp_target p))"
proof (rule subscribe_cases [OF assms, of env])
  fix j k
  assume "subscribe_syncing_progress env re =
       (case first_check env k of
          Inr (target, status) \<Rightarrow> Inr (Syncing \<lparr>sp_at = se_best_number env (Suc k),
            sp_target = target, sp_status = status\<rparr> (Suc k))
        | Inl (Some e) \<Rightarrow> Inl e
        | Inl None \<Rightarrow> Inr NothingToSync)"
  then show ?thesis
    by (auto simp: first_check_def split: sum.splits sync_state.splits if_splits)
qed auto

theorem syncing_subscription_outcomes_witness:
  "subscribe_syncing_progress demo_sync_env demo_retries =
     Inr (Syncing \<lparr>sp_at = 2, sp_target = 9, sp_status = StatusImporting\<rparr> 2) \<and>
   (\<exists>k. 2 = Suc k \<and> se_status demo_sync_env k = Inr (SyncImporting 9))"
proof -
  have s: "subscribe_syncing_progress demo_sync_env demo_retries =
     Inr (Syncing \<lparr>sp_at = 2, sp_target = 9, sp_status = StatusImporting\<rparr> 2)"
    by (simp add: subscribe_syncing_progress_def demo_retries_def three_attempts_def demo_sync_env_def
        check_offline_def first_check_def is_ok_def)
  have "retry_law (re_offline demo_retries)" "retry_law (re_first demo_retries)"
    by (simp_all add: demo_retries_def three_attempts_law)
  from syncing_subscription_outcomes [OF this, of demo_sync_env] s show ?thesis by auto
qed

text \<open>The size hint counts blocks, not items: after an item it is where the chain is, and it stays
  that after the end of the stream.\<close>

lemma syncing_size_hint_counts_blocks:
  "syncing_size_hint (snd (syncing_poll_next (Ready (Some (Inr p))) s)) =
     (ucast (sp_at p), Some (ucast (sp_target p))) \<and>
   syncing_size_hint (snd (syncing_poll_next (Ready None) s)) = syncing_size_hint s"
  by (simp add: syncing_size_hint_def syncing_poll_next_def)

end
