(* ===== verification/Examples.thy ===== *)
theory Examples
  imports Farmer_Build Node Node_Sync
begin

text \<open>
  The four programs under \<^verbatim>\<open>examples/\<close>, which run a node and a farmer together. A program is a
  function on the state it leaves behind: the world a farmer shares with its node, the number of
  nodes that were built and what became of their tasks, the directories that were removed, and the
  output. It gives the result of \<open>main\<close>, or nothing while it waits for something that does not
  come. What Rust drops when a scope is left is written out: \<open>or_drop\<close> drops a local when the rest
  of its scope does not complete, \<open>scope_end\<close> in any case. The programs call the definitions of the
  other theories; inputs are their arguments, the node and farmer environments, the moment of an
  interrupt, and what the shutdown of each service meets.
\<close>

section \<open>Programs\<close>

datatype message =
  Said string
| ReceivedReward u128
| VoteCounted u32
| NewBlock u32

datatype program_error = Failure string | FarmerFailure build_error

record ('rp, 'pc) program_state =
  ps_world :: "('rp, 'pc) farmer_world"
  ps_nodes :: nat
  ps_node_effects :: "node_effect list"
  ps_removed :: "path list"
  ps_output :: "message list"
  ps_aborted :: bool

type_synonym ('rp, 'pc, 'a) program =
  "('rp, 'pc) program_state \<Rightarrow>
   ((program_error, 'a) result run \<times> ('rp, 'pc) program_state) option"

definition attempt :: "(program_error, 'a) result run \<Rightarrow> ('rp, 'pc, 'a) program" where
  "attempt r s = Some (r, s)"

abbreviation compute :: "'a run \<Rightarrow> ('rp, 'pc, 'a) program" where
  "compute r \<equiv> attempt (run_bind r (\<lambda>x. Ret (Inr x)))"

abbreviation question :: "(string, 'a) result \<Rightarrow> ('rp, 'pc, 'a) program" where
  "question r \<equiv> attempt (Ret (map_err Failure r))"

definition prog_bind ::
  "('rp, 'pc, 'a) program \<Rightarrow> ('a \<Rightarrow> ('rp, 'pc, 'b) program) \<Rightarrow> ('rp, 'pc, 'b) program" where
  "prog_bind m f s =
     (case m s of
        None \<Rightarrow> None
      | Some (Ret (Inr x), s') \<Rightarrow> f x s'
      | Some (Ret (Inl e), s') \<Rightarrow> Some (Ret (Inl e), s')
      | Some (Panic p, s') \<Rightarrow> Some (Panic p, s'))"

text \<open>\<open>.unwrap()\<close> and \<open>.expect(..)\<close> on the result of a call.\<close>

definition prog_expect :: "string \<Rightarrow> ('rp, 'pc, 'a) program \<Rightarrow> ('rp, 'pc, 'a) program" where
  "prog_expect msg m s =
     (case m s of Some (Ret (Inl e), s') \<Rightarrow> Some (Panic msg, s') | r \<Rightarrow> r)"

abbreviation prog_unwrap :: "('rp, 'pc, 'a) program \<Rightarrow> ('rp, 'pc, 'a) program" where
  "prog_unwrap \<equiv> prog_expect ''called `Result::unwrap()` on an `Err` value''"

definition prog_context :: "string \<Rightarrow> ('rp, 'pc, 'a) program \<Rightarrow> ('rp, 'pc, 'a) program" where
  "prog_context msg m s =
     (case m s of Some (Ret (Inl e), s') \<Rightarrow> Some (Ret (Inl (Failure msg)), s') | r \<Rightarrow> r)"

text \<open>Leaving the scope of a local: early, and in any case.\<close>

definition or_drop ::
  "(('rp, 'pc) program_state \<Rightarrow> ('rp, 'pc) program_state) \<Rightarrow> ('rp, 'pc, 'a) program \<Rightarrow>
   ('rp, 'pc, 'a) program" where
  "or_drop d m s =
     (case m s of
        None \<Rightarrow> None
      | Some (Ret (Inr x), s') \<Rightarrow> Some (Ret (Inr x), s')
      | Some (r, s') \<Rightarrow> Some (r, d s'))"

definition scope_end ::
  "(('rp, 'pc) program_state \<Rightarrow> ('rp, 'pc) program_state) \<Rightarrow> ('rp, 'pc, 'a) program \<Rightarrow>
   ('rp, 'pc, 'a) program" where
  "scope_end d m s = map_option (map_prod id d) (m s)"

definition say :: "message list \<Rightarrow> ('rp, 'pc, unit) program" where
  "say out s = Some (Ret (Inr ()), s\<lparr>ps_output := ps_output s @ out\<rparr>)"

section \<open>Nodes and farmers of a program\<close>

text \<open>
  \<open>start_node r\<close> is the call of \<open>Builder::build\<close> with result \<open>r\<close>: the slots of the new node are
  those that a farmer built on it publishes to.
\<close>

definition start_node where
  "start_node r s =
     Some (case r of
        Ret (Inr (n, tasks)) \<Rightarrow>
          (Ret (Inr n), s\<lparr>ps_world := (ps_world s)\<lparr>fw_slots := shared_slots (nd_dsn n)\<rparr>,
                           ps_nodes := Suc (ps_nodes s)\<rparr>)
      | Ret (Inl e) \<Rightarrow> (Ret (Inl (Failure e)), s)
      | Panic m \<Rightarrow> (Panic m, s))"

text \<open>A farmer build in the current world; a panic while a failed build unwinds aborts.\<close>

definition start_farmer where
  "start_farmer build s =
     Some (case build (ps_world s) of
        (r, Panic m) \<Rightarrow> (Panic m, s\<lparr>ps_aborted := True\<rparr>)
      | (Ret (Inr f), Ret w) \<Rightarrow> (Ret (Inr f), s\<lparr>ps_world := w\<rparr>)
      | (Ret (Inl e), Ret w) \<Rightarrow> (Ret (Inl (FarmerFailure e)), s\<lparr>ps_world := w\<rparr>)
      | (Panic m, Ret w) \<Rightarrow> (Panic m, s\<lparr>ps_world := w\<rparr>))"

text \<open>What a shutdown meets: tasks that have panicked, and what the result channels deliver.\<close>

record ('v, 'r) shutdown =
  sh_domain_dead :: "domain_label \<Rightarrow> bool"
  sh_manager_dead :: bool
  sh_farmer_dead :: "farmer_task \<Rightarrow> bool"
  sh_domain_received :: "(string, (unit, string) task_output) result option"
  sh_manager_received :: "(string, (unit, string) task_output) result option"
  sh_farmer_received :: "(string, ('v, 'r) task_output) result list option"

definition stop_node where
  "stop_node sh n s =
     Some (case node_close_joins (sh_domain_dead sh) (sh_manager_dead sh)
             (map_option (\<lambda>(d, _). domain_destructors d) (nd_maybe_domain n)) (sh_domain_received sh)
             (nd_destructors n) (sh_manager_received sh) of
        Panic m \<Rightarrow> (Panic m, s\<lparr>ps_aborted := True\<rparr>)
      | Ret (es, r) \<Rightarrow>
          (run_bind r (\<lambda>x. Ret (map_err Failure x)),
           s\<lparr>ps_node_effects := ps_node_effects s @ es\<rparr>))"

definition stop_farmer where
  "stop_farmer sh f s =
     (case farmer_close_joins (sh_farmer_dead sh) f (sh_farmer_received sh) (ps_world s) of
        (r, w) \<Rightarrow> Some (run_bind r (\<lambda>x. Ret (map_err Failure x)), s\<lparr>ps_world := w\<rparr>))"

text \<open>Implicit drops: of a node, whose own destructors are declared before its domain, and of a
  farmer.\<close>

definition drop_node where
  "drop_node n s =
     (case run_bind (ds_drop (nd_destructors n)) (\<lambda>es.
             run_bind (case nd_maybe_domain n of None \<Rightarrow> Ret []
               | Some (d, _) \<Rightarrow> ds_drop (domain_destructors d)) (\<lambda>des.
               Ret (map NodeEffect es @ map DomainEffect des))) of
        Panic m \<Rightarrow> s\<lparr>ps_aborted := True\<rparr>
      | Ret es \<Rightarrow> s\<lparr>ps_node_effects := ps_node_effects s @ es\<rparr>)"

definition drop_farmer where
  "drop_farmer f s =
     (case ds_drop (fr_destructors f) of
        Panic m \<Rightarrow> s\<lparr>ps_aborted := True\<rparr>
      | Ret es \<Rightarrow> s\<lparr>ps_world := farmer_effects es (ps_world s)\<rparr>)"

text \<open>A farm description, as the farmer build reads it.\<close>

definition farm_arg :: "'bs bytesize_crate \<Rightarrow> 'bs farm_description \<Rightarrow> path \<times> u64" where
  "farm_arg crate d = (fd_directory d, bs_to_u64 crate (fd_space_pledged d))"

text \<open>\<open>iter_farms().await.next().unwrap()\<close>.\<close>

definition first_farm where
  "first_farm walk f =
     compute (expect ''called `Option::unwrap()` on a `None` value''
       (case farmer_iter_farms walk f of [] \<Rightarrow> None | fm # _ \<Rightarrow> Some fm))"

text \<open>The wait for \<open>sync\<close>, which may not return.\<close>

definition await_sync :: "(string, unit) result option \<Rightarrow> ('rp, 'pc, unit) program" where
  "await_sync r s = map_option (\<lambda>x. (Ret (map_err Failure x), s)) r"

text \<open>The heads of a stream are converted one by one while they are logged.\<close>

fun log_heads :: "('hash, 'pd) block_header run list \<Rightarrow> ('rp, 'pc, unit) program" where
  "log_heads [] = attempt (Ret (Inr ()))"
| "log_heads (h # hs) =
     prog_bind (compute h) (\<lambda>b. prog_bind (say [NewBlock (bh_number b)]) (\<lambda>_. log_heads hs))"

section \<open>The miniature farmer\<close>

datatype chain = Gemini3f | Devnet | Dev

record 'bs mini_args =
  ma_chain :: chain
  ma_reward_address :: public_key
  ma_base_path :: "path option"
  ma_plot_size :: "'bs byte_size"
  ma_cache_size :: "'bs byte_size"

definition mini_node_builder ::
  "(string \<Rightarrow> 'ma option) \<Rightarrow> path \<Rightarrow> chain \<Rightarrow> ('ma, 'mp, 'bs, 'dom) node_builder run" where
  "mini_node_builder parse node_dir chain =
     run_bind (case chain of
         Gemini3f \<Rightarrow> run_bind (node_gemini_3g parse) (\<lambda>b.
           run_bind (dsn_gemini_3g parse) (\<lambda>d. Ret (b, d)))
       | Devnet \<Rightarrow> run_bind (node_devnet parse) (\<lambda>b.
           run_bind (dsn_devnet parse) (\<lambda>d. Ret (b, d)))
       | Dev \<Rightarrow> run_bind (node_dev parse) (\<lambda>b. Ret (b, dsn_dev))) (\<lambda>(b, d).
     run_bind (dsn_build parse
         (d\<lparr>db_provider_storage_path := Some (Some (join node_dir ''provider_storage''))\<rparr>)) (\<lambda>dsn.
       Ret (derive_base (SetRole Authority) (b\<lparr>nb_dsn := Some dsn\<rparr>))))"

text \<open>\<open>dev\<close> is \<open>dev_config()\<close>; the two public chains are embedded as JSON.\<close>

definition mini_chain_spec ::
  "(string \<Rightarrow> (string, 'spec) result) \<Rightarrow> string \<Rightarrow> string \<Rightarrow> 'spec run \<Rightarrow> chain \<Rightarrow> 'spec run" where
  "mini_chain_spec from_json gemini_json devnet_json dev chain =
     (case chain of
        Gemini3f \<Rightarrow> embedded_chain_spec from_json gemini_json
      | Devnet \<Rightarrow> embedded_chain_spec from_json devnet_json
      | Dev \<Rightarrow> dev)"

text \<open>The first \<open>select!\<close>: the end of the sync, or the interrupt when it comes first. The result
  tells whether to go on.\<close>

definition mini_sync ::
  "chain \<Rightarrow> bool \<Rightarrow> (string, unit) result option \<Rightarrow> ('rp, 'pc, bool) program" where
  "mini_sync chain interrupted synced =
     (if interrupted then prog_bind (say [Said ''Exitting...'']) (\<lambda>_. attempt (Ret (Inr False)))
      else prog_bind (await_sync (if chain = Dev then Some (Inr ()) else synced)) (\<lambda>_.
        prog_bind (say [Said ''Node was synced!'']) (\<lambda>_. attempt (Ret (Inr True)))))"

text \<open>The events of the runtime that are matched on.\<close>

datatype runtime_event =
  VoteReward u128 account_id32
| BlockReward u128 account_id32
| FarmerVote account_id32 u32
| OtherEvent

definition event_message :: "public_key \<Rightarrow> runtime_event \<Rightarrow> message list" where
  "event_message reward_address event =
     (case event of
        VoteReward reward author \<Rightarrow>
          if author = account_from_public_key reward_address then [ReceivedReward reward] else []
      | BlockReward reward author \<Rightarrow>
          if author = account_from_public_key reward_address then [ReceivedReward reward] else []
      | FarmerVote author block_number \<Rightarrow>
          if author = account_from_public_key reward_address then [VoteCounted block_number] else []
      | OtherEvent \<Rightarrow> [])"

definition authored_message ::
  "('pd \<Rightarrow> public_key) \<Rightarrow> public_key \<Rightarrow> ('hash, 'pd) block_header \<Rightarrow> message list" where
  "authored_message solution_reward_address reward_address header =
     (case bh_pre_digest header of
        None \<Rightarrow> []
      | Some pre_digest \<Rightarrow>
          if solution_reward_address pre_digest = reward_address then [Said ''We authored a block'']
          else [])"

text \<open>\<open>rewards_sub\<close> over the heads that arrive before the stream ends or the interrupt comes.\<close>

fun rewards_loop ::
  "('hash option \<Rightarrow> (string, runtime_event list) result) \<Rightarrow> ('pd \<Rightarrow> public_key) \<Rightarrow> public_key \<Rightarrow>
   ('hash, 'pd) block_header run list \<Rightarrow> ('rp, 'pc, unit) program" where
  "rewards_loop get_events sra reward [] = attempt (Ret (Inr ()))"
| "rewards_loop get_events sra reward (h # hs) =
     prog_bind (compute h) (\<lambda>header.
     prog_bind (question (get_events (Some (bh_hash header)))) (\<lambda>events.
     prog_bind (say (concat (map (event_message reward) events))) (\<lambda>_.
     prog_bind (say (authored_message sra reward header)) (\<lambda>_.
       rewards_loop get_events sra reward hs))))"

text \<open>The second \<open>select!\<close> ignores the result of \<open>rewards_sub\<close>; only a panic gets through.\<close>

definition mini_rewards where
  "mini_rewards get_events sra reward finalized_heads interrupt s =
     (case prog_bind (question finalized_heads) (\<lambda>heads. rewards_loop get_events sra reward
             (case interrupt of None \<Rightarrow> heads | Some k \<Rightarrow> take k heads)) s of
        None \<Rightarrow> None
      | Some (Panic m, s') \<Rightarrow> Some (Panic m, s')
      | Some (_, s') \<Rightarrow>
          Some (Ret (Inr ()),
            if interrupt = None then s' else s'\<lparr>ps_output := ps_output s' @ [Said ''Exitting...'']\<rparr>))"

text \<open>The guard of the temporary directory removes it when \<open>main\<close> is left.\<close>

definition drop_tmp_dir ::
  "path option \<Rightarrow> ('rp, 'pc) program_state \<Rightarrow> ('rp, 'pc) program_state" where
  "drop_tmp_dir tmp s =
     (case tmp of None \<Rightarrow> s | Some p \<Rightarrow> s\<lparr>ps_removed := ps_removed s @ [p]\<rparr>)"

definition mini_base_path ::
  "(string, path) result \<Rightarrow> path option \<Rightarrow> (path \<times> path option) run" where
  "mini_base_path tempdir base_path =
     (case base_path of
        Some x \<Rightarrow> Ret (x, None)
      | None \<Rightarrow> run_bind (expect_ok ''Failed to create temporary directory'' tempdir)
          (\<lambda>tmp. Ret (tmp, Some tmp)))"

text \<open>From the built node on. The farmer takes the node's name, one farm and one percent for the
  cache; the requested cache size is not used.\<close>

definition mini_run where
  "mini_run crate build_farmer walk get_events sra finalized_heads interrupt sh args base n =
     prog_bind (or_drop (drop_node n) (start_farmer (build_farmer farmer_builder_new
         (ma_reward_address args) (nd_name n)
         [farm_arg crate (farm_description_new (join base ''plot'') (ma_plot_size args))] 1))) (\<lambda>f.
     prog_bind (or_drop (\<lambda>s. drop_node n (drop_farmer f s))
         (prog_bind (first_farm walk f) (\<lambda>_.
            mini_rewards get_events sra (ma_reward_address args) finalized_heads interrupt))) (\<lambda>_.
     prog_bind (or_drop (drop_farmer f) (prog_context ''Failed to close node'' (stop_node sh n))) (\<lambda>_.
       prog_context ''Failed to close farmer'' (stop_farmer sh f))))"

definition mini_farmer where
  "mini_farmer e parse crate chain_spec build_node build_farmer walk tempdir
       sync_interrupted synced get_events sra finalized_heads interrupt sh args =
     prog_bind (compute (mini_base_path tempdir (ma_base_path args))) (\<lambda>(base, tmp).
     scope_end (drop_tmp_dir tmp)
       (prog_bind (compute (mini_node_builder parse (join base ''node'') (ma_chain args))) (\<lambda>b.
        prog_bind (compute (chain_spec (ma_chain args))) (\<lambda>spec.
        prog_bind (start_node (node_builder_build e parse build_node b (join base ''node'') spec)) (\<lambda>n.
        prog_bind (or_drop (drop_node n) (mini_sync (ma_chain args) sync_interrupted synced))
          (\<lambda>go_on.
            if go_on
            then mini_run crate build_farmer walk get_events sra finalized_heads interrupt sh args base n
            else prog_context ''Failed to close node'' (stop_node sh n)))))))"

section \<open>The complete example\<close>

text \<open>
  Two rounds of a node and a farmer over the same directories; the functions of the round number
  are what each round meets. \<open>node_info\<close> and \<open>farmer_info\<close> are the answers to the two queries,
  \<open>new_heads\<close> that to the subscription.
\<close>

definition complete_node_builder :: "nat \<Rightarrow> ('ma, 'mp, 'bs, 'dom) node_builder" where
  "complete_node_builder i =
     (let pruned = derive_base (SetStatePruning ArchiveCanonical)
            (derive_base (SetBlocksPruning (KeepSome 1000)) node_builder_new)
      in if i = 0
         then derive_base (SetNetwork (network_build
                (network_builder_new\<lparr>nb_name := Some (Some ''i1i1'')\<rparr>))) pruned
         else pruned)"

definition complete_plots :: "'bs bytesize_crate \<Rightarrow> 'bs farm_description list" where
  "complete_plots crate = [farm_description_new [''plot''] (bs_gb crate 10)]"

definition complete_open where
  "complete_open e parse crate dev_spec build_node build_farmer synced (i :: nat) =
     prog_bind (compute dev_spec) (\<lambda>spec.
     prog_bind (prog_expect ''Failed to init a node'' (start_node
         (node_builder_build e parse (build_node i) (complete_node_builder i) [''node''] spec))) (\<lambda>n.
     prog_bind (or_drop (drop_node n) (prog_unwrap (await_sync (synced i)))) (\<lambda>_.
     prog_bind (or_drop (drop_node n) (prog_expect ''Failed to init a farmer'' (start_farmer
         (build_farmer i farmer_builder_new (public_key_new (replicate 32 0)) (nd_name n)
           (map (farm_arg crate) (complete_plots crate)) 1)))) (\<lambda>f.
       attempt (Ret (Inr (n, f)))))))"

definition complete_close where
  "complete_close sh n f =
     prog_bind (or_drop (drop_node n) (prog_unwrap (stop_farmer sh f))) (\<lambda>_.
       prog_unwrap (stop_node sh n))"

text \<open>The directories that are gone, after the removal of one that may fail.\<close>

definition remove_dir ::
  "(path \<Rightarrow> (string, unit) result) \<Rightarrow> path \<Rightarrow> path list \<Rightarrow> (string, unit) result \<times> path list" where
  "remove_dir remove_dir_all p removed =
     (case remove_dir_all p of Inl e \<Rightarrow> (Inl e, removed) | Inr _ \<Rightarrow> (Inr (), removed @ [p]))"

definition on_disk ::
  "(path list \<Rightarrow> (string, 'a) result \<times> path list) \<Rightarrow> ('rp, 'pc, 'a) program" where
  "on_disk f s =
     (case f (ps_removed s) of
        (r, removed) \<Rightarrow> Some (Ret (map_err Failure r), s\<lparr>ps_removed := removed\<rparr>))"

fun wipe_plots :: "(path \<Rightarrow> (string, unit) result) \<Rightarrow> 'bs farm_description list \<Rightarrow> ('rp, 'pc, unit) program" where
  "wipe_plots remove_dir_all [] = attempt (Ret (Inr ()))"
| "wipe_plots remove_dir_all (plot # plots) =
     prog_bind (prog_unwrap (on_disk (farm_description_wipe (remove_dir remove_dir_all) plot))) (\<lambda>_.
       wipe_plots remove_dir_all plots)"

definition complete where
  "complete e parse crate dev_spec build_node build_farmer synced walk new_heads node_info farmer_info
       sh remove_dir_all =
     prog_bind (complete_open e parse crate dev_spec build_node build_farmer synced 0) (\<lambda>(n, f).
     prog_bind (or_drop (\<lambda>s. drop_node n (drop_farmer f s))
         (prog_bind (first_farm walk f) (\<lambda>_.
          prog_bind (prog_unwrap (question new_heads)) (\<lambda>_.
          prog_bind (prog_unwrap (question node_info)) (\<lambda>_.
            prog_unwrap (question farmer_info)))))) (\<lambda>_.
     prog_bind (complete_close (sh 0) n f) (\<lambda>_.
     prog_bind (complete_open e parse crate dev_spec build_node build_farmer synced (Suc 0)) (\<lambda>(n', f').
     prog_bind (complete_close (sh (Suc 0)) n' f') (\<lambda>_.
     prog_bind (wipe_plots remove_dir_all (complete_plots crate)) (\<lambda>_.
       prog_unwrap (on_disk (remove_dir (node_wipe remove_dir_all) [''node'']))))))))"

section \<open>The simple example\<close>

text \<open>
  \<open>while plotting_progress.next().await.is_some() {}\<close>: what the watch channel of the farm yields,
  until the stream ends. A list that runs out before that is a wait without end.
\<close>

fun drain_progress ::
  "overflow_checks \<Rightarrow> 'v option list \<Rightarrow> plotting_stream \<Rightarrow> initial_plotting_progress \<Rightarrow>
   initial_plotting_progress run option" where
  "drain_progress mode vs Finished shared = Some (Ret shared)"
| "drain_progress mode [] (Watching st) shared = None"
| "drain_progress mode (v # vs) (Watching st) shared =
     (case progress_poll mode (Ready v) st shared of
        Panic m \<Rightarrow> Some (Panic m)
      | Ret (Ready None, st', shared') \<Rightarrow> Some (Ret shared')
      | Ret (_, st', shared') \<Rightarrow> drain_progress mode vs (Watching st') shared')"

text \<open>The wait for the initial plotting of every farm; \<open>watched\<close> is what each farm reports.\<close>

fun await_plotting where
  "await_plotting mode watched [] = attempt (Ret (Inr ()))"
| "await_plotting mode watched (fm # fms) =
     prog_bind (\<lambda>s. case drain_progress mode (watched (farm_directory fm))
             (subscribe_initial_plotting_progress (farm_initial_plotting_progress fm))
             (farm_initial_plotting_progress fm) of
           None \<Rightarrow> None
         | Some r \<Rightarrow> compute r s) (\<lambda>_. await_plotting mode watched fms)"

definition authority_builder :: "('ma, 'mp, 'bs, 'dom) node_builder" where
  "authority_builder = derive_base (SetRole Authority) (derive_base (SetForceAuthoring True) node_builder_new)"

definition simple where
  "simple mode e parse crate dev_spec build_node build_farmer walk watched new_heads =
     prog_bind (compute dev_spec) (\<lambda>spec.
     prog_bind (prog_unwrap (start_node
         (node_builder_build e parse build_node authority_builder [''node''] spec))) (\<lambda>n.
     scope_end (drop_node n)
       (prog_bind (prog_expect ''Failed to init a farmer'' (start_farmer (build_farmer farmer_builder_new
           (public_key_new (replicate 32 0)) (nd_name n)
           [farm_arg crate (farm_description_new [''plot''] (bs_mb crate 100))] 1))) (\<lambda>f.
        scope_end (drop_farmer f)
          (prog_bind (await_plotting mode watched (farmer_iter_farms walk f)) (\<lambda>_.
           prog_bind (say [Said ''Initial plotting completed'']) (\<lambda>_.
           prog_bind (prog_unwrap (question new_heads)) (\<lambda>heads. log_heads (take 10 heads)))))))))"

section \<open>The sync example\<close>

datatype ('bs, 'mp) sync_args =
  ArgsFarm path "'bs byte_size" path path
| ArgsSync "'mp list" path
| ArgsGenerateSpec path

text \<open>Nine tenths of the given size for the plot; the last tenth is set aside for a cache.\<close>

definition split_plot_size ::
  "overflow_checks \<Rightarrow> 'bs bytesize_crate \<Rightarrow> 'bs byte_size \<Rightarrow> ('bs byte_size \<times> 'bs byte_size) run" where
  "split_plot_size mode crate plot_size =
     run_bind (mul_arith mode (bs_to_u64 crate plot_size) 9) (\<lambda>p.
     run_bind (div_arith p 10) (\<lambda>plot.
     run_bind (div_arith (bs_to_u64 crate plot_size) 10) (\<lambda>cache.
       Ret (bs_b crate plot, bs_b crate cache))))"

definition sync_farm where
  "sync_farm mode e parse crate read_spec build_node build_farmer listen_addresses new_heads
       plot plot_size node spec =
     prog_bind (question (read_spec spec)) (\<lambda>chain_spec.
     prog_bind (compute (split_plot_size mode crate plot_size)) (\<lambda>(plot_size, _).
     prog_bind (compute (expect ''called `Result::unwrap()` on an `Err` value''
         (parse ''/ip4/127.0.0.1/tcp/0''))) (\<lambda>addr.
     prog_bind (start_node (node_builder_build e parse build_node
         (derive_base (SetRole Authority) (derive_base (SetForceAuthoring True)
           (derive_base (SetNetwork (network_build (network_builder_new
             \<lparr>nb_listen_addresses := Some [addr], nb_force_synced := Some True\<rparr>))) node_builder_new)))
         node chain_spec)) (\<lambda>n.
     scope_end (drop_node n)
       (prog_bind (start_farmer (build_farmer farmer_builder_new (public_key_new (replicate 32 13))
           (nd_name n) [farm_arg crate (farm_description_new (join plot ''plot'') plot_size)] 1)) (\<lambda>f.
        scope_end (drop_farmer f)
          (prog_bind (compute listen_addresses) (\<lambda>addrs.
           prog_bind (question addrs) (\<lambda>addrs.
           prog_bind (compute (expect ''called `Option::unwrap()` on a `None` value''
             (case addrs of [] \<Rightarrow> None | a # _ \<Rightarrow> Some a))) (\<lambda>_.
           prog_bind (say [Said ''Node listening at'']) (\<lambda>_.
           prog_bind (question new_heads) log_heads)))))))))))"

definition sync_sync where
  "sync_sync e parse read_spec build_node tempdir synced new_heads boot_nodes spec =
     prog_bind (question tempdir) (\<lambda>tmp.
     scope_end (drop_tmp_dir (Some tmp))
       (prog_bind (question (read_spec spec)) (\<lambda>chain_spec.
        prog_bind (start_node (node_builder_build e parse build_node
            (derive_base (SetNetwork (network_build (network_builder_new
               \<lparr>nb_boot_nodes := Some boot_nodes\<rparr>))) authority_builder) tmp chain_spec)) (\<lambda>n.
        scope_end (drop_node n)
          (prog_bind (prog_unwrap (await_sync synced)) (\<lambda>_.
           prog_bind (say [Said ''Node was synced!'']) (\<lambda>_.
           prog_bind (question new_heads) log_heads)))))))"

definition sync_main where
  "sync_main mode e parse crate dev_spec to_json write_file read_spec build_node build_farmer
       listen_addresses tempdir synced new_heads args =
     (case args of
        ArgsGenerateSpec path \<Rightarrow>
          prog_bind (compute dev_spec) (\<lambda>spec.
          prog_bind (question (to_json spec)) (\<lambda>json. question (write_file path json)))
      | ArgsFarm plot plot_size node spec \<Rightarrow>
          sync_farm mode e parse crate read_spec build_node build_farmer listen_addresses new_heads
            plot plot_size node spec
      | ArgsSync boot_nodes spec \<Rightarrow>
          sync_sync e parse read_spec build_node tempdir synced new_heads boot_nodes spec)"

end
