(* ===== verification/Examples_Logic.thy ===== *)
theory Examples_Logic
  imports Examples
begin

text \<open>
  A logic of the programs of \<open>Examples\<close>. A triple says what holds after a program from a state that
  satisfies its precondition, once for a normal end and once for an error or a panic. The assertion
  \<open>owns\<close> says which node and which farmer a program holds at a point; there is one rule per operation,
  and the locale \<open>sdk_services\<close> states what the programs rely on of the two \<open>build\<close> functions.
  Inside it every program is shown to end owning nothing, whichever way it ends.
\<close>

section \<open>A logic of programs\<close>

definition triple ::
  "(('rp, 'pc) program_state \<Rightarrow> bool) \<Rightarrow> ('rp, 'pc, 'a) program \<Rightarrow>
   ('a \<Rightarrow> ('rp, 'pc) program_state \<Rightarrow> bool) \<Rightarrow> (('rp, 'pc) program_state \<Rightarrow> bool) \<Rightarrow> bool" where
  "triple P m Q E \<longleftrightarrow>
     (\<forall>s r s'. P s \<longrightarrow> m s = Some (r, s') \<longrightarrow> (case r of Ret (Inr x) \<Rightarrow> Q x s' | _ \<Rightarrow> E s'))"

lemma tripleD: "triple P m Q E \<Longrightarrow> P s \<Longrightarrow> m s = Some (Ret (Inr x), s') \<Longrightarrow> Q x s'"
  by (fastforce simp: triple_def)

lemma triple_bind:
  "triple P m Q E \<Longrightarrow> (\<And>x. triple (Q x) (f x) R E) \<Longrightarrow> triple P (prog_bind m f) R E"
  unfolding triple_def prog_bind_def
  by (fastforce split: option.splits prod.splits run.splits sum.splits)

lemma triple_or_drop:
  "triple P m Q F \<Longrightarrow> (\<And>s. F s \<Longrightarrow> E (d s)) \<Longrightarrow> triple P (or_drop d m) Q E"
  unfolding triple_def or_drop_def
  by (fastforce split: option.splits prod.splits run.splits sum.splits)

lemma triple_scope_end:
  "triple P m Q F \<Longrightarrow> (\<And>x s. Q x s \<Longrightarrow> R x (d s)) \<Longrightarrow> (\<And>s. F s \<Longrightarrow> E (d s)) \<Longrightarrow>
   triple P (scope_end d m) R E"
  unfolding triple_def scope_end_def by (fastforce split: run.splits sum.splits)

lemma triple_if:
  "(b \<Longrightarrow> triple P m Q E) \<Longrightarrow> (\<not> b \<Longrightarrow> triple P m' Q E) \<Longrightarrow> triple P (if b then m else m') Q E"
  by simp

lemma triple_prod: "(\<And>a b. triple P (f a b) Q E) \<Longrightarrow> triple P (case x of (a, b) \<Rightarrow> f a b) Q E"
  by (cases x) simp

lemma triple_expect: "triple P m Q E \<Longrightarrow> triple P (prog_expect msg m) Q E"
  unfolding triple_def prog_expect_def
  by (fastforce split: option.splits prod.splits run.splits sum.splits)

lemma triple_context: "triple P m Q E \<Longrightarrow> triple P (prog_context msg m) Q E"
  unfolding triple_def prog_context_def
  by (fastforce split: option.splits prod.splits run.splits sum.splits)

lemma triple_prod2:
  "(\<And>a b. triple (P a b) (f a b) Q E) \<Longrightarrow>
   triple (case x of (a, b) \<Rightarrow> P a b) (case x of (a, b) \<Rightarrow> f a b) Q E"
  by (cases x) simp

lemmas triple_rules = triple_bind triple_or_drop triple_expect triple_context triple_if
  triple_prod

text \<open>How many nodes have been told to stop.\<close>

definition stops :: "node_effect list \<Rightarrow> nat" where
  "stops es = length (filter (\<lambda>e. e = NodeEffect (Awaited AwaitTaskManager) \<or>
     e = NodeEffect (DroppedFuture AwaitTaskManager)) es)"

text \<open>
  What a program holds at a point: the destructor sets of a node and of its domain, and those of a
  farmer. With \<open>q\<close> no task of an earlier farmer is running.
\<close>

type_synonym node_sets = "node_label destructor_set \<times> domain_label destructor_set option"

definition sets_of ::
  "('client, 'net, 'sync, 'rpc, 'dnode, 'rp, 'pc, 'mp, 'data, 'cfg, 'drpc) node \<Rightarrow> node_sets" where
  "sets_of n = (nd_destructors n, map_option (\<lambda>(d, _). domain_destructors d) (nd_maybe_domain n))"

definition node_ready :: "node_sets \<Rightarrow> bool" where
  "node_ready n \<longleftrightarrow> (\<exists>nm. add_async_destructor AwaitTaskManager (ds_new nm) = Inr (fst n)) \<and>
     (\<forall>d. snd n = Some d \<longrightarrow> ds_wf d \<and> allow_async d \<and>
        entries d = [AsyncE AwaitBootstrapper, AsyncE AwaitRunner])"

definition farm_world :: "bool \<Rightarrow> farmer_label destructor_set \<Rightarrow> ('rp, 'pc) farmer_world \<Rightarrow> bool" where
  "farm_world q f w \<longleftrightarrow>
     (\<exists>w0 k rp pc. clean w0 \<and> (q \<longrightarrow> fw_running w0 = {}) \<and> w = built_world k rp pc w0 \<and>
        live f \<and> entries f = build_entries k)"

definition owns ::
  "bool \<Rightarrow> node_sets option \<Rightarrow> farmer_label destructor_set option \<Rightarrow> ('rp, 'pc) program_state \<Rightarrow> bool" where
  "owns q no fo s \<longleftrightarrow> \<not> ps_aborted s \<and>
     ps_nodes s = stops (ps_node_effects s) + (case no of None \<Rightarrow> 0 | Some n \<Rightarrow> 1) \<and>
     (case no of None \<Rightarrow> True | Some n \<Rightarrow> node_ready n) \<and>
     (case fo of None \<Rightarrow> clean (ps_world s) \<and> (q \<longrightarrow> fw_running (ps_world s) = {})
      | Some f \<Rightarrow> farm_world q f (ps_world s))"

lemma owns_weaken: "owns q no fo s \<Longrightarrow> owns False no fo s"
  by (auto simp: owns_def farm_world_def split: option.splits)

lemma stops_append [simp]: "stops (xs @ ys) = stops xs + stops ys"
  by (simp add: stops_def)

lemma stops_domain [simp]: "stops (map DomainEffect des) = 0"
  by (simp add: stops_def filter_empty_conv)

lemma stops_single [simp]:
  "stops (NodeEffect (Awaited AwaitTaskManager) # es) = Suc (stops es)"
  "stops (NodeEffect (DroppedFuture AwaitTaskManager) # es) = Suc (stops es)" "stops [] = 0"
  by (simp_all add: stops_def)

lemma drop_node_owns:
  assumes "owns q (Some (sets_of n)) fo s"
  shows "owns q None fo (drop_node n s)"
proof -
  obtain nm where "add_async_destructor AwaitTaskManager (ds_new nm) = Inr (nd_destructors n)"
    using assms by (auto simp: owns_def node_ready_def sets_of_def)
  note d = await_task_manager_set [OF this]
  obtain des where des: "(case nd_maybe_domain n of None \<Rightarrow> Ret []
      | Some (d, _) \<Rightarrow> ds_drop (domain_destructors d)) = Ret des"
  proof (cases "nd_maybe_domain n")
    case (Some x)
    then have "ds_wf (domain_destructors (fst x))"
      using assms by (auto simp: owns_def node_ready_def sets_of_def split_beta)
    with Some dset.drop_view that show ?thesis by (cases x) auto
  qed auto
  show ?thesis
    using assms by (simp add: owns_def drop_node_def d des split: option.splits)
qed

lemma drop_farmer_owns:
  assumes "owns q no (Some (fr_destructors f)) s"
  shows "owns False no None (drop_farmer f s)"
proof -
  obtain w0 k rp pc where w: "clean w0" "ps_world s = built_world k rp pc w0"
    and d: "live (fr_destructors f)" "entries (fr_destructors f) = build_entries k"
    using assms by (auto simp: owns_def farm_world_def)
  have "ds_drop (fr_destructors f) = Ret (map (effect_of DroppedFuture) (rev (build_entries k)))"
    using dset.drop_view [of "fr_destructors f"] d by simp
  then show ?thesis
    using assms dropped_farmer_world [OF w(1), of k rp pc] by (simp add: owns_def drop_farmer_def w(2))
qed

lemma stop_farmer_triple:
  "triple (owns q no (Some (fr_destructors f))) (stop_farmer sh f) (\<lambda>_. owns q no None) (owns False no None)"
  unfolding triple_def
proof (intro allI impI)
  fix s r s'
  assume o: "owns q no (Some (fr_destructors f)) s" and m: "stop_farmer sh f s = Some (r, s')"
  obtain w0 k rp pc where w: "clean w0" "q \<longrightarrow> fw_running w0 = {}" "ps_world s = built_world k rp pc w0"
    and d: "live (fr_destructors f)" "entries (fr_destructors f) = build_entries k"
    using o by (auto simp: owns_def farm_world_def)
  let ?w = "farmer_effects (joins_effects (sh_farmer_dead sh) k) (built_world k rp pc w0)"
  have s': "s' = s\<lparr>ps_world := ?w\<rparr>"
    and r: "r = run_bind (try_bind (joins_outcome (sh_farmer_dead sh)) (\<lambda>_. run_bind
      (expect ''Handle is always there'' (sh_farmer_received sh)) (\<lambda>ms. Ret (drain_results ms))))
        (\<lambda>x. Ret (map_err Failure x))"
    using m by (simp_all add: stop_farmer_def farmer_close_joins_def async_drop_joins_built [OF d] w(3))
  have c: "owns False no None s'"
    using o joins_effects_world(1) [OF w(1), of "sh_farmer_dead sh" k rp pc] by (simp add: owns_def s')
  have "owns q no None s'" if "r = Ret (Inr x)" for x
  proof -
    have "\<not> sh_farmer_dead sh FarmDriver" "\<not> sh_farmer_dead sh PlottingDelayTask"
      using that by (auto simp: r joins_outcome_def split: if_splits)
    then show ?thesis
      using c joins_effects_world(2) [OF w(1), of "sh_farmer_dead sh" k rp pc] w(2)
      by (simp add: owns_def s')
  qed
  with c show "case r of Ret (Inr x) \<Rightarrow> owns q no None s' | _ \<Rightarrow> owns False no None s'"
    by (auto split: run.splits sum.splits)
qed

lemma stop_node_owns:
  assumes "owns q (Some (sets_of n)) fo s"
  shows "\<exists>r s'. stop_node sh n s = Some (r, s') \<and> owns q None fo s'"
proof -
  let ?md = "map_option (\<lambda>(d, _). domain_destructors d) (nd_maybe_domain n)"
  obtain nm where d: "add_async_destructor AwaitTaskManager (ds_new nm) = Inr (nd_destructors n)"
    using assms by (auto simp: owns_def node_ready_def sets_of_def)
  obtain des dr where dr: "(case ?md of None \<Rightarrow> Ret ([], Ret (Inr ()))
      | Some d \<Rightarrow> domain_close_joins (sh_domain_dead sh) d (sh_domain_received sh)) = Ret (des, dr)"
  proof (cases ?md)
    case (Some d)
    then have "ds_wf d" "allow_async d"
      using assms by (auto simp: owns_def node_ready_def sets_of_def)
    then obtain es r where "async_drop_joins (\<lambda>l. if sh_domain_dead sh l then Some domain_join_message
        else None) d = Ret (es, r)"
      using dset.joins_release_all [of d] by blast
    with Some that show ?thesis by (auto simp: domain_close_joins_def)
  qed auto
  have "\<exists>es r. node_close_joins (sh_domain_dead sh) (sh_manager_dead sh) ?md (sh_domain_received sh)
      (nd_destructors n) (sh_manager_received sh) = Ret (es, r) \<and> stops es = 1"
    unfolding node_close_joins_def dr
    using await_task_manager_set [OF d] await_task_manager_joins [OF d]
    by (auto split: run.splits sum.splits)
  then obtain es r where "node_close_joins (sh_domain_dead sh) (sh_manager_dead sh) ?md
      (sh_domain_received sh) (nd_destructors n) (sh_manager_received sh) = Ret (es, r)" "stops es = 1" by blast
  with assms show ?thesis by (simp add: stop_node_def owns_def split: option.splits)
qed

lemma stop_node_triple:
  "triple (owns q (Some (sets_of n)) fo) (stop_node sh n) (\<lambda>_. owns q None fo) (owns False None fo)"
  unfolding triple_def
proof (intro allI impI)
  fix s r s'
  assume "owns q (Some (sets_of n)) fo s" and m: "stop_node sh n s = Some (r, s')"
  with stop_node_owns [of q n fo s sh] have "owns q None fo s'" by auto
  then show "case r of Ret (Inr x) \<Rightarrow> owns q None fo s' | _ \<Rightarrow> owns False None fo s'"
    using owns_weaken by (auto split: run.split sum.split)
qed

text \<open>What the programs rely on: nodes come with empty slots and their task manager registered, and a
  farmer build either registers everything it took or takes nothing.\<close>

locale sdk_services =
  fixes build_node :: "nat \<Rightarrow> ('ma, 'mp, 'bs, 'dom) node_config \<Rightarrow> path \<Rightarrow> 'spec \<Rightarrow> (string,
      ('client, 'net, 'sync, 'rpc, 'dnode, 'rp, 'pc, 'mp, 'data, 'dcfg, 'drpc) node \<times> string list) result run"
    and build_farmer :: "nat \<Rightarrow> farmer_builder \<Rightarrow> public_key \<Rightarrow> string \<Rightarrow> (path \<times> u64) list \<Rightarrow> u8 \<Rightarrow>
      ('rp, 'pc) farmer_world \<Rightarrow>
      (build_error, ('sec, 'sol) farmer) result run \<times> ('rp, 'pc) farmer_world run"
  assumes node_built: "build_node i c d spec = Ret (Inr (n, tasks)) \<Longrightarrow> node_ready (sets_of n) \<and>
        shared_slots (nd_dsn n) = \<lparr>farmer_readers_and_pieces = None, farmer_piece_cache = None\<rparr>"
    and farmer_built: "build_farmer i b reward nm farms p w = (Ret (Inr f), w') \<Longrightarrow>
        (\<exists>rp pc. w' = Ret (built_world (length farms) rp pc w)) \<and>
        live (fr_destructors f) \<and> entries (fr_destructors f) = build_entries (length farms) \<and>
        farms \<noteq> [] \<and> dom (fr_farm_info f) = fst ` set farms"
    and farmer_failed: "clean w \<Longrightarrow> build_farmer i b reward nm farms p w = (r, w') \<Longrightarrow>
        (\<nexists>f. r = Ret (Inr f)) \<Longrightarrow> \<exists>w1. w' = Ret w1 \<and> clean w1"
begin

lemma start_node_triple:
  "triple (owns q None None) (start_node (node_builder_build e parse (build_node i) b d spec))
     (\<lambda>n. owns q (Some (sets_of n)) None) (owns False None None)"
  unfolding triple_def
proof (intro allI impI)
  fix s r s'
  assume o: "owns q None None s"
    and m: "start_node (node_builder_build e parse (build_node i) b d spec) s = Some (r, s')"
  show "case r of Ret (Inr n) \<Rightarrow> owns q (Some (sets_of n)) None s' | _ \<Rightarrow> owns False None None s'"
  proof (cases "\<exists>n tasks. node_builder_build e parse (build_node i) b d spec = Ret (Inr (n, tasks))")
    case True
    then obtain n tasks where nt: "node_builder_build e parse (build_node i) b d spec = Ret (Inr (n, tasks))"
      by blast
    then obtain c where "build_node i c d spec = Ret (Inr (n, tasks))"
      by (auto simp: node_builder_build_def run_bind_eq_Ret)
    from node_built [OF this] o m show ?thesis
      by (auto simp: start_node_def nt owns_def clean_def)
  next
    case False
    with o m owns_weaken show ?thesis by (auto simp: start_node_def split: run.splits sum.splits)
  qed
qed

lemma start_farmer_triple:
  "triple (owns q no None) (start_farmer (build_farmer i b reward nm farms p))
     (\<lambda>f. owns q no (Some (fr_destructors f))) (owns False no None)"
  unfolding triple_def
proof (intro allI impI)
  fix s r s'
  assume o: "owns q no None s" and m: "start_farmer (build_farmer i b reward nm farms p) s = Some (r, s')"
  obtain x w where b: "build_farmer i b reward nm farms p (ps_world s) = (x, w)" by fastforce
  show "case r of Ret (Inr f) \<Rightarrow> owns q no (Some (fr_destructors f)) s' | _ \<Rightarrow> owns False no None s'"
  proof (cases "\<exists>f. x = Ret (Inr f)")
    case True
    then obtain f where x: "x = Ret (Inr f)" by blast
    from farmer_built [OF b [unfolded x]] obtain rp pc
      where w: "w = Ret (built_world (length farms) rp pc (ps_world s))" and f: "live (fr_destructors f)"
        "entries (fr_destructors f) = build_entries (length farms)" "dom (fr_farm_info f) = fst ` set farms"
        "farms \<noteq> []" by blast
    have "farm_world q (fr_destructors f) (built_world (length farms) rp pc (ps_world s))"
      using o f(1,2) unfolding farm_world_def owns_def by auto
    with o m show ?thesis by (clarsimp simp: start_farmer_def b x w owns_def)
  next
    case False
    have "clean (ps_world s)" using o by (simp add: owns_def)
    from farmer_failed [OF this b False] obtain w1 where "w = Ret w1" "clean w1" by blast
    with o m False show ?thesis
      by (auto simp: start_farmer_def b owns_def split: run.splits sum.splits)
  qed
qed

end

lemma owns_output [simp]:
  "owns q no fo (s\<lparr>ps_output := x\<rparr>) = owns q no fo s" "owns q no fo (s\<lparr>ps_removed := y\<rparr>) = owns q no fo s"
  unfolding owns_def by (simp_all split: option.split)

lemma owns_drop_tmp_dir [simp]: "owns q no fo (drop_tmp_dir tmp s) = owns q no fo s"
  by (simp add: drop_tmp_dir_def split: option.split)

lemma say_triple: "triple (owns q no fo) (say out) (\<lambda>_. owns q no fo) E"
  by (simp add: triple_def say_def)

lemma attempt_triple: "triple (owns q no fo) (attempt r) (\<lambda>_. owns q no fo) (owns False no fo)"
  using owns_weaken by (auto simp: triple_def attempt_def split: run.splits sum.splits)

lemma first_farm_triple: "triple (owns q no fo) (first_farm walk f) (\<lambda>_. owns q no fo) (owns False no fo)"
  unfolding first_farm_def by (rule attempt_triple)

lemma await_sync_triple: "triple (owns q no fo) (await_sync r) (\<lambda>_. owns q no fo) (owns False no fo)"
  using owns_weaken by (auto simp: triple_def await_sync_def split: run.splits sum.splits)

lemma on_disk_triple: "triple (owns q no fo) (on_disk f) (\<lambda>_. owns q no fo) (owns False no fo)"
  using owns_weaken by (auto simp: triple_def on_disk_def split: run.splits sum.splits prod.splits)

lemmas leaf_triples = say_triple attempt_triple first_farm_triple await_sync_triple on_disk_triple

lemma mini_sync_triple: "triple (owns q no fo) (mini_sync chain i r) (\<lambda>_. owns q no fo) (owns False no fo)"
  unfolding mini_sync_def by (rule triple_rules leaf_triples)+

lemma log_heads_triple: "triple (owns q no fo) (log_heads hs) (\<lambda>_. owns q no fo) (owns False no fo)"
  by (induction hs) (simp_all, (rule triple_rules leaf_triples | assumption)+)

text \<open>The rewards task only writes, whatever it meets.\<close>

lemma rewards_loop_output:
  "\<exists>out r. rewards_loop ge sra reward hs s = Some (r, s\<lparr>ps_output := out\<rparr>)"
proof (induction hs arbitrary: s)
  case Nil
  show ?case by (rule exI [of _ "ps_output s"]) (simp add: attempt_def)
next
  case (Cons h hs)
  show ?case
  proof (cases h)
    case (Ret header)
    show ?thesis
    proof (cases "ge (Some (bh_hash header))")
      case (Inl e)
      show ?thesis by (rule exI [of _ "ps_output s"]) (simp add: prog_bind_def attempt_def Ret Inl)
    next
      case (Inr events)
      let ?out = "(ps_output s @ concat (map (event_message reward) events)) @ authored_message sra reward header"
      show ?thesis using Cons [of "s\<lparr>ps_output := ?out\<rparr>"]
        by (simp add: prog_bind_def attempt_def say_def Ret Inr)
    qed
  next
    case (Panic m)
    show ?thesis by (rule exI [of _ "ps_output s"]) (simp add: prog_bind_def attempt_def Panic)
  qed
qed

lemma mini_rewards_output:
  assumes "mini_rewards ge sra reward fh halt s = Some (r, s')"
  shows "\<exists>out. s' = s\<lparr>ps_output := out\<rparr>"
proof (cases fh)
  case (Inl e)
  then have "s' = s \<or> s' = s\<lparr>ps_output := ps_output s @ [Said ''Exitting...'']\<rparr>"
    using assms by (auto simp: mini_rewards_def prog_bind_def attempt_def)
  moreover have "s = s\<lparr>ps_output := ps_output s\<rparr>" by simp
  ultimately show ?thesis by metis
next
  case (Inr heads)
  obtain out x where "rewards_loop ge sra reward (case halt of None \<Rightarrow> heads | Some k \<Rightarrow> take k heads) s =
      Some (x, s\<lparr>ps_output := out\<rparr>)" using rewards_loop_output by blast
  then show ?thesis using assms Inr
    by (auto simp: mini_rewards_def prog_bind_def attempt_def split: run.splits sum.splits if_splits)
qed

lemma mini_rewards_triple:
  "triple (owns q no fo) (mini_rewards ge sra reward fh halt) (\<lambda>_. owns q no fo) (owns False no fo)"
  using owns_weaken by (auto simp: triple_def dest!: mini_rewards_output split: run.splits sum.splits)

lemma wipe_plots_triple: "triple (owns q no fo) (wipe_plots rm plots) (\<lambda>_. owns q no fo) (owns False no fo)"
  by (induction plots) (simp_all, (rule triple_rules leaf_triples | assumption)+)

lemma await_plotting_triple:
  "triple (owns q no fo) (await_plotting mode watched fms) (\<lambda>_. owns q no fo) (owns False no fo)"
proof (induction fms)
  case Nil
  show ?case by (simp add: attempt_triple)
next
  case (Cons fm fms)
  have "triple (owns q no fo) (\<lambda>s. case r of None \<Rightarrow> None | Some x \<Rightarrow> compute x s) (\<lambda>_. owns q no fo) (owns False no fo)"
    for r using attempt_triple by (cases r) (simp_all add: triple_def)
  from triple_bind [OF this Cons] show ?case by simp
qed

lemma scope_node_triple:
  "triple P m (\<lambda>_. owns q (Some (sets_of n)) fo) (owns False (Some (sets_of n)) fo) \<Longrightarrow>
   triple P (scope_end (drop_node n) m) (\<lambda>_. owns q None fo) (owns False None fo)"
  by (erule triple_scope_end) (auto intro: drop_node_owns)

lemma scope_farmer_triple:
  "triple P m (\<lambda>_. owns q no (Some (fr_destructors f))) (owns False no (Some (fr_destructors f))) \<Longrightarrow>
   triple P (scope_end (drop_farmer f) m) (\<lambda>_. owns False no None) (owns False no None)"
  by (erule triple_scope_end) (auto intro: drop_farmer_owns)

lemma scope_tmp_dir_triple:
  "triple P m (\<lambda>_. owns q no fo) (owns False no fo) \<Longrightarrow>
   triple P (scope_end (drop_tmp_dir tmp) m) (\<lambda>_. owns q no fo) (owns False no fo)"
  by (erule triple_scope_end) auto

lemma triple_forget:
  "triple P m (\<lambda>_. owns q no fo) E \<Longrightarrow> triple P m (\<lambda>_. owns False no fo) E"
  unfolding triple_def using owns_weaken by (fastforce split: run.splits sum.splits)

context sdk_services
begin

lemmas service_triples = start_node_triple start_farmer_triple stop_node_triple stop_farmer_triple
  mini_sync_triple mini_rewards_triple log_heads_triple wipe_plots_triple await_plotting_triple
  scope_node_triple scope_farmer_triple scope_tmp_dir_triple

lemmas program_rules = triple_rules leaf_triples service_triples drop_node_owns drop_farmer_owns

lemma mini_farmer_triple:
  "triple (owns q None None)
     (mini_farmer e parse crate chain_spec (build_node i) (build_farmer j) walk tempdir
       interrupted synced ge sra fh halt sh args)
     (\<lambda>_. owns q None None) (owns False None None)"
  unfolding mini_farmer_def mini_run_def by (rule program_rules | assumption)+

lemma complete_open_triple:
  "triple (owns q None None)
     (complete_open e parse crate dev_spec build_node build_farmer synced i)
     (\<lambda>(n, f). owns q (Some (sets_of n)) (Some (fr_destructors f))) (owns False None None)"
  unfolding complete_open_def
  by (rule program_rules(1-4) start_node_triple start_farmer_triple leaf_triples(4) drop_node_owns
      attempt_triple [where r = "run_bind dev_spec (\<lambda>x. Ret (Inr x))"] | assumption)+
    (simp add: triple_def attempt_def)

lemma complete_triple:
  "triple (owns q None None)
     (complete e parse crate dev_spec build_node build_farmer synced walk new_heads node_info farmer_info
       sh remove_dir_all)
     (\<lambda>_. owns q None None) (owns False None None)"
  unfolding complete_def complete_close_def
  by (rule complete_open_triple triple_prod2 program_rules | assumption)+

lemma simple_triple:
  "triple (owns q None None)
     (simple mode e parse crate dev_spec (build_node i) (build_farmer j) walk watched new_heads)
     (\<lambda>_. owns False None None) (owns False None None)"
  unfolding simple_def by (rule program_rules | assumption)+

lemma sync_farm_triple:
  "triple (owns q None None)
     (sync_farm mode e parse crate read_spec (build_node i) (build_farmer j) la new_heads plot ps node spec)
     (\<lambda>_. owns False None None) (owns False None None)"
  unfolding sync_farm_def by (rule program_rules | assumption)+

lemma sync_sync_triple:
  "triple (owns q None None)
     (sync_sync e parse read_spec (build_node i) tempdir synced new_heads boot_nodes spec)
     (\<lambda>_. owns q None None) (owns False None None)"
  unfolding sync_sync_def by (rule program_rules | assumption)+

lemma sync_main_triple:
  "triple (owns q None None)
     (sync_main mode e parse crate dev_spec to_json write_file read_spec (build_node i) (build_farmer j)
       la tempdir synced new_heads args)
     (\<lambda>_. owns False None None) (owns False None None)"
proof (cases args)
  case (ArgsFarm plot plot_size node spec)
  then show ?thesis by (simp add: sync_main_def sync_farm_triple)
next
  case (ArgsSync boot_nodes spec)
  then show ?thesis using triple_forget [OF sync_sync_triple] by (simp add: sync_main_def)
next
  case (ArgsGenerateSpec path)
  have "triple (owns q None None) (prog_bind (compute dev_spec) (\<lambda>spec.
      prog_bind (question (to_json spec)) (\<lambda>json. question (write_file path json))))
      (\<lambda>_. owns q None None) (owns False None None)"
    by (rule triple_rules leaf_triples)+
  from triple_forget [OF this] ArgsGenerateSpec show ?thesis by (simp add: sync_main_def)
qed

end

end
