(* ===== verification/Examples_Correct.thy ===== *)
theory Examples_Correct
  imports Examples_Logic
begin

text \<open>
  The programs of \<open>Examples\<close> on the node and the farmer of this development: the locale of
  \<open>Examples_Logic\<close> is interpreted on \<open>node_build\<close> and \<open>farmer_builder_build\<close>, and the properties of
  the four programs follow. The last sections run the programs on a small instance.
\<close>

section \<open>Clean shutdown\<close>

lemma node_build_ready:
  assumes "node_build mode env po sub denv crate rpc_of fetch limit parse_node c directory spec =
    Ret (Inr (n, tasks))"
  shows "node_ready (sets_of n) \<and>
    shared_slots (nd_dsn n) = \<lparr>farmer_readers_and_pieces = None, farmer_piece_cache = None\<rparr>"
proof (rule node_build_parts [OF assms])
  fix base partial bootstrap runner metrics domains ets
  assume dsn: "node_dsn mode env po denv fetch limit base (ncf_dsn c) partial directory
       (unwrap_or (spec_properties spec) Map.empty) = Ret (Inr (nd_dsn n, bootstrap, runner, metrics))"
    and nd: "node_domain (ne_nodes_from_value env) domains (ncf_domain c) = Inr (nd_maybe_domain n, ets)"
    and d: "add_async_destructor AwaitTaskManager (ds_new ''node-destructors'') = Inr (nd_destructors n)"
  have "node_ready (sets_of n)"
    using d node_domain_parts [OF nd] domain_build_destructors
    by (fastforce simp: node_ready_def sets_of_def)
  with node_dsn_parts [OF dsn] show ?thesis by blast
qed

interpretation sdk: sdk_services
  "\<lambda>i. node_build mode (nenv i) (po i) (sub i) (denv i) crate rpc_of fetch limit parse_node"
  "\<lambda>i. farmer_builder_build mode (fenv i)"
  for mode nenv po sub denv crate rpc_of fetch limit parse_node fenv
proof (unfold_locales, goal_cases)
  case (1 i c d spec n tasks)
  then show ?case by (rule node_build_ready)
next
  case (2 i b reward nm farms p w f w')
  then obtain c where c: "farmer_build mode (fenv i) c reward nm farms p w = (Ret (Inr f), w')"
    by (auto simp: farmer_builder_build_def split: run.splits)
  from farmer_build_Ok [OF c] farmer_build_farm_info [OF c] show ?case by blast
next
  case (3 w i b reward nm farms p r w')
  then show ?case
    by (auto simp: farmer_builder_build_def split: run.splits dest: farmer_build_not_Ok)
qed

text \<open>A program starts with nothing but the world it finds.\<close>

definition program_start :: "('rp, 'pc) farmer_world \<Rightarrow> ('rp, 'pc) program_state" where
  "program_start w = \<lparr>ps_world = w, ps_nodes = 0, ps_node_effects = [], ps_removed = [], ps_output = [],
     ps_aborted = False\<rparr>"

lemma owns_program_start: "clean w \<Longrightarrow> fw_running w = {} \<Longrightarrow> owns True None None (program_start w)"
  by (simp add: owns_def program_start_def stops_def)

lemma triple_result:
  assumes "triple (owns True None None) m (\<lambda>_. owns q None None) (owns False None None)"
    and "clean w" and "fw_running w = {}" and "m (program_start w) = Some (r, s)"
  shows "clean (ps_world s) \<and> \<not> ps_aborted s \<and> stops (ps_node_effects s) = ps_nodes s \<and>
    (\<forall>x. r = Ret (Inr x) \<longrightarrow> q \<longrightarrow> fw_running (ps_world s) = {})"
proof -
  have "case r of Ret (Inr x) \<Rightarrow> owns q None None s | _ \<Rightarrow> owns False None None s"
    using assms(1) owns_program_start [OF assms(2,3)] assms(4) unfolding triple_def by blast
  then show ?thesis by (auto simp: owns_def split: run.splits sum.splits)
qed

text \<open>C16: However the miniature farmer ends, with success, an error or a panic, it leaves nothing behind:
  when \<open>main\<close> is left the slots of the DSN hold no reader and no piece cache, no plotting handler is
  attached, every task of the farmer was told to stop, no cleanup panicked while another panic was
  unwinding, and the task manager of the node, if one was built, was told to stop exactly once.
  When it ends with success every task of the farmer was also awaited.\<close>
theorem mini_farmer_cleans_up:
  assumes "clean w" and "fw_running w = {}"
    and "mini_farmer e parse crate chain_spec
      (node_build mode nenv po sub denv crate rpc_of fetch limit parse_node)
      (farmer_builder_build mode fenv) walk tempdir sync_interrupted synced get_events sra finalized_heads
      interrupt sh args (program_start w) = Some (r, s)"
  shows "clean (ps_world s) \<and> \<not> ps_aborted s \<and> stops (ps_node_effects s) = ps_nodes s \<and>
    (\<forall>x. r = Ret (Inr x) \<longrightarrow> fw_running (ps_world s) = {})"
proof -
  have "triple (owns True None None) (mini_farmer e parse crate chain_spec
      (node_build mode nenv po sub denv crate rpc_of fetch limit parse_node)
      (farmer_builder_build mode fenv) walk tempdir sync_interrupted synced get_events sra finalized_heads
      interrupt sh args) (\<lambda>_. owns True None None) (owns False None None)"
    by (rule sdk.mini_farmer_triple [where nenv = "\<lambda>_. nenv" and po = "\<lambda>_. po" and sub = "\<lambda>_. sub"
          and denv = "\<lambda>_. denv" and fenv = "\<lambda>_. fenv"])
  from triple_result [OF this assms] show ?thesis by blast
qed

text \<open>The two programs that never close what they started leave the tasks signalled, not awaited.\<close>

lemma simple_cleans_up:
  assumes "clean w" and "fw_running w = {}"
    and "simple mode e parse crate dev_spec
        (node_build mode nenv po sub denv crate rpc_of fetch limit parse_node)
        (farmer_builder_build mode fenv) walk watched new_heads (program_start w) = Some (r, s)"
  shows "clean (ps_world s) \<and> \<not> ps_aborted s \<and> stops (ps_node_effects s) = ps_nodes s"
  using triple_result [OF sdk.simple_triple [where nenv = "\<lambda>_. nenv" and po = "\<lambda>_. po"
      and sub = "\<lambda>_. sub" and denv = "\<lambda>_. denv" and fenv = "\<lambda>_. fenv"] assms] by blast

lemma sync_main_cleans_up:
  assumes "clean w" and "fw_running w = {}"
    and "sync_main mode e parse crate dev_spec to_json write_file read_spec
        (node_build mode nenv po sub denv crate rpc_of fetch limit parse_node)
        (farmer_builder_build mode fenv) la tempdir synced new_heads args (program_start w) = Some (r, s)"
  shows "clean (ps_world s) \<and> \<not> ps_aborted s \<and> stops (ps_node_effects s) = ps_nodes s"
  using triple_result [OF sdk.sync_main_triple [where nenv = "\<lambda>_. nenv" and po = "\<lambda>_. po"
      and sub = "\<lambda>_. sub" and denv = "\<lambda>_. denv" and fenv = "\<lambda>_. fenv"] assms] by blast

section \<open>Two rounds\<close>

text \<open>How many nodes were built, and what was removed.\<close>

definition tally :: "nat \<Rightarrow> path list \<Rightarrow> ('rp, 'pc) program_state \<Rightarrow> bool" where
  "tally k removed s \<longleftrightarrow> ps_nodes s = k \<and> ps_removed s = removed"

lemma tally_leaves:
  "triple (tally k rm) (attempt r) (\<lambda>_. tally k rm) (\<lambda>_. True)"
  "triple (tally k rm) (await_sync x) (\<lambda>_. tally k rm) (\<lambda>_. True)"
  "triple (tally k rm) (start_node nb) (\<lambda>_. tally (Suc k) rm) (\<lambda>_. True)"
  "triple (tally k rm) (stop_node sh n) (\<lambda>_. tally k rm) (\<lambda>_. True)"
  "triple (tally k rm) (stop_farmer sh' f) (\<lambda>_. tally k rm) (\<lambda>_. True)"
  "triple (tally k rm) (first_farm walk f) (\<lambda>_. tally k rm) (\<lambda>_. True)"
  "triple (tally k rm) (on_disk (remove_dir rmf p)) (\<lambda>_. tally k (rm @ [p])) (\<lambda>_. True)"
  "triple (tally k rm) (on_disk (farm_description_wipe (remove_dir rmf) plot))
     (\<lambda>_. tally k (rm @ [fd_directory plot])) (\<lambda>_. True)"
  by (auto simp: triple_def tally_def attempt_def await_sync_def start_node_def stop_node_def
      stop_farmer_def first_farm_def on_disk_def remove_dir_def farm_description_wipe_def
      split: run.splits sum.splits prod.splits)

lemma tally_start_farmer: "triple (tally k rm) (start_farmer fb) (\<lambda>_. tally k rm) (\<lambda>_. True)"
  unfolding triple_def start_farmer_def tally_def
  by (auto split: run.splits sum.splits prod.splits)

lemma tally_wipe_plots:
  "triple (tally k rm) (wipe_plots rmf plots) (\<lambda>_. tally k (rm @ map fd_directory plots)) (\<lambda>_. True)"
proof (induction plots arbitrary: rm)
  case Nil
  show ?case by (simp add: tally_leaves)
next
  case (Cons plot plots)
  from triple_bind [OF triple_expect [OF tally_leaves(8)] Cons] show ?case by simp
qed

lemmas tally_rules = triple_rules tally_leaves tally_start_farmer tally_wipe_plots

lemma tally_complete_open:
  "triple (tally k rm) (complete_open e parse crate dev_spec build_node build_farmer synced i)
     (\<lambda>_. tally (Suc k) rm) (\<lambda>_. True)"
  unfolding complete_open_def by (rule tally_rules | simp)+

lemma tally_complete:
  "triple (tally k rm)
     (complete e parse crate dev_spec build_node build_farmer synced walk new_heads node_info farmer_info
       sh remove_dir_all)
     (\<lambda>_. tally (Suc (Suc k)) (rm @ [[''plot''], [''node'']])) (\<lambda>_. True)"
proof -
  have plots: "map fd_directory (complete_plots crate) = [[''plot'']]"
    by (simp add: complete_plots_def farm_description_new_def)
  have "triple (tally k rm)
     (complete e parse crate dev_spec build_node build_farmer synced walk new_heads node_info farmer_info
       sh remove_dir_all)
     (\<lambda>_. tally (Suc (Suc k)) ((rm @ map fd_directory (complete_plots crate)) @ [[''node'']])) (\<lambda>_. True)"
    unfolding complete_def complete_close_def
    by (rule tally_complete_open tally_rules | simp)+
  then show ?thesis by (simp add: plots)
qed


section \<open>Waiting and reporting\<close>

text \<open>The wait for the initial plotting.\<close>

lemma progress_poll_some:
  assumes "\<not> ps_done st" and "unat (current_sector sh) < 2 ^ 64 - 1"
  shows "progress_poll mode (Ready (Some v)) st sh =
    (if current_sector sh < total_sectors sh
     then Ret (Ready (Some sh), st\<lparr>ps_last := sh\<rparr>, sh\<lparr>current_sector := current_sector sh + 1\<rparr>)
     else Ret (Ready None, st\<lparr>ps_done := True\<rparr>, sh\<lparr>current_sector := current_sector sh + 1\<rparr>))"
  using assms by (simp add: progress_poll_def add_arith_def arith_def Let_def)

lemma drain_progress_enough:
  assumes "\<not> ps_done st" and "unat (total_sectors sh) < 2 ^ 64 - 1"
    and "current_sector sh \<le> total_sectors sh"
  shows "drain_progress mode (map Some vs) (Watching st) sh =
    (if unat (total_sectors sh) - unat (current_sector sh) < length vs
     then Some (Ret (sh\<lparr>current_sector := total_sectors sh + 1\<rparr>)) else None)"
  using assms
proof (induction vs arbitrary: st sh)
  case (Cons v vs)
  have c: "unat (current_sector sh) < 2 ^ 64 - 1"
    using Cons.prems(2,3) by (simp add: word_le_nat_alt)
  show ?case
  proof (cases "current_sector sh < total_sectors sh")
    case True
    let ?sh = "sh\<lparr>current_sector := current_sector sh + 1\<rparr>"
    have u: "unat (current_sector sh + 1) = Suc (unat (current_sector sh))"
      using c unat_add_fits [of "current_sector sh" 1] by simp
    have "current_sector ?sh \<le> total_sectors ?sh"
      using True u by (simp add: word_le_nat_alt word_less_nat_alt)
    with Cons.IH [of "st\<lparr>ps_last := sh\<rparr>" ?sh] Cons.prems True u show ?thesis
      by (auto simp: progress_poll_some [OF Cons.prems(1) c] word_less_nat_alt)
  next
    case False
    then have "current_sector sh = total_sectors sh" using Cons.prems(3) by simp
    then show ?thesis by (simp add: progress_poll_some [OF Cons.prems(1) c])
  qed
qed simp


text \<open>What the rewards task reports.\<close>

lemma rewards_loop_reports:
  assumes "\<And>h. h \<in> set hs \<Longrightarrow> ge (Some (bh_hash h)) = Inr (ev h)"
  shows "rewards_loop ge sra reward (map Ret hs @ rest) s =
    rewards_loop ge sra reward rest (s\<lparr>ps_output := ps_output s @
      concat (map (\<lambda>h. concat (map (event_message reward) (ev h)) @ authored_message sra reward h) hs)\<rparr>)"
  using assms
proof (induction hs arbitrary: s)
  case (Cons h hs)
  then show ?case by (simp add: prog_bind_def attempt_def say_def)
qed simp


text \<open>Programs that do not wait.\<close>

definition returns :: "('rp, 'pc, 'a) program \<Rightarrow> bool" where
  "returns m \<longleftrightarrow> (\<forall>s. m s \<noteq> None)"

lemma returns_rules:
  "returns m \<Longrightarrow> (\<And>x. returns (f x)) \<Longrightarrow> returns (prog_bind m f)"
  "returns m \<Longrightarrow> returns (or_drop d m)" "returns m \<Longrightarrow> returns (scope_end d m)"
  "returns m \<Longrightarrow> returns (prog_expect msg m)" "returns m \<Longrightarrow> returns (prog_context msg m)"
  "(b \<Longrightarrow> returns m) \<Longrightarrow> (\<not> b \<Longrightarrow> returns m') \<Longrightarrow> returns (if b then m else m')"
  "(\<And>a c. returns (g a c)) \<Longrightarrow> returns (case x of (a, c) \<Rightarrow> g a c)"
  by (auto simp: returns_def prog_bind_def or_drop_def scope_end_def prog_expect_def prog_context_def
      split: option.splits prod.splits run.splits sum.splits)

lemma returns_leaves:
  "returns (attempt r)" "returns (say out)" "returns (start_node nb)" "returns (start_farmer fb)"
  "returns (stop_node sh n)" "returns (stop_farmer sh' f)" "returns (first_farm walk f)"
  "returns (await_sync (Some y))"
  by (auto simp: returns_def attempt_def say_def start_node_def start_farmer_def stop_node_def stop_farmer_def
      first_farm_def await_sync_def split: prod.splits)

lemma returns_mini_rewards: "returns (mini_rewards ge sra reward fh halt)"
proof -
  have "returns (rewards_loop ge sra reward hs)" for hs
    using rewards_loop_output [of ge sra reward hs] unfolding returns_def by (metis option.distinct(1))
  then have "returns (prog_bind (question fh) (\<lambda>heads. rewards_loop ge sra reward
             (case halt of None \<Rightarrow> heads | Some k \<Rightarrow> take k heads)))"
    by (intro returns_rules returns_leaves)
  then show ?thesis unfolding returns_def mini_rewards_def
    by (auto split: option.splits prod.splits run.splits)
qed

lemma mini_farmer_returns_iff:
  assumes "sync_interrupted \<or> ma_chain args = Dev \<or> synced \<noteq> None"
  shows "returns (mini_farmer e parse crate chain_spec build_node build_farmer walk tempdir
    sync_interrupted synced ge sra fh halt sh args)"
proof -
  have sync: "returns (mini_sync (ma_chain args) sync_interrupted synced)"
    using assms unfolding mini_sync_def by (auto intro!: returns_rules returns_leaves)
  show ?thesis
    unfolding mini_farmer_def mini_run_def
    by (rule returns_rules returns_leaves returns_mini_rewards sync)+
qed

section \<open>Runs without failures\<close>

lemma run_steps:
  "m s = Some (Ret (Inr x), s') \<Longrightarrow> prog_bind m f s = f x s'"
  "m s = Some (Ret (Inr x), s') \<Longrightarrow> or_drop d m s = Some (Ret (Inr x), s')"
  "m s = Some (Ret (Inr x), s') \<Longrightarrow> prog_expect msg m s = Some (Ret (Inr x), s')"
  "m s = Some (Ret (Inr x), s') \<Longrightarrow> prog_context msg m s = Some (Ret (Inr x), s')"
  by (simp_all add: prog_bind_def or_drop_def prog_expect_def prog_context_def)

text \<open>A shutdown in which no task has panicked and no result is an error.\<close>

definition quiet :: "('v, 'r) shutdown \<Rightarrow> bool" where
  "quiet sh \<longleftrightarrow> (\<forall>l. \<not> sh_domain_dead sh l) \<and> \<not> sh_manager_dead sh \<and> (\<forall>t. \<not> sh_farmer_dead sh t) \<and>
     await_output (sh_domain_received sh) = Inr () \<and> await_output (sh_manager_received sh) = Inr () \<and>
     (\<exists>ms. sh_farmer_received sh = Some ms \<and> drain_results ms = Inr ())"

lemma stop_farmer_ok:
  assumes "owns q no (Some (fr_destructors f)) s" and "quiet sh"
  shows "\<exists>s'. stop_farmer sh f s = Some (Ret (Inr ()), s') \<and> owns q no None s'"
proof -
  obtain k where d: "live (fr_destructors f)" "entries (fr_destructors f) = build_entries k"
    using assms(1) by (auto simp: owns_def farm_world_def)
  then obtain s' where s': "stop_farmer sh f s = Some (Ret (Inr ()), s')"
    using assms(2) by (auto simp: stop_farmer_def farmer_close_joins_def async_drop_joins_built
        joins_outcome_def quiet_def)
  with tripleD [OF stop_farmer_triple assms(1) s'] show ?thesis by blast
qed

lemma stop_node_ok:
  assumes "owns q (Some (sets_of n)) fo s" and "quiet sh"
  shows "\<exists>s'. stop_node sh n s = Some (Ret (Inr ()), s') \<and> owns q None fo s'"
proof -
  let ?md = "map_option (\<lambda>(d, _). domain_destructors d) (nd_maybe_domain n)"
  let ?p = "\<lambda>l. if sh_domain_dead sh l then Some domain_join_message else None"
  obtain nm where d: "add_async_destructor AwaitTaskManager (ds_new nm) = Inr (nd_destructors n)"
    using assms(1) by (auto simp: owns_def node_ready_def sets_of_def)
  obtain des where "(case ?md of None \<Rightarrow> Ret ([], Ret (Inr ()))
      | Some d \<Rightarrow> domain_close_joins (sh_domain_dead sh) d (sh_domain_received sh)) = Ret (des, Ret (Inr ()))"
  proof (cases ?md)
    case (Some d)
    then have "ds_wf d" "allow_async d"
      using assms(1) by (auto simp: owns_def node_ready_def sets_of_def)
    then have "async_drop_joins ?p d = Ret (map (effect_of Awaited) (rev (entries d)), Ret (Inr ()))"
      by (rule dset.joins_all) (use assms(2) in \<open>simp add: quiet_def\<close>)
    with Some that assms(2) show ?thesis by (auto simp: domain_close_joins_def quiet_def)
  qed auto
  then obtain es where "node_close_joins (sh_domain_dead sh) (sh_manager_dead sh) ?md
      (sh_domain_received sh) (nd_destructors n) (sh_manager_received sh) = Ret (es, Ret (Inr ()))"
    using assms(2) await_task_manager_joins [OF d] by (simp add: node_close_joins_def quiet_def)
  then obtain s' where s': "stop_node sh n s = Some (Ret (Inr ()), s')" by (simp add: stop_node_def)
  with tripleD [OF stop_node_triple assms(1) s'] show ?thesis by blast
qed

context sdk_services
begin

lemma start_node_ok:
  assumes "owns q None None s"
    and "node_builder_build e parse (build_node i) b d spec = Ret (Inr (n, tasks))"
  shows "\<exists>s'. start_node (node_builder_build e parse (build_node i) b d spec) s = Some (Ret (Inr n), s') \<and>
    owns q (Some (sets_of n)) None s'"
proof -
  obtain s' where s': "start_node (node_builder_build e parse (build_node i) b d spec) s = Some (Ret (Inr n), s')"
    using assms(2) by (simp add: start_node_def)
  with tripleD [OF start_node_triple assms(1) s'] show ?thesis by blast
qed

lemma start_farmer_ok:
  assumes "owns q no None s"
    and "build_farmer i b reward nm farms p (ps_world s) = (Ret (Inr f), w)"
    and "set (walk (fr_farm_info f)) = dom (fr_farm_info f)"
  shows "\<exists>s' fm. start_farmer (build_farmer i b reward nm farms p) s = Some (Ret (Inr f), s') \<and>
    owns q no (Some (fr_destructors f)) s' \<and>
    first_farm walk f s' = Some (Ret (Inr fm), s')"
proof -
  from farmer_built [OF assms(2)] obtain w1 where w1: "w = Ret w1" and f: "farms \<noteq> []"
    "dom (fr_farm_info f) = fst ` set farms" by blast
  obtain s' where s': "start_farmer (build_farmer i b reward nm farms p) s = Some (Ret (Inr f), s')"
    using assms(2) w1 by (simp add: start_farmer_def)
  have "farmer_iter_farms walk f \<noteq> []"
  proof -
    obtain d where d: "d \<in> dom (fr_farm_info f)" using f by (cases farms) auto
    then have "the (fr_farm_info f d) \<in> set (farmer_iter_farms walk f)"
      using assms(3) unfolding farmer_iter_farms_def
      by (force simp: List.map_filter_def)
    then show ?thesis by auto
  qed
  then obtain fm where "first_farm walk f s' = Some (Ret (Inr fm), s')"
    by (cases "farmer_iter_farms walk f") (auto simp: first_farm_def attempt_def)
  with s' tripleD [OF start_farmer_triple assms(1) s'] show ?thesis by blast
qed

end

section \<open>A concrete run\<close>

lemma any_base: "\<exists>c. base_configuration demo_domain_env b dir cs = Ret c"
proof -
  have "\<exists>e. telemetry_endpoints demo_domain_env cs x = Ret e" for x
    by (simp add: telemetry_endpoints_def demo_domain_env_def split: option.split)
  moreover have "\<exists>n. network_configuration_of demo_domain_env cs d x y n0 = Ret n" for d x y n0
    by (cases "net_name n0") (simp_all add: network_configuration_of_def node_name_def
        NODE_NAME_MAX_LENGTH_def demo_domain_env_def Let_def)
  ultimately show ?thesis by (simp add: base_configuration_def Let_def run_bind_eq_Ret)
qed

lemma any_dsn: "\<exists>r. node_dsn Wrapping demo_node_env demo_partial_ops demo_node_dsn_env
    (\<lambda>i _ _. Some i) 10 base d partial dir props = Ret (Inr r)"
  by (cases "props ''dsnBootstrapNodes''")
    (simp_all add: node_dsn_def demo_node_env_def demo_partial_ops_def demo_node_dsn_env_def
      with_context_def spec_dsn_boot_nodes_def build_dsn_def
      dsn_networking_config_def connected_peers_limits_def add_arith_def arith_def
      add_items_to_drop_def Let_def)

type_synonym demo_node = "(nat, nat, nat, nat, nat, (u8 \<times> nat) set, nat, nat, nat, nat, nat) node"

abbreviation demo_build_node where
  "demo_build_node \<equiv> node_build Wrapping demo_node_env demo_partial_ops demo_domain_env
     demo_node_dsn_env demo_bytesize id (\<lambda>i _ _. Some i) 10 length"

lemma any_node:
  assumes "ncf_domain c = None" and "ncf_storage_monitor c = None"
  shows "\<exists>(n :: demo_node) tasks. demo_build_node c dir spec = Ret (Inr (n, tasks))"
proof -
  let ?props = "unwrap_or (spec_properties spec) Map.empty"
  obtain base where base: "base_configuration demo_domain_env (ncf_base c) dir
      (spec_view length spec) = Ret base" using any_base by blast
  obtain shared bootstrap runner metrics where dsn: "node_dsn Wrapping demo_node_env demo_partial_ops
      demo_node_dsn_env (\<lambda>i _ _. Some i) 10 base (ncf_dsn c) 4 dir ?props =
      Ret (Inr (shared, bootstrap, runner, metrics))"
    using any_dsn by (metis surj_pair)
  have entropy: "pot_external_entropy (ne_entropy_from_value demo_node_env) ?props x = Inr (unwrap_or x [])" for x
    by (simp add: pot_external_entropy_cases demo_node_env_def split: option.splits)
  have domains: "spec_domains (ne_map_from_value demo_node_env) ?props = Inr Map.empty"
    by (cases "?props ''domainsBootstrapNodes''") (simp_all add: spec_domains_def demo_node_env_def)
  obtain d where d: "add_async_destructor AwaitTaskManager (ds_new ''node-destructors'') = Inr d"
    by (simp add: add_async_destructor_def ds_new_def)
  have parts: "ne_new_partial demo_node_env c e = Inr 4" "ne_run_in_thread demo_node_env r x = Inr ()"
    "ne_new_full demo_node_env sc p = Inr \<lparr>nf_client = 5, nf_rpc_handlers = 6, nf_sync_service = 7,
       nf_network_service = 8\<rparr>" for c e r x sc p
    by (simp_all add: demo_node_env_def)
  show ?thesis
    by (simp add: node_build_def Let_def base entropy dsn domains d parts assms node_domain_def
        with_context_def)
qed

lemma any_farm:
  assumes "sp \<noteq> 0"
  shows "\<exists>(f :: (nat, unit) farmer) w'. farmer_builder_build Wrapping demo_farmer_env farmer_builder_new
     reward nm [(d, sp)] 1 w = (Ret (Inr f), w')"
proof -
  have c: "farmer_configuration farmer_builder_new = Ret demo_farmer_config"
    by (simp add: cfg_defs demo_farmer_config_def nonzero_new_def)
  have "\<exists>(f :: (nat, unit) farmer) w'. farmer_build Wrapping demo_farmer_env demo_farmer_config
     reward nm [(d, sp)] 1 w = (Ret (Inr f), w')"
    using assms by (simp add: demo_farmer_config_def farmer_build_def
      farmer_build_stages_def demo_farmer_env_def
      stage_bind_def pure_stage_def acquire_def in_world_def register_stage_def
      add_sync_destructor_def add_async_destructor_def add_items_to_drop_def ds_new_def
      farming_threads_def farm_new_def ds_new_without_async_def
      fixed_space_usage_def target_sector_count_def add_arith_def sub_arith_def mul_arith_def
      arith_def div_arith_def saturating_sub_def create_readers_and_pieces_def try_into_u8_def
      cfg_defs)
  then show ?thesis by (simp only: farmer_builder_build_def c run.case)
qed

text \<open>Every address parses, nothing fails.\<close>

type_synonym demo_builder = "(nat, nat, nat, (nat, nat) domain_config) node_builder"

lemma any_node_configuration:
  fixes b :: demo_builder
  assumes "nb_domain b = None" and "nb_storage_monitor b = None"
  shows "\<exists>c. node_configuration demo_build_env (\<lambda>_. Some (0 :: nat)) b = Ret c \<and> ncf_domain c = None \<and>
    ncf_storage_monitor c = None"
proof -
  obtain d :: "(nat, nat) dsn" where d: "dsn_default (\<lambda>_. Some (0 :: nat)) = Ret d" by (simp add: cfg_defs)
  obtain x where x: "segment_publish_concurrency_default = Ret x" by (simp add: cfg_defs nonzero_new_def)
  show ?thesis
    by (cases "nb_dsn b"; cases "nb_segment_publish_concurrency b")
      (simp_all add: node_configuration_def assms d x)
qed

lemma any_node_build:
  fixes b :: demo_builder
  assumes "nb_domain b = None" and "nb_storage_monitor b = None"
  shows "\<exists>(n :: demo_node) tasks. node_builder_build demo_build_env (\<lambda>_. Some (0 :: nat)) demo_build_node b dir spec =
    Ret (Inr (n, tasks))"
proof -
  obtain c where "node_configuration demo_build_env (\<lambda>_. Some (0 :: nat)) b = Ret c" "ncf_domain c = None"
    "ncf_storage_monitor c = None" using any_node_configuration [OF assms] by blast
  with any_node show ?thesis by (simp add: node_builder_build_def)
qed

definition calm :: "(unit, unit) shutdown" where
  "calm = \<lparr>sh_domain_dead = (\<lambda>_. False), sh_manager_dead = False, sh_farmer_dead = (\<lambda>_. False),
     sh_domain_received = Some (Inr (TaskValue ())), sh_manager_received = Some (Inr (TaskValue ())),
     sh_farmer_received = Some [Inr (TaskValue ())]\<rparr>"

lemma quiet_calm: "quiet calm"
  by (simp add: quiet_def calm_def await_output_def)

abbreviation demo_start_farmer where
  "demo_start_farmer \<equiv> farmer_builder_build Wrapping demo_farmer_env"

text \<open>A node and a farmer with one farm start in the world left by an earlier run.\<close>

lemma demo_start_node_ok:
  fixes b :: demo_builder
  assumes "owns q None None s" and "nb_domain b = None" and "nb_storage_monitor b = None"
  shows "\<exists>(n :: demo_node) s'. start_node (node_builder_build demo_build_env (\<lambda>_. Some (0 :: nat)) demo_build_node
      b d spec) s = Some (Ret (Inr n), s') \<and> owns q (Some (sets_of n)) None s'"
proof -
  obtain n :: demo_node and tasks where "node_builder_build demo_build_env (\<lambda>_. Some (0 :: nat))
      demo_build_node b d spec = Ret (Inr (n, tasks))" using any_node_build [OF assms(2,3)] by blast
  from sdk.start_node_ok [where nenv = "\<lambda>_. demo_node_env" and po = "\<lambda>_. demo_partial_ops"
      and sub = "\<lambda>_. demo_domain_env" and denv = "\<lambda>_. demo_node_dsn_env", OF assms(1) this]
  show ?thesis by blast
qed

lemma demo_start_farmer_ok:
  assumes "owns q no None s" and "sp \<noteq> 0"
  shows "\<exists>(f :: (nat, unit) farmer) fm s'. start_farmer (demo_start_farmer farmer_builder_new reward nm [(d, sp)] 1) s =
      Some (Ret (Inr f), s') \<and> owns q no (Some (fr_destructors f)) s' \<and>
      first_farm (\<lambda>_. [d]) f s' = Some (Ret (Inr fm), s')"
proof -
  obtain f :: "(nat, unit) farmer" and w where f: "demo_start_farmer farmer_builder_new reward nm [(d, sp)] 1 (ps_world s) =
      (Ret (Inr f), w)" using any_farm [OF assms(2)] by blast
  have "dom (fr_farm_info f) = {d}"
    using sdk.farmer_built [where fenv = "\<lambda>_. demo_farmer_env", OF f] by simp
  then have "set [d] = dom (fr_farm_info f)" by simp
  from sdk.start_farmer_ok [where fenv = "\<lambda>_. demo_farmer_env" and walk = "\<lambda>_. [d]", OF assms(1) f this]
  show ?thesis by blast
qed

abbreviation demo_complete_open where
  "demo_complete_open \<equiv> complete_open demo_build_env (\<lambda>_. Some (0 :: nat)) demo_bytesize
     (dev_config Checked demo_cs_env) (\<lambda>_. demo_build_node) (\<lambda>_. demo_start_farmer) (\<lambda>_. Some (Inr ()))"

lemma demo_complete_open_ok:
  assumes "owns q None None s"
  shows "\<exists>(n :: demo_node) (f :: (nat, unit) farmer) fm s'. demo_complete_open i s = Some (Ret (Inr (n, f)), s') \<and>
    owns q (Some (sets_of n)) (Some (fr_destructors f)) s' \<and>
    first_farm (\<lambda>_. [[''plot'']]) f s' = Some (Ret (Inr fm), s')"
proof -
  obtain spec where spec: "dev_config Checked demo_cs_env = Ret spec"
    by (simp add: dev_config_def demo_cs_env_def)
  let ?b = "complete_node_builder i :: demo_builder"
  have "nb_domain ?b = None" "nb_storage_monitor ?b = None"
    by (simp_all add: complete_node_builder_def derive_base_def node_builder_new_def Let_def)
  from demo_start_node_ok [OF assms this, of "[''node'']" spec] obtain n :: demo_node and s1
    where n: "start_node (node_builder_build demo_build_env (\<lambda>_. Some (0 :: nat)) demo_build_node ?b [''node''] spec) s =
      Some (Ret (Inr n), s1)" "owns q (Some (sets_of n)) None s1" by blast
  have plots: "map (farm_arg demo_bytesize) (complete_plots demo_bytesize) = [([''plot''], 10)]"
    by (simp add: farm_arg_def complete_plots_def farm_description_new_def demo_bytesize_def
        bs_gb_def bs_to_u64_def)
  obtain f :: "(nat, unit) farmer" and fm s2 where f: "start_farmer (demo_start_farmer farmer_builder_new
      (public_key_new (replicate 32 0)) (nd_name n) [([''plot''], 10)] 1) s1 = Some (Ret (Inr f), s2)"
    "owns q (Some (sets_of n)) (Some (fr_destructors f)) s2"
    "first_farm (\<lambda>_. [[''plot'']]) f s2 = Some (Ret (Inr fm), s2)"
    using demo_start_farmer_ok [OF n(2), of 10] by fastforce
  have "demo_complete_open i s = Some (Ret (Inr (n, f)), s2)"
    unfolding complete_open_def plots
    by (simp add: spec n(1) f(1) prog_bind_def or_drop_def prog_expect_def attempt_def await_sync_def)
  with f show ?thesis by blast
qed

lemma demo_complete_close_ok:
  assumes "owns q (Some (sets_of n)) (Some (fr_destructors f)) s"
  shows "\<exists>s'. complete_close calm n f s = Some (Ret (Inr ()), s') \<and> owns q None None s'"
proof -
  obtain s1 where f: "stop_farmer calm f s = Some (Ret (Inr ()), s1)" "owns q (Some (sets_of n)) None s1"
    using stop_farmer_ok [OF assms quiet_calm] by blast
  obtain s2 where n: "stop_node calm n s1 = Some (Ret (Inr ()), s2)" "owns q None None s2"
    using stop_node_ok [OF f(2) quiet_calm] by blast
  show ?thesis using n(2)
    by (simp add: complete_close_def f(1) n(1) prog_bind_def or_drop_def prog_expect_def)
qed

abbreviation demo_complete where
  "demo_complete \<equiv> complete demo_build_env (\<lambda>_. Some (0 :: nat)) demo_bytesize (dev_config Checked demo_cs_env)
       (\<lambda>_. demo_build_node :: _ \<Rightarrow> _ \<Rightarrow> _ \<Rightarrow> (string, demo_node \<times> string list) result run)
       (\<lambda>_. demo_start_farmer :: _ \<Rightarrow> _ \<Rightarrow> _ \<Rightarrow> _ \<Rightarrow> _ \<Rightarrow> _ \<Rightarrow> (build_error, (nat, unit) farmer) result run \<times> _)
       (\<lambda>_. Some (Inr ())) (\<lambda>_. [[''plot'']]) (Inr ()) (Inr ()) (Inr ()) (\<lambda>_. calm) (\<lambda>_. Inr ())"


definition demo_args :: "nat mini_args" where
  "demo_args = \<lparr>ma_chain = Dev, ma_reward_address = public_key_new (replicate 32 0), ma_base_path = None,
     ma_plot_size = bs_gb demo_bytesize 10, ma_cache_size = bs_gb demo_bytesize 1\<rparr>"

lemma demo_mini_builder:
  "\<exists>b :: demo_builder. mini_node_builder (\<lambda>_. Some (0 :: nat)) dir Dev = Ret b \<and> nb_domain b = None \<and>
     nb_storage_monitor b = None"
  by (simp add: mini_node_builder_def node_dev_def dsn_dev_def dsn_build_def derive_base_def node_builder_new_def
      nonzero_new_def cfg_defs Let_def)

abbreviation demo_chain_spec where
  "demo_chain_spec \<equiv> mini_chain_spec (\<lambda>_. Inl ''no JSON'') [] [] (dev_config Checked demo_cs_env)"

abbreviation demo_mini_farmer where
  "demo_mini_farmer \<equiv> mini_farmer demo_build_env (\<lambda>_. Some (0 :: nat)) demo_bytesize demo_chain_spec
       (demo_build_node :: _ \<Rightarrow> _ \<Rightarrow> _ \<Rightarrow> (string, demo_node \<times> string list) result run)
       (demo_start_farmer :: _ \<Rightarrow> _ \<Rightarrow> _ \<Rightarrow> _ \<Rightarrow> _ \<Rightarrow> _ \<Rightarrow> (build_error, (nat, unit) farmer) result run \<times> _)
       (\<lambda>_. [[''tmp'', ''plot'']]) (Inr [''tmp'']) False None (\<lambda>_ :: nat option. Inl ''closed'')
       (\<lambda>_ :: nat. public_key_new [])       (Inr []) None calm demo_args"

theorem mini_farmer_cleans_up_witness:
  "\<exists>s. demo_mini_farmer (program_start demo_world) = Some (Ret (Inr ()), s) \<and>
     clean (ps_world s) \<and> fw_running (ps_world s) = {}"
proof -
  have clean: "clean demo_world" "fw_running demo_world = {}" by (simp_all add: clean_def demo_world_def)
  obtain b :: demo_builder where b: "mini_node_builder (\<lambda>_. Some (0 :: nat)) (join [''tmp''] ''node'') Dev = Ret b"
    "nb_domain b = None" "nb_storage_monitor b = None" using demo_mini_builder by blast
  obtain spec where spec: "dev_config Checked demo_cs_env = Ret spec"
    by (simp add: dev_config_def demo_cs_env_def)
  from demo_start_node_ok [OF owns_program_start [OF clean] b(2,3), of "join [''tmp''] ''node''" spec]
  obtain n :: demo_node and s1 where n: "start_node (node_builder_build demo_build_env (\<lambda>_. Some (0 :: nat))
      demo_build_node b (join [''tmp''] ''node'') spec) (program_start demo_world) = Some (Ret (Inr n), s1)"
      "owns True (Some (sets_of n)) None s1" by blast
  have o: "owns True (Some (sets_of n)) None (s1\<lparr>ps_output := out\<rparr>)" for out using n(2) by simp
  let ?s1 = "s1\<lparr>ps_output := ps_output s1 @ [Said ''Node was synced!'']\<rparr>"
  have plots: "farm_arg demo_bytesize (farm_description_new (join [''tmp''] ''plot'') (ma_plot_size demo_args)) =
      ([''tmp'', ''plot''], 10)"
    by (simp add: farm_arg_def farm_description_new_def demo_bytesize_def demo_args_def bs_gb_def bs_to_u64_def join_def)
  obtain f :: "(nat, unit) farmer" and fm s2 where f: "start_farmer (demo_start_farmer farmer_builder_new
      (ma_reward_address demo_args) (nd_name n) [([''tmp'', ''plot''], 10)] 1) ?s1 = Some (Ret (Inr f), s2)"
    "owns True (Some (sets_of n)) (Some (fr_destructors f)) s2"
    "first_farm (\<lambda>_. [[''tmp'', ''plot'']]) f s2 = Some (Ret (Inr fm), s2)"
    using demo_start_farmer_ok [OF o, of 10] by fastforce
  obtain s3 where s3: "stop_node calm n s2 = Some (Ret (Inr ()), s3)"
    "owns True None (Some (fr_destructors f)) s3" using stop_node_ok [OF f(2) quiet_calm] by blast
  obtain s4 where s4: "stop_farmer calm f s3 = Some (Ret (Inr ()), s4)"
    using stop_farmer_ok [OF s3(2) quiet_calm] by blast
  have args: "ma_chain demo_args = Dev" "ma_base_path demo_args = None" by (simp_all add: demo_args_def)
  obtain s where run: "demo_mini_farmer (program_start demo_world) = Some (Ret (Inr ()), s)"
    unfolding mini_farmer_def mini_run_def
    by (simp add: plots b(1) spec n(1) f(1,3) s3(1) s4 args prog_bind_def or_drop_def prog_context_def attempt_def
        mini_base_path_def mini_chain_spec_def mini_sync_def await_sync_def say_def mini_rewards_def scope_end_def)
  show ?thesis using mini_farmer_cleans_up [OF clean run] run by blast
qed

definition two_sectors :: initial_plotting_progress where
  "two_sectors = \<lparr>starting_sector = 0, current_sector = 0, total_sectors = 2\<rparr>"


definition demo_head :: "nat \<Rightarrow> (nat, public_key) block_header" where
  "demo_head k = \<lparr>bh_hash = k, bh_number = of_nat k, bh_parent_hash = k - 1, bh_state_root = 0,
     bh_extrinsics_root = 0, bh_pre_digest = Some (public_key_new [9])\<rparr>"

definition demo_events :: "nat option \<Rightarrow> (string, runtime_event list) result" where
  "demo_events h =
     (if h = Some 7
      then Inr [BlockReward 5 (account_from_public_key (public_key_new [1])),
                VoteReward 2 (account_from_public_key (public_key_new [3]))]
      else Inl ''state pruned'')"




end
