(* ===== verification/Spec2Isabelle.thy ===== *)
theory Spec2Isabelle
  imports Examples_Correct
begin

text \<open>
  A model of the Subspace SDK, a Rust library that runs a Subspace consensus node, a farmer on top
  of it and, inside the node, a domain. The SDK is the layer between a program and the crates of the
  Subspace and Substrate projects: it turns settings into their configurations, starts their
  services, ties the services together through shared state, and takes them down again in order.
  That layer is what is modelled, all of it that keeps state or can fail; the crates below it are
  arguments of the definitions.

  \<^bold>\<open>The program's parts and their theories\<close>

  \<^item> \<^theory_text>\<open>SDK_Prelude\<close>: panics (\<open>run\<close>), results (\<open>Inl\<close> is \<open>Err\<close>), the standard library's
    \<open>Option\<close> and iterator operations, slices, and machine arithmetic whose overflow panics or
    wraps with the build profile.
  \<^item> \<^theory_text>\<open>Destructors\<close> (\<^verbatim>\<open>utils/src/lib.rs\<close>, 293-551): \<open>DestructorSet\<close>, by which everything the SDK
    starts is taken down. Locale \<open>cleanup_stack\<close> is the contract its clients rely on: a list of
    entries, released in reverse order; \<open>unwinding_stack\<close> extends it by what still holds when an
    awaited destructor panics.
  \<^item> \<^theory_text>\<open>Ss58\<close> (\<^verbatim>\<open>utils\<close>): reward addresses, storage keys. \<^theory_text>\<open>Rpc\<close> (\<^verbatim>\<open>utils\<close>): the in-process RPC
    client, the forwarding task of a subscription, conversion of addresses by way of their text.
  \<^item> \<^theory_text>\<open>Substrate_Types\<close>, \<^theory_text>\<open>Substrate_Config\<close> (\<^verbatim>\<open>substrate/src\<close>): settings of the underlying node,
    their builders and presets, and \<open>Base::configuration\<close>. Locale \<open>config_builder\<close> is the contract
    of the generated builders, with an interpretation for each.
  \<^item> \<^theory_text>\<open>Dsn\<close> (\<^verbatim>\<open>dsn/src\<close>): the storage network's settings, \<open>build_dsn\<close>, and the two slots in which a
    farmer publishes its piece cache and its plots.
  \<^item> \<^theory_text>\<open>Piece_Serving\<close> (\<^verbatim>\<open>node/src/lib.rs\<close>, 864-926, \<^verbatim>\<open>farmer/src/lib.rs\<close>, 257-293): the handlers
    of requests for pieces and segment headers; locale \<open>piece_source\<close> is the trait \<open>Farmer\<close>.
  \<^item> \<^theory_text>\<open>Farmer_Plots\<close>, \<^theory_text>\<open>Farmer_Build\<close> (\<^verbatim>\<open>farmer/src/lib.rs\<close>): farms, the index of plotted pieces, the
    progress stream; \<open>Config::build\<close> as stages that can fail or panic, the driver task, \<open>close\<close>.
  \<^item> \<^theory_text>\<open>Node_Config\<close> (\<^verbatim>\<open>node/src/builder.rs\<close>), \<^theory_text>\<open>Chain_Spec\<close> (\<^verbatim>\<open>node/src/chain_spec.rs\<close>,
    \<^verbatim>\<open>node/src/domains/evm_chain_spec.rs\<close>), \<^theory_text>\<open>Domains\<close> (\<^verbatim>\<open>node/src/domains\<close>), \<^theory_text>\<open>Node\<close> and
    \<^theory_text>\<open>Node_Sync\<close> (\<^verbatim>\<open>node/src/lib.rs\<close>).
  \<^item> \<^theory_text>\<open>Examples\<close>, \<^theory_text>\<open>Examples_Logic\<close>, \<^theory_text>\<open>Examples_Correct\<close> (\<^verbatim>\<open>examples\<close>): the four programs that run a node and
    a farmer together, a logic for them, and their properties. Locale \<open>sdk_services\<close> is what the
    programs rely on of the two \<open>build\<close> functions.
  \<^item> This theory: what holds of node and farmer together, and of all builders.

  \<^bold>\<open>How state and operations correspond to the code\<close>

  A struct is a record and an enum a datatype with the source's names, prefixed where two structs
  share a field name. A method is a definition whose result has a constructor for every way the
  method can end: \<open>Ret (Inr x)\<close>, \<open>Ret (Inl e)\<close>, \<open>Panic m\<close>. Implicit drops are written out: a
  function that leaves early ends with the drop of its locals (\<open>unwind\<close>, \<open>node_close\<close>), since this
  is where the SDK relies on destructor sets. The closures and futures that are registered there
  are labels; what they do to the shared world is \<open>farmer_effect\<close>. Concurrent tasks are transition
  functions over explicit events (\<open>domain_step\<close>, \<open>forward_step\<close>); a run is a list of events, and
  claims are about all runs. A loop that may not end has fuel and an optional result. A close is
  modelled twice: \<open>farmer_close\<close>, \<open>domain_close\<close>, \<open>node_close\<close> for tasks that end, and the same with
  \<open>_joins\<close> for tasks any of which may have panicked, whose join then panics in turn. The examples are
  functions on the state they leave behind, composed by \<open>prog_bind\<close> for \<open>?\<close>, \<open>or_drop\<close> and
  \<open>scope_end\<close> for the drops of a scope; no result means a wait without end.

  \<^bold>\<open>What the groups of lemmas show\<close>

  The lemmas of \<^theory_text>\<open>Destructors\<close> show that the five vectors of a set implement one list of entries; the
  others use only the contract. The stage lemmas of \<^theory_text>\<open>Farmer_Build\<close> carry an invariant through the
  build (every resource that was taken has its release registered), from which the outcome of a
  failure at any stage follows, and compute the world that a success leaves. The lemmas of
  \<^theory_text>\<open>Domains\<close> compress the steps of both tasks into a relation with one rule per change, over which
  invariant and measure are proved. \<^theory_text>\<open>Rpc\<close> and \<^theory_text>\<open>Node_Sync\<close> do the same for a bounded channel and for
  a polling loop. The triples of \<^theory_text>\<open>Examples_Logic\<close> follow the ownership of node and farmer through a
  program on its normal, failing and panicking ends; each program is one proof by these rules.

  \<^bold>\<open>Bounds and fuel\<close>

  The farm driver ends within one turn more than its channel has room; the two tasks of a domain
  within nine events; a subscription within twice its notifications and two events; the wait for
  the initial plotting with one report more than sectors are left; the syncing task within as many turns as the service takes calls to
  become idle. These bounds are proved, as is the one case in which no fuel is enough.

  \<^bold>\<open>Assumed of other crates\<close>

  Hypotheses name documented behaviour only: the channel of the driver is bounded, the index of
  pieces is a set, a retry returns the outcome of its last attempt, two versions of the address
  type read each other's text, a JSON decoder reads null as no value, the runtime's constants.

  \<^bold>\<open>Not modelled\<close>

  Logging and tracing; serde attributes; re-exports (\<^verbatim>\<open>src/lib.rs\<close>, \<^verbatim>\<open>dsn/src/lib.rs\<close>); the
  dispatch of native runtime calls and the type aliases of the domain modules; accessors of the
  trait \<open>Node\<close>; build scripts and tests; the NUMA switch of the allocator; where a spawned task panics
  (that it has is an argument of the closes); command lines and the spawned tasks of the examples,
  which only print, and their code under the feature \<^verbatim>\<open>executor\<close>, which no crate declares; the timing
  of backoffs and sleeps.
\<close>

section \<open>Pieces between the node and its farmer\<close>

text \<open>The node's piece handler, asked at a moment at which the shared slots hold \<open>s\<close>.\<close>

definition answer_piece_request ::
  "('pi \<Rightarrow> 'key) \<Rightarrow> ('pc \<Rightarrow> 'key \<Rightarrow> 'piece option) \<Rightarrow> ('rp \<Rightarrow> 'pi \<Rightarrow> 'piece option option) \<Rightarrow>
   ('rp, 'pc) slots \<Rightarrow> 'pi \<Rightarrow> 'piece piece_by_index_response option" where
  "answer_piece_request record_key cache_get read_piece s i =
     get_piece_by_index (farmer_get_piece_by_index record_key cache_get read_piece) i
       (Some (farmer_readers_and_pieces s)) (farmer_piece_cache s)"

lemma answer_without_farmer:
  "farmer_piece_cache s = None \<Longrightarrow> answer_piece_request record_key cache_get read_piece s i = None"
  by (simp add: answer_piece_request_def farmer_pieces.handler_needs_cache)

lemma answer_with_farmer:
  assumes "farmer_piece_cache s = Some pc" and "farmer_readers_and_pieces s = Some rp"
  shows "answer_piece_request record_key cache_get read_piece s i =
    Some \<lparr>response_piece = option_or (cache_get pc (record_key i)) (flatten_opt (read_piece rp i))\<rparr>"
  using assms by (simp add: answer_piece_request_def farmer_pieces.handler_eq)

lemma close_empties_slots:
  assumes "farmer_build mode env c reward nname farms p w = (Ret (Inr f), Ret w1)"
  shows "farmer_piece_cache (fw_slots (snd (farmer_close f received w2))) = None"
proof -
  have d: "live (fr_destructors f)" "entries (fr_destructors f) = build_entries (length farms)"
    using farmer_build_Ok [OF assms] by auto
  show ?thesis
    by (simp add: farmer_close_def async_drop_built [OF d] farmer_effects_fields set_close_effects)
qed

text \<open>C1: A node serves pieces exactly while a farmer runs on it. On the slots of a node that was just
  built every piece request goes unanswered; after a farmer was built there every request is
  answered, from the farmer's cache or from its plots; after that farmer was closed, whatever its
  farms reported, requests go unanswered again; and a farmer build that fails or panics leaves the
  node as silent as it was.\<close>
theorem pieces_served_exactly_while_farming:
  assumes "node_build mode nenv po sub denv crate rpc_of fetch limit parse_node nc directory spec =
      Ret (Inr (n, tasks))"
    and "fw_slots w = shared_slots (nd_dsn n)" and "fw_handlers w = {}" and "fw_running w = {}"
    and "farmer_build mode env c reward nname farms p w = (r, Ret w1)"
  shows "answer_piece_request record_key cache_get read_piece (fw_slots w) i = None \<and>
    (r = Ret (Inr f) \<longrightarrow>
      (\<exists>rp. answer_piece_request record_key cache_get read_piece (fw_slots w1) i =
         Some \<lparr>response_piece = option_or (cache_get (be_piece_cache env) (record_key i))
           (flatten_opt (read_piece rp i))\<rparr>) \<and>
      answer_piece_request record_key cache_get read_piece
        (fw_slots (snd (farmer_close f received w1))) i = None) \<and>
    ((\<nexists>f. r = Ret (Inr f)) \<longrightarrow>
      answer_piece_request record_key cache_get read_piece (fw_slots w1) i = None)"
proof -
  have slots: "fw_slots w = \<lparr>farmer_readers_and_pieces = None, farmer_piece_cache = None\<rparr>"
  proof (rule node_build_parts [OF assms(1)])
    fix base partial bootstrap runner metrics domains ets
    assume "node_dsn mode nenv po denv fetch limit base (ncf_dsn nc) partial directory
       (unwrap_or (spec_properties spec) Map.empty) = Ret (Inr (nd_dsn n, bootstrap, runner, metrics))"
    from node_dsn_parts [OF this]
    have "shared_slots (nd_dsn n) = \<lparr>farmer_readers_and_pieces = None, farmer_piece_cache = None\<rparr>"
      by blast
    with assms(2) show ?thesis by simp
  qed
  then have clean: "clean w" using assms(3,4) by (simp add: clean_def)
  have "(\<exists>rp. answer_piece_request record_key cache_get read_piece (fw_slots w1) i =
         Some \<lparr>response_piece = option_or (cache_get (be_piece_cache env) (record_key i))
           (flatten_opt (read_piece rp i))\<rparr>) \<and>
      answer_piece_request record_key cache_get read_piece
        (fw_slots (snd (farmer_close f received w1))) i = None" if "r = Ret (Inr f)"
  proof -
    have b: "farmer_build mode env c reward nname farms p w = (Ret (Inr f), Ret w1)"
      using assms(5) that by simp
    obtain rp where "w1 = built_world (length farms) rp (be_piece_cache env) w"
      using farmer_build_Ok [OF b] by auto
    then have "farmer_piece_cache (fw_slots w1) = Some (be_piece_cache env)"
      "farmer_readers_and_pieces (fw_slots w1) = Some rp" by (simp_all add: built_world_def)
    note answered = answer_with_farmer [OF this, of record_key cache_get read_piece i]
    have "answer_piece_request record_key cache_get read_piece
        (fw_slots (snd (farmer_close f received w1))) i = None"
      by (rule answer_without_farmer [OF close_empties_slots [OF b]])
    with answered show ?thesis by blast
  qed
  moreover have "answer_piece_request record_key cache_get read_piece (fw_slots w1) i = None"
    if "\<nexists>f. r = Ret (Inr f)"
    using farmer_build_not_Ok [OF clean assms(5) that] by (auto simp: clean_def intro: answer_without_farmer)
  ultimately show ?thesis using slots by (simp add: answer_without_farmer)
qed

theorem pieces_served_exactly_while_farming_witness:
  "\<exists>(n :: (nat, nat, nat, nat, nat, (u8 \<times> nat) set, nat, nat, nat, nat, nat) node) tasks
     (spec :: (string genesis run, unit) chain_spec) (f :: (nat, unit) farmer) w1.
     node_build Checked demo_node_env demo_partial_ops demo_domain_env demo_node_dsn_env demo_bytesize id
       (\<lambda>i _ _. Some i) 10 length demo_node_config [''node''] spec = Ret (Inr (n, tasks)) \<and>
     farmer_build Checked demo_farmer_env demo_farmer_config (PublicKey []) ''node''
       [([''a''], 10000000)] 10 demo_world = (Ret (Inr f), Ret w1) \<and>
     answer_piece_request id (\<lambda>_ _. Some (9 :: nat)) (\<lambda>_ _. None) (fw_slots w1) (3 :: nat) =
       Some \<lparr>response_piece = Some 9\<rparr> \<and>
     answer_piece_request id (\<lambda>_ _. Some (9 :: nat)) (\<lambda>_ _. None)
       (fw_slots (snd (farmer_close f (Some [Inl ''disk'' :: (string, (unit, unit) task_output) result]) w1)))
       (3 :: nat) = None"
proof -
  obtain spec :: "(string genesis run, unit) chain_spec" and n :: "(nat, nat, nat, nat, nat, (u8 \<times> nat) set, nat, nat, nat, nat, nat) node" and tasks
    where n: "node_build Checked demo_node_env demo_partial_ops demo_domain_env demo_node_dsn_env
       demo_bytesize id (\<lambda>i _ _. Some i) 10 length demo_node_config [''node''] spec = Ret (Inr (n, tasks))"
    using demo_node_build by blast
  obtain f :: "(nat, unit) farmer" and w where b: "farmer_build Checked demo_farmer_env
      demo_farmer_config (PublicKey []) ''node'' [([''a''], 10000000)] 10 demo_world = (Ret (Inr f), w)"
    using demo_build_succeeds by blast
  then obtain w1 where w1: "w = Ret w1" using farmer_build_Ok by blast
  have "fw_slots demo_world = shared_slots (nd_dsn n)"
  proof (rule node_build_parts [OF n])
    fix base partial bootstrap runner metrics domains ets
    assume "node_dsn Checked demo_node_env demo_partial_ops demo_node_dsn_env (\<lambda>i _ _. Some i) 10 base
       (ncf_dsn demo_node_config) partial [''node''] (unwrap_or (spec_properties spec) Map.empty) =
       Ret (Inr (nd_dsn n, bootstrap, runner, metrics))"
    from node_dsn_parts [OF this] show ?thesis by (auto simp: demo_world_def)
  qed
  moreover have "fw_handlers demo_world = {}" "fw_running demo_world = {}" by (simp_all add: demo_world_def)
  ultimately show ?thesis
    using pieces_served_exactly_while_farming [OF n _ _ _ b [unfolded w1], of id "\<lambda>_ _. Some 9" "\<lambda>_ _. None" 3 f
        "Some [Inl ''disk'' :: (string, (unit, unit) task_output) result]"] n b w1
    by auto
qed

section \<open>Builders and defaults\<close>


end
